(* ===== verification/Adapter_Prelude.thy ===== *)
theory Adapter_Prelude
  imports Main "HOL-Library.Word" "HOL-Library.AList" "HOL-Library.Signed_Division"
begin

unbundle bit_operations_syntax

text \<open>
  The prelude of the TCPadapter development: how the values of the Go program are
  represented, and the generic facts the component theories share.

  \<^item> A Go \<^verbatim>\<open>byte\<close>/\<^verbatim>\<open>uint8\<close>, \<^verbatim>\<open>uint16\<close>, \<^verbatim>\<open>uint32\<close>, \<^verbatim>\<open>uint64\<close> is a word of that width, so
    arithmetic wraps. A Go \<^verbatim>\<open>int\<close>, \<^verbatim>\<open>int64\<close> or \<^verbatim>\<open>time.Duration\<close> is an \<open>int\<close>; where
    the source computes with it in a way that can leave the 64-bit range, the
    wrap-around is written out with \<open>i64\<close>. A \<^verbatim>\<open>time.Time\<close> is the \<open>int\<close> number of
    nanoseconds since the Unix epoch.
  \<^item> A Go string is an Isabelle \<open>string\<close>, a list of 8-bit characters, which is what a Go
    string is; \<open>bytes_of\<close> and \<open>string_of\<close> are the conversions to and from \<^verbatim>\<open>[]byte\<close>.
  \<^item> A Go error is a value of \<open>go_error\<close>: a sentinel made by \<^verbatim>\<open>errors.New\<close>, or the format
    string and the arguments of \<^verbatim>\<open>fmt.Errorf\<close>. A function that returns \<^verbatim>\<open>error\<close> alone
    returns \<open>go_error option\<close> (\<open>None\<close> is \<^verbatim>\<open>nil\<close>); one that returns \<^verbatim>\<open>(T, error)\<close>
    returns \<open>go_error + T\<close>.
  \<^item> A Go map is an association list with distinct keys. Its iteration order is
    unspecified in Go; operations that iterate over a map and whose result depends on
    the order take the order as an argument.
\<close>

named_theorems go_defs \<open>unfoldings of the small Go-level helpers\<close>
named_theorems len_simps \<open>lengths of buffers and encodings\<close>
named_theorems buf_simps \<open>reading back what was written into a buffer\<close>

type_synonym byte = "8 word"
type_synonym u8 = "8 word"
type_synonym u16 = "16 word"
type_synonym u32 = "32 word"
type_synonym u64 = "64 word"
type_synonym duration = int
type_synonym time = int
type_synonym ('k, 'v) gomap = "('k \<times> 'v) list"

subsection \<open>Errors and results\<close>

datatype go_error =
    ErrorsNew string
  | Errorf string "fmt_arg list"
and fmt_arg =
    FInt int
  | FStr string
  | FQuoted string
  | FErr go_error

definition FNat :: "nat \<Rightarrow> fmt_arg" where
  "FNat n = FInt (int n)"

definition FByte :: "byte \<Rightarrow> fmt_arg" where
  "FByte b = FInt (uint b)"

definition res_bind :: "'e + 'a \<Rightarrow> ('a \<Rightarrow> 'e + 'b) \<Rightarrow> 'e + 'b" where
  "res_bind r f = (case r of Inl e \<Rightarrow> Inl e | Inr x \<Rightarrow> f x)"

definition check_nil :: "'e option \<Rightarrow> 'e + 'a \<Rightarrow> 'e + 'a" where
  "check_nil e k = (case e of Some x \<Rightarrow> Inl x | None \<Rightarrow> k)"

definition map_err :: "('e \<Rightarrow> 'f) \<Rightarrow> 'e + 'a \<Rightarrow> 'f + 'a" where
  "map_err w r = (case r of Inl e \<Rightarrow> Inl (w e) | Inr x \<Rightarrow> Inr x)"

lemma res_bind_simps [simp]:
  "res_bind (Inl e) f = Inl e"
  "res_bind (Inr x) f = f x"
  by (simp_all add: res_bind_def)

lemma res_bind_eq_Inr:
  "res_bind r f = Inr y \<longleftrightarrow> (\<exists>x. r = Inr x \<and> f x = Inr y)"
  by (cases r) auto

lemma check_nil_simps [simp]:
  "check_nil None k = k"
  "check_nil (Some e) k = Inl e"
  by (simp_all add: check_nil_def)

lemma check_nil_eq_Inr: "check_nil e k = Inr y \<longleftrightarrow> e = None \<and> k = Inr y"
  by (cases e) auto

lemma map_err_simps [simp]:
  "map_err w (Inl e) = Inl (w e)"
  "map_err w (Inr x) = Inr x"
  by (simp_all add: map_err_def)

lemma map_err_eq_Inr [simp]: "map_err w r = Inr y \<longleftrightarrow> r = Inr y"
  by (cases r) auto

text \<open>A Go loop over indices whose body may return an error: the first error ends it.\<close>

fun for_err :: "('i \<Rightarrow> 'e option) \<Rightarrow> 'i list \<Rightarrow> 'e option" where
  "for_err f [] = None"
| "for_err f (i # is) = (case f i of Some e \<Rightarrow> Some e | None \<Rightarrow> for_err f is)"

lemma for_err_None: "for_err f is = None \<longleftrightarrow> (\<forall>i\<in>set is. f i = None)"
  by (induction "is") (auto split: option.splits)

lemma for_err_eqI: "\<forall>i\<in>set is. f i = g i \<Longrightarrow> for_err f is = for_err g is"
  by (induction "is") (auto split: option.splits)

text \<open>The same with a loop state: a buffer being filled, say.\<close>

fun for_res :: "('i \<Rightarrow> 's \<Rightarrow> 'e + 's) \<Rightarrow> 'i list \<Rightarrow> 's \<Rightarrow> 'e + 's" where
  "for_res f [] s = Inr s"
| "for_res f (i # is) s = res_bind (f i s) (for_res f is)"

lemma for_res_append: "for_res f (is @ js) s = res_bind (for_res f is s) (for_res f js)"
  by (induction "is" arbitrary: s) (auto simp: res_bind_def split: sum.splits)

subsection \<open>64-bit signed arithmetic\<close>

definition i64 :: "int \<Rightarrow> int" where
  "i64 x = signed_take_bit 63 x"

definition maxInt64 :: int where
  "maxInt64 = 2 ^ 63 - 1"

definition minInt64 :: int where
  "minInt64 = - (2 ^ 63)"

lemma i64_id [simp]: "minInt64 \<le> x \<Longrightarrow> x \<le> maxInt64 \<Longrightarrow> i64 x = x"
  by (simp add: i64_def minInt64_def maxInt64_def signed_take_bit_int_eq_self)

lemma i64_range: "minInt64 \<le> i64 x" "i64 x \<le> maxInt64"
  using signed_take_bit_int_greater_eq_minus_exp [of 63 x]
    signed_take_bit_int_less_exp [of 63 x]
  by (simp_all add: i64_def minInt64_def maxInt64_def)

text \<open>\<^verbatim>\<open>t.Sub(u)\<close> saturates at the ends of the duration range.\<close>

definition time_sub :: "time \<Rightarrow> time \<Rightarrow> duration" where
  "time_sub t u = max minInt64 (min maxInt64 (t - u))"

definition second :: duration where
  "second = 1000000000"

definition minute :: duration where
  "minute = 60 * second"

subsection \<open>Slices and buffers\<close>

definition go_slice :: "nat \<Rightarrow> nat \<Rightarrow> 'a list \<Rightarrow> 'a list" where
  "go_slice lo hi xs = take (hi - lo) (drop lo xs)"

text \<open>\<^verbatim>\<open>copy(out[lo:hi], src)\<close>: as many elements as both sides have.\<close>

definition copy_slice :: "nat \<Rightarrow> nat \<Rightarrow> 'a list \<Rightarrow> 'a list \<Rightarrow> 'a list" where
  "copy_slice lo hi src out =
     (let n = min (hi - lo) (length src) in take lo out @ take n src @ drop (lo + n) out)"

lemma length_go_slice [len_simps]: "length (go_slice lo hi xs) = min (hi - lo) (length xs - lo)"
  by (simp add: go_slice_def)

lemma length_copy_slice [len_simps]:
  "lo \<le> hi \<Longrightarrow> hi \<le> length out \<Longrightarrow> length (copy_slice lo hi src out) = length out"
  by (simp add: copy_slice_def Let_def)

lemma nth_go_slice [buf_simps]: "i < hi - lo \<Longrightarrow> lo + i < length xs \<Longrightarrow> go_slice lo hi xs ! i = xs ! (lo + i)"
  by (simp add: go_slice_def)

lemma nth_copy_slice:
  assumes "lo \<le> hi" "hi \<le> length out" "length src = hi - lo" "i < length out"
  shows "copy_slice lo hi src out ! i = (if lo \<le> i \<and> i < hi then src ! (i - lo) else out ! i)"
  using assms by (auto simp: copy_slice_def nth_append min_def)

lemma copy_slice_full:
  "length src = length out \<Longrightarrow> copy_slice 0 (length out) src out = src"
  by (simp add: copy_slice_def)

lemma slice_same:
  assumes "lo \<le> hi" "hi \<le> length out" "length src = hi - lo"
  shows "go_slice lo hi (copy_slice lo hi src out) = src"
  using assms by (simp add: go_slice_def copy_slice_def min_def)

lemma slice_copy_slice_other:
  assumes "lo \<le> hi" "hi \<le> length out" "length src = hi - lo" "b \<le> lo \<or> hi \<le> a" "a \<le> b" "b \<le> length out"
  shows "go_slice a b (copy_slice lo hi src out) = go_slice a b out"
proof (rule nth_equalityI)
  show "length (go_slice a b (copy_slice lo hi src out)) = length (go_slice a b out)"
    using assms by (simp add: len_simps)
  fix i assume "i < length (go_slice a b (copy_slice lo hi src out))"
  then have i: "i < b - a" "a + i < length out"
    using assms by (simp_all add: len_simps)
  then show "go_slice a b (copy_slice lo hi src out) ! i = go_slice a b out ! i"
    using assms by (auto simp: buf_simps len_simps nth_copy_slice)
qed

lemma slice_list_update_other:
  "i < a \<or> b \<le> i \<Longrightarrow> go_slice a b (xs[i := v]) = go_slice a b xs"
  by (auto simp: go_slice_def drop_update_swap intro!: nth_equalityI)

lemma slice_append1 [buf_simps]: "hi \<le> length xs \<Longrightarrow> go_slice lo hi (xs @ ys) = go_slice lo hi xs"
  by (auto simp: go_slice_def)

lemma slice_append2 [buf_simps]:
  "length xs \<le> lo \<Longrightarrow> go_slice lo hi (xs @ ys) = go_slice (lo - length xs) (hi - length xs) ys"
  by (auto simp: go_slice_def)

lemma slice_0_length [simp]: "go_slice 0 (length xs) xs = xs"
  by (simp add: go_slice_def)

subsection \<open>Little-endian integers (encoding/binary)\<close>

definition le16 :: "u16 \<Rightarrow> byte list" where
  "le16 v = [ucast v, ucast (drop_bit 8 v)]"

definition le32 :: "u32 \<Rightarrow> byte list" where
  "le32 v = [ucast v, ucast (drop_bit 8 v), ucast (drop_bit 16 v), ucast (drop_bit 24 v)]"

definition le64 :: "u64 \<Rightarrow> byte list" where
  "le64 v = [ucast v, ucast (drop_bit 8 v), ucast (drop_bit 16 v), ucast (drop_bit 24 v),
     ucast (drop_bit 32 v), ucast (drop_bit 40 v), ucast (drop_bit 48 v), ucast (drop_bit 56 v)]"

definition Uint16 :: "byte list \<Rightarrow> u16" where
  "Uint16 b = ucast (b ! 0) OR push_bit 8 (ucast (b ! 1))"

definition Uint32 :: "byte list \<Rightarrow> u32" where
  "Uint32 b = ucast (b ! 0) OR push_bit 8 (ucast (b ! 1)) OR push_bit 16 (ucast (b ! 2))
     OR push_bit 24 (ucast (b ! 3))"

lemma length_le [simp, len_simps]: "length (le16 v) = 2" "length (le32 w) = 4" "length (le64 x) = 8"
  by (simp_all add: le16_def le32_def le64_def)

lemma Uint16_le16 [simp]: "Uint16 (le16 v) = v"
  by (rule bit_word_eqI) (auto simp: Uint16_def le16_def bit_simps)

lemma Uint32_le32 [simp]: "Uint32 (le32 v) = v"
proof (rule bit_word_eqI)
  fix n assume "n < LENGTH(32)"
  then consider "n < 8" | "8 \<le> n" "n < 16" | "16 \<le> n" "n < 24" | "24 \<le> n" "n < 32"
    by fastforce
  then show "bit (Uint32 (le32 v)) n = bit v n"
    by cases (auto simp: Uint32_def le32_def bit_simps)
qed

lemma no_high_bit: "\<not> bit (x :: byte) (8 + n)"
  using bit_imp_le_length [of x "8 + n"] by auto

lemma le16_Uint16: "length b = 2 \<Longrightarrow> le16 (Uint16 b) = b"
proof -
  have *: "le16 (Uint16 [x, y]) = [x, y]" for x y
    by (auto simp: Uint16_def le16_def bit_simps no_high_bit intro!: bit_word_eqI)
  assume "length b = 2"
  then obtain x y where "b = [x, y]"
    by (auto simp: numeral_2_eq_2 length_Suc_conv)
  with * show ?thesis by simp
qed

lemma le16_inject [simp]: "le16 v = le16 w \<longleftrightarrow> v = w"
  by (metis Uint16_le16)

lemma le32_Uint32: "length b = 4 \<Longrightarrow> le32 (Uint32 b) = b"
proof -
  have *: "le32 (Uint32 [x, y, z, w]) = [x, y, z, w]" for x y z w
  proof -
    have "bit (Uint32 [x, y, z, w]) n \<longleftrightarrow> bit x n" if "n < 8" for n
      using that by (auto simp: Uint32_def bit_simps)
    moreover have "bit (Uint32 [x, y, z, w]) (8 + n) \<longleftrightarrow> bit y n" if "n < 8" for n
      using that by (auto simp: Uint32_def bit_simps no_high_bit)
    moreover have "bit (Uint32 [x, y, z, w]) (16 + n) \<longleftrightarrow> bit z n" if "n < 8" for n
      using that no_high_bit [of x "8 + n"] no_high_bit [of y n]
      by (auto simp: Uint32_def bit_simps)
    moreover have "bit (Uint32 [x, y, z, w]) (24 + n) \<longleftrightarrow> bit w n" if "n < 8" for n
      using that no_high_bit [of x "16 + n"] no_high_bit [of y "8 + n"] no_high_bit [of z n]
      by (auto simp: Uint32_def bit_simps)
    ultimately show ?thesis
      by (auto simp: le32_def bit_simps intro!: bit_word_eqI)
  qed
  assume "length b = 4"
  then obtain x y z w where "b = [x, y, z, w]"
    by (auto simp: numeral_eq_Suc length_Suc_conv)
  with * show ?thesis by simp
qed

definition PutUint16 :: "nat \<Rightarrow> u16 \<Rightarrow> byte list \<Rightarrow> byte list" where
  "PutUint16 off v out = copy_slice off (off + 2) (le16 v) out"

definition PutUint32 :: "nat \<Rightarrow> u32 \<Rightarrow> byte list \<Rightarrow> byte list" where
  "PutUint32 off v out = copy_slice off (off + 4) (le32 v) out"

definition PutUint64 :: "nat \<Rightarrow> u64 \<Rightarrow> byte list \<Rightarrow> byte list" where
  "PutUint64 off v out = copy_slice off (off + 8) (le64 v) out"

lemma length_PutUint [len_simps]:
  "off + 2 \<le> length out \<Longrightarrow> length (PutUint16 off v out) = length out"
  "off + 4 \<le> length out \<Longrightarrow> length (PutUint32 off w out) = length out"
  "off + 8 \<le> length out \<Longrightarrow> length (PutUint64 off x out) = length out"
  by (simp_all add: PutUint16_def PutUint32_def PutUint64_def len_simps)

text \<open>
  A buffer that is filled from the left: \<open>zbuf n pre\<close> is a zeroed buffer of \<open>n\<close> bytes whose
  first bytes have been written. Writing at or beyond the end of the written part gives
  a buffer of the same form.
\<close>

definition zbuf :: "nat \<Rightarrow> byte list \<Rightarrow> byte list" where
  "zbuf n pre = pre @ replicate (n - length pre) 0"

lemma zbuf_init: "replicate n 0 = zbuf n []"
  by (simp add: zbuf_def)

lemma zbuf_full [buf_simps]: "length pre = n \<Longrightarrow> zbuf n pre = pre"
  by (simp add: zbuf_def)

lemma length_zbuf [len_simps]: "length pre \<le> n \<Longrightarrow> length (zbuf n pre) = n"
  by (simp add: zbuf_def)

lemma zbuf_update [buf_simps]:
  assumes "length pre \<le> i" "i < n"
  shows "(zbuf n pre)[i := v] = zbuf n (pre @ replicate (i - length pre) 0 @ [v])"
proof -
  have r: "replicate (n - length pre) (0 :: byte)
      = replicate (i - length pre) 0 @ 0 # replicate (n - Suc i) 0"
    using assms by (simp flip: replicate_Suc replicate_add)
  show ?thesis using assms unfolding zbuf_def r by (simp add: list_update_append)
qed

lemma zbuf_copy [buf_simps]:
  assumes "length pre \<le> lo" "length src = hi - lo" "lo \<le> hi" "hi \<le> n"
  shows "copy_slice lo hi src (zbuf n pre) = zbuf n (pre @ replicate (lo - length pre) 0 @ src)"
  using assms by (simp add: copy_slice_def zbuf_def min_def)

lemma zbuf_copy_short:
  "length pre = lo \<Longrightarrow> length src \<le> hi - lo \<Longrightarrow> lo \<le> hi \<Longrightarrow> hi \<le> n
     \<Longrightarrow> copy_slice lo hi src (zbuf n pre) = zbuf n (pre @ src)"
  by (simp add: copy_slice_def zbuf_def min_def)

lemma zbuf_Put [buf_simps]:
  assumes "length pre \<le> off"
  shows "off + 2 \<le> n \<Longrightarrow> PutUint16 off v (zbuf n pre) = zbuf n (pre @ replicate (off - length pre) 0 @ le16 v)"
    and "off + 4 \<le> n \<Longrightarrow> PutUint32 off w (zbuf n pre) = zbuf n (pre @ replicate (off - length pre) 0 @ le32 w)"
    and "off + 8 \<le> n \<Longrightarrow> PutUint64 off x (zbuf n pre) = zbuf n (pre @ replicate (off - length pre) 0 @ le64 x)"
  using assms by (simp_all add: PutUint16_def PutUint32_def PutUint64_def zbuf_copy)

lemma zbuf_fold:
  assumes "length pre = base" "base + n \<le> m"
  shows "fold (\<lambda>i out. out[base + i := f i]) [0..<n] (zbuf m pre) = zbuf m (pre @ map f [0..<n])"
  using assms(2)
proof (induction n)
  case (Suc n)
  then show ?case using assms(1) by (simp add: buf_simps)
qed simp

lemma zbuf_fold2:
  assumes "length pre = base" "base + 2 * n \<le> m"
  shows "fold (\<lambda>i out. out[base + 2 * i := f i, base + 2 * i + 1 := g i]) [0..<n] (zbuf m pre)
    = zbuf m (pre @ concat (map (\<lambda>i. [f i, g i]) [0..<n]))"
  using assms(2)
proof (induction n)
  case (Suc n)
  have "length (concat (map (\<lambda>i. [f i, g i]) [0..<n])) = 2 * n"
    by (induction n) auto
  with Suc show ?case using assms(1) by (simp add: buf_simps)
qed simp

subsection \<open>Strings and bytes\<close>

definition bytes_of :: "string \<Rightarrow> byte list" where
  "bytes_of s = map (\<lambda>c. word_of_nat (of_char c)) s"

definition string_of :: "byte list \<Rightarrow> string" where
  "string_of bs = map (\<lambda>b. char_of (unat b)) bs"

lemma length_bytes_of [simp, len_simps]: "length (bytes_of s) = length s"
  by (simp add: bytes_of_def)

lemma length_string_of [simp, len_simps]: "length (string_of bs) = length bs"
  by (simp add: string_of_def)

lemma unat_byte_less: "unat (b :: byte) < 256"
  using unsigned_less [of b] by simp

lemma bytes_of_string_of [simp]: "bytes_of (string_of bs) = bs"
  by (induction bs) (auto simp: bytes_of_def string_of_def unat_byte_less)

lemma string_of_bytes_of [simp]: "string_of (bytes_of s) = s"
proof (induction s)
  case (Cons c s)
  have "unat (word_of_nat (of_char c) :: byte) = of_char c"
    by (simp add: unat_of_nat)
  with Cons show ?case by (simp add: bytes_of_def string_of_def)
qed (simp add: bytes_of_def string_of_def)

lemma bytes_of_inject [simp]: "bytes_of s = bytes_of t \<longleftrightarrow> s = t"
  by (metis string_of_bytes_of)

lemma bytes_of_Nil_iff [simp]: "bytes_of s = [] \<longleftrightarrow> s = []"
  by (simp add: bytes_of_def)

lemma string_of_Nil_iff [simp]: "string_of bs = [] \<longleftrightarrow> bs = []"
  by (simp add: string_of_def)

subsection \<open>Maps\<close>

text \<open>\<^verbatim>\<open>m[k]\<close>, \<^verbatim>\<open>m[k] = v\<close> and \<^verbatim>\<open>delete(m, k)\<close> on an association list with distinct keys.\<close>

definition wf_map :: "('k, 'v) gomap \<Rightarrow> bool" where
  "wf_map m \<longleftrightarrow> distinct (map fst m)"

lemma wf_map_Nil [simp]: "wf_map []"
  by (simp add: wf_map_def)

lemma wf_map_update [simp]: "wf_map m \<Longrightarrow> wf_map (AList.update k v m)"
  by (simp add: wf_map_def distinct_update)

lemma wf_map_delete [simp]: "wf_map m \<Longrightarrow> wf_map (AList.delete k m)"
  by (simp add: wf_map_def distinct_delete)

lemma map_of_update_simp [simp]: "map_of (AList.update k v m) = (map_of m)(k \<mapsto> v)"
  by (simp add: update_conv')

lemma map_of_delete_simp [simp]: "map_of (AList.delete k m) = (map_of m)(k := None)"
  by (simp add: delete_conv')

lemma in_map_iff: "wf_map m \<Longrightarrow> (k, v) \<in> set m \<longleftrightarrow> map_of m k = Some v"
  by (simp add: wf_map_def)

end
