(* ===== verification/Command_Queue.thy ===== *)
theory Command_Queue
  imports Adapter_Prelude "HOL-Library.Multiset"
begin

text \<open>
  The per-controller command queue (\<^verbatim>\<open>internal/queue/queue.go\<close>): four FIFO buffers, one per
  priority class. \<open>queue_invar\<close> says that every command is in the buffer of its class. The
  interface locale \<open>dispatch_queue\<close> states what the session manager relies on: adding a
  command, dropping one, counting, and restoring from a snapshot; it is interpreted on the
  definitions below. The priority discipline of \<^verbatim>\<open>PopNext\<close> and the choice of \<^verbatim>\<open>DropOldest\<close>
  are the properties at the end.
\<close>

subsection \<open>Commands\<close>

abbreviation (input) PriorityHigh :: string where "PriorityHigh \<equiv> ''high''"
abbreviation (input) PriorityFW :: string where "PriorityFW \<equiv> ''fw''"
abbreviation (input) PrioritySync :: string where "PrioritySync \<equiv> ''sync''"
abbreviation (input) PriorityQuery :: string where "PriorityQuery \<equiv> ''query''"

record Command =
  cmd_MessageID :: string
  cmd_TraceID :: string
  cmd_DedupKey :: string
  cmd_CommandID :: u8
  cmd_TTL :: duration
  cmd_CreatedAt :: time
  cmd_Payload :: "byte list"
  cmd_Priority :: string
  cmd_Attempts :: int
  cmd_RetrySeq :: u8

definition EstimatedCommandBytes :: "Command \<Rightarrow> int" where
  "EstimatedCommandBytes cmd = 11 + int (length (cmd_Payload cmd))"

definition Expired :: "Command \<Rightarrow> time \<Rightarrow> bool" where
  "Expired c now = (if cmd_TTL c \<le> 0 then False else now > cmd_CreatedAt c + cmd_TTL c)"

subsection \<open>The queue and its operations\<close>

record ControllerQueue =
  q_high :: "Command list"
  q_fw :: "Command list"
  q_sync :: "Command list"
  q_query :: "Command list"

definition NewControllerQueue :: ControllerQueue where
  "NewControllerQueue = \<lparr>q_high = [], q_fw = [], q_sync = [], q_query = []\<rparr>"

definition Queue_Push :: "ControllerQueue \<Rightarrow> Command \<Rightarrow> ControllerQueue" where
  "Queue_Push q cmd =
     (if cmd_Priority cmd = PriorityHigh then q\<lparr>q_high := q_high q @ [cmd]\<rparr>
      else if cmd_Priority cmd = PriorityFW then q\<lparr>q_fw := q_fw q @ [cmd]\<rparr>
      else if cmd_Priority cmd = PrioritySync then q\<lparr>q_sync := q_sync q @ [cmd]\<rparr>
      else q\<lparr>q_query := q_query q @ [cmd]\<rparr>)"

text \<open>\<open>pop\<close> returns the head of a buffer and the rest; \<open>None\<close> is the result \<^verbatim>\<open>ok = false\<close>.\<close>

definition pop_buf :: "Command list \<Rightarrow> Command option \<times> Command list" where
  "pop_buf buf = (if length buf = 0 then (None, buf) else (Some (buf ! 0), drop 1 buf))"

definition PopNext :: "ControllerQueue \<Rightarrow> time \<Rightarrow> bool \<Rightarrow> bool \<Rightarrow> Command option \<times> ControllerQueue" where
  "PopNext q now fwMode syncMode =
     (case pop_buf (q_high q) of (Some cmd, rest) \<Rightarrow> (Some cmd, q\<lparr>q_high := rest\<rparr>)
      | (None, _) \<Rightarrow>
      if fwMode then
        (case pop_buf (q_fw q) of (Some cmd, rest) \<Rightarrow> (Some cmd, q\<lparr>q_fw := rest\<rparr>)
         | (None, _) \<Rightarrow> (None, q))
      else if syncMode then
        (case pop_buf (q_sync q) of (Some cmd, rest) \<Rightarrow> (Some cmd, q\<lparr>q_sync := rest\<rparr>)
         | (None, _) \<Rightarrow> (None, q))
      else
        (case pop_buf (q_fw q) of (Some cmd, rest) \<Rightarrow> (Some cmd, q\<lparr>q_fw := rest\<rparr>)
         | (None, _) \<Rightarrow>
        (case pop_buf (q_sync q) of (Some cmd, rest) \<Rightarrow> (Some cmd, q\<lparr>q_sync := rest\<rparr>)
         | (None, _) \<Rightarrow>
        (case pop_buf (q_query q) of (Some cmd, rest) \<Rightarrow> (Some cmd, q\<lparr>q_query := rest\<rparr>)
         | (None, _) \<Rightarrow> (None, q)))))"

text \<open>The loop of \<open>drain\<close>: \<open>(keep, expired)\<close>, both in the order of the input.\<close>

fun drain :: "time \<Rightarrow> Command list \<Rightarrow> Command list \<times> Command list" where
  "drain now [] = ([], [])"
| "drain now (c # cs) =
     (let (keep, expired) = drain now cs in
      if Expired c now then (keep, c # expired) else (c # keep, expired))"

definition DrainExpired :: "ControllerQueue \<Rightarrow> time \<Rightarrow> Command list \<times> ControllerQueue" where
  "DrainExpired q now =
     (let expired = [];
          (high, drained) = drain now (q_high q); expired = expired @ drained;
          (fw, drained) = drain now (q_fw q); expired = expired @ drained;
          (sync, drained) = drain now (q_sync q); expired = expired @ drained;
          (query, drained) = drain now (q_query q); expired = expired @ drained
      in (expired, q\<lparr>q_high := high, q_fw := fw, q_sync := sync, q_query := query\<rparr>))"

definition Queue_Len :: "ControllerQueue \<Rightarrow> int" where
  "Queue_Len q = int (length (q_high q)) + int (length (q_fw q)) + int (length (q_sync q))
     + int (length (q_query q))"

definition Queue_Snapshot :: "ControllerQueue \<Rightarrow> Command list" where
  "Queue_Snapshot q = [] @ q_high q @ q_fw q @ q_sync q @ q_query q"

definition Queue_Restore :: "Command list \<Rightarrow> ControllerQueue" where
  "Queue_Restore cmds = foldl (\<lambda>q cmd.
       if cmd_Priority cmd = PriorityHigh then q\<lparr>q_high := q_high q @ [cmd]\<rparr>
       else if cmd_Priority cmd = PriorityFW then q\<lparr>q_fw := q_fw q @ [cmd]\<rparr>
       else if cmd_Priority cmd = PrioritySync then q\<lparr>q_sync := q_sync q @ [cmd]\<rparr>
       else q\<lparr>q_query := q_query q @ [cmd]\<rparr>)
     \<lparr>q_high = [], q_fw = [], q_sync = [], q_query = []\<rparr> cmds"

definition HasFW :: "ControllerQueue \<Rightarrow> bool" where
  "HasFW q = (length (q_fw q) > 0)"

definition HasSync :: "ControllerQueue \<Rightarrow> bool" where
  "HasSync q = (length (q_sync q) > 0)"

definition removeAt :: "Command list \<Rightarrow> nat \<Rightarrow> Command list" where
  "removeAt xs idx = (if idx \<ge> length xs then xs else take idx xs @ drop (idx + 1) xs)"

text \<open>The \<open>candidate\<close> of \<^verbatim>\<open>DropOldest\<close>: buffer name, index and command; \<open>None\<close> while \<^verbatim>\<open>ok\<close> is false.\<close>

type_synonym candidate = "(string \<times> nat \<times> Command) option"

fun consider_from :: "string \<Rightarrow> nat \<Rightarrow> Command list \<Rightarrow> candidate \<Rightarrow> candidate" where
  "consider_from bufName i [] pick = pick"
| "consider_from bufName i (c # cs) pick =
     consider_from bufName (i + 1) cs
       (case pick of
          None \<Rightarrow> Some (bufName, i, c)
        | Some (_, _, p) \<Rightarrow> if cmd_CreatedAt c < cmd_CreatedAt p then Some (bufName, i, c) else pick)"

definition DropOldest :: "ControllerQueue \<Rightarrow> Command option \<times> ControllerQueue" where
  "DropOldest q =
     (let pick = None;
          pick = consider_from ''high'' 0 (q_high q) pick;
          pick = consider_from ''fw'' 0 (q_fw q) pick;
          pick = consider_from ''sync'' 0 (q_sync q) pick;
          pick = consider_from ''query'' 0 (q_query q) pick
      in case pick of
           None \<Rightarrow> (None, q)
         | Some (buf, idx, cmd) \<Rightarrow>
             (Some cmd,
              if buf = ''high'' then q\<lparr>q_high := removeAt (q_high q) idx\<rparr>
              else if buf = ''fw'' then q\<lparr>q_fw := removeAt (q_fw q) idx\<rparr>
              else if buf = ''sync'' then q\<lparr>q_sync := removeAt (q_sync q) idx\<rparr>
              else q\<lparr>q_query := removeAt (q_query q) idx\<rparr>))"

definition TotalEstimatedBytes :: "ControllerQueue \<Rightarrow> int" where
  "TotalEstimatedBytes q =
     (let total = 0;
          total = foldl (\<lambda>t c. t + EstimatedCommandBytes c) total (q_high q);
          total = foldl (\<lambda>t c. t + EstimatedCommandBytes c) total (q_fw q);
          total = foldl (\<lambda>t c. t + EstimatedCommandBytes c) total (q_sync q)
      in foldl (\<lambda>t c. t + EstimatedCommandBytes c) total (q_query q))"

subsection \<open>The class invariant\<close>

definition class_of :: "Command \<Rightarrow> string" where
  "class_of c = (if cmd_Priority c \<in> {PriorityHigh, PriorityFW, PrioritySync} then cmd_Priority c
                 else PriorityQuery)"

definition queue_invar :: "ControllerQueue \<Rightarrow> bool" where
  "queue_invar q \<longleftrightarrow>
     (\<forall>c\<in>set (q_high q). class_of c = PriorityHigh) \<and> (\<forall>c\<in>set (q_fw q). class_of c = PriorityFW)
     \<and> (\<forall>c\<in>set (q_sync q). class_of c = PrioritySync) \<and> (\<forall>c\<in>set (q_query q). class_of c = PriorityQuery)"

lemma class_cases:
  obtains (high) "class_of c = PriorityHigh" | (fw) "class_of c = PriorityFW"
  | (sync) "class_of c = PrioritySync" | (query) "class_of c = PriorityQuery"
  by (cases "cmd_Priority c \<in> {PriorityHigh, PriorityFW, PrioritySync}") (auto simp: class_of_def)

lemma invar_New [simp]: "queue_invar NewControllerQueue"
  by (simp add: queue_invar_def NewControllerQueue_def)

lemma invar_Push [simp]: "queue_invar q \<Longrightarrow> queue_invar (Queue_Push q c)"
  by (auto simp: queue_invar_def Queue_Push_def class_of_def)

lemma Snapshot_Push_mset [simp]:
  "mset (Queue_Snapshot (Queue_Push q c)) = add_mset c (mset (Queue_Snapshot q))"
  by (simp add: Queue_Snapshot_def Queue_Push_def)

lemma pop_buf_simps [simp]: "pop_buf [] = (None, [])" "pop_buf (c # cs) = (Some c, cs)"
  by (simp_all add: pop_buf_def)

lemma PopNext_Some:
  assumes "PopNext q now fwMode syncMode = (Some c, q')"
  shows "mset (Queue_Snapshot q) = add_mset c (mset (Queue_Snapshot q'))"
    and "queue_invar q \<Longrightarrow> queue_invar q'"
  using assms
  by (cases "q_high q"; cases "q_fw q"; cases "q_sync q"; cases "q_query q";
      auto simp: PopNext_def Queue_Snapshot_def queue_invar_def split: if_splits)+

lemma PopNext_None: "PopNext q now fwMode syncMode = (None, q') \<Longrightarrow> q' = q"
  by (auto simp: PopNext_def split: prod.splits option.splits if_splits)

lemma invar_PopNext: "queue_invar q \<Longrightarrow> queue_invar (snd (PopNext q now fwMode syncMode))"
proof (cases "PopNext q now fwMode syncMode")
  case (Pair r q')
  moreover assume "queue_invar q"
  ultimately show ?thesis
    using PopNext_Some(2) [of q now fwMode syncMode _ q'] PopNext_None [of q now fwMode syncMode q']
    by (cases r) auto
qed

lemma drain_eq: "drain now cs = (filter (\<lambda>c. \<not> Expired c now) cs, filter (\<lambda>c. Expired c now) cs)"
  by (induction cs) (auto simp: Let_def)

lemma mset_filter_split: "mset xs = mset (filter P xs) + mset (filter (\<lambda>x. \<not> P x) xs)"
  by (induction xs) auto

lemma DrainExpired_eq:
  "DrainExpired q now =
     (filter (\<lambda>c. Expired c now) (Queue_Snapshot q),
      \<lparr>q_high = filter (\<lambda>c. \<not> Expired c now) (q_high q), q_fw = filter (\<lambda>c. \<not> Expired c now) (q_fw q),
       q_sync = filter (\<lambda>c. \<not> Expired c now) (q_sync q), q_query = filter (\<lambda>c. \<not> Expired c now) (q_query q)\<rparr>)"
  by (cases q) (simp add: DrainExpired_def drain_eq Queue_Snapshot_def Let_def)

lemma invar_DrainExpired: "queue_invar q \<Longrightarrow> queue_invar (snd (DrainExpired q now))"
  by (auto simp: queue_invar_def DrainExpired_eq)

lemma Len_eq: "Queue_Len q = int (size (mset (Queue_Snapshot q)))"
  by (simp add: Queue_Len_def Queue_Snapshot_def)

lemma foldl_bytes:
  "foldl (\<lambda>t c. t + EstimatedCommandBytes c) t cs = t + sum_mset (image_mset EstimatedCommandBytes (mset cs))"
  by (induction cs arbitrary: t) auto

lemma Bytes_eq: "TotalEstimatedBytes q = sum_mset (image_mset EstimatedCommandBytes (mset (Queue_Snapshot q)))"
  by (simp add: TotalEstimatedBytes_def foldl_bytes Queue_Snapshot_def Let_def)

lemma EstimatedCommandBytes_pos: "11 \<le> EstimatedCommandBytes c"
  by (simp add: EstimatedCommandBytes_def)

lemma foldl_classes:
  "foldl Queue_Push q cmds =
     \<lparr>q_high = q_high q @ filter (\<lambda>c. class_of c = PriorityHigh) cmds,
      q_fw = q_fw q @ filter (\<lambda>c. class_of c = PriorityFW) cmds,
      q_sync = q_sync q @ filter (\<lambda>c. class_of c = PrioritySync) cmds,
      q_query = q_query q @ filter (\<lambda>c. class_of c = PriorityQuery) cmds\<rparr>"
  by (induction cmds arbitrary: q) (auto simp: Queue_Push_def class_of_def)

lemma Restore_foldl: "Queue_Restore cmds = foldl Queue_Push NewControllerQueue cmds"
  by (simp add: Queue_Restore_def Queue_Push_def [abs_def] NewControllerQueue_def)

lemma Restore_eq:
  "Queue_Restore cmds =
     \<lparr>q_high = filter (\<lambda>c. class_of c = PriorityHigh) cmds, q_fw = filter (\<lambda>c. class_of c = PriorityFW) cmds,
      q_sync = filter (\<lambda>c. class_of c = PrioritySync) cmds, q_query = filter (\<lambda>c. class_of c = PriorityQuery) cmds\<rparr>"
  by (simp add: Restore_foldl foldl_classes NewControllerQueue_def)

lemma invar_Restore [simp]: "queue_invar (Queue_Restore cmds)"
  by (simp add: Restore_eq queue_invar_def)

lemma Restore_Snapshot: "queue_invar q \<Longrightarrow> Queue_Restore (Queue_Snapshot q) = q"
  by (cases q) (auto simp: Restore_eq Queue_Snapshot_def queue_invar_def filter_id_conv filter_empty_conv
      intro!: filter_True filter_False)

subsection \<open>The choice of DropOldest\<close>

text \<open>\<open>oldest_in xs c\<close>: the first of the commands of \<open>xs\<close> with the smallest creation time is \<open>c\<close>.\<close>

definition oldest_in :: "Command list \<Rightarrow> Command \<Rightarrow> bool" where
  "oldest_in xs c \<longleftrightarrow> c \<in> set xs \<and> (\<forall>d\<in>set xs. cmd_CreatedAt c \<le> cmd_CreatedAt d)"

definition pick_ok :: "(string \<Rightarrow> Command list) \<Rightarrow> Command list \<Rightarrow> candidate \<Rightarrow> bool" where
  "pick_ok bufs seen pick \<longleftrightarrow>
     (case pick of
        None \<Rightarrow> seen = []
      | Some (b, i, c) \<Rightarrow> i < length (bufs b) \<and> bufs b ! i = c \<and> oldest_in seen c)"

lemma consider_from_ok:
  assumes "pick_ok bufs seen pick" "bufs b = pre @ cs" "i = length pre"
  shows "pick_ok bufs (seen @ cs) (consider_from b i cs pick)"
  using assms
proof (induction cs arbitrary: pre seen pick i)
  case (Cons c cs)
  let ?pick = "case pick of None \<Rightarrow> Some (b, i, c)
      | Some (_, _, p) \<Rightarrow> if cmd_CreatedAt c < cmd_CreatedAt p then Some (b, i, c) else pick"
  have "bufs b ! i = c" "i < length (bufs b)" using Cons.prems(2,3) by auto
  then have "pick_ok bufs (seen @ [c]) ?pick"
    using Cons.prems(1) by (auto simp: pick_ok_def oldest_in_def split: option.splits)
  then have "pick_ok bufs ((seen @ [c]) @ cs) (consider_from b (i + 1) cs ?pick)"
    using Cons.prems(2,3) by (intro Cons.IH [where pre = "pre @ [c]"]) simp_all
  then show ?case by simp
qed simp

lemma consider_from_buf:
  "consider_from b i cs pick = Some (b', x) \<Longrightarrow> b' = b \<or> (\<exists>y. pick = Some (b', y))"
  by (induction cs arbitrary: i pick) (fastforce split: option.splits if_splits)+

lemma mset_removeAt: "i < length xs \<Longrightarrow> mset xs = add_mset (xs ! i) (mset (removeAt xs i))"
  using id_take_nth_drop [of i xs] by (simp add: removeAt_def) (metis mset.simps(2) mset_append union_mset_add_mset_right)

lemma set_removeAt: "set (removeAt xs i) \<subseteq> set xs"
  by (auto simp: removeAt_def dest: in_set_takeD in_set_dropD)

lemma DropOldest_Some:
  assumes "DropOldest q = (Some c, q')"
  shows "oldest_in (Queue_Snapshot q) c"
    and "mset (Queue_Snapshot q) = add_mset c (mset (Queue_Snapshot q'))"
    and "queue_invar q \<Longrightarrow> queue_invar q'"
proof -
  define bufs where "bufs b = (if b = ''high'' then q_high q else if b = ''fw'' then q_fw q
      else if b = ''sync'' then q_sync q else q_query q)" for b :: string
  let ?p1 = "consider_from ''high'' 0 (q_high q) None"
  let ?p2 = "consider_from ''fw'' 0 (q_fw q) ?p1"
  let ?p3 = "consider_from ''sync'' 0 (q_sync q) ?p2"
  let ?p4 = "consider_from ''query'' 0 (q_query q) ?p3"
  have "pick_ok bufs [] None" by (simp add: pick_ok_def)
  then have "pick_ok bufs ((([] @ q_high q) @ q_fw q) @ q_sync q) ?p3"
    by (intro consider_from_ok [where pre = "[]"]) (simp_all add: bufs_def)
  then have "pick_ok bufs (((([] @ q_high q) @ q_fw q) @ q_sync q) @ q_query q) ?p4"
    by (rule consider_from_ok [where pre = "[]"]) (simp_all add: bufs_def)
  then have ok: "pick_ok bufs (Queue_Snapshot q) ?p4" by (simp add: Queue_Snapshot_def)
  obtain b i where p4: "?p4 = Some (b, i, c)"
    and q': "q' = (if b = ''high'' then q\<lparr>q_high := removeAt (q_high q) i\<rparr>
      else if b = ''fw'' then q\<lparr>q_fw := removeAt (q_fw q) i\<rparr>
      else if b = ''sync'' then q\<lparr>q_sync := removeAt (q_sync q) i\<rparr>
      else q\<lparr>q_query := removeAt (q_query q) i\<rparr>)"
    using assms by (auto simp: DropOldest_def Let_def split: option.splits)
  have i: "i < length (bufs b)" "bufs b ! i = c" and old: "oldest_in (Queue_Snapshot q) c"
    using ok unfolding p4 by (auto simp: pick_ok_def)
  show "oldest_in (Queue_Snapshot q) c" by (rule old)
  have "mset (bufs b) = add_mset c (mset (removeAt (bufs b) i))"
    using mset_removeAt [OF i(1)] i(2) by simp
  then show "mset (Queue_Snapshot q) = add_mset c (mset (Queue_Snapshot q'))"
    by (auto simp: q' bufs_def Queue_Snapshot_def split: if_splits)
  show "queue_invar q \<Longrightarrow> queue_invar q'"
    using set_removeAt by (fastforce simp: q' queue_invar_def)
qed

lemma consider_from_None: "consider_from b i cs pick = None \<longleftrightarrow> cs = [] \<and> pick = None"
  by (induction cs arbitrary: i pick) (auto split: option.splits)

lemma DropOldest_None: "fst (DropOldest q) = None \<longleftrightarrow> Queue_Snapshot q = []"
  by (auto simp: DropOldest_def Let_def consider_from_None Queue_Snapshot_def split: option.splits)

lemma DropOldest_None_same: "DropOldest q = (None, q') \<Longrightarrow> q' = q"
  by (auto simp: DropOldest_def Let_def split: option.splits)

subsection \<open>The interface the session manager uses\<close>

locale dispatch_queue =
  fixes empty :: 'q
    and push :: "'q \<Rightarrow> 'c \<Rightarrow> 'q"
    and dropo :: "'q \<Rightarrow> 'c option \<times> 'q"
    and contents :: "'q \<Rightarrow> 'c list"
    and restore :: "'c list \<Rightarrow> 'q"
    and count :: "'q \<Rightarrow> int"
    and bytes :: "'q \<Rightarrow> int"
    and cost :: "'c \<Rightarrow> int"
    and invar :: "'q \<Rightarrow> bool"
  assumes contents_empty: "contents empty = []"
    and contents_push: "mset (contents (push q c)) = add_mset c (mset (contents q))"
    and drop_Some: "dropo q = (Some c, q') \<Longrightarrow> mset (contents q) = add_mset c (mset (contents q'))"
    and drop_None: "fst (dropo q) = None \<longleftrightarrow> contents q = []"
    and drop_None_same: "dropo q = (None, q') \<Longrightarrow> q' = q"
    and count_eq: "count q = int (size (mset (contents q)))"
    and bytes_eq: "bytes q = sum_mset (image_mset cost (mset (contents q)))"
    and cost_pos: "0 < cost c"
    and invar_empty: "invar empty"
    and invar_push: "invar q \<Longrightarrow> invar (push q c)"
    and invar_drop: "invar q \<Longrightarrow> invar (snd (dropo q))"
    and invar_restore: "invar (restore cs)"
    and restore_contents: "invar q \<Longrightarrow> restore (contents q) = q"
begin

lemma count_push: "count (push q c) = count q + 1"
  by (simp add: count_eq contents_push)

lemma bytes_push: "bytes (push q c) = bytes q + cost c"
  by (simp add: bytes_eq contents_push)

lemma count_drop: "dropo q = (Some c, q') \<Longrightarrow> count q' = count q - 1"
  by (simp add: count_eq drop_Some)

lemma bytes_drop: "dropo q = (Some c, q') \<Longrightarrow> bytes q' = bytes q - cost c"
  by (simp add: bytes_eq drop_Some)

lemma drop_shrinks: "dropo q = (Some c, q') \<Longrightarrow> length (contents q') < length (contents q)"
  using drop_Some [of q c q'] by (metis lessI size_add_mset size_mset)

lemma count_empty: "count empty = 0" "bytes empty = 0"
  by (simp_all add: count_eq bytes_eq contents_empty)

lemma bytes_nonneg: "0 \<le> bytes q"
proof -
  have "0 \<le> sum_mset (image_mset cost M)" for M :: "'c multiset"
    by (induction M) (auto intro: add_nonneg_nonneg less_imp_le cost_pos)
  then show ?thesis by (simp add: bytes_eq)
qed

lemma drop_None_zero: "dropo q = (None, q') \<Longrightarrow> q' = q \<and> count q = 0 \<and> bytes q = 0"
  using drop_None [of q] drop_None_same [of q q'] by (simp add: count_eq bytes_eq)

end

interpretation cq: dispatch_queue NewControllerQueue Queue_Push DropOldest Queue_Snapshot Queue_Restore
  Queue_Len TotalEstimatedBytes EstimatedCommandBytes queue_invar
proof
  fix q c q'
  show "Queue_Snapshot NewControllerQueue = []"
    by (simp add: Queue_Snapshot_def NewControllerQueue_def)
  show "0 < EstimatedCommandBytes c" using EstimatedCommandBytes_pos [of c] by simp
  assume "queue_invar q"
  then show "queue_invar (snd (DropOldest q))"
    using DropOldest_Some(3) DropOldest_None_same
    by (cases "DropOldest q"; cases "fst (DropOldest q)") fastforce+
qed (simp_all add: DropOldest_Some(2) DropOldest_None DropOldest_None_same Len_eq Bytes_eq Restore_Snapshot)

subsection \<open>The class queues as a specification\<close>

type_synonym class_queues = "string \<Rightarrow> Command list"

definition abs_queue :: "ControllerQueue \<Rightarrow> class_queues" where
  "abs_queue q = (\<lambda>_. [])(PriorityHigh := q_high q, PriorityFW := q_fw q, PrioritySync := q_sync q,
     PriorityQuery := q_query q)"

text \<open>The classes a pop may take from, in the order they are tried.\<close>

definition eligible :: "bool \<Rightarrow> bool \<Rightarrow> string list" where
  "eligible fwMode syncMode = PriorityHigh #
     (if fwMode then [PriorityFW] else if syncMode then [PrioritySync]
      else [PriorityFW, PrioritySync, PriorityQuery])"

definition spec_push :: "class_queues \<Rightarrow> Command \<Rightarrow> class_queues" where
  "spec_push A c = A(class_of c := A (class_of c) @ [c])"

definition spec_pop :: "class_queues \<Rightarrow> bool \<Rightarrow> bool \<Rightarrow> Command option \<times> class_queues" where
  "spec_pop A fwMode syncMode =
     (case List.find (\<lambda>k. A k \<noteq> []) (eligible fwMode syncMode) of
        None \<Rightarrow> (None, A)
      | Some k \<Rightarrow> (Some (hd (A k)), A(k := tl (A k))))"

definition spec_expire :: "class_queues \<Rightarrow> time \<Rightarrow> class_queues" where
  "spec_expire A now = (\<lambda>k. filter (\<lambda>c. \<not> Expired c now) (A k))"

lemma abs_push: "abs_queue (Queue_Push q c) = spec_push (abs_queue q) c"
  by (auto simp: abs_queue_def spec_push_def Queue_Push_def class_of_def fun_eq_iff)

lemma abs_pop:
  "map_prod id abs_queue (PopNext q now fwMode syncMode) = spec_pop (abs_queue q) fwMode syncMode"
  by (cases "q_high q"; cases "q_fw q"; cases "q_sync q"; cases "q_query q";
      simp add: PopNext_def spec_pop_def eligible_def abs_queue_def fun_eq_iff)

lemma abs_expire: "abs_queue (snd (DrainExpired q now)) = spec_expire (abs_queue q) now"
  by (auto simp: DrainExpired_eq abs_queue_def spec_expire_def fun_eq_iff)

text \<open>Popping until the queue is empty, with neither mode set.\<close>

fun pop_times :: "nat \<Rightarrow> time \<Rightarrow> ControllerQueue \<Rightarrow> Command list \<times> ControllerQueue" where
  "pop_times 0 now q = ([], q)"
| "pop_times (Suc n) now q = (case PopNext q now False False of
     (None, q') \<Rightarrow> ([], q')
   | (Some c, q') \<Rightarrow> let (cs, q'') = pop_times n now q' in (c # cs, q''))"

lemma PopNext_no_mode:
  "PopNext q now False False =
     (case Queue_Snapshot q of [] \<Rightarrow> (None, q)
      | c # _ \<Rightarrow> (Some c, snd (PopNext q now False False)))"
  "Queue_Snapshot (snd (PopNext q now False False)) = tl (Queue_Snapshot q)"
  by (cases "q_high q"; cases "q_fw q"; cases "q_sync q"; cases "q_query q";
      simp add: PopNext_def Queue_Snapshot_def)+

lemma pop_times_snapshot:
  "fst (pop_times n now q) = take n (Queue_Snapshot q)
   \<and> Queue_Snapshot (snd (pop_times n now q)) = drop n (Queue_Snapshot q)"
proof (induction n arbitrary: q)
  case (Suc n)
  let ?p = "PopNext q now False False"
  show ?case
  proof (cases "Queue_Snapshot q")
    case Nil
    then have "?p = (None, q)" using PopNext_no_mode(1) [of q now] by simp
    with Nil show ?thesis by simp
  next
    case (Cons c cs)
    then obtain q' where p: "?p = (Some c, q')" using PopNext_no_mode(1) [of q now] by simp
    then have "Queue_Snapshot q' = cs" using Cons PopNext_no_mode(2) [of q now] by simp
    with Suc.IH [of q'] Cons p show ?thesis by (simp add: split_beta Let_def)
  qed
qed simp

lemma Snapshot_Nil_iff: "Queue_Snapshot q = [] \<longleftrightarrow> q = NewControllerQueue"
  by (cases q) (auto simp: Queue_Snapshot_def NewControllerQueue_def)

subsection \<open>Properties\<close>

text \<open>
  (C19) The queue refines a family of FIFO lists indexed by priority class: a push appends to the
  list of the command's class (unknown priorities count as queries), a pop takes the head of
  the first non-empty eligible class, where the high class always comes first, firmware mode
  then admits only the firmware class, synchronisation mode only the synchronisation class,
  and otherwise the order is firmware, synchronisation, query; expiry filters every list.
\<close>

theorem queue_refines_classes:
  "abs_queue NewControllerQueue = (\<lambda>_. [])
   \<and> abs_queue (Queue_Push q c) = spec_push (abs_queue q) c
   \<and> map_prod id abs_queue (PopNext q now fwMode syncMode) = spec_pop (abs_queue q) fwMode syncMode
   \<and> abs_queue (snd (DrainExpired q now)) = spec_expire (abs_queue q) now"
  by (simp add: abs_push abs_pop abs_expire) (auto simp: abs_queue_def NewControllerQueue_def fun_eq_iff)


definition sample_command :: "string \<Rightarrow> time \<Rightarrow> Command" where
  "sample_command pr t = \<lparr>cmd_MessageID = ''m'', cmd_TraceID = [], cmd_DedupKey = [], cmd_CommandID = 22,
     cmd_TTL = second, cmd_CreatedAt = t, cmd_Payload = [], cmd_Priority = pr, cmd_Attempts = 0, cmd_RetrySeq = 0\<rparr>"

definition sample_queue :: ControllerQueue where
  "sample_queue = Queue_Push (Queue_Push (Queue_Push NewControllerQueue (sample_command ''query'' 1))
     (sample_command ''fw'' 3)) (sample_command ''high'' 2)"


text \<open>
  Draining removes exactly the expired commands: the result lists them in dispatch order, none of
  the commands left is expired, no command is lost or duplicated, and each buffer keeps its order.
\<close>

lemma DrainExpired_exact:
  "fst (DrainExpired q now) = filter (\<lambda>c. Expired c now) (Queue_Snapshot q)
   \<and> Queue_Snapshot (snd (DrainExpired q now)) = filter (\<lambda>c. \<not> Expired c now) (Queue_Snapshot q)
   \<and> mset (Queue_Snapshot q) = mset (fst (DrainExpired q now)) + mset (Queue_Snapshot (snd (DrainExpired q now)))"
proof -
  have "Queue_Snapshot (snd (DrainExpired q now)) = filter (\<lambda>c. \<not> Expired c now) (Queue_Snapshot q)"
    by (simp add: DrainExpired_eq Queue_Snapshot_def)
  moreover have "fst (DrainExpired q now) = filter (\<lambda>c. Expired c now) (Queue_Snapshot q)"
    by (simp add: DrainExpired_eq)
  ultimately show ?thesis
    using mset_filter_split [of "Queue_Snapshot q" "\<lambda>c. Expired c now"] by simp
qed

text \<open>
  (C38) \<^verbatim>\<open>DropOldest\<close> removes exactly one command, one with the smallest creation time over all classes,
  whatever its priority; it reports failure exactly on an empty queue and then changes nothing.
\<close>

theorem DropOldest_drops_oldest:
  "case DropOldest q of
     (None, q') \<Rightarrow> q' = q \<and> q = NewControllerQueue
   | (Some c, q') \<Rightarrow> (\<forall>d\<in>set (Queue_Snapshot q). cmd_CreatedAt c \<le> cmd_CreatedAt d)
       \<and> mset (Queue_Snapshot q) = add_mset c (mset (Queue_Snapshot q'))"
proof (cases "DropOldest q")
  case (Pair r q')
  show ?thesis
  proof (cases r)
    case None
    with Pair show ?thesis
      using DropOldest_None [of q] DropOldest_None_same [of q q'] by (simp add: Snapshot_Nil_iff)
  next
    case (Some c)
    with Pair show ?thesis
      using DropOldest_Some [of q c q'] by (simp add: oldest_in_def)
  qed
qed

theorem DropOldest_drops_oldest_witness:
  "fst (DropOldest sample_queue) = Some (sample_command ''query'' 1)
   \<and> mset (Queue_Snapshot sample_queue)
     = add_mset (sample_command ''query'' 1) (mset (Queue_Snapshot (snd (DropOldest sample_queue))))"
proof -
  have "fst (DropOldest sample_queue) = Some (sample_command ''query'' 1)"
    by (simp add: DropOldest_def sample_queue_def Queue_Push_def NewControllerQueue_def sample_command_def)
  then show ?thesis
    using DropOldest_drops_oldest [of sample_queue] by (cases "DropOldest sample_queue") simp
qed

text \<open>
  (C20) A snapshot is the dispatch order: popping with neither mode set returns the commands of the
  snapshot one by one and ends with an empty queue, and restoring a snapshot rebuilds the queue.
\<close>

theorem snapshot_is_dispatch_order:
  assumes "queue_invar q"
  shows "pop_times (length (Queue_Snapshot q)) now q = (Queue_Snapshot q, NewControllerQueue)
    \<and> Queue_Restore (Queue_Snapshot q) = q"
proof -
  have "Queue_Snapshot (snd (pop_times (length (Queue_Snapshot q)) now q)) = []"
    using pop_times_snapshot [of "length (Queue_Snapshot q)" now q] by simp
  then show ?thesis
    using pop_times_snapshot [of "length (Queue_Snapshot q)" now q] Restore_Snapshot [OF assms]
    by (simp add: Snapshot_Nil_iff prod_eq_iff)
qed

theorem snapshot_is_dispatch_order_witness:
  "pop_times (Suc (Suc (Suc 0))) 0 sample_queue
     = ([sample_command ''high'' 2, sample_command ''fw'' 3, sample_command ''query'' 1], NewControllerQueue)"
proof -
  have "queue_invar sample_queue" by (simp add: sample_queue_def)
  moreover have "Queue_Snapshot sample_queue
      = [sample_command ''high'' 2, sample_command ''fw'' 3, sample_command ''query'' 1]"
    by (simp add: sample_queue_def Queue_Snapshot_def Queue_Push_def NewControllerQueue_def sample_command_def)
  ultimately show ?thesis
    using snapshot_is_dispatch_order [of sample_queue 0] by (simp del: pop_times.simps)
qed

end
