(* ===== verification/Go_Strings.thy ===== *)
theory Go_Strings
  imports Adapter_Prelude
begin

text \<open>
  What the adapter uses of Go's \<^verbatim>\<open>strings\<close> and \<^verbatim>\<open>unicode/utf8\<close> packages. A Go string is a
  sequence of bytes; the functions of \<^verbatim>\<open>strings\<close> that take a predicate on runes decode it
  as UTF-8, one rune after another, an ill-formed byte being the rune \<^verbatim>\<open>utf8.RuneError\<close> of
  width 1. The lemmas show that a test for ASCII characters on runes is the same
  test on bytes, so that a check such as ``only digits'' cannot be evaded by an
  ill-formed or overlong encoding.
\<close>

definition RuneError :: int where
  "RuneError = 65533"

text \<open>Size of the sequence a first byte announces, and the range its second byte must be in.\<close>

definition utf8_first :: "nat \<Rightarrow> (nat \<times> nat \<times> nat) option" where
  "utf8_first p0 =
     (if 194 \<le> p0 \<and> p0 \<le> 223 then Some (2, 128, 191)
      else if p0 = 224 then Some (3, 160, 191)
      else if p0 = 237 then Some (3, 128, 159)
      else if 225 \<le> p0 \<and> p0 \<le> 239 then Some (3, 128, 191)
      else if p0 = 240 then Some (4, 144, 191)
      else if 241 \<le> p0 \<and> p0 \<le> 243 then Some (4, 128, 191)
      else if p0 = 244 then Some (4, 128, 143)
      else None)"

definition DecodeRune :: "byte list \<Rightarrow> int \<times> nat" where
  "DecodeRune bs = (case map unat bs of
     [] \<Rightarrow> (RuneError, 0)
   | p0 # p \<Rightarrow>
       if p0 < 128 then (int p0, 1)
       else (case utf8_first p0 of
         None \<Rightarrow> (RuneError, 1)
       | Some (sz, lo, hi) \<Rightarrow>
           if Suc (length p) < sz then (RuneError, 1)
           else if p ! 0 < lo \<or> hi < p ! 0 then (RuneError, 1)
           else if sz = 2 then (int (p0 mod 32 * 64 + p ! 0 mod 64), 2)
           else if p ! 1 < 128 \<or> 191 < p ! 1 then (RuneError, 1)
           else if sz = 3 then
             (int (p0 mod 16 * 4096 + p ! 0 mod 64 * 64 + p ! 1 mod 64), 3)
           else if p ! 2 < 128 \<or> 191 < p ! 2 then (RuneError, 1)
           else (int (p0 mod 8 * 262144 + p ! 0 mod 64 * 4096 + p ! 1 mod 64 * 64
                      + p ! 2 mod 64), 4)))"

lemma DecodeRune_ascii: "unat b < 128 \<Longrightarrow> DecodeRune (b # bs) = (int (unat b), 1)"
  by (simp add: DecodeRune_def)

lemma utf8_first_Some:
  "utf8_first p0 = Some (sz, lo, hi) \<Longrightarrow> 2 \<le> sz \<and> sz \<le> 4 \<and> 128 \<le> lo \<and> hi \<le> 191"
  by (auto simp: utf8_first_def split: if_splits)

text \<open>A decoding step either rejects one byte or consumes a well-formed sequence.\<close>

lemma DecodeRune_multi_cases:
  assumes "128 \<le> unat b" "DecodeRune (b # bs) = (r, wid)"
  obtains "r = RuneError" "wid = 1"
  | lo hi where "utf8_first (unat b) = Some (wid, lo, hi)" "wid \<le> Suc (length bs)"
      "lo \<le> unat (bs ! 0)" "unat (bs ! 0) \<le> hi"
      "2 < wid \<Longrightarrow> 128 \<le> unat (bs ! 1)" "3 < wid \<Longrightarrow> 128 \<le> unat (bs ! 2)"
      "wid = 2 \<Longrightarrow> int (unat b mod 32 * 64 + unat (bs ! 0) mod 64) \<le> r"
      "wid = 3 \<Longrightarrow> int (unat b mod 16 * 4096 + unat (bs ! 0) mod 64 * 64) \<le> r"
      "wid = 4 \<Longrightarrow> int (unat b mod 8 * 262144 + unat (bs ! 0) mod 64 * 4096) \<le> r"
proof (cases "utf8_first (unat b)")
  case None
  with assms that(1) show ?thesis by (simp add: DecodeRune_def)
next
  case (Some t)
  obtain sz lo hi where t: "t = (sz, lo, hi)" by (cases t)
  note sz = utf8_first_Some [OF Some [unfolded t]]
  show ?thesis
  proof (cases "wid = 1 \<and> r = RuneError")
    case True
    with that(1) show ?thesis by simp
  next
    case False
    have w: "wid = sz" "sz \<le> Suc (length bs)" "lo \<le> map unat bs ! 0" "map unat bs ! 0 \<le> hi"
      "2 < sz \<Longrightarrow> 128 \<le> map unat bs ! 1" "3 < sz \<Longrightarrow> 128 \<le> map unat bs ! 2"
      "sz = 2 \<Longrightarrow> int (unat b mod 32 * 64 + map unat bs ! 0 mod 64) \<le> r"
      "sz = 3 \<Longrightarrow> int (unat b mod 16 * 4096 + map unat bs ! 0 mod 64 * 64) \<le> r"
      "sz = 4 \<Longrightarrow> int (unat b mod 8 * 262144 + map unat bs ! 0 mod 64 * 4096) \<le> r"
      using assms False sz Some t by (simp_all add: DecodeRune_def split: if_splits)
    have "0 < length bs" using w(2) sz by linarith
    then have "map unat bs ! 0 = unat (bs ! 0)" by simp
    with w sz Some t show ?thesis by (intro that(2) [of lo hi]) simp_all
  qed
qed

lemma DecodeRune_width:
  assumes "bs \<noteq> []"
  shows "1 \<le> snd (DecodeRune bs)" "snd (DecodeRune bs) \<le> length bs"
proof -
  obtain b bs' where bs: "bs = b # bs'" using assms by (cases bs) auto
  obtain r wid where d: "DecodeRune bs = (r, wid)" by fastforce
  have "1 \<le> wid \<and> wid \<le> length bs"
  proof (cases "unat b < 128")
    case True
    with d bs show ?thesis by (simp add: DecodeRune_ascii)
  next
    case False
    then show ?thesis using d utf8_first_Some unfolding bs
      by (elim DecodeRune_multi_cases [rotated]) fastforce+
  qed
  with d show "1 \<le> snd (DecodeRune bs)" "snd (DecodeRune bs) \<le> length bs" by simp_all
qed

text \<open>\<^verbatim>\<open>strings.IndexFunc\<close>: the byte offset of the first rune that satisfies the predicate, or -1.\<close>

function IndexFunc_from :: "(int \<Rightarrow> bool) \<Rightarrow> nat \<Rightarrow> byte list \<Rightarrow> int" where
  "IndexFunc_from f start bs =
     (if bs = [] then -1
      else let (r, wid) = DecodeRune bs in
           if f r then int start else IndexFunc_from f (start + wid) (drop wid bs))"
  by pat_completeness auto
termination
proof (relation "measure (\<lambda>(f, start, bs). length bs)", goal_cases)
  case (2 f start bs rw r wid)
  then have "1 \<le> wid" using DecodeRune_width(1) [of bs] by (metis snd_conv)
  with 2 show ?case by simp
qed simp

declare IndexFunc_from.simps [simp del]

definition IndexFunc :: "string \<Rightarrow> (int \<Rightarrow> bool) \<Rightarrow> int" where
  "IndexFunc s f = IndexFunc_from f 0 (bytes_of s)"

text \<open>
  A rune that starts with a byte of 128 or more is itself 128 or more:
  multi-byte sequences never decode to an ASCII character.
\<close>

lemma mod_between: "k * m \<le> x \<Longrightarrow> x < k * m + m \<Longrightarrow> x mod m = x - k * m" for x :: nat
  by (metis add_diff_inverse_nat mod_less mod_mult_self3 nat_add_left_cancel_less not_le)

lemma DecodeRune_multibyte:
  assumes "128 \<le> unat b" "DecodeRune (b # bs) = (r, wid)"
  shows "128 \<le> r"
  using assms
proof (cases rule: DecodeRune_multi_cases)
  case 1
  then show ?thesis by (simp add: RuneError_def)
next
  case (2 lo hi)
  define u where "u = unat (bs ! 0)"
  note u = 2(3,8,9) [folded u_def]
  have m0: "u mod 64 = u - 2 * 64"
    unfolding u_def using 2(3,4) utf8_first_Some [OF 2(1)] by (intro mod_between) auto
  have m1: "194 \<le> unat b \<Longrightarrow> unat b \<le> 223 \<Longrightarrow> unat b mod 32 = unat b - 6 * 32"
    by (rule mod_between) auto
  have m2: "225 \<le> unat b \<Longrightarrow> unat b \<le> 239 \<Longrightarrow> unat b mod 16 = unat b - 14 * 16"
    by (rule mod_between) auto
  have m3: "241 \<le> unat b \<Longrightarrow> unat b \<le> 244 \<Longrightarrow> unat b mod 8 = unat b - 30 * 8"
    by (rule mod_between) auto
  consider "unat b = 224" "wid = 3" "lo = 160" | "unat b = 240" "wid = 4" "lo = 144"
    | "194 \<le> unat b" "unat b \<le> 223" "wid = 2" | "225 \<le> unat b" "unat b \<le> 239" "wid = 3"
    | "241 \<le> unat b" "unat b \<le> 244" "wid = 4"
    using 2(1) by (auto simp: utf8_first_def split: if_splits)
  then show ?thesis
  proof cases
    case 1
    with u m0 show ?thesis by simp
  next
    case A: 2
    with u m0 show ?thesis by simp
  next
    case 3
    with 2(7) m1 show ?thesis by linarith
  next
    case 4
    with 2(8) m2 show ?thesis by linarith
  next
    case 5
    with 2(9) m3 show ?thesis by linarith
  qed
qed

text \<open>
  A rune predicate that holds of every non-ASCII rune is, over the whole string, the
  same as the byte predicate.
\<close>

lemma IndexFunc_from_bytes:
  assumes "\<And>r. 128 \<le> r \<Longrightarrow> f r"
  shows "IndexFunc_from f start bs = -1 \<longleftrightarrow> (\<forall>b\<in>set bs. \<not> f (int (unat b)))"
  using assms
proof (induction f start bs rule: IndexFunc_from.induct)
  case (1 f start bs)
  show ?case
  proof (cases bs)
    case Nil
    then show ?thesis by (simp add: IndexFunc_from.simps)
  next
    case (Cons b bs')
    show ?thesis
    proof (cases "unat b < 128")
      case True
      then have "DecodeRune bs = (int (unat b), 1)" by (simp add: Cons DecodeRune_ascii)
      with 1 Cons show ?thesis by (subst IndexFunc_from.simps) auto
    next
      case False
      obtain r wid where d: "DecodeRune bs = (r, wid)" by fastforce
      have "128 \<le> r" using DecodeRune_multibyte [of b bs' r wid] False d Cons by simp
      then have "f r" by (rule "1.prems")
      moreover have "f (int (unat b))" by (rule "1.prems") (use False in linarith)
      ultimately show ?thesis using d Cons by (subst IndexFunc_from.simps) auto
    qed
  qed
qed

lemma IndexFunc_bytes:
  "(\<And>r. 128 \<le> r \<Longrightarrow> f r) \<Longrightarrow>
     IndexFunc s f = -1 \<longleftrightarrow> (\<forall>b\<in>set (bytes_of s). \<not> f (int (unat b)))"
  by (simp add: IndexFunc_def IndexFunc_from_bytes)

end
