(* ===== verification/Go_Text.thy ===== *)
theory Go_Text
  imports Go_Strings
begin

text \<open>
  Text functions of Go's library that the server uses: \<^verbatim>\<open>strings\<close> (\<^verbatim>\<open>TrimSpace\<close>, \<^verbatim>\<open>Map\<close>, \<^verbatim>\<open>Split\<close>,
  \<^verbatim>\<open>ToLower\<close>), \<^verbatim>\<open>encoding/hex\<close>, and the texts that \<^verbatim>\<open>fmt\<close> makes of formats and errors. Two functions
  depend on large Unicode tables, \<^verbatim>\<open>unicode.ToLower\<close> and \<^verbatim>\<open>strconv.IsPrint\<close>; beyond ASCII they are
  the fields of a record \<open>unicode\<close>, and the results hold for any tables.
\<close>

record unicode =
  uc_ToLower :: "int \<Rightarrow> int"
  uc_IsPrint :: "int \<Rightarrow> bool"

section \<open>Numbers\<close>

fun decimal :: "nat \<Rightarrow> string" where
  "decimal n = (if n < 10 then [char_of (48 + n)] else decimal (n div 10) @ [char_of (48 + n mod 10)])"

declare decimal.simps [simp del]

text \<open>The decimal text of an integer (\<^verbatim>\<open>%d\<close>).\<close>

definition fmt_d :: "int \<Rightarrow> string" where
  "fmt_d n = (if n < 0 then CHR ''-'' # decimal (nat (- n)) else decimal (nat n))"

section \<open>Hexadecimal\<close>

definition hex_digit :: "nat \<Rightarrow> char" where
  "hex_digit n = ''0123456789abcdef'' ! n"

text \<open>\<^verbatim>\<open>hex.EncodeToString\<close> and \<^verbatim>\<open>hex.DecodeString\<close>.\<close>

definition EncodeToString :: "byte list \<Rightarrow> string" where
  "EncodeToString bs = concat (map (\<lambda>b. [hex_digit (unat b div 16), hex_digit (unat b mod 16)]) bs)"

definition unhex :: "char \<Rightarrow> nat option" where
  "unhex c = (let n = of_char c in
     if 48 \<le> n \<and> n \<le> 57 then Some (n - 48)
     else if 97 \<le> n \<and> n \<le> 102 then Some (n - 87)
     else if 65 \<le> n \<and> n \<le> 70 then Some (n - 55) else None)"

definition InvalidByteError :: "char \<Rightarrow> go_error" where
  "InvalidByteError c = Errorf ''encoding/hex: invalid byte: %#U'' [FInt (of_char c)]"

definition hex_ErrLength :: go_error where
  "hex_ErrLength = ErrorsNew ''encoding/hex: odd length hex string''"

fun DecodeString :: "string \<Rightarrow> go_error + byte list" where
  "DecodeString [] = Inr []"
| "DecodeString [p] = (case unhex p of None \<Rightarrow> Inl (InvalidByteError p) | Some _ \<Rightarrow> Inl hex_ErrLength)"
| "DecodeString (p # q # s) = (case unhex p of
     None \<Rightarrow> Inl (InvalidByteError p)
   | Some a \<Rightarrow> (case unhex q of
       None \<Rightarrow> Inl (InvalidByteError q)
     | Some b \<Rightarrow> res_bind (DecodeString s) (\<lambda>bs. Inr (word_of_nat (16 * a + b) # bs))))"

section \<open>Runes\<close>

text \<open>\<^verbatim>\<open>utf8.AppendRune\<close>: surrogates and values out of range are encoded as the rune error.\<close>

definition EncodeRune :: "int \<Rightarrow> byte list" where
  "EncodeRune r = (let r = (if r < 0 \<or> 1114111 < r \<or> 55296 \<le> r \<and> r \<le> 57343 then RuneError else r) in
     map word_of_int
       (if r < 128 then [r]
        else if r < 2048 then [192 + r div 64, 128 + r mod 64]
        else if r < 65536 then [224 + r div 4096, 128 + r div 64 mod 64, 128 + r mod 64]
        else [240 + r div 262144, 128 + r div 4096 mod 64, 128 + r div 64 mod 64, 128 + r mod 64]))"

text \<open>The runes of a string with their widths, as \<^verbatim>\<open>range\<close> gives them.\<close>

function runes :: "byte list \<Rightarrow> (int \<times> nat) list" where
  "runes bs = (if bs = [] then [] else DecodeRune bs # runes (drop (snd (DecodeRune bs)) bs))"
  by pat_completeness auto
termination
  by (relation "measure length") (use DecodeRune_width in \<open>auto simp: Suc_le_eq\<close>)

declare runes.simps [simp del]

text \<open>\<^verbatim>\<open>strings.Map\<close>: a negative rune is dropped.\<close>

definition strings_Map :: "(int \<Rightarrow> int) \<Rightarrow> string \<Rightarrow> string" where
  "strings_Map f s = string_of (concat (map (\<lambda>(r, _). if f r < 0 then [] else EncodeRune (f r)) (runes (bytes_of s))))"

text \<open>\<^verbatim>\<open>utf8.DecodeLastRune\<close>: back to the start of a rune, at most four bytes.\<close>

definition rune_start :: "byte \<Rightarrow> bool" where
  "rune_start b \<longleftrightarrow> \<not> (128 \<le> unat b \<and> unat b < 192)"

definition DecodeLastRune :: "byte list \<Rightarrow> int \<times> nat" where
  "DecodeLastRune bs =
     (let n = length bs in
      if n = 0 then (RuneError, 0)
      else if unat (last bs) < 128 then (int (unat (last bs)), 1)
      else let start = (case find (\<lambda>i. i \<le> n \<and> rune_start (bs ! (n - i))) [2, 3, 4] of
                          Some i \<Rightarrow> n - i | None \<Rightarrow> if 4 < n then n - 5 else 0);
               (r, sz) = DecodeRune (drop start bs)
           in if start + sz \<noteq> n then (RuneError, 1) else (r, sz))"

text \<open>\<^verbatim>\<open>unicode.IsSpace\<close>.\<close>

definition IsSpace :: "int \<Rightarrow> bool" where
  "IsSpace r \<longleftrightarrow> 9 \<le> r \<and> r \<le> 13 \<or> r \<in> set [32, 133, 160, 5760, 8232, 8233, 8239, 8287, 12288] \<or> 8192 \<le> r \<and> r \<le> 8202"

lemma DecodeLastRune_width:
  assumes "bs \<noteq> []"
  shows "1 \<le> snd (DecodeLastRune bs)"
proof -
  have "(case find (\<lambda>i. i \<le> length bs \<and> rune_start (bs ! (length bs - i))) [2, 3, 4] of
      Some i \<Rightarrow> length bs - i | None \<Rightarrow> if 4 < length bs then length bs - 5 else 0) < length bs"
    using assms by auto
  then show ?thesis by (auto simp: DecodeLastRune_def Let_def split_beta simp del: find.simps)
qed

function trim_left :: "byte list \<Rightarrow> byte list" where
  "trim_left bs = (if bs = [] then [] else if IsSpace (fst (DecodeRune bs)) then trim_left (drop (snd (DecodeRune bs)) bs) else bs)"
  by pat_completeness auto
termination
  by (relation "measure length") (use DecodeRune_width in \<open>auto simp: Suc_le_eq\<close>)

function trim_right :: "byte list \<Rightarrow> byte list" where
  "trim_right bs = (if bs = [] then [] else if IsSpace (fst (DecodeLastRune bs))
     then trim_right (take (length bs - snd (DecodeLastRune bs)) bs) else bs)"
  by pat_completeness auto
termination
  by (relation "measure length") (use DecodeLastRune_width in \<open>auto simp: Suc_le_eq\<close>)

declare trim_left.simps [simp del] trim_right.simps [simp del]

definition TrimSpace :: "string \<Rightarrow> string" where
  "TrimSpace s = string_of (trim_right (trim_left (bytes_of s)))"

section \<open>Splitting and letters\<close>

fun IndexByte :: "string \<Rightarrow> char \<Rightarrow> nat option" where
  "IndexByte [] c = None"
| "IndexByte (x # xs) c = (if x = c then Some 0 else map_option Suc (IndexByte xs c))"

definition LastIndexByte :: "string \<Rightarrow> char \<Rightarrow> nat option" where
  "LastIndexByte s c = map_option (\<lambda>i. length s - 1 - i) (IndexByte (rev s) c)"

text \<open>\<^verbatim>\<open>strings.Split\<close> by one character, and \<^verbatim>\<open>strings.SplitN\<close> into at most two parts.\<close>

fun Split :: "string \<Rightarrow> char \<Rightarrow> string list" where
  "Split [] c = [[]]"
| "Split (x # xs) c = (if x = c then [] # Split xs c else (case Split xs c of p # ps \<Rightarrow> (x # p) # ps | [] \<Rightarrow> [[x]]))"

definition SplitN2 :: "string \<Rightarrow> char \<Rightarrow> string list" where
  "SplitN2 s c = (case IndexByte s c of None \<Rightarrow> [s] | Some i \<Rightarrow> [take i s, drop (i + 1) s])"

text \<open>\<^verbatim>\<open>strings.ToLower\<close>: ASCII strings byte by byte, others by rune.\<close>

definition ascii_lower :: "char \<Rightarrow> char" where
  "ascii_lower c = (if (65::nat) \<le> of_char c \<and> of_char c \<le> (90::nat) then char_of ((of_char c :: nat) + 32) else c)"

definition ToLower :: "unicode \<Rightarrow> string \<Rightarrow> string" where
  "ToLower u s =
     (if list_all (\<lambda>c. of_char c < (128::nat)) s then map ascii_lower s
      else strings_Map (\<lambda>r. if r < 128 then (if 65 \<le> r \<and> r \<le> 90 then r + 32 else r) else uc_ToLower u r) s)"

text \<open>\<^verbatim>\<open>strings.ToUpper\<close> of an ASCII text.\<close>

definition ascii_upper :: "char \<Rightarrow> char" where
  "ascii_upper c = (if (97::nat) \<le> of_char c \<and> of_char c \<le> (122::nat) then char_of ((of_char c :: nat) - 32) else c)"

section \<open>Formatted texts\<close>

text \<open>\<^verbatim>\<open>strconv.Quote\<close>.\<close>

definition hex_digits :: "nat \<Rightarrow> nat \<Rightarrow> string" where
  "hex_digits k n = map (\<lambda>i. hex_digit (n div 16 ^ i mod 16)) (rev [0..<k])"

definition IsPrint :: "unicode \<Rightarrow> int \<Rightarrow> bool" where
  "IsPrint u r = (if r < 128 then 32 \<le> r \<and> r \<le> 126 else uc_IsPrint u r)"

definition quote_rune :: "unicode \<Rightarrow> int \<Rightarrow> string" where
  "quote_rune u r =
     (if r = 34 \<or> r = 92 then [char_of (92::nat), char_of (nat r)]
      else if IsPrint u r then string_of (EncodeRune r)
      else case map_of [(7, CHR ''a''), (8, CHR ''b''), (12, CHR ''f''), (10, CHR ''n''), (13, CHR ''r''), (9, CHR ''t''), (11, CHR ''v'')] r of
             Some c \<Rightarrow> [char_of (92::nat), c]
           | None \<Rightarrow>
               if r < 32 \<or> r = 127 then [char_of (92::nat), CHR ''x''] @ hex_digits 2 (nat r)
               else if r < 65536 then [char_of (92::nat), CHR ''u''] @ hex_digits 4 (nat r)
               else [char_of (92::nat), CHR ''U''] @ hex_digits 8 (nat r))"

function quote_body :: "unicode \<Rightarrow> byte list \<Rightarrow> string" where
  "quote_body u bs = (if bs = [] then [] else
     (if DecodeRune bs = (RuneError, 1) then [char_of (92::nat), CHR ''x''] @ hex_digits 2 (unat (hd bs))
      else quote_rune u (fst (DecodeRune bs))) @ quote_body u (drop (snd (DecodeRune bs)) bs))"
  by pat_completeness auto
termination
  by (relation "measure (\<lambda>(u, bs). length bs)") (use DecodeRune_width in \<open>auto simp: Suc_le_eq\<close>)

declare quote_body.simps [simp del]

definition Quote :: "unicode \<Rightarrow> string \<Rightarrow> string" where
  "Quote u s = [CHR 0x22] @ quote_body u (bytes_of s) @ [CHR 0x22]"

text \<open>
  \<^verbatim>\<open>fmt.Sprintf\<close> for formats with as many verbs of one letter as arguments, which is all the source
  uses: every verb is replaced by the text of the next argument. \<open>error_text\<close> is \<^verbatim>\<open>err.Error()\<close>.
\<close>

fun fill_format :: "string \<Rightarrow> string list \<Rightarrow> string" where
  "fill_format (CHR ''%'' # v # fmt) (a # args) = a @ fill_format fmt args"
| "fill_format (c # fmt) args = c # fill_format fmt args"
| "fill_format [] args = []"

fun error_text :: "unicode \<Rightarrow> go_error \<Rightarrow> string"
  and arg_text :: "unicode \<Rightarrow> fmt_arg \<Rightarrow> string" where
  "error_text u (ErrorsNew s) = s"
| "error_text u (Errorf fmt args) = fill_format fmt (map (arg_text u) args)"
| "arg_text u (FInt n) = fmt_d n"
| "arg_text u (FStr s) = s"
| "arg_text u (FQuoted s) = Quote u s"
| "arg_text u (FErr e) = error_text u e"

section \<open>Laws\<close>

lemma unhex_hex_digit: "n < 16 \<Longrightarrow> unhex (hex_digit n) = Some n"
proof -
  have "list_all (\<lambda>n. unhex (hex_digit n) = Some n) [0..<16]" by code_simp
  then show "n < 16 \<Longrightarrow> unhex (hex_digit n) = Some n" by (simp add: list_all_iff)
qed

lemma DecodeString_EncodeToString: "DecodeString (EncodeToString bs) = Inr bs"
proof (induction bs)
  case (Cons b bs)
  have "unat b < 256" using unsigned_less [of b] by simp
  then have "unat b div 16 < 16" by simp
  then have "DecodeString (hex_digit (unat b div 16) # hex_digit (unat b mod 16) # EncodeToString bs) = Inr (b # bs)"
    using Cons by (simp add: unhex_hex_digit res_bind_def mult.commute)
  then show ?case by (simp add: EncodeToString_def)
qed (simp add: EncodeToString_def)

lemma Split_join: "c \<notin> set p \<Longrightarrow> Split (p @ c # s) c = p # Split s c"
  by (induction p) auto

lemma Split_last: "c \<notin> set p \<Longrightarrow> Split p c = [p]"
  by (induction p) auto

lemma IndexByte_join: "c \<notin> set p \<Longrightarrow> IndexByte (p @ c # s) c = Some (length p)"
  by (induction p) auto

lemma SplitN2_join: "c \<notin> set p \<Longrightarrow> SplitN2 (p @ c # s) c = [p, s]"
  by (simp add: SplitN2_def IndexByte_join)

text \<open>Texts of graphic ASCII characters are left alone by \<^verbatim>\<open>TrimSpace\<close>, and by \<^verbatim>\<open>Map\<close> if the function fixes them.\<close>

definition graphic :: "char \<Rightarrow> bool" where
  "graphic c \<longleftrightarrow> (33::nat) \<le> of_char c \<and> of_char c \<le> (126::nat)"

lemma graphic_byte:
  assumes "graphic c"
  shows "unat (word_of_nat (of_char c) :: byte) = of_char c" "(of_char c :: nat) < 128" "\<not> IsSpace (int (of_char c))"
  using assms by (auto simp: graphic_def IsSpace_def unat_of_nat simp del: of_nat_of_char)

lemma TrimSpace_graphic:
  assumes "list_all graphic s"
  shows "TrimSpace s = s"
proof (cases s)
  case (Cons c cs)
  obtain ds d where s: "s = ds @ [d]" using Cons by (metis list.distinct(1) rev_exhaust)
  have "trim_left (bytes_of s) = bytes_of s"
    using assms Cons graphic_byte [of c]
    by (subst trim_left.simps) (simp add: bytes_of_def DecodeRune_ascii del: of_nat_of_char)
  moreover have "trim_right (bytes_of s) = bytes_of s"
    using assms s graphic_byte [of d]
    by (subst trim_right.simps) (simp add: bytes_of_def DecodeLastRune_def del: of_nat_of_char)
  ultimately show ?thesis by (simp add: TrimSpace_def)
qed (simp add: TrimSpace_def bytes_of_def string_of_def trim_left.simps trim_right.simps)

lemma runes_graphic:
  assumes "graphic c"
  shows "runes (bytes_of (c # s)) = (int (of_char c), 1) # runes (bytes_of s)"
proof -
  have b: "bytes_of (c # s) = word_of_nat (of_char c) # bytes_of s" by (simp add: bytes_of_def)
  have "DecodeRune (bytes_of (c # s)) = (int (of_char c), 1)"
    unfolding b using graphic_byte(1,2) [OF assms] by (subst DecodeRune_ascii) simp_all
  then show ?thesis by (subst runes.simps) (simp add: b del: of_nat_of_char)
qed

lemma EncodeRune_graphic:
  assumes "graphic c"
  shows "EncodeRune (int (of_char c)) = bytes_of [c]"
proof -
  have "0 \<le> int (of_char c)" "int (of_char c) < 128" using graphic_byte(2) [OF assms] by linarith+
  then show ?thesis by (simp add: EncodeRune_def bytes_of_def Let_def del: of_nat_of_char)
qed

lemma strings_Map_graphic:
  assumes "list_all (\<lambda>c. graphic c \<and> f (int (of_char c)) = int (of_char c)) s"
  shows "strings_Map f s = s"
proof -
  have "concat (map (\<lambda>(r, _). if f r < 0 then [] else EncodeRune (f r)) (runes (bytes_of s))) = bytes_of s"
    using assms
  proof (induction s)
    case (Cons c s)
    then have c: "graphic c" "f (int (of_char c)) = int (of_char c)" by simp_all
    then have "(if f (int (of_char c)) < 0 then [] else EncodeRune (f (int (of_char c)))) = bytes_of [c]"
      by (simp only: EncodeRune_graphic of_nat_less_0_iff if_False)
    moreover have "concat (map (\<lambda>(r, _). if f r < 0 then [] else EncodeRune (f r)) (runes (bytes_of s))) = bytes_of s"
      using Cons by (simp only: list.pred_inject)
    moreover have "bytes_of [c] @ bytes_of s = bytes_of (c # s)" by (simp add: bytes_of_def)
    ultimately show ?case by (simp only: runes_graphic [OF c(1)] list.map prod.case concat.simps)
  qed (simp add: bytes_of_def runes.simps)
  then show ?thesis by (simp add: strings_Map_def)
qed

text \<open>Hexadecimal text in upper case.\<close>

lemma upper_hex_digit: "n < 16 \<Longrightarrow> unhex (ascii_upper (hex_digit n)) = Some n \<and> graphic (ascii_upper (hex_digit n))"
proof -
  have "list_all (\<lambda>n. unhex (ascii_upper (hex_digit n)) = Some n \<and> graphic (ascii_upper (hex_digit n))) [0..<16]"
    by (simp add: upt_rec hex_digit_def unhex_def ascii_upper_def graphic_def)
  then show "n < 16 \<Longrightarrow> unhex (ascii_upper (hex_digit n)) = Some n \<and> graphic (ascii_upper (hex_digit n))"
    by (simp add: list_all_iff)
qed

lemma upper_hex:
  "DecodeString (map ascii_upper (EncodeToString bs)) = Inr bs" "list_all graphic (map ascii_upper (EncodeToString bs))"
proof (induction bs)
  case (Cons b bs)
  have "unat b < 256" using unsigned_less [of b] by simp
  then have "unat b div 16 < 16" by simp
  moreover have "map ascii_upper (EncodeToString (b # bs))
      = ascii_upper (hex_digit (unat b div 16)) # ascii_upper (hex_digit (unat b mod 16)) # map ascii_upper (EncodeToString bs)"
    by (simp add: EncodeToString_def)
  ultimately show "DecodeString (map ascii_upper (EncodeToString (b # bs))) = Inr (b # bs)"
    "list_all graphic (map ascii_upper (EncodeToString (b # bs)))"
    using Cons upper_hex_digit [of "unat b div 16"] upper_hex_digit [of "unat b mod 16"]
    by (simp_all add: res_bind_def mult.commute)
qed (simp_all add: EncodeToString_def)

end
