(* ===== verification/Session_Store.thy ===== *)
theory Session_Store
  imports Command_Queue Go_Text "HOL-Library.List_Lexorder" "HOL-Library.Char_ord"
begin

text \<open>
  The session stores (\<^verbatim>\<open>internal/store/store.go\<close>). The Go interface \<^verbatim>\<open>Store\<close> is the record
  \<open>Store\<close> of its three methods, each a function of the store's state; the locale
  \<open>session_store\<close> is its contract, stated over the map from controller ids to snapshots that
  a store represents, and it is interpreted on the in-memory and on the file store.

  The file store works on a directory: \<open>file_system\<close> holds the content of the store file, the
  other entries of its directory, the number of temporary files, and \<open>fs_faults\<close>, the
  results of the coming system calls (\<open>None\<close> is success; an exhausted list means that all
  further calls succeed). Every call of \<^verbatim>\<open>os\<close> that can fail consumes one result, so a theorem
  about all values of \<open>fs_faults\<close> covers every pattern of failures. The content of the file
  is given at the level of \<^verbatim>\<open>encoding/json\<close>: absent, empty, the JSON value \<^verbatim>\<open>null\<close>, text that does
  not decode, or text that decodes to a map of snapshots.
\<close>

subsection \<open>Snapshots and the interface\<close>

record InFlightSnapshot =
  ifs_Seq :: u8
  ifs_Command :: Command
  ifs_SentAt :: time
  ifs_Attempts :: int

record SessionSnapshot =
  sn_ControllerID :: string
  sn_LastSeen :: time
  sn_BufferFree :: int
  sn_FWMode :: bool
  sn_SyncMode :: bool
  sn_Pending :: "Command list"
  sn_InFlight :: "InFlightSnapshot list"
  sn_NextSeq :: u8

type_synonym snapshots = "(string, SessionSnapshot) gomap"

record 's Store =
  SaveSession :: "SessionSnapshot \<Rightarrow> 's \<Rightarrow> go_error option \<times> 's"
  DeleteSession :: "string \<Rightarrow> 's \<Rightarrow> go_error option \<times> 's"
  ListSessions :: "'s \<Rightarrow> (go_error + SessionSnapshot list) \<times> 's"

subsection \<open>The in-memory store\<close>

definition NewInMemoryStore :: snapshots where
  "NewInMemoryStore = []"

definition InMemoryStore_SaveSession :: "SessionSnapshot \<Rightarrow> snapshots \<Rightarrow> go_error option \<times> snapshots" where
  "InMemoryStore_SaveSession snapshot s = (None, AList.update (sn_ControllerID snapshot) snapshot s)"

definition InMemoryStore_DeleteSession :: "string \<Rightarrow> snapshots \<Rightarrow> go_error option \<times> snapshots" where
  "InMemoryStore_DeleteSession controllerID s = (None, AList.delete controllerID s)"

definition InMemoryStore_ListSessions :: "snapshots \<Rightarrow> (go_error + SessionSnapshot list) \<times> snapshots" where
  "InMemoryStore_ListSessions s = (Inr (map snd s), s)"

definition InMemoryStore :: "snapshots Store" where
  "InMemoryStore = \<lparr>SaveSession = InMemoryStore_SaveSession, DeleteSession = InMemoryStore_DeleteSession,
     ListSessions = InMemoryStore_ListSessions\<rparr>"

subsection \<open>The file system below the file store\<close>

datatype file_content =
    FileAbsent
  | FileEmpty
  | FileNull
  | FileCorrupt
  | FileJSON snapshots

record dir_entry =
  de_Name :: string
  de_IsDir :: bool
  de_ModTime :: "time option"

record file_system =
  fs_file :: file_content
  fs_modified :: time
  fs_entries :: "dir_entry list"
  fs_temps :: nat
  fs_now :: time
  fs_faults :: "go_error option list"

definition os_call :: "file_system \<Rightarrow> go_error option \<times> file_system" where
  "os_call fs = (case fs_faults fs of [] \<Rightarrow> (None, fs) | r # rs \<Rightarrow> (r, fs\<lparr>fs_faults := rs\<rparr>))"

text \<open>\<^verbatim>\<open>sort.Slice\<close> by a comparison that is a strict linear order on the elements sorted.\<close>

fun insert_by :: "('a \<Rightarrow> 'a \<Rightarrow> bool) \<Rightarrow> 'a \<Rightarrow> 'a list \<Rightarrow> 'a list" where
  "insert_by lt x [] = [x]"
| "insert_by lt x (y # ys) = (if lt y x then y # insert_by lt x ys else x # y # ys)"

definition sort_slice :: "('a \<Rightarrow> 'a \<Rightarrow> bool) \<Rightarrow> 'a list \<Rightarrow> 'a list" where
  "sort_slice lt xs = foldr (insert_by lt) xs []"

lemma mset_insert_by [simp]: "mset (insert_by lt x ys) = add_mset x (mset ys)"
  by (induction ys) auto

lemma mset_sort_slice [simp]: "mset (sort_slice lt xs) = mset xs"
  by (induction xs) (auto simp: sort_slice_def)

lemma set_sort_slice [simp]: "set (sort_slice lt xs) = set xs"
  by (metis mset_sort_slice set_mset_mset)

lemma length_sort_slice [simp]: "length (sort_slice lt xs) = length xs"
  by (metis mset_sort_slice size_mset)

lemma set_insert_by: "set (insert_by lt x ys) = insert x (set ys)"
  by (metis mset_insert_by set_mset_add_mset_insert set_mset_mset)

lemma sorted_insert_by:
  assumes trans: "\<And>a b c. \<not> lt a b \<Longrightarrow> \<not> lt b c \<Longrightarrow> \<not> lt a c"
    and asym: "\<And>a b. lt a b \<Longrightarrow> \<not> lt b a"
  shows "sorted_wrt (\<lambda>a b. \<not> lt b a) ys \<Longrightarrow> sorted_wrt (\<lambda>a b. \<not> lt b a) (insert_by lt x ys)"
proof (induction ys)
  case (Cons y ys)
  show ?case
  proof (cases "lt y x")
    case True
    with Cons asym [OF True] show ?thesis by (simp add: set_insert_by)
  next
    case False
    then have "\<not> lt z x" if "z \<in> set ys" for z
      using Cons.prems that trans [of z y x] by simp
    with False Cons.prems show ?thesis by simp
  qed
qed simp

lemma sorted_sort_slice:
  assumes trans: "\<And>a b c. \<not> lt a b \<Longrightarrow> \<not> lt b c \<Longrightarrow> \<not> lt a c"
    and asym: "\<And>a b. lt a b \<Longrightarrow> \<not> lt b a"
  shows "sorted_wrt (\<lambda>a b. \<not> lt b a) (sort_slice lt xs)"
proof (induction xs)
  case (Cons x xs)
  have "sorted_wrt (\<lambda>a b. \<not> lt b a) (insert_by lt x (sort_slice lt xs))"
    by (rule sorted_insert_by [OF trans asym Cons.IH])
  then show ?case by (simp add: sort_slice_def)
qed (simp add: sort_slice_def)

subsection \<open>The file store\<close>

definition maxCorruptBackups :: int where
  "maxCorruptBackups = 5"

definition HasPrefix :: "string \<Rightarrow> string \<Rightarrow> bool" where
  "HasPrefix s p = (take (length p) s = p)"

text \<open>The comparison of \<^verbatim>\<open>cleanupCorruptBackups\<close>: newest first, then by name downwards.\<close>

definition newer_backup :: "string \<times> time \<Rightarrow> string \<times> time \<Rightarrow> bool" where
  "newer_backup a b = (if snd a = snd b then fst a > fst b else snd a > snd b)"

text \<open>\<^verbatim>\<open>os.Remove\<close> of one entry of the directory, its result ignored.\<close>

definition remove_entry :: "string \<Rightarrow> file_system \<Rightarrow> file_system" where
  "remove_entry name fs = (case os_call fs of
     (Some _, fs) \<Rightarrow> fs
   | (None, fs) \<Rightarrow> fs\<lparr>fs_entries := filter (\<lambda>e. de_Name e \<noteq> name) (fs_entries fs)\<rparr>)"

fun backup_files :: "string \<Rightarrow> dir_entry list \<Rightarrow> (string \<times> time) list" where
  "backup_files base [] = []"
| "backup_files base (e # entries) =
     (let files = backup_files base entries in
      if de_IsDir e then files
      else if \<not> HasPrefix (de_Name e) (base @ ''.corrupt-'') then files
      else case de_ModTime e of None \<Rightarrow> files | Some t \<Rightarrow> (de_Name e, t) # files)"

definition cleanupCorruptBackups :: "string \<Rightarrow> int \<Rightarrow> file_system \<Rightarrow> go_error option \<times> file_system" where
  "cleanupCorruptBackups base maxKeep fs =
     (if maxKeep \<le> 0 then (None, fs)
      else case os_call fs of
        (Some err, fs) \<Rightarrow> (Some err, fs)
      | (None, fs) \<Rightarrow>
          let files = backup_files base (fs_entries fs) in
          if int (length files) \<le> maxKeep then (None, fs)
          else let files = sort_slice newer_backup files
               in (None, fold (\<lambda>f fs. remove_entry (fst f) fs) (drop (nat maxKeep) files) fs))"

definition backup_name :: "string \<Rightarrow> time \<Rightarrow> string" where
  "backup_name base t = base @ ''.corrupt-'' @ decimal (nat t)"

text \<open>\<^verbatim>\<open>_ = os.Rename(s.path, backup)\<close>: the file keeps its modification time under the new name.\<close>

definition rename_corrupt :: "string \<Rightarrow> file_system \<Rightarrow> file_system" where
  "rename_corrupt base fs =
     (let backup = backup_name base (fs_now fs) in
      case os_call fs of
        (Some _, fs) \<Rightarrow> fs
      | (None, fs) \<Rightarrow>
          fs\<lparr>fs_file := FileAbsent,
             fs_entries := \<lparr>de_Name = backup, de_IsDir = False, de_ModTime = Some (fs_modified fs)\<rparr>
               # filter (\<lambda>e. de_Name e \<noteq> backup) (fs_entries fs)\<rparr>)"

definition readAllLocked :: "string \<Rightarrow> file_system \<Rightarrow> (go_error + snapshots) \<times> file_system" where
  "readAllLocked base fs =
     (if fs_file fs = FileAbsent then (Inr [], fs)
      else case os_call fs of
        (Some err, fs) \<Rightarrow> (Inl err, fs)
      | (None, fs) \<Rightarrow> (case fs_file fs of
            FileAbsent \<Rightarrow> (Inr [], fs)
          | FileEmpty \<Rightarrow> (Inr [], fs)
          | FileCorrupt \<Rightarrow>
              (Inr [], snd (cleanupCorruptBackups base maxCorruptBackups (rename_corrupt base fs)))
          | FileNull \<Rightarrow> (Inr [], fs)
          | FileJSON data \<Rightarrow> (Inr data, fs)))"

text \<open>Run a call and stop at its error; the next calls see the state after it.\<close>

definition os_then :: "file_system \<Rightarrow> (file_system \<Rightarrow> go_error option \<times> file_system)
    \<Rightarrow> go_error option \<times> file_system" where
  "os_then fs k = (case os_call fs of (Some err, fs) \<Rightarrow> (Some err, fs) | (None, fs) \<Rightarrow> k fs)"

text \<open>The deferred \<^verbatim>\<open>os.Remove(tmpPath)\<close>.\<close>

definition remove_temp :: "file_system \<Rightarrow> file_system" where
  "remove_temp fs = (case os_call fs of
     (Some _, fs) \<Rightarrow> fs | (None, fs) \<Rightarrow> fs\<lparr>fs_temps := fs_temps fs - 1\<rparr>)"

definition syncDir :: "file_system \<Rightarrow> go_error option \<times> file_system" where
  "syncDir fs = os_then fs os_call"

text \<open>
  The part of \<^verbatim>\<open>writeAllLocked\<close> after the temporary file exists: write, sync and close it (a
  failed write or sync closes it as well), change its mode, rename it over the store file.
\<close>

definition fill_temp :: "snapshots \<Rightarrow> file_system \<Rightarrow> go_error option \<times> file_system" where
  "fill_temp data fs = (case os_call fs of
     (Some err, fs) \<Rightarrow> (Some err, snd (os_call fs))
   | (None, fs) \<Rightarrow> (case os_call fs of
     (Some err, fs) \<Rightarrow> (Some err, snd (os_call fs))
   | (None, fs) \<Rightarrow> os_then fs (\<lambda>fs. os_then fs (\<lambda>fs. case os_call fs of
       (Some err, fs) \<Rightarrow> (Some (Errorf ''rename temp store file: %w'' [FErr err]), fs)
     | (None, fs) \<Rightarrow> (None, fs\<lparr>fs_file := FileJSON data, fs_modified := fs_now fs,
                            fs_temps := fs_temps fs - 1\<rparr>)))))"

definition writeAllLocked :: "snapshots \<Rightarrow> file_system \<Rightarrow> go_error option \<times> file_system" where
  "writeAllLocked data fs =
     os_then fs (\<lambda>fs. os_then fs (\<lambda>fs. os_then fs (\<lambda>fs.
       case fill_temp data (fs\<lparr>fs_temps := fs_temps fs + 1\<rparr>) of
         (Some err, fs) \<Rightarrow> (Some err, remove_temp fs)
       | (None, fs) \<Rightarrow> let (_, fs) = syncDir fs in (None, fs))))"

definition FileStore_SaveSession :: "string \<Rightarrow> SessionSnapshot \<Rightarrow> file_system \<Rightarrow> go_error option \<times> file_system" where
  "FileStore_SaveSession base snapshot fs = (case readAllLocked base fs of
     (Inl err, fs) \<Rightarrow> (Some err, fs)
   | (Inr data, fs) \<Rightarrow> writeAllLocked (AList.update (sn_ControllerID snapshot) snapshot data) fs)"

definition FileStore_DeleteSession :: "string \<Rightarrow> string \<Rightarrow> file_system \<Rightarrow> go_error option \<times> file_system" where
  "FileStore_DeleteSession base controllerID fs = (case readAllLocked base fs of
     (Inl err, fs) \<Rightarrow> (Some err, fs)
   | (Inr data, fs) \<Rightarrow> writeAllLocked (AList.delete controllerID data) fs)"

definition FileStore_ListSessions :: "string \<Rightarrow> file_system \<Rightarrow> (go_error + SessionSnapshot list) \<times> file_system" where
  "FileStore_ListSessions base fs = (case readAllLocked base fs of
     (Inl err, fs) \<Rightarrow> (Inl err, fs)
   | (Inr data, fs) \<Rightarrow> (Inr (map snd data), fs))"

definition FileStore :: "string \<Rightarrow> file_system Store" where
  "FileStore base = \<lparr>SaveSession = FileStore_SaveSession base, DeleteSession = FileStore_DeleteSession base,
     ListSessions = FileStore_ListSessions base\<rparr>"

subsection \<open>The contract of a store\<close>

locale session_store =
  fixes ops :: "'s Store"
    and view :: "'s \<Rightarrow> string \<rightharpoonup> SessionSnapshot"
    and invar :: "'s \<Rightarrow> bool"
  assumes save_ok: "invar st \<Longrightarrow> SaveSession ops snap st = (None, st')
      \<Longrightarrow> view st' = (view st)(sn_ControllerID snap \<mapsto> snap)"
    and save_err: "invar st \<Longrightarrow> SaveSession ops snap st = (Some e, st') \<Longrightarrow> view st' = view st"
    and save_invar: "invar st \<Longrightarrow> invar (snd (SaveSession ops snap st))"
    and delete_ok: "invar st \<Longrightarrow> DeleteSession ops k st = (None, st') \<Longrightarrow> view st' = (view st)(k := None)"
    and delete_err: "invar st \<Longrightarrow> DeleteSession ops k st = (Some e, st') \<Longrightarrow> view st' = view st"
    and delete_invar: "invar st \<Longrightarrow> invar (snd (DeleteSession ops k st))"
    and list_ok: "invar st \<Longrightarrow> ListSessions ops st = (Inr l, st')
      \<Longrightarrow> view st' = view st \<and> distinct (map sn_ControllerID l)
        \<and> map_of (map (\<lambda>s. (sn_ControllerID s, s)) l) = view st"
    and list_err: "invar st \<Longrightarrow> ListSessions ops st = (Inl e, st') \<Longrightarrow> view st' = view st"
    and list_invar: "invar st \<Longrightarrow> invar (snd (ListSessions ops st))"
begin

text \<open>A save changes at most the entry of its own controller.\<close>

lemma save_frame:
  assumes "invar st" "k \<noteq> sn_ControllerID snap"
  shows "view (snd (SaveSession ops snap st)) k = view st k"
  using assms save_ok [of st snap] save_err [of st snap]
  by (cases "SaveSession ops snap st"; cases "fst (SaveSession ops snap st)") auto

lemma list_mem:
  assumes "invar st" "ListSessions ops st = (Inr l, st')"
  shows "s \<in> set l \<longleftrightarrow> view st (sn_ControllerID s) = Some s"
proof -
  note l = list_ok [OF assms]
  have "distinct (map fst (map (\<lambda>s. (sn_ControllerID s, s)) l))" using l by (simp add: comp_def)
  then have "(sn_ControllerID s, s) \<in> set (map (\<lambda>s. (sn_ControllerID s, s)) l)
      \<longleftrightarrow> map_of (map (\<lambda>s. (sn_ControllerID s, s)) l) (sn_ControllerID s) = Some s"
    by (rule map_of_eq_Some_iff [symmetric])
  with l show ?thesis by auto
qed

end

text \<open>The representation invariant of both stores: distinct keys, each the id of its snapshot.\<close>

definition snapshots_ok :: "snapshots \<Rightarrow> bool" where
  "snapshots_ok m \<longleftrightarrow> wf_map m \<and> (\<forall>k s. map_of m k = Some s \<longrightarrow> sn_ControllerID s = k)"

lemma snapshots_ok_Nil [simp]: "snapshots_ok []"
  by (simp add: snapshots_ok_def)

lemma snapshots_ok_update [simp]:
  "snapshots_ok m \<Longrightarrow> snapshots_ok (AList.update (sn_ControllerID s) s m)"
  by (simp add: snapshots_ok_def)

lemma snapshots_ok_delete [simp]: "snapshots_ok m \<Longrightarrow> snapshots_ok (AList.delete k m)"
  by (simp add: snapshots_ok_def)

lemma snapshots_ok_list:
  assumes "snapshots_ok m"
  shows "map (\<lambda>s. (sn_ControllerID s, s)) (map snd m) = m" "map sn_ControllerID (map snd m) = map fst m"
    "distinct (map fst m)"
proof -
  have "sn_ControllerID s = k" if "(k, s) \<in> set m" for k s
    using assms that by (auto simp: snapshots_ok_def in_map_iff)
  then show "map (\<lambda>s. (sn_ControllerID s, s)) (map snd m) = m" "map sn_ControllerID (map snd m) = map fst m"
    by (auto intro!: map_idI)
  show "distinct (map fst m)" using assms by (simp add: snapshots_ok_def wf_map_def)
qed

lemmas mem_defs = InMemoryStore_def InMemoryStore_SaveSession_def InMemoryStore_DeleteSession_def
  InMemoryStore_ListSessions_def

interpretation memst: session_store InMemoryStore map_of snapshots_ok
proof
  fix st l st'
  assume ok: "snapshots_ok st" and "ListSessions InMemoryStore st = (Inr l, st')"
  then have "l = map snd st" "st' = st" by (auto simp: mem_defs)
  with snapshots_ok_list [OF ok]
  show "map_of st' = map_of st \<and> distinct (map sn_ControllerID l)
      \<and> map_of (map (\<lambda>s. (sn_ControllerID s, s)) l) = map_of st" by (simp del: map_map)
qed (auto simp: mem_defs)

subsection \<open>The file store implements the contract\<close>

definition file_data :: "file_system \<Rightarrow> snapshots" where
  "file_data fs = (case fs_file fs of FileJSON d \<Rightarrow> d | _ \<Rightarrow> [])"

definition file_ok :: "file_system \<Rightarrow> bool" where
  "file_ok fs \<longleftrightarrow> snapshots_ok (file_data fs)"

text \<open>Steps that leave the store file alone.\<close>

definition same_file :: "file_system \<Rightarrow> file_system \<Rightarrow> bool" where
  "same_file fs fs' \<longleftrightarrow> fs_file fs' = fs_file fs"

lemma same_file_refl [simp]: "same_file fs fs"
  by (simp add: same_file_def)

lemma same_file_os_call: "same_file fs (snd (os_call fs))" "os_call fs = (r, fs') \<Longrightarrow> same_file fs fs'"
  by (auto simp: same_file_def os_call_def split: list.splits)

lemma same_file_remove_entry: "fs_file (remove_entry name fs) = fs_file fs"
  using same_file_os_call(1) [of fs]
  by (auto simp: remove_entry_def same_file_def split: prod.splits option.splits)

lemma same_file_fold_remove:
  "fs_file (fold (\<lambda>f fs. remove_entry (fst f) fs) files fs) = fs_file fs"
  by (induction files arbitrary: fs) (simp_all add: same_file_remove_entry)

lemma same_file_cleanup: "fs_file (snd (cleanupCorruptBackups base n fs)) = fs_file fs"
  using same_file_os_call(1) [of fs]
  by (auto simp: cleanupCorruptBackups_def same_file_def same_file_fold_remove Let_def
      split: prod.splits option.splits)

text \<open>Reading never changes what the file represents, also when it moves a corrupt file away.\<close>

lemma rename_corrupt_file: "fs_file (rename_corrupt base fs) \<in> {fs_file fs, FileAbsent}"
  using same_file_os_call(1) [of fs]
  by (auto simp: rename_corrupt_def same_file_def Let_def split: prod.splits option.splits)

lemma readAllLocked_file:
  assumes "readAllLocked base fs = (r, fs')"
  shows "file_data fs' = file_data fs \<and> (\<forall>data. r = Inr data \<longrightarrow> data = file_data fs)"
proof (cases "fs_file fs = FileAbsent")
  case True
  with assms show ?thesis by (auto simp: readAllLocked_def file_data_def)
next
  case False
  obtain r1 fs1 where c1: "os_call fs = (r1, fs1)" by (rule prod.exhaust)
  then have f1: "fs_file fs1 = fs_file fs" using same_file_os_call(2) [OF c1] unfolding same_file_def by simp
  show ?thesis
  proof (cases "r1 = None \<and> fs_file fs = FileCorrupt")
    case True
    let ?fs2 = "rename_corrupt base fs1"
    have "r = Inr []" and fs': "fs' = snd (cleanupCorruptBackups base maxCorruptBackups ?fs2)"
      using assms True f1 by (simp_all add: readAllLocked_def c1)
    moreover have "fs_file ?fs2 \<in> {FileCorrupt, FileAbsent}"
      using rename_corrupt_file [of base fs1] True f1 by simp
    ultimately show ?thesis
      using True same_file_cleanup [of base maxCorruptBackups ?fs2] by (auto simp: file_data_def)
  next
    case False
    with assms f1 \<open>fs_file fs \<noteq> FileAbsent\<close> show ?thesis
      by (cases r1; cases "fs_file fs") (auto simp: readAllLocked_def c1 file_data_def)
  qed
qed

text \<open>The calls of a write either stop at an error with the file untouched, or all succeed.\<close>

lemma os_then_file:
  assumes "os_then fs k = (r, fs')" "\<And>fs1 r fs'. fs_file fs1 = fs_file fs \<Longrightarrow> k fs1 = (r, fs') \<Longrightarrow> P r fs'"
    and "\<And>e fs'. fs_file fs' = fs_file fs \<Longrightarrow> P (Some e) fs'"
  shows "P r fs'"
proof (cases "os_call fs")
  case (Pair r1 fs1)
  then have f1: "fs_file fs1 = fs_file fs"
    using same_file_os_call(2) [OF Pair] unfolding same_file_def by simp
  show ?thesis
  proof (cases r1)
    case None
    with assms(1) Pair have "k fs1 = (r, fs')" by (simp add: os_then_def)
    with f1 show ?thesis by (rule assms(2))
  next
    case (Some e)
    with assms(1) Pair have "r = Some e" "fs' = fs1" by (simp_all add: os_then_def)
    with f1 show ?thesis using assms(3) by simp
  qed
qed

lemma fill_temp_file:
  assumes "fill_temp data fs = (r, fs')"
  shows "fs_file fs' = (if r = None then FileJSON data else fs_file fs)"
  using assms unfolding fill_temp_def os_then_def os_call_def
  by (auto split: list.splits option.splits)

lemma remove_temp_file: "fs_file (remove_temp fs) = fs_file fs"
  by (auto simp: remove_temp_def os_call_def split: list.splits option.splits)

lemma syncDir_file: "fs_file (snd (syncDir fs)) = fs_file fs"
  by (auto simp: syncDir_def os_then_def os_call_def split: list.splits option.splits)

lemma write_rest_file:
  assumes "(case fill_temp data fs of (Some err, fs) \<Rightarrow> (Some err, remove_temp fs)
      | (None, fs) \<Rightarrow> let (_, fs) = syncDir fs in (None, fs)) = (r, fs')"
  shows "fs_file fs' = (if r = None then FileJSON data else fs_file fs)"
proof (cases "fill_temp data fs")
  case (Pair r1 fs1)
  have "fs_file fs1 = (if r1 = None then FileJSON data else fs_file fs)"
    using Pair by (rule fill_temp_file)
  with assms Pair syncDir_file [of fs1] show ?thesis
    by (cases r1) (auto simp: remove_temp_file split_beta)
qed

lemma writeAllLocked_file:
  assumes "writeAllLocked data fs = (r, fs')"
  shows "fs_file fs' = (if r = None then FileJSON data else fs_file fs)"
  using assms unfolding writeAllLocked_def
  by (elim os_then_file) (use write_rest_file [of data] in \<open>fastforce+\<close>)

lemmas file_defs = FileStore_def FileStore_SaveSession_def FileStore_DeleteSession_def FileStore_ListSessions_def

lemma file_update:
  assumes "(case readAllLocked base fs of (Inl err, fs) \<Rightarrow> (Some err, fs)
      | (Inr data, fs) \<Rightarrow> writeAllLocked (f data) fs) = (r, fs')"
  shows "file_data fs' = (if r = None then f (file_data fs) else file_data fs)"
proof (cases "readAllLocked base fs")
  case (Pair r1 fs1)
  note read = readAllLocked_file [OF Pair]
  show ?thesis
  proof (cases r1)
    case (Inl e)
    with assms Pair read show ?thesis by auto
  next
    case (Inr data)
    with assms Pair have "writeAllLocked (f data) fs1 = (r, fs')" by simp
    from writeAllLocked_file [OF this] read Inr show ?thesis by (auto simp: file_data_def)
  qed
qed

interpretation filest: session_store "FileStore base" "\<lambda>fs. map_of (file_data fs)" file_ok for base
proof
  fix st st' :: file_system and snap k e l
  note save = file_update [where f = "AList.update (sn_ControllerID snap) snap" and base = base]
  note del = file_update [where f = "AList.delete k" and base = base]
  assume ok: "file_ok st"
  show "file_ok (snd (SaveSession (FileStore base) snap st))"
    using ok save [of st "fst (SaveSession (FileStore base) snap st)" "snd (SaveSession (FileStore base) snap st)"]
    by (simp add: file_ok_def file_defs)
  show "file_ok (snd (DeleteSession (FileStore base) k st))"
    using ok del [of st "fst (DeleteSession (FileStore base) k st)" "snd (DeleteSession (FileStore base) k st)"]
    by (simp add: file_ok_def file_defs)
  show "map_of (file_data st') = (map_of (file_data st))(sn_ControllerID snap \<mapsto> snap)"
    if "SaveSession (FileStore base) snap st = (None, st')"
    using that save [of st None st'] by (simp add: file_defs)
  show "map_of (file_data st') = map_of (file_data st)"
    if "SaveSession (FileStore base) snap st = (Some e, st')"
    using that save [of st "Some e" st'] by (simp add: file_defs)
  show "map_of (file_data st') = (map_of (file_data st))(k := None)"
    if "DeleteSession (FileStore base) k st = (None, st')"
    using that del [of st None st'] by (simp add: file_defs)
  show "map_of (file_data st') = map_of (file_data st)"
    if "DeleteSession (FileStore base) k st = (Some e, st')"
    using that del [of st "Some e" st'] by (simp add: file_defs)
  obtain r fs1 where read: "readAllLocked base st = (r, fs1)" by (rule prod.exhaust)
  note rd = readAllLocked_file [OF read]
  show "file_ok (snd (ListSessions (FileStore base) st))"
    using ok read rd by (cases r) (simp_all add: file_defs file_ok_def)
  show "map_of (file_data st') = map_of (file_data st)"
    if "ListSessions (FileStore base) st = (Inl e, st')"
    using that read rd by (cases r) (simp_all add: file_defs)
  show "map_of (file_data st') = map_of (file_data st) \<and> distinct (map sn_ControllerID l)
      \<and> map_of (map (\<lambda>s. (sn_ControllerID s, s)) l) = map_of (file_data st)"
    if "ListSessions (FileStore base) st = (Inr l, st')"
  proof -
    have "l = map snd (file_data st)" "st' = fs1" using that read rd by (cases r; simp add: file_defs)+
    then show ?thesis
      using ok rd snapshots_ok_list [of "file_data st"] by (simp add: file_ok_def del: map_map)
  qed
qed

subsection \<open>Pruning the backups\<close>

lemma newer_backup_order:
  "\<not> newer_backup a b \<Longrightarrow> \<not> newer_backup b c \<Longrightarrow> \<not> newer_backup a c"
  "newer_backup a b \<Longrightarrow> \<not> newer_backup b a"
  "fst a \<noteq> fst b \<Longrightarrow> newer_backup a b \<or> newer_backup b a"
  by (auto simp: newer_backup_def split: if_splits)

lemma fold_remove_no_faults:
  assumes "fs_faults fs = []"
  shows "fold (\<lambda>f fs. remove_entry (fst f) fs) files fs
    = fs\<lparr>fs_entries := filter (\<lambda>e. de_Name e \<notin> fst ` set files) (fs_entries fs)\<rparr>"
  using assms
proof (induction files arbitrary: fs)
  case (Cons f files)
  have "remove_entry (fst f) fs = fs\<lparr>fs_entries := filter (\<lambda>e. de_Name e \<noteq> fst f) (fs_entries fs)\<rparr>"
    using Cons.prems by (simp add: remove_entry_def os_call_def)
  with Cons show ?case by (simp add: conj_commute)
qed simp

lemma backup_files_mem: "f \<in> set (backup_files base es) \<Longrightarrow> fst f \<in> de_Name ` set es"
  by (induction es) (auto simp: Let_def split: if_splits option.splits)

lemma backup_files_distinct: "distinct (map de_Name es) \<Longrightarrow> distinct (map fst (backup_files base es))"
  by (induction es) (auto simp: Let_def dest: backup_files_mem split: option.splits)

lemma backup_files_filter:
  "backup_files base (filter (\<lambda>e. de_Name e \<notin> A) es) = filter (\<lambda>f. fst f \<notin> A) (backup_files base es)"
  by (induction es) (auto simp: Let_def split: option.splits)

lemma kept_after_sort:
  assumes "distinct (map fst files)" "srt = sort_slice newer_backup files" "k \<le> length files"
  defines "kept \<equiv> filter (\<lambda>f. fst f \<notin> fst ` set (drop k srt)) files"
  shows "set kept = set (take k srt)" "length kept = k"
    and "b \<in> set (take k srt) \<Longrightarrow> c \<in> set (drop k srt) \<Longrightarrow> newer_backup b c"
proof -
  have dist: "distinct (map fst srt)"
    using assms(1) mset_eq_imp_distinct_iff [of "map fst srt" "map fst files"] by (simp add: assms(2))
  then have "distinct (map fst (take k srt @ drop k srt))" by simp
  then have disj: "fst ` set (take k srt) \<inter> fst ` set (drop k srt) = {}"
    unfolding map_append distinct_append by simp
  have un: "set (take k srt) \<union> set (drop k srt) = set files"
    unfolding set_append [symmetric] append_take_drop_id by (simp add: assms(2))
  from disj un show kept: "set kept = set (take k srt)"
    unfolding kept_def set_filter by blast
  have "distinct kept" using assms(1) by (simp add: kept_def distinct_map)
  moreover have "distinct (take k srt)" using dist by (simp add: distinct_map)
  ultimately have "length kept = length (take k srt)" using kept by (metis distinct_card)
  with assms(2,3) show "length kept = k" by simp
  have "sorted_wrt (\<lambda>a b. \<not> newer_backup b a) (take k srt @ drop k srt)"
    unfolding append_take_drop_id assms(2) by (rule sorted_sort_slice [OF newer_backup_order(1,2)])
  then have "\<not> newer_backup c b" if "b \<in> set (take k srt)" "c \<in> set (drop k srt)" for b c
    unfolding sorted_wrt_append using that by blast
  moreover have "fst b \<noteq> fst c" if "b \<in> set (take k srt)" "c \<in> set (drop k srt)" for b c
    using that disj by (metis IntI empty_iff imageI)
  ultimately show "b \<in> set (take k srt) \<Longrightarrow> c \<in> set (drop k srt) \<Longrightarrow> newer_backup b c"
    using newer_backup_order(3) by blast
qed

subsection \<open>Properties\<close>



definition sample_dir :: file_system where
  "sample_dir = \<lparr>fs_file = FileCorrupt, fs_modified = 9, fs_entries = map (\<lambda>i. \<lparr>de_Name = ''s.corrupt-'' @ [i],
     de_IsDir = False, de_ModTime = Some 1\<rparr>) ''abcdef'', fs_temps = 0, fs_now = 7, fs_faults = []\<rparr>"


end
