(* ===== verification/CRC16.thy ===== *)
theory CRC16
  imports Adapter_Prelude
begin

text \<open>
  The checksum of the wire format (\<^verbatim>\<open>internal/protocol/crc16.go\<close>): the bitwise loop of
  \<^verbatim>\<open>CRC16Modbus\<close>, and the two facts the frame codec rests on. The loop body is a
  bijection of the 16-bit state for a fixed byte, so two messages that differ in
  exactly one byte never have the same checksum; and appending the checksum in
  little-endian order drives the state to 0.
\<close>

definition crc_bit :: "u16 \<Rightarrow> u16" where
  "crc_bit crc = (if crc AND 1 \<noteq> 0 then drop_bit 1 crc XOR 0xA001 else drop_bit 1 crc)"

definition crc_byte :: "u16 \<Rightarrow> byte \<Rightarrow> u16" where
  "crc_byte crc b = (crc_bit ^^ 8) (crc XOR ucast b)"

definition CRC16Modbus :: "byte list \<Rightarrow> u16" where
  "CRC16Modbus data = foldl crc_byte 0xFFFF data"

lemma CRC16Modbus_append: "CRC16Modbus (xs @ ys) = foldl crc_byte (CRC16Modbus xs) ys"
  by (simp add: CRC16Modbus_def)

lemma crc_byte_unfold:
  "crc_byte c b = crc_bit (crc_bit (crc_bit (crc_bit (crc_bit (crc_bit (crc_bit (crc_bit (c XOR ucast b))))))))"
  by (simp add: crc_byte_def eval_nat_numeral)

text \<open>The published check value of CRC-16/MODBUS, the test vector of \<^verbatim>\<open>frame_test.go\<close>.\<close>

lemma CRC16Modbus_check_value: "CRC16Modbus (bytes_of ''123456789'') = 0x4B37"
  by (simp add: CRC16Modbus_def crc_byte_unfold crc_bit_def bytes_of_def)

subsection \<open>One step is injective\<close>

lemma bit_crc_bit:
  "bit (crc_bit c) n \<longleftrightarrow> (bit c (Suc n) \<noteq> (bit c 0 \<and> bit (0xA001 :: u16) n))"
  by (auto simp: crc_bit_def bit_simps and_one_eq odd_iff_mod_2_eq_one bit_0)

lemma inj_crc_bit: "inj crc_bit"
proof (rule injI)
  fix c d :: u16 assume eq: "crc_bit c = crc_bit d"
  have top: "bit (crc_bit x) 15 \<longleftrightarrow> bit x 0" for x
    using bit_imp_le_length [of x 16] by (auto simp: bit_crc_bit)
  have b0: "bit c 0 \<longleftrightarrow> bit d 0" using top [of c] top [of d] eq by simp
  have "bit c (Suc n) \<longleftrightarrow> bit d (Suc n)" for n
    using bit_crc_bit [of c n] bit_crc_bit [of d n] b0 eq by auto
  with b0 have "bit c n \<longleftrightarrow> bit d n" for n by (cases n) auto
  then show "c = d" by (simp add: bit_eq_iff)
qed

lemma xor_cancel:
  "c XOR x = d XOR x \<longleftrightarrow> c = d" "x XOR c = x XOR d \<longleftrightarrow> c = d" for c d x :: u16
  by (auto simp: bit_eq_iff bit_xor_iff)

lemma crc_byte_inject_state: "crc_byte c b = crc_byte d b \<longleftrightarrow> c = d"
proof -
  have "inj (crc_bit ^^ 8)" using inj_crc_bit by (rule inj_fn)
  then have "crc_byte c b = crc_byte d b \<longleftrightarrow> c XOR ucast b = d XOR ucast b"
    by (auto simp: crc_byte_def inj_eq)
  then show ?thesis by (simp add: xor_cancel)
qed

lemma ucast_down_up: "ucast (ucast a :: u16) = a" for a :: byte
  by (auto simp: bit_eq_iff bit_simps)

lemma crc_byte_inject_byte: "crc_byte c a = crc_byte c b \<longleftrightarrow> a = b"
proof -
  have "inj (crc_bit ^^ 8)" using inj_crc_bit by (rule inj_fn)
  then have "crc_byte c a = crc_byte c b \<longleftrightarrow> c XOR ucast a = c XOR ucast b"
    by (auto simp: crc_byte_def inj_eq)
  also have "\<dots> \<longleftrightarrow> (ucast a :: u16) = ucast b"
    by (simp add: xor_cancel)
  also have "\<dots> \<longleftrightarrow> a = b"
    by (metis ucast_down_up)
  finally show ?thesis .
qed

lemma crc_bytes_inject_state: "foldl crc_byte c ys = foldl crc_byte d ys \<longleftrightarrow> c = d"
  by (induction ys arbitrary: c d) (simp_all add: crc_byte_inject_state)

lemma CRC16Modbus_one_byte:
  "CRC16Modbus (xs @ a # ys) = CRC16Modbus (xs @ b # ys) \<longleftrightarrow> a = b"
  by (simp add: CRC16Modbus_append crc_bytes_inject_state crc_byte_inject_byte)

subsection \<open>The checksum of a checked message\<close>

lemma crc_bit_pow_zero_low:
  "\<forall>i<n. \<not> bit w i \<Longrightarrow> (crc_bit ^^ n) w = drop_bit n w"
proof (induction n)
  case (Suc n)
  then have "(crc_bit ^^ Suc n) w = crc_bit (drop_bit n w)" by simp
  also have "\<dots> = drop_bit (Suc n) w"
    using Suc.prems by (auto simp: bit_eq_iff bit_crc_bit bit_simps)
  finally show ?case .
qed simp

lemma crc_byte_own_low: "crc_byte c (ucast c) = drop_bit 8 c"
proof -
  have "crc_byte c (ucast c) = drop_bit 8 (c XOR ucast (ucast c :: byte))"
    unfolding crc_byte_def by (rule crc_bit_pow_zero_low) (auto simp: bit_simps)
  also have "\<dots> = drop_bit 8 c"
    by (auto simp: bit_eq_iff bit_simps)
  finally show ?thesis .
qed

lemma crc_byte_own_high: "crc_byte (drop_bit 8 c) (ucast (drop_bit 8 c)) = 0"
proof -
  have "drop_bit 8 c XOR ucast (ucast (drop_bit 8 c) :: byte) = 0"
    by (auto simp: bit_eq_iff bit_simps dest: bit_imp_le_length)
  then show ?thesis
    using crc_bit_pow_zero_low [of 8 0] by (simp add: crc_byte_def)
qed

lemma CRC16Modbus_residue: "CRC16Modbus (data @ le16 (CRC16Modbus data)) = 0"
  by (simp add: CRC16Modbus_append le16_def crc_byte_own_low crc_byte_own_high)

end
