(* ===== verification/Messages.thy ===== *)
theory Messages
  imports Go_Strings
begin

text \<open>
  Protocol constants and the parsers of controller messages
  (\<^verbatim>\<open>internal/protocol/constants.go\<close>, \<^verbatim>\<open>internal/protocol/messages.go\<close>). A payload starts with
  its command id. Each parser checks the length, then the id, then reads its fields;
  the lemmas give, for each parser, exactly the payloads it accepts and that the
  fields it returns are the bytes of the payload.
\<close>

subsection \<open>Command ids and acknowledgement codes\<close>

abbreviation (input) CmdRegistrationAck :: u8 where "CmdRegistrationAck \<equiv> 1"
abbreviation (input) CmdReboot :: u8 where "CmdReboot \<equiv> 2"
abbreviation (input) CmdFactoryReset :: u8 where "CmdFactoryReset \<equiv> 3"
abbreviation (input) CmdSetTriggers :: u8 where "CmdSetTriggers \<equiv> 5"
abbreviation (input) CmdCaptureID :: u8 where "CmdCaptureID \<equiv> 6"
abbreviation (input) CmdRequestPhoto :: u8 where "CmdRequestPhoto \<equiv> 7"
abbreviation (input) CmdControlOutputs :: u8 where "CmdControlOutputs \<equiv> 8"
abbreviation (input) CmdRequestEvents :: u8 where "CmdRequestEvents \<equiv> 9"
abbreviation (input) CmdRequestSMSIDs :: u8 where "CmdRequestSMSIDs \<equiv> 10"
abbreviation (input) CmdSendSMS :: u8 where "CmdSendSMS \<equiv> 11"
abbreviation (input) CmdSyncSettings :: u8 where "CmdSyncSettings \<equiv> 12"
abbreviation (input) CmdSyncIDs :: u8 where "CmdSyncIDs \<equiv> 13"
abbreviation (input) CmdSyncSchedules :: u8 where "CmdSyncSchedules \<equiv> 14"
abbreviation (input) CmdSyncGroups :: u8 where "CmdSyncGroups \<equiv> 15"
abbreviation (input) CmdSyncHolidays :: u8 where "CmdSyncHolidays \<equiv> 16"
abbreviation (input) CmdCRCAll :: u8 where "CmdCRCAll \<equiv> 17"
abbreviation (input) CmdCRCBlock :: u8 where "CmdCRCBlock \<equiv> 18"
abbreviation (input) CmdFWStart :: u8 where "CmdFWStart \<equiv> 19"
abbreviation (input) CmdFWBlock :: u8 where "CmdFWBlock \<equiv> 20"
abbreviation (input) CmdPhotoUploadReq :: u8 where "CmdPhotoUploadReq \<equiv> 21"
abbreviation (input) CmdStatus2Req :: u8 where "CmdStatus2Req \<equiv> 22"
abbreviation (input) CmdSetTime :: u8 where "CmdSetTime \<equiv> 23"
abbreviation (input) CmdControllerAck :: u8 where "CmdControllerAck \<equiv> 24"
abbreviation (input) CmdBindingResponse :: u8 where "CmdBindingResponse \<equiv> 25"
abbreviation (input) CmdCustom :: u8 where "CmdCustom \<equiv> 27"
abbreviation (input) AckCodeOK :: u8 where "AckCodeOK \<equiv> 0"
abbreviation (input) AckCodeParamError :: u8 where "AckCodeParamError \<equiv> 1"
abbreviation (input) AckCodeExecError :: u8 where "AckCodeExecError \<equiv> 2"
abbreviation (input) AckCodeInvalidResult :: u8 where "AckCodeInvalidResult \<equiv> 3"
abbreviation (input) AckCodePasswordNeeded :: u8 where "AckCodePasswordNeeded \<equiv> 4"
abbreviation (input) AckCodeStarted :: u8 where "AckCodeStarted \<equiv> 5"
abbreviation (input) AckCodeCancel :: u8 where "AckCodeCancel \<equiv> 6"
abbreviation (input) AckCodeNextSet :: u8 where "AckCodeNextSet \<equiv> 7"
abbreviation (input) AckCodeCRCError :: u8 where "AckCodeCRCError \<equiv> 254"
abbreviation (input) AckCodeUnsupported :: u8 where "AckCodeUnsupported \<equiv> 255"

definition IsAckExecutionCodeAllowed :: "u8 \<Rightarrow> bool" where
  "IsAckExecutionCodeAllowed code = (code \<in> set [AckCodeOK, AckCodeParamError, AckCodeExecError,
     AckCodeInvalidResult, AckCodePasswordNeeded, AckCodeStarted, AckCodeCancel, AckCodeNextSet,
     AckCodeCRCError, AckCodeUnsupported])"

definition isKnownCommandID :: "u8 \<Rightarrow> bool" where
  "isKnownCommandID cmd =
     (cmd \<in> set [1, 2, 3, 4, 5, 6, 7, 8, 9, 10, 11, 12, 13, 14, 15, 16, 17, 18, 19, 20, 21, 22,
       23, 24, 25, 27])"

definition isDigitsOnly :: "string \<Rightarrow> bool" where
  "isDigitsOnly value = (IndexFunc value (\<lambda>r. r < 48 \<or> r > 57) = -1)"

text \<open>The rune-wise test accepts exactly the strings of ASCII digits.\<close>

lemma isDigitsOnly_bytes:
  "isDigitsOnly s \<longleftrightarrow> (\<forall>b\<in>set (bytes_of s). 48 \<le> unat b \<and> unat b \<le> 57)"
  unfolding isDigitsOnly_def
  by (subst IndexFunc_bytes) (auto simp del: of_nat_unat simp: not_less)

subsection \<open>Registration\<close>

record Registration =
  reg_IMEI :: string
  reg_ProtocolVersion :: u8
  reg_HWVersion :: u8

fun trim_zeros_end :: "byte list \<Rightarrow> nat \<Rightarrow> nat" where
  "trim_zeros_end raw 0 = 0"
| "trim_zeros_end raw (Suc e) = (if raw ! e = 0 then trim_zeros_end raw e else Suc e)"

definition ParseRegistrationPayload :: "byte list \<Rightarrow> go_error + Registration" where
  "ParseRegistrationPayload payload =
     (if length payload < 18
      then Inl (Errorf ''registration payload too short: %d'' [FNat (length payload)])
      else if payload ! 0 \<noteq> 1
      then Inl (Errorf ''unexpected cmd id: %d'' [FByte (payload ! 0)])
      else let imeiRaw = go_slice 1 16 payload;
               endp = trim_zeros_end imeiRaw (length imeiRaw);
               imei = string_of (go_slice 0 endp imeiRaw)
           in if imei = [] then Inl (Errorf ''empty imei'' [])
              else if \<not> isDigitsOnly imei then Inl (Errorf ''invalid imei: %q'' [FQuoted imei])
              else Inr \<lparr>reg_IMEI = imei, reg_ProtocolVersion = payload ! 16,
                        reg_HWVersion = payload ! 17\<rparr>)"

lemma trim_zeros_end_le: "trim_zeros_end raw n \<le> n"
  by (induction n) auto

lemma trim_zeros_end_zeros: "trim_zeros_end raw n \<le> i \<Longrightarrow> i < n \<Longrightarrow> raw ! i = 0"
  by (induction n) (auto simp: less_Suc_eq split: if_splits)

lemma trim_zeros_end_last: "0 < trim_zeros_end raw n \<Longrightarrow> raw ! (trim_zeros_end raw n - 1) \<noteq> 0"
  by (induction n) auto

lemma trim_zeros_end_eqI:
  assumes "m \<le> n" "\<forall>i. m \<le> i \<longrightarrow> i < n \<longrightarrow> raw ! i = 0" "0 < m \<Longrightarrow> raw ! (m - 1) \<noteq> 0"
  shows "trim_zeros_end raw n = m"
  using assms
proof (induction n)
  case (Suc n)
  show ?case
  proof (cases "m = Suc n")
    case True
    with Suc.prems show ?thesis by simp
  next
    case False
    with Suc.prems have "m \<le> n" "raw ! n = 0" by auto
    with Suc show ?thesis by simp
  qed
qed simp

lemma ParseRegistration_ok:
  "ParseRegistrationPayload p = Inr r \<Longrightarrow>
     18 \<le> length p \<and> p ! 0 = 1 \<and> reg_IMEI r \<noteq> [] \<and> length (reg_IMEI r) \<le> 15 \<and>
     isDigitsOnly (reg_IMEI r) \<and> reg_ProtocolVersion r = p ! 16 \<and> reg_HWVersion r = p ! 17"
  using trim_zeros_end_le [of "go_slice 1 16 p" "length (go_slice 1 16 p)"]
  by (auto simp: ParseRegistrationPayload_def Let_def len_simps split: if_splits)

lemma ParseRegistration_first_digit:
  assumes "ParseRegistrationPayload p = Inr r"
  shows "48 \<le> unat (p ! 1)"
proof -
  let ?raw = "go_slice 1 16 p"
  let ?e = "trim_zeros_end ?raw (length ?raw)"
  have p: "18 \<le> length p" and d: "isDigitsOnly (reg_IMEI r)" and ne: "reg_IMEI r \<noteq> []"
    using ParseRegistration_ok [OF assms] by auto
  have imei: "reg_IMEI r = string_of (go_slice 0 ?e ?raw)"
    using assms by (auto simp: ParseRegistrationPayload_def Let_def split: if_splits)
  with ne have "go_slice 0 ?e ?raw ! 0 \<in> set (go_slice 0 ?e ?raw)" by (intro nth_mem) auto
  moreover have "go_slice 0 ?e ?raw ! 0 = p ! 1"
  proof -
    have "?e \<noteq> 0" using ne imei by (auto simp: go_slice_def)
    with p show ?thesis by (simp add: go_slice_def)
  qed
  ultimately show ?thesis using d by (auto simp: isDigitsOnly_bytes imei)
qed

text \<open>A payload made of the id, the zero-padded IMEI and the two versions parses to these.\<close>

lemma ParseRegistration_encoded:
  assumes "imei \<noteq> []" "length imei \<le> 15" "isDigitsOnly imei"
  shows "ParseRegistrationPayload
           (1 # bytes_of imei @ replicate (15 - length imei) 0 @ pv # hw # rest)
         = Inr \<lparr>reg_IMEI = imei, reg_ProtocolVersion = pv, reg_HWVersion = hw\<rparr>"
proof -
  let ?raw = "bytes_of imei @ replicate (15 - length imei) 0"
  let ?p = "1 # bytes_of imei @ replicate (15 - length imei) 0 @ pv # hw # rest"
  have raw: "go_slice 1 16 ?p = ?raw"
    using assms(2) by (simp add: go_slice_def)
  have len: "length ?raw = 15" using assms(2) by simp
  have nz: "bytes_of imei ! i \<noteq> 0" if "i < length imei" for i
  proof
    assume "bytes_of imei ! i = 0"
    moreover have "48 \<le> unat (bytes_of imei ! i)"
      using assms(3) that by (auto simp: isDigitsOnly_bytes)
    ultimately show False by simp
  qed
  have "trim_zeros_end ?raw 15 = length imei"
    using assms nz by (intro trim_zeros_end_eqI) (auto simp: nth_append)
  moreover have "?p ! 16 = pv" "?p ! 17 = hw"
    using assms(2) by (auto simp: nth_append)
  ultimately show ?thesis
    using assms len unfolding ParseRegistrationPayload_def raw
    by (simp add: Let_def go_slice_def)
qed

subsection \<open>Status, acknowledgement and firmware messages\<close>

record Status1 =
  st1_ControllerTime :: u32
  st1_Flags :: u16
  st1_BufferFree :: u16

record Ack11 =
  a11_CommandSeq :: u8
  a11_ExecutionCode :: u8
  a11_ControllerTime :: u32
  a11_BufferFreeBytes :: u16

record FWStatus4 =
  fw4_CommandSeq :: u8
  fw4_ProgressOrErr :: u8
  fw4_ExecutionCode :: u8

definition ParseStatus1Payload :: "byte list \<Rightarrow> go_error + Status1" where
  "ParseStatus1Payload payload =
     (if length payload < 9
      then Inl (Errorf ''status1 payload too short: %d'' [FNat (length payload)])
      else if payload ! 0 \<noteq> 2
      then Inl (Errorf ''unexpected cmd id: %d'' [FByte (payload ! 0)])
      else Inr \<lparr>st1_ControllerTime = Uint32 (go_slice 1 5 payload),
                st1_Flags = Uint16 (go_slice 5 7 payload),
                st1_BufferFree = Uint16 (go_slice 7 9 payload)\<rparr>)"

definition ParseAck11Payload :: "byte list \<Rightarrow> go_error + Ack11" where
  "ParseAck11Payload payload =
     (if length payload < 9
      then Inl (Errorf ''ack11 payload too short: %d'' [FNat (length payload)])
      else if payload ! 0 \<noteq> 11
      then Inl (Errorf ''unexpected cmd id: %d'' [FByte (payload ! 0)])
      else Inr \<lparr>a11_CommandSeq = payload ! 1, a11_ExecutionCode = payload ! 2,
                a11_ControllerTime = Uint32 (go_slice 3 7 payload),
                a11_BufferFreeBytes = Uint16 (go_slice 7 9 payload)\<rparr>)"

definition ParseFWStatus4Payload :: "byte list \<Rightarrow> go_error + FWStatus4" where
  "ParseFWStatus4Payload payload =
     (if length payload < 4
      then Inl (Errorf ''fw status payload too short: %d'' [FNat (length payload)])
      else if payload ! 0 \<noteq> 4
      then Inl (Errorf ''unexpected cmd id: %d'' [FByte (payload ! 0)])
      else Inr \<lparr>fw4_CommandSeq = payload ! 1, fw4_ProgressOrErr = payload ! 2,
                fw4_ExecutionCode = payload ! 3\<rparr>)"

definition Status1ReadyForFW :: "u16 \<Rightarrow> bool" where
  "Status1ReadyForFW flags = (flags AND push_bit 11 1 \<noteq> 0)"

definition IsFWFinished :: "u8 \<Rightarrow> bool" where
  "IsFWFinished progress = (progress = 248)"

definition IsFWFailed :: "u8 \<Rightarrow> bool" where
  "IsFWFailed progress = (progress \<ge> 249 \<and> progress \<le> 255)"

lemma Status1ReadyForFW_bit: "Status1ReadyForFW flags \<longleftrightarrow> bit flags 11"
  using and_exp_eq_0_iff_not_bit [of flags 11] by (simp add: Status1ReadyForFW_def)

record Ack11Status =
  as_Status :: string
  as_Terminal :: bool
  as_Reason :: string

definition InterpretAck11ExecutionCode :: "u8 \<Rightarrow> Ack11Status" where
  "InterpretAck11ExecutionCode code =
     (if code = 0 then \<lparr>as_Status = ''delivered'', as_Terminal = True, as_Reason = ''ok''\<rparr>
      else if code = 1 then \<lparr>as_Status = ''failed'', as_Terminal = True, as_Reason = ''parameter_error''\<rparr>
      else if code = 2 then \<lparr>as_Status = ''failed'', as_Terminal = True, as_Reason = ''execution_error''\<rparr>
      else if code = 3 then \<lparr>as_Status = ''failed'', as_Terminal = True, as_Reason = ''invalid_result''\<rparr>
      else if code = 4 then \<lparr>as_Status = ''failed'', as_Terminal = True, as_Reason = ''password_required''\<rparr>
      else if code = 5 then \<lparr>as_Status = ''in_progress'', as_Terminal = False, as_Reason = ''command_started''\<rparr>
      else if code = 6 then \<lparr>as_Status = ''expired'', as_Terminal = True, as_Reason = ''stale_command''\<rparr>
      else if code = 254 then \<lparr>as_Status = ''failed'', as_Terminal = True, as_Reason = ''crc_error''\<rparr>
      else if code = 255 then \<lparr>as_Status = ''unsupported'', as_Terminal = True, as_Reason = ''command_not_supported''\<rparr>
      else \<lparr>as_Status = ''failed'', as_Terminal = True, as_Reason = ''unknown_code''\<rparr>)"

lemma Interpret_terminal: "as_Terminal (InterpretAck11ExecutionCode code) \<longleftrightarrow> code \<noteq> AckCodeStarted"
  by (simp add: InterpretAck11ExecutionCode_def)

end
