(* ===== verification/Frame_Codec.thy ===== *)
theory Frame_Codec
  imports CRC16 Messages
begin

text \<open>
  The frame codec (\<^verbatim>\<open>internal/protocol/frame.go\<close>):
  marker, length, TTL, optional sequence number, payload, checksum. A \<^verbatim>\<open>bufio.Reader\<close> is
  the bytes still to be read and the error the connection gives after them
  (\<^verbatim>\<open>io.EOF\<close> when the peer closed it, a timeout otherwise); reading returns the reader
  that is left. The lemmas reduce reading to one equation on a well-formed prefix
  (\<open>read_wire\<close>), from which the round trip, the detection of corrupted bytes and the
  mode detection of registration frames follow.
\<close>

definition ErrInvalidMarker :: go_error where
  "ErrInvalidMarker = ErrorsNew ''invalid start marker''"

definition ErrFrameTooShort :: go_error where
  "ErrFrameTooShort = ErrorsNew ''frame too short''"

definition ErrCRC :: go_error where
  "ErrCRC = ErrorsNew ''crc mismatch''"

definition StartMarker :: "byte list" where
  "StartMarker = bytes_of ''SLDN''"

datatype FrameMode = FrameModeAuto | FrameModeSequenced | FrameModeCompact

record Frame =
  f_TTL :: u8
  f_Seq :: u8
  f_Payload :: "byte list"
  f_Mode :: FrameMode

definition CommandID :: "Frame \<Rightarrow> u8 \<times> bool" where
  "CommandID f = (if length (f_Payload f) = 0 then (0, False) else (f_Payload f ! 0, True))"

definition EncodeFrame :: "Frame \<Rightarrow> go_error + byte list" where
  "EncodeFrame f =
     (if length (f_Payload f) = 0 then Inl (Errorf ''payload must include command id'' [])
      else let dataLen = 1 + length (f_Payload f);
               dataLen = (if f_Mode f \<noteq> FrameModeCompact then dataLen + 1 else dataLen)
           in if dataLen > 65535 then Inl (Errorf ''frame too large: %d'' [FNat dataLen])
              else let buf = StartMarker;
                       buf = buf @ le16 (word_of_nat dataLen);
                       buf = buf @ [f_TTL f];
                       buf = (if f_Mode f \<noteq> FrameModeCompact then buf @ [f_Seq f] else buf);
                       buf = buf @ f_Payload f;
                       crc = CRC16Modbus (drop 4 buf)
                   in Inr (buf @ le16 crc))"

subsection \<open>Reading from a connection\<close>

record reader =
  rd_buf :: "byte list"
  rd_err :: go_error

definition io_EOF :: go_error where
  "io_EOF = ErrorsNew ''EOF''"

definition io_ErrUnexpectedEOF :: go_error where
  "io_ErrUnexpectedEOF = ErrorsNew ''unexpected EOF''"

text \<open>
  \<^verbatim>\<open>io.ReadFull\<close>: all the bytes asked for, or the connection's error; an end of file in the
  middle becomes \<^verbatim>\<open>io.ErrUnexpectedEOF\<close>.
\<close>

definition ReadFull :: "reader \<Rightarrow> nat \<Rightarrow> (go_error + byte list) \<times> reader" where
  "ReadFull r n =
     (if n \<le> length (rd_buf r)
      then (Inr (take n (rd_buf r)), r\<lparr>rd_buf := drop n (rd_buf r)\<rparr>)
      else (Inl (if rd_err r = io_EOF \<and> rd_buf r \<noteq> [] then io_ErrUnexpectedEOF else rd_err r),
            r\<lparr>rd_buf := []\<rparr>))"

definition compact_frame :: "byte list \<Rightarrow> Frame" where
  "compact_frame data =
     \<lparr>f_TTL = data ! 0, f_Seq = 0, f_Payload = drop 1 data, f_Mode = FrameModeCompact\<rparr>"

definition sequenced_frame :: "byte list \<Rightarrow> Frame" where
  "sequenced_frame data =
     \<lparr>f_TTL = data ! 0, f_Seq = data ! 1, f_Payload = drop 2 data, f_Mode = FrameModeSequenced\<rparr>"

definition readAutoFrame :: "byte list \<Rightarrow> go_error + Frame" where
  "readAutoFrame data =
     (if length data < 2 then Inl ErrFrameTooShort
      else let compact = compact_frame data in
        if isl (ParseRegistrationPayload (f_Payload compact)) = False then Inr compact
        else if length data < 3 then Inr compact
        else let sequenced = sequenced_frame data in
          if isl (ParseRegistrationPayload (f_Payload sequenced)) = False then Inr sequenced
          else let (compactCmd, compactOK) = CommandID compact;
                   (sequencedCmd, sequencedOK) = CommandID sequenced
               in if compactOK \<and> \<not> sequencedOK then Inr compact
                  else if sequencedOK \<and> \<not> compactOK then Inr sequenced
                  else if compactOK \<and> \<not> isKnownCommandID sequencedCmd \<and> isKnownCommandID compactCmd
                  then Inr compact
                  else if sequencedOK \<and> \<not> isKnownCommandID compactCmd \<and> isKnownCommandID sequencedCmd
                  then Inr sequenced
                  else Inr compact)"

definition frame_of_data :: "FrameMode \<Rightarrow> byte list \<Rightarrow> go_error + Frame" where
  "frame_of_data mode data = (case mode of
     FrameModeCompact \<Rightarrow>
       if length data < 2 then Inl ErrFrameTooShort else Inr (compact_frame data)
   | FrameModeAuto \<Rightarrow> readAutoFrame data
   | FrameModeSequenced \<Rightarrow>
       if length data < 3 then Inl ErrFrameTooShort else Inr (sequenced_frame data))"

definition ReadFrameWithMode :: "reader \<Rightarrow> FrameMode \<Rightarrow> (go_error + Frame) \<times> reader" where
  "ReadFrameWithMode r mode = (case ReadFull r 6 of
     (Inl e, r1) \<Rightarrow> (Inl e, r1)
   | (Inr header, r1) \<Rightarrow>
       if header ! 0 \<noteq> StartMarker ! 0 \<or> header ! 1 \<noteq> StartMarker ! 1
          \<or> header ! 2 \<noteq> StartMarker ! 2 \<or> header ! 3 \<noteq> StartMarker ! 3
       then (Inl ErrInvalidMarker, r1)
       else let dataLen = unat (Uint16 (go_slice 4 6 header)) in
         if dataLen < 1 then (Inl ErrFrameTooShort, r1)
         else (case ReadFull r1 (dataLen + 2) of
           (Inl e, r2) \<Rightarrow> (Inl e, r2)
         | (Inr dataAndCRC, r2) \<Rightarrow>
             let wireCRC = Uint16 (drop dataLen dataAndCRC);
                 calcCRC = CRC16Modbus (go_slice 4 6 header @ take dataLen dataAndCRC)
             in if wireCRC \<noteq> calcCRC then (Inl ErrCRC, r2)
                else (frame_of_data mode (take dataLen dataAndCRC), r2)))"

definition ReadFrame :: "reader \<Rightarrow> (go_error + Frame) \<times> reader" where
  "ReadFrame r = ReadFrameWithMode r FrameModeSequenced"

subsection \<open>Encoding\<close>

lemma length_StartMarker [simp]: "length StartMarker = 4"
  by (simp add: StartMarker_def)

text \<open>The data part of a frame: what the length field counts and the checksum covers.\<close>

definition frame_data :: "Frame \<Rightarrow> byte list" where
  "frame_data f = f_TTL f # (if f_Mode f \<noteq> FrameModeCompact then [f_Seq f] else []) @ f_Payload f"

definition frame_wire :: "byte list \<Rightarrow> byte list" where
  "frame_wire data = StartMarker @ le16 (word_of_nat (length data)) @ data
     @ le16 (CRC16Modbus (le16 (word_of_nat (length data)) @ data))"

lemma EncodeFrame_eq:
  "EncodeFrame f =
     (if f_Payload f = [] then Inl (Errorf ''payload must include command id'' [])
      else if 65535 < length (frame_data f)
      then Inl (Errorf ''frame too large: %d'' [FNat (length (frame_data f))])
      else Inr (frame_wire (frame_data f)))"
  by (simp add: EncodeFrame_def frame_data_def frame_wire_def Let_def)

lemma EncodeFrame_ok:
  "EncodeFrame f = Inr w \<longleftrightarrow>
     f_Payload f \<noteq> [] \<and> length (frame_data f) \<le> 65535 \<and> w = frame_wire (frame_data f)"
  by (auto simp: EncodeFrame_eq)

lemma length_frame_data [len_simps]:
  "length (frame_data f) = (if f_Mode f = FrameModeCompact then 1 else 2) + length (f_Payload f)"
  by (simp add: frame_data_def)

lemma length_frame_wire [len_simps]: "length (frame_wire data) = 8 + length data"
  by (simp add: frame_wire_def)

subsection \<open>Reading a well-formed prefix\<close>

lemma read_wire:
  assumes "rd_buf r = StartMarker @ le16 (word_of_nat (length data)) @ data @ crc @ rest"
    and "1 \<le> length data" "length data \<le> 65535" "length crc = 2"
  shows "ReadFrameWithMode r mode =
    (if Uint16 crc = CRC16Modbus (le16 (word_of_nat (length data)) @ data)
     then frame_of_data mode data else Inl ErrCRC, r\<lparr>rd_buf := rest\<rparr>)"
proof -
  let ?len = "le16 (word_of_nat (length data))"
  have h: "ReadFull r 6 = (Inr (StartMarker @ ?len), r\<lparr>rd_buf := data @ crc @ rest\<rparr>)"
    by (simp add: ReadFull_def assms(1))
  have d: "ReadFull (r\<lparr>rd_buf := data @ crc @ rest\<rparr>) (length data + 2)
      = (Inr (data @ crc), r\<lparr>rd_buf := rest\<rparr>)"
    by (simp add: ReadFull_def assms(4))
  have "(StartMarker @ ?len) ! i = StartMarker ! i" if "i < 4" for i
    using that by (simp add: nth_append)
  note m = this [of 0] this [of 1] this [of 2] this [of 3]
  have l: "go_slice 4 6 (StartMarker @ ?len) = ?len" by (simp add: go_slice_def)
  have n: "unat (word_of_nat (length data) :: u16) = length data"
    using assms(3) by (simp add: unat_of_nat)
  have "data \<noteq> []" using assms(2) by auto
  then show ?thesis using assms(4)
    by (simp add: ReadFrameWithMode_def h l n m d Let_def del: One_nat_def add_2_eq_Suc')
qed

text \<open>What is read from an encoded frame: the frame itself, in the mode it was encoded in.\<close>

definition wire_frame :: "Frame \<Rightarrow> Frame" where
  "wire_frame f = (if f_Mode f = FrameModeCompact then f\<lparr>f_Seq := 0\<rparr>
                   else f\<lparr>f_Mode := FrameModeSequenced\<rparr>)"

lemma frame_of_data_encoded:
  assumes "f_Payload f \<noteq> []"
  shows "f_Mode f = FrameModeCompact \<Longrightarrow> frame_of_data FrameModeCompact (frame_data f) = Inr (wire_frame f)"
    "f_Mode f \<noteq> FrameModeCompact \<Longrightarrow> frame_of_data FrameModeSequenced (frame_data f) = Inr (wire_frame f)"
  using assms by (cases "f_Payload f"; simp add: frame_of_data_def frame_data_def compact_frame_def
    sequenced_frame_def wire_frame_def)+

lemma read_encoded:
  assumes "EncodeFrame f = Inr w" "rd_buf r = w @ rest"
  shows "ReadFrameWithMode r mode = (frame_of_data mode (frame_data f), r\<lparr>rd_buf := rest\<rparr>)"
proof -
  have "1 \<le> length (frame_data f)" by (simp add: len_simps)
  with assms show ?thesis
    by (subst read_wire [where data = "frame_data f" and rest = rest])
      (auto simp: EncodeFrame_ok frame_wire_def)
qed

subsection \<open>Corrupted frames\<close>

lemma read_bad_marker:
  assumes "6 \<le> length (rd_buf r)" "i < 4" "rd_buf r ! i \<noteq> StartMarker ! i"
  shows "fst (ReadFrameWithMode r mode) = Inl ErrInvalidMarker"
proof -
  have "i = 0 \<or> i = 1 \<or> i = 2 \<or> i = 3" using assms(2) by linarith
  moreover have "take 6 (rd_buf r) ! j = rd_buf r ! j" if "j < 4" for j
    using that by simp
  ultimately show ?thesis using assms(1,3)
    by (auto simp: ReadFrameWithMode_def ReadFull_def)
qed

lemma crc_byte_changed:
  assumes "i < length xs" "xs ! i \<noteq> b"
  shows "CRC16Modbus (pre @ xs[i := b]) \<noteq> CRC16Modbus (pre @ xs)"
proof -
  have xs: "xs = take i xs @ xs ! i # drop (Suc i) xs"
    using assms(1) by (rule id_take_nth_drop)
  have "CRC16Modbus (pre @ xs[i := b]) = CRC16Modbus ((pre @ take i xs) @ b # drop (Suc i) xs)"
    using assms(1) by (simp add: upd_conv_take_nth_drop)
  also have "\<dots> \<noteq> CRC16Modbus ((pre @ take i xs) @ xs ! i # drop (Suc i) xs)"
    using assms(2) by (simp only: CRC16Modbus_one_byte not_False_eq_True)
  finally show ?thesis using xs by simp
qed

lemma frame_nth:
  assumes "6 \<le> i"
  shows "(StartMarker @ le16 n @ xs) ! i = xs ! (i - 6)"
  using assms nth_append_right [of "StartMarker @ le16 n" i xs] by (simp add: len_simps)

lemma frame_update:
  assumes "6 \<le> i"
  shows "(StartMarker @ le16 n @ xs)[i := b] = StartMarker @ le16 n @ xs[i - 6 := b]"
  using assms list_update_append [of "StartMarker @ le16 n" xs i b] by (simp add: len_simps)

lemma read_changed_body:
  assumes "1 \<le> length data" "length data \<le> 65535"
    and "6 \<le> i" "i < length (frame_wire data)" "frame_wire data ! i \<noteq> b"
    and "rd_buf r = (frame_wire data)[i := b] @ rest"
  shows "ReadFrameWithMode r mode = (Inl ErrCRC, r\<lparr>rd_buf := rest\<rparr>)"
proof -
  let ?len = "le16 (word_of_nat (length data))"
  let ?crc = "CRC16Modbus (?len @ data)"
  have w: "frame_wire data = StartMarker @ ?len @ data @ le16 ?crc" by (simp add: frame_wire_def)
  show ?thesis
  proof (cases "i - 6 < length data")
    case True
    let ?d = "data[i - 6 := b]"
    have "frame_wire data ! i = data ! (i - 6)"
      unfolding w frame_nth [OF assms(3)] using True by (simp add: nth_append)
    then have ne: "CRC16Modbus (?len @ ?d) \<noteq> ?crc"
      using crc_byte_changed [of "i - 6" data b ?len] True assms(5) by simp
    have "rd_buf r = StartMarker @ ?len @ ?d @ le16 ?crc @ rest"
      using assms(6) True unfolding w frame_update [OF assms(3)] by (simp add: list_update_append)
    then show ?thesis
      using read_wire [of r ?d "le16 ?crc" rest mode] assms(1,2) ne by simp
  next
    case False
    let ?c = "(le16 ?crc)[i - 6 - length data := b]"
    have "frame_wire data ! i = le16 ?crc ! (i - 6 - length data)"
      unfolding w frame_nth [OF assms(3)] using False by (simp add: nth_append)
    moreover have "i - 6 - length data < length (le16 ?crc)"
      using assms(3,4) False by (simp add: len_simps)
    ultimately have "?c \<noteq> le16 ?crc" using assms(5) by (metis nth_list_update_eq)
    then have ne: "Uint16 ?c \<noteq> ?crc" using le16_Uint16 [of ?c] by auto
    have "rd_buf r = StartMarker @ ?len @ data @ ?c @ rest"
      using assms(6) False unfolding w frame_update [OF assms(3)] by (simp add: list_update_append)
    then show ?thesis
      using read_wire [of r data ?c rest mode] assms(1,2) ne by simp
  qed
qed

subsection \<open>Mode detection on registration\<close>

lemma readAutoFrame_registration:
  assumes "ParseRegistrationPayload (f_Payload f) = Inr reg"
  shows "readAutoFrame (frame_data f) = Inr (wire_frame f)"
proof (cases "f_Mode f = FrameModeCompact")
  case True
  have "f_Payload f \<noteq> []" using ParseRegistration_ok [OF assms] by auto
  with True assms show ?thesis
    by (cases "f_Payload f")
      (simp_all add: readAutoFrame_def frame_data_def compact_frame_def wire_frame_def)
next
  case False
  have p: "18 \<le> length (f_Payload f)" "f_Payload f ! 0 = 1"
    using ParseRegistration_ok [OF assms] by auto
  have "isl (ParseRegistrationPayload (f_Seq f # f_Payload f))"
  proof (rule ccontr)
    assume "\<not> isl (ParseRegistrationPayload (f_Seq f # f_Payload f))"
    then obtain r where "ParseRegistrationPayload (f_Seq f # f_Payload f) = Inr r"
      by (metis isl_def sum.exhaust)
    from ParseRegistration_first_digit [OF this] p show False by simp
  qed
  moreover have "f_Payload f \<noteq> []" using p by auto
  ultimately show ?thesis using False assms
    by (simp add: readAutoFrame_def frame_data_def compact_frame_def sequenced_frame_def
      wire_frame_def Let_def)
qed

subsection \<open>Properties\<close>

text \<open>
  (C1) Round trip on a stream: when \<^verbatim>\<open>EncodeFrame\<close> succeeds, a reader positioned at the start of
  the encoded bytes gets the frame back in the mode it was encoded in (the sequence number is
  not on the wire in compact mode), consumes exactly those bytes and leaves what follows.
\<close>

theorem frame_roundtrip:
  assumes "EncodeFrame f = Inr w" "rd_buf r = w @ rest"
    and "mode = (if f_Mode f = FrameModeCompact then FrameModeCompact else FrameModeSequenced)"
  shows "ReadFrameWithMode r mode =
    (Inr (f\<lparr>f_Seq := if mode = FrameModeCompact then 0 else f_Seq f, f_Mode := mode\<rparr>),
     r\<lparr>rd_buf := rest\<rparr>)"
proof -
  have "f_Payload f \<noteq> []" using assms(1) by (simp add: EncodeFrame_ok)
  with assms(3) show ?thesis
    by (simp add: read_encoded [OF assms(1,2)] frame_of_data_encoded wire_frame_def)
qed

definition sample_frame :: "FrameMode \<Rightarrow> Frame" where
  "sample_frame m = \<lparr>f_TTL = 5, f_Seq = 7, f_Payload = [3, 1], f_Mode = m\<rparr>"

lemma sample_crc: "CRC16Modbus [4, 0, 5, 7, 3, 1] = 41585"
  by (simp add: CRC16Modbus_def crc_byte_unfold crc_bit_def)

lemma EncodeFrame_sample:
  "EncodeFrame (sample_frame FrameModeSequenced) = Inr [83, 76, 68, 78, 4, 0, 5, 7, 3, 1, 113, 162]"
  by (simp add: EncodeFrame_eq sample_frame_def frame_data_def frame_wire_def StartMarker_def
    le16_def bytes_of_def sample_crc)

theorem frame_roundtrip_witness:
  "ReadFrameWithMode \<lparr>rd_buf = [83, 76, 68, 78, 4, 0, 5, 7, 3, 1, 113, 162, 99], rd_err = io_EOF\<rparr>
     FrameModeSequenced = (Inr (sample_frame FrameModeSequenced), \<lparr>rd_buf = [99], rd_err = io_EOF\<rparr>)"
  using frame_roundtrip [OF EncodeFrame_sample,
      of "\<lparr>rd_buf = [83, 76, 68, 78, 4, 0, 5, 7, 3, 1, 113, 162, 99], rd_err = io_EOF\<rparr>" "[99]"
        FrameModeSequenced]
  by (simp add: sample_frame_def)

text \<open>
  (C2) One corrupted byte is always noticed outside the length field: a changed marker byte gives
  \<^verbatim>\<open>ErrInvalidMarker\<close>, and a changed byte of the data or of the checksum gives \<^verbatim>\<open>ErrCRC\<close>, with the
  whole frame consumed so that the next frame can be read.
\<close>

theorem frame_corruption_detected:
  assumes "EncodeFrame f = Inr w" "i < length w" "w ! i \<noteq> b" "i \<noteq> 4" "i \<noteq> 5"
    and "rd_buf r = w[i := b] @ rest"
  shows "if i < 4 then fst (ReadFrameWithMode r mode) = Inl ErrInvalidMarker
         else ReadFrameWithMode r mode = (Inl ErrCRC, r\<lparr>rd_buf := rest\<rparr>)"
proof (cases "i < 4")
  case True
  have w: "w = frame_wire (frame_data f)" using assms(1) by (simp add: EncodeFrame_ok)
  then have "w ! i = StartMarker ! i" using True by (simp add: frame_wire_def nth_append)
  then have "rd_buf r ! i \<noteq> StartMarker ! i" using assms(2,3,6) by (simp add: nth_append)
  moreover have "6 \<le> length (rd_buf r)" using w assms(6) by (simp add: len_simps)
  ultimately show ?thesis using True read_bad_marker by simp
next
  case False
  then have "6 \<le> i" using assms(4,5) by simp
  moreover have "1 \<le> length (frame_data f)" by (simp add: len_simps)
  ultimately show ?thesis using False assms read_changed_body [of "frame_data f" i b r rest mode]
    by (simp add: EncodeFrame_ok)
qed

theorem frame_corruption_detected_witness:
  "ReadFrameWithMode \<lparr>rd_buf = [83, 76, 68, 78, 4, 0, 5, 7, 3, 0, 113, 162, 99], rd_err = io_EOF\<rparr>
     FrameModeAuto = (Inl ErrCRC, \<lparr>rd_buf = [99], rd_err = io_EOF\<rparr>)"
  using frame_corruption_detected [OF EncodeFrame_sample, of 9 0
      "\<lparr>rd_buf = [83, 76, 68, 78, 4, 0, 5, 7, 3, 0, 113, 162, 99], rd_err = io_EOF\<rparr>" "[99]"
        FrameModeAuto]
  by simp

text \<open>
  (C23) Automatic mode detection is right on the first frame of a connection: a frame whose payload
  is a valid registration is read in the mode it was encoded in, whichever that is, with any TTL
  and any sequence number.
\<close>

theorem auto_mode_registration:
  assumes "EncodeFrame f = Inr w" "rd_buf r = w @ rest"
    and "ParseRegistrationPayload (f_Payload f) = Inr reg"
  shows "ReadFrameWithMode r FrameModeAuto = (Inr (wire_frame f), r\<lparr>rd_buf := rest\<rparr>)"
  using read_encoded [OF assms(1,2)] readAutoFrame_registration [OF assms(3)]
  by (simp add: frame_of_data_def)

definition sample_registration :: Frame where
  "sample_registration = \<lparr>f_TTL = 255, f_Seq = 1, f_Payload = 1 # bytes_of ''490154203237518'' @ [2, 1],
     f_Mode = FrameModeSequenced\<rparr>"

lemma Parse_sample_registration:
  "ParseRegistrationPayload (f_Payload sample_registration)
     = Inr \<lparr>reg_IMEI = ''490154203237518'', reg_ProtocolVersion = 2, reg_HWVersion = 1\<rparr>"
  using ParseRegistration_encoded [of "''490154203237518''" 2 1 "[]"]
  by (simp add: sample_registration_def isDigitsOnly_bytes bytes_of_def)

theorem auto_mode_registration_witness:
  "\<exists>w reg. EncodeFrame sample_registration = Inr w
     \<and> ParseRegistrationPayload (f_Payload sample_registration) = Inr reg
     \<and> fst (ReadFrameWithMode \<lparr>rd_buf = w, rd_err = io_EOF\<rparr> FrameModeAuto) = Inr sample_registration"
proof -
  let ?f = sample_registration
  have e: "EncodeFrame ?f = Inr (frame_wire (frame_data ?f))"
    by (simp add: EncodeFrame_ok sample_registration_def frame_data_def)
  show ?thesis
    using auto_mode_registration [OF e, of "\<lparr>rd_buf = frame_wire (frame_data ?f), rd_err = io_EOF\<rparr>" "[]",
        OF _ Parse_sample_registration] e Parse_sample_registration by (simp add: wire_frame_def sample_registration_def)
qed

text \<open>
  \<^verbatim>\<open>EncodeFrame\<close> accepts exactly the frames with a command id whose data part fits the 16-bit
  length field; the result starts with the marker and the length, is 8 bytes longer than the
  data part, and the checksum taken over length, data and stored checksum is zero.
\<close>

lemma EncodeFrame_spec:
  "case EncodeFrame f of
     Inl _ \<Rightarrow> f_Payload f = [] \<or> 65535 < length (frame_data f)
   | Inr w \<Rightarrow> f_Payload f \<noteq> [] \<and> length (frame_data f) \<le> 65535
       \<and> length w = 8 + length (frame_data f) \<and> take 4 w = StartMarker
       \<and> unat (Uint16 (go_slice 4 6 w)) = length (frame_data f)
       \<and> CRC16Modbus (drop 4 w) = 0"
proof (cases "EncodeFrame f")
  case (Inl e)
  then show ?thesis by (auto simp: EncodeFrame_eq split: if_splits)
next
  case (Inr w)
  let ?len = "le16 (word_of_nat (length (frame_data f)))"
  have w: "w = frame_wire (frame_data f)" and l: "length (frame_data f) \<le> 65535"
    using Inr by (simp_all add: EncodeFrame_ok)
  have "go_slice 4 6 w = ?len" by (simp add: w frame_wire_def go_slice_def)
  then have "unat (Uint16 (go_slice 4 6 w)) = length (frame_data f)"
    using l by (simp add: unat_of_nat)
  moreover have "CRC16Modbus (drop 4 w) = 0"
    using CRC16Modbus_residue [of "?len @ frame_data f"] by (simp add: w frame_wire_def)
  moreover have "length w = 8 + length (frame_data f)" "take 4 w = StartMarker"
    by (simp_all add: w length_frame_wire) (simp add: frame_wire_def)
  moreover have "f_Payload f \<noteq> []" using Inr by (simp add: EncodeFrame_ok)
  ultimately show ?thesis using Inr l by simp
qed

end
