(* ===== verification/Session_Manager.thy ===== *)
theory Session_Manager
  imports Session_Store Frame_Codec
begin

text \<open>
  The session manager (\<^verbatim>\<open>internal/session/manager.go\<close>). \<open>Manager\<close> is the struct without its
  mutex: every method holds the lock for its whole body, so each is one function from state to
  state. The sessions are reached through pointers in the map, so a change of a session is a
  change of the map's entry (\<open>put_session\<close>), visible also on the paths that return an error.
  The store is the interface value \<open>ops\<close> together with its state \<open>m_store\<close>. Readings of the
  clock are arguments, in the order of the calls. A loop over a Go map follows an explicit
  order of keys where the result may depend on it.
\<close>

subsection \<open>Types\<close>

definition ErrSessionExists :: go_error where
  "ErrSessionExists = ErrorsNew ''controller session already exists''"

definition ErrSessionNotFound :: go_error where
  "ErrSessionNotFound = ErrorsNew ''controller session not found''"

definition ErrDuplicate :: go_error where
  "ErrDuplicate = ErrorsNew ''duplicate command''"

definition ErrQueueFull :: go_error where
  "ErrQueueFull = ErrorsNew ''controller queue is full''"

definition ErrQueueBytesFull :: go_error where
  "ErrQueueBytesFull = ErrorsNew ''controller queue bytes limit exceeded''"

text \<open>A connection: its identity and what \<^verbatim>\<open>RemoteAddr()\<close> returns.\<close>

record net_conn =
  conn_id :: nat
  conn_RemoteAddr :: "string option"

record InFlightEntry =
  ife_Seq :: u8
  ife_Command :: Command
  ife_SentAt :: time
  ife_Attempts :: int

record Session =
  ses_ControllerID :: string
  ses_Conn :: "net_conn option"
  ses_Queue :: ControllerQueue
  ses_LastSeen :: time
  ses_lastTouchedPersistedAt :: time
  ses_BufferFree :: int
  ses_FWMode :: bool
  ses_SyncMode :: bool
  ses_Dedup :: "(string, time) gomap"
  ses_InFlight :: "(u8, InFlightEntry) gomap"
  ses_NextSeq :: u8
  ses_FrameMode :: FrameMode

record DeliveryContext =
  dc_ControllerID :: string
  dc_Conn :: "net_conn option"
  dc_Queue :: ControllerQueue
  dc_BufferFree :: int
  dc_FWMode :: bool
  dc_SyncMode :: bool
  dc_FrameMode :: FrameMode

record InFlightOutcome =
  out_Type :: string
  out_Seq :: u8
  out_Command :: Command
  out_Attempts :: int
  out_Reason :: string

record DeliveryPolicy =
  pol_AckTimeout :: duration
  pol_RetryBackoff :: duration
  pol_MaxRetries :: int

type_synonym DeliveryPolicyResolver = "string \<Rightarrow> Command \<Rightarrow> DeliveryPolicy"

record 's Manager =
  m_sessions :: "(string, Session) gomap"
  m_maxConns :: int
  m_maxQueueDepth :: int
  m_maxQueueBytes :: int
  m_overflowPolicy :: string
  m_store :: 's

definition touchPersistInterval :: duration where
  "touchPersistInterval = 5 * second"

record OverflowEvent =
  ev_ControllerID :: string
  ev_LimitType :: string
  ev_Policy :: string
  ev_Action :: string

record Stats =
  st_SessionCount :: int
  st_QueueDepthSum :: int
  st_QueueDepthMax :: int
  st_QueueBytesSum :: int
  st_QueueBytesMax :: int
  st_InFlightCountSum :: int
  st_InFlightCountMax :: int
  st_OnlineSessionCount :: int

record ControllerQueueStat =
  cqs_ControllerID :: string
  cqs_QueueDepth :: int
  cqs_QueueBytes :: int
  cqs_InFlight :: int
  cqs_Online :: bool
  cqs_LastSeen :: time

record ControllerSessionStat =
  css_ControllerID :: string
  css_RemoteAddr :: string
  css_QueueDepth :: int
  css_QueueBytes :: int
  css_InFlight :: int
  css_Online :: bool
  css_LastSeen :: time
  css_BufferFree :: int
  css_FWMode :: bool
  css_SyncMode :: bool
  css_NextSeq :: u8

definition NewManager :: "int \<Rightarrow> int \<Rightarrow> int \<Rightarrow> string \<Rightarrow> 's \<Rightarrow> 's Manager" where
  "NewManager maxConns maxQueueDepth maxQueueBytes overflowPolicy st =
     (let overflowPolicy = (if overflowPolicy = [] then ''drop_oldest'' else overflowPolicy)
      in \<lparr>m_sessions = [], m_maxConns = maxConns, m_maxQueueDepth = maxQueueDepth,
          m_maxQueueBytes = maxQueueBytes, m_overflowPolicy = overflowPolicy, m_store = st\<rparr>)"

subsection \<open>Persistence\<close>

definition put_session :: "Session \<Rightarrow> 's Manager \<Rightarrow> 's Manager" where
  "put_session s m = m\<lparr>m_sessions := AList.update (ses_ControllerID s) s (m_sessions m)\<rparr>"

definition snapshot_of :: "Session \<Rightarrow> SessionSnapshot" where
  "snapshot_of s =
     \<lparr>sn_ControllerID = ses_ControllerID s, sn_LastSeen = ses_LastSeen s, sn_BufferFree = ses_BufferFree s,
      sn_FWMode = ses_FWMode s, sn_SyncMode = ses_SyncMode s, sn_Pending = Queue_Snapshot (ses_Queue s),
      sn_InFlight = map (\<lambda>(seq, v). \<lparr>ifs_Seq = ife_Seq v, ifs_Command = ife_Command v, ifs_SentAt = ife_SentAt v,
        ifs_Attempts = ife_Attempts v\<rparr>) (ses_InFlight s),
      sn_NextSeq = ses_NextSeq s\<rparr>"

definition persistLocked :: "'s Store \<Rightarrow> Session \<Rightarrow> 's Manager \<Rightarrow> go_error option \<times> 's Manager" where
  "persistLocked ops s m =
     (let (err, st) = SaveSession ops (snapshot_of s) (m_store m) in (err, m\<lparr>m_store := st\<rparr>))"

text \<open>\<open>update_session\<close>: change a session in place and persist it, as most setters do.\<close>

definition update_session :: "'s Store \<Rightarrow> Session \<Rightarrow> 's Manager \<Rightarrow> go_error option \<times> 's Manager" where
  "update_session ops s m = persistLocked ops s (put_session s m)"

subsection \<open>Sessions\<close>

definition onlineConnectionsLocked :: "'s Manager \<Rightarrow> int" where
  "onlineConnectionsLocked m =
     foldl (\<lambda>n (_, s). if ses_Conn s \<noteq> None then n + 1 else n) 0 (m_sessions m)"

definition new_session :: "string \<Rightarrow> net_conn option \<Rightarrow> time \<Rightarrow> Session" where
  "new_session controllerID conn now =
     \<lparr>ses_ControllerID = controllerID, ses_Conn = conn, ses_Queue = NewControllerQueue, ses_LastSeen = now,
      ses_lastTouchedPersistedAt = now, ses_BufferFree = 1500, ses_FWMode = False, ses_SyncMode = False,
      ses_Dedup = [], ses_InFlight = [], ses_NextSeq = 0, ses_FrameMode = FrameModeSequenced\<rparr>"

definition add_session :: "'s Store \<Rightarrow> Session \<Rightarrow> 's Manager \<Rightarrow> (go_error + Session) \<times> 's Manager" where
  "add_session ops s m =
     (let m = put_session s m;
          (err, m) = persistLocked ops s m
      in case err of
           Some e \<Rightarrow> (Inl e, m\<lparr>m_sessions := AList.delete (ses_ControllerID s) (m_sessions m)\<rparr>)
         | None \<Rightarrow> (Inr s, m))"

definition Create :: "'s Store \<Rightarrow> string \<Rightarrow> net_conn \<Rightarrow> time \<Rightarrow> 's Manager \<Rightarrow> (go_error + Session) \<times> 's Manager" where
  "Create ops controllerID conn now m = (case map_of (m_sessions m) controllerID of
     Some existing \<Rightarrow>
       if ses_Conn existing \<noteq> None then (Inl ErrSessionExists, m)
       else let prevConn = ses_Conn existing;
                prevLastSeen = ses_LastSeen existing;
                s = existing\<lparr>ses_Conn := Some conn, ses_LastSeen := now\<rparr>;
                s = (if ses_BufferFree s \<le> 0 then s\<lparr>ses_BufferFree := 1500\<rparr> else s);
                (err, m) = update_session ops s m
            in (case err of
                  Some e \<Rightarrow> (Inl e, put_session (s\<lparr>ses_Conn := prevConn, ses_LastSeen := prevLastSeen\<rparr>) m)
                | None \<Rightarrow> (Inr s, m))
   | None \<Rightarrow>
       if onlineConnectionsLocked m \<ge> m_maxConns m then (Inl (ErrorsNew ''max connections reached''), m)
       else add_session ops (new_session controllerID (Some conn) now) m)"

definition createDetachedLocked :: "'s Store \<Rightarrow> string \<Rightarrow> time \<Rightarrow> 's Manager \<Rightarrow> (go_error + Session) \<times> 's Manager" where
  "createDetachedLocked ops controllerID now m = add_session ops (new_session controllerID None now) m"

definition Manager_Delete :: "'s Store \<Rightarrow> string \<Rightarrow> 's Manager \<Rightarrow> 's Manager" where
  "Manager_Delete ops controllerID m =
     (let m = m\<lparr>m_sessions := AList.delete controllerID (m_sessions m)\<rparr>;
          (_, st) = DeleteSession ops controllerID (m_store m)
      in m\<lparr>m_store := st\<rparr>)"

definition MarkOffline :: "'s Store \<Rightarrow> string \<Rightarrow> time \<Rightarrow> 's Manager \<Rightarrow> go_error option \<times> 's Manager" where
  "MarkOffline ops controllerID now m = (case map_of (m_sessions m) controllerID of
     Some s \<Rightarrow> update_session ops (s\<lparr>ses_Conn := None, ses_LastSeen := now\<rparr>) m
   | None \<Rightarrow> (None, m))"

definition Manager_Get :: "string \<Rightarrow> 's Manager \<Rightarrow> Session option" where
  "Manager_Get controllerID m = map_of (m_sessions m) controllerID"

definition Touch :: "'s Store \<Rightarrow> string \<Rightarrow> time \<Rightarrow> 's Manager \<Rightarrow> 's Manager" where
  "Touch ops controllerID now m = (case map_of (m_sessions m) controllerID of
     Some s \<Rightarrow>
       let s = s\<lparr>ses_LastSeen := now\<rparr> in
       if time_sub now (ses_lastTouchedPersistedAt s) < touchPersistInterval then put_session s m
       else let s = s\<lparr>ses_lastTouchedPersistedAt := now\<rparr>;
                (_, m) = update_session ops s m
            in m
   | None \<Rightarrow> m)"

subsection \<open>Enqueueing\<close>

definition bytes_exceeded :: "'s Manager \<Rightarrow> ControllerQueue \<Rightarrow> Command \<Rightarrow> bool" where
  "bytes_exceeded m q cmd \<longleftrightarrow>
     m_maxQueueBytes m > 0 \<and> TotalEstimatedBytes q + EstimatedCommandBytes cmd > m_maxQueueBytes m"

definition depth_exceeded :: "'s Manager \<Rightarrow> ControllerQueue \<Rightarrow> bool" where
  "depth_exceeded m q \<longleftrightarrow> m_maxQueueDepth m > 0 \<and> Queue_Len q + 1 > m_maxQueueDepth m"

definition fits :: "'s Manager \<Rightarrow> ControllerQueue \<Rightarrow> Command \<Rightarrow> bool" where
  "fits m q cmd =
     (if depth_exceeded m q then False else if bytes_exceeded m q cmd then False else True)"

definition overflow_event :: "string \<Rightarrow> string \<Rightarrow> string \<Rightarrow> string \<Rightarrow> OverflowEvent" where
  "overflow_event controllerID limitType policy action =
     \<lparr>ev_ControllerID = controllerID, ev_LimitType = limitType, ev_Policy = policy, ev_Action = action\<rparr>"

text \<open>The loop \<^verbatim>\<open>for !fits()\<close> of the policy \<^verbatim>\<open>drop_oldest\<close>: error, events, and the queue after the drops.\<close>

function drop_until_fits ::
  "'s Manager \<Rightarrow> string \<Rightarrow> Command \<Rightarrow> ControllerQueue \<Rightarrow> OverflowEvent list
     \<Rightarrow> go_error option \<times> OverflowEvent list \<times> ControllerQueue" where
  "drop_until_fits m controllerID cmd q events =
     (if fits m q cmd then (None, events, q)
      else let limitType = (if bytes_exceeded m q cmd then ''bytes'' else ''depth'') in
        case DropOldest q of
          (None, q') \<Rightarrow>
            if m_maxQueueBytes m > 0 \<and> EstimatedCommandBytes cmd > m_maxQueueBytes m
            then (Some ErrQueueBytesFull, events @ [overflow_event controllerID ''bytes'' ''drop_oldest'' ''rejected''], q')
            else (Some ErrQueueFull, events @ [overflow_event controllerID limitType ''drop_oldest'' ''rejected''], q')
        | (Some _, q') \<Rightarrow>
            drop_until_fits m controllerID cmd q'
              (events @ [overflow_event controllerID limitType ''drop_oldest'' ''dropped'']))"
  by pat_completeness auto

termination drop_until_fits
  by (relation "measure (\<lambda>(m, controllerID, cmd, q, events). length (Queue_Snapshot q))")
    (auto simp: cq.drop_shrinks dest: sym)

declare drop_until_fits.simps [simp del]

text \<open>The policy switch: what happens to the queue when the command does not fit.\<close>

definition make_room :: "'s Manager \<Rightarrow> string \<Rightarrow> Command \<Rightarrow> ControllerQueue
    \<Rightarrow> go_error option \<times> OverflowEvent list \<times> ControllerQueue" where
  "make_room m controllerID cmd q =
     (if fits m q cmd then (None, [], q)
      else if m_overflowPolicy m = ''reject''
      then if bytes_exceeded m q cmd
           then (Some ErrQueueBytesFull, [overflow_event controllerID ''bytes'' ''reject'' ''rejected''], q)
           else if depth_exceeded m q
           then (Some ErrQueueFull, [overflow_event controllerID ''depth'' ''reject'' ''rejected''], q)
           else (Some ErrQueueFull, [], q)
      else if m_overflowPolicy m = ''drop_oldest'' then drop_until_fits m controllerID cmd q []
      else (Some ErrQueueFull, [], q))"

definition is_duplicate :: "Session \<Rightarrow> Command \<Rightarrow> time \<Rightarrow> bool" where
  "is_duplicate s cmd now =
     (cmd_DedupKey cmd \<noteq> [] \<and>
      (case map_of (ses_Dedup s) (cmd_DedupKey cmd) of
         Some t \<Rightarrow> time_sub now t < 10 * minute
       | None \<Rightarrow> False))"

definition enqueue_session :: "'s Store \<Rightarrow> time \<Rightarrow> time \<Rightarrow> Session \<Rightarrow> Command \<Rightarrow> 's Manager
    \<Rightarrow> go_error option \<times> OverflowEvent list \<times> 's Manager" where
  "enqueue_session ops now1 now2 s cmd m =
     (if is_duplicate s cmd now1 then (Some ErrDuplicate, [], m)
      else let s = (if cmd_DedupKey cmd \<noteq> []
                    then s\<lparr>ses_Dedup := AList.update (cmd_DedupKey cmd) now2 (ses_Dedup s)\<rparr> else s);
               (err, events, q) = make_room m (ses_ControllerID s) cmd (ses_Queue s);
               s = s\<lparr>ses_Queue := q\<rparr>
           in case err of
                Some e \<Rightarrow> (Some e, events, put_session s m)
              | None \<Rightarrow>
                  let s = s\<lparr>ses_Queue := Queue_Push (ses_Queue s) cmd\<rparr>;
                      (err, m) = update_session ops s m
                  in (err, events, m))"

definition enqueueLocked :: "'s Store \<Rightarrow> time \<Rightarrow> time \<Rightarrow> time \<Rightarrow> string \<Rightarrow> Command \<Rightarrow> 's Manager
    \<Rightarrow> go_error option \<times> OverflowEvent list \<times> 's Manager" where
  "enqueueLocked ops now0 now1 now2 controllerID cmd m =
     (case (case map_of (m_sessions m) controllerID of
              Some s \<Rightarrow> (Inr s, m)
            | None \<Rightarrow> createDetachedLocked ops controllerID now0 m) of
        (Inl err, m) \<Rightarrow> (Some err, [], m)
      | (Inr s, m) \<Rightarrow> enqueue_session ops now1 now2 s cmd m)"

definition EnqueueWithEvents :: "'s Store \<Rightarrow> time \<Rightarrow> time \<Rightarrow> time \<Rightarrow> string \<Rightarrow> Command \<Rightarrow> 's Manager
    \<Rightarrow> go_error option \<times> OverflowEvent list \<times> 's Manager" where
  "EnqueueWithEvents ops now0 now1 now2 controllerID cmd m =
     enqueueLocked ops now0 now1 now2 controllerID cmd m"

definition Enqueue :: "'s Store \<Rightarrow> time \<Rightarrow> time \<Rightarrow> time \<Rightarrow> string \<Rightarrow> Command \<Rightarrow> 's Manager
    \<Rightarrow> go_error option \<times> 's Manager" where
  "Enqueue ops now0 now1 now2 controllerID cmd m =
     (let (err, _, m) = enqueueLocked ops now0 now1 now2 controllerID cmd m in (err, m))"

subsection \<open>Settings\<close>

definition UpdateBufferFree :: "string \<Rightarrow> int \<Rightarrow> 's Manager \<Rightarrow> 's Manager" where
  "UpdateBufferFree controllerID free m = (case map_of (m_sessions m) controllerID of
     Some s \<Rightarrow> put_session (s\<lparr>ses_BufferFree := free\<rparr>) m
   | None \<Rightarrow> m)"

definition SetFWMode :: "'s Store \<Rightarrow> string \<Rightarrow> bool \<Rightarrow> 's Manager \<Rightarrow> go_error option \<times> 's Manager" where
  "SetFWMode ops controllerID enabled m = (case map_of (m_sessions m) controllerID of
     Some s \<Rightarrow> update_session ops (s\<lparr>ses_FWMode := enabled\<rparr>) m
   | None \<Rightarrow> (None, m))"

definition SetSyncMode :: "'s Store \<Rightarrow> string \<Rightarrow> bool \<Rightarrow> 's Manager \<Rightarrow> go_error option \<times> 's Manager" where
  "SetSyncMode ops controllerID enabled m = (case map_of (m_sessions m) controllerID of
     Some s \<Rightarrow> update_session ops (s\<lparr>ses_SyncMode := enabled\<rparr>) m
   | None \<Rightarrow> (None, m))"

definition Manager_DeliveryContext :: "string \<Rightarrow> 's Manager \<Rightarrow> DeliveryContext option" where
  "Manager_DeliveryContext controllerID m = (case map_of (m_sessions m) controllerID of
     None \<Rightarrow> None
   | Some s \<Rightarrow> Some \<lparr>dc_ControllerID = ses_ControllerID s, dc_Conn = ses_Conn s, dc_Queue = ses_Queue s,
       dc_BufferFree = ses_BufferFree s, dc_FWMode = ses_FWMode s, dc_SyncMode = ses_SyncMode s,
       dc_FrameMode = ses_FrameMode s\<rparr>)"

definition SetFrameMode :: "string \<Rightarrow> FrameMode \<Rightarrow> 's Manager \<Rightarrow> 's Manager" where
  "SetFrameMode controllerID mode m = (case map_of (m_sessions m) controllerID of
     Some s \<Rightarrow> put_session (s\<lparr>ses_FrameMode := mode\<rparr>) m
   | None \<Rightarrow> m)"

definition AckSent :: "'s Store \<Rightarrow> string \<Rightarrow> 's Manager \<Rightarrow> go_error option \<times> 's Manager" where
  "AckSent ops controllerID m = (case map_of (m_sessions m) controllerID of
     Some s \<Rightarrow> persistLocked ops s m
   | None \<Rightarrow> (None, m))"

subsection \<open>Restoring after a restart\<close>

definition restore_session :: "SessionSnapshot \<Rightarrow> Session" where
  "restore_session snap =
     (let q = Queue_Restore (sn_Pending snap);
          inFlight = foldl (\<lambda>m v. AList.update (ifs_Seq v)
             \<lparr>ife_Seq = ifs_Seq v, ife_Command = ifs_Command v, ife_SentAt = ifs_SentAt v,
              ife_Attempts = ifs_Attempts v\<rparr> m) [] (sn_InFlight snap);
          s = \<lparr>ses_ControllerID = sn_ControllerID snap, ses_Conn = None, ses_Queue = q,
               ses_LastSeen = sn_LastSeen snap, ses_lastTouchedPersistedAt = sn_LastSeen snap,
               ses_BufferFree = sn_BufferFree snap, ses_FWMode = sn_FWMode snap, ses_SyncMode = sn_SyncMode snap,
               ses_Dedup = [], ses_InFlight = inFlight, ses_NextSeq = sn_NextSeq snap,
               ses_FrameMode = FrameModeSequenced\<rparr>
      in if ses_BufferFree s \<le> 0 then s\<lparr>ses_BufferFree := 1500\<rparr> else s)"

fun restore_loop :: "SessionSnapshot list \<Rightarrow> int \<Rightarrow> 's Manager \<Rightarrow> int \<times> 's Manager" where
  "restore_loop [] n m = (n, m)"
| "restore_loop (snap # snaps) n m =
     (if sn_ControllerID snap = [] then restore_loop snaps n m
      else restore_loop snaps (n + 1) (put_session (restore_session snap) m))"

definition Manager_Restore :: "'s Store \<Rightarrow> 's Manager \<Rightarrow> (go_error + int) \<times> 's Manager" where
  "Manager_Restore ops m = (case ListSessions ops (m_store m) of
     (Inl err, st) \<Rightarrow> (Inl err, m\<lparr>m_store := st\<rparr>)
   | (Inr snapshots, st) \<Rightarrow>
       let (n, m) = restore_loop snapshots 0 (m\<lparr>m_store := st\<rparr>) in (Inr n, m))"

subsection \<open>Sequence numbers and commands in flight\<close>

definition NextCommandSeq :: "'s Store \<Rightarrow> string \<Rightarrow> 's Manager \<Rightarrow> (go_error + u8) \<times> 's Manager" where
  "NextCommandSeq ops controllerID m = (case map_of (m_sessions m) controllerID of
     None \<Rightarrow> (Inl ErrSessionNotFound, m)
   | Some s \<Rightarrow>
       let s = s\<lparr>ses_NextSeq := ses_NextSeq s + 1\<rparr>;
           seq = ses_NextSeq s;
           (_, m) = update_session ops s m
       in (Inr seq, m))"

definition RegisterInFlight :: "'s Store \<Rightarrow> string \<Rightarrow> u8 \<Rightarrow> Command \<Rightarrow> time \<Rightarrow> 's Manager
    \<Rightarrow> go_error option \<times> 's Manager" where
  "RegisterInFlight ops controllerID seq cmd sentAt m = (case map_of (m_sessions m) controllerID of
     None \<Rightarrow> (Some ErrSessionNotFound, m)
   | Some s \<Rightarrow>
       let attempts = i64 (cmd_Attempts cmd + 1);
           entry = \<lparr>ife_Seq = seq, ife_Command = cmd, ife_SentAt = sentAt, ife_Attempts = attempts\<rparr>
       in update_session ops (s\<lparr>ses_InFlight := AList.update seq entry (ses_InFlight s)\<rparr>) m)"

text \<open>\<open>None\<close> is the result \<^verbatim>\<open>ok = false\<close>.\<close>

definition AckInFlight :: "'s Store \<Rightarrow> string \<Rightarrow> u8 \<Rightarrow> 's Manager \<Rightarrow> (Command \<times> int) option \<times> 's Manager" where
  "AckInFlight ops controllerID seq m = (case map_of (m_sessions m) controllerID of
     None \<Rightarrow> (None, m)
   | Some s \<Rightarrow> (case map_of (ses_InFlight s) seq of
       None \<Rightarrow> (None, m)
     | Some entry \<Rightarrow>
         let s = s\<lparr>ses_InFlight := AList.delete seq (ses_InFlight s)\<rparr>;
             (err, m) = update_session ops s m
         in (case err of
               Some _ \<Rightarrow> (None, put_session (s\<lparr>ses_InFlight := AList.update seq entry (ses_InFlight s)\<rparr>) m)
             | None \<Rightarrow> (Some (ife_Command entry, ife_Attempts entry), m))))"

definition PeekInFlight :: "string \<Rightarrow> u8 \<Rightarrow> 's Manager \<Rightarrow> (Command \<times> int) option" where
  "PeekInFlight controllerID seq m = (case map_of (m_sessions m) controllerID of
     None \<Rightarrow> None
   | Some s \<Rightarrow> (case map_of (ses_InFlight s) seq of
       None \<Rightarrow> None
     | Some entry \<Rightarrow> Some (ife_Command entry, ife_Attempts entry)))"

definition maxRetryBackoffShift :: int where
  "maxRetryBackoffShift = 6"

definition jitterPercent :: int where
  "jitterPercent = 20"

definition lateAckGrace :: duration where
  "lateAckGrace = 2 * second"

definition xorshift64 :: "u64 \<Rightarrow> u64" where
  "xorshift64 x =
     (let x = (if x = 0 then 0x9e3779b97f4a7c15 else x);
          x = x XOR push_bit 13 x;
          x = x XOR drop_bit 7 x
      in x XOR push_bit 17 x)"

definition retryDelay :: "int \<Rightarrow> duration \<Rightarrow> u64 \<Rightarrow> duration" where
  "retryDelay attempts base seed =
     (if attempts \<le> 1 \<or> base \<le> 0 then 0
      else let shift = attempts - 2;
               shift = (if shift < 0 then 0 else shift);
               shift = (if shift > maxRetryBackoffShift then maxRetryBackoffShift else shift);
               delay = i64 (base * 2 ^ nat shift)
           in if delay < 0 then base
              else let jitterRange = i64 (delay * jitterPercent) sdiv 100 in
                if jitterRange \<le> 0 then delay
                else let span = i64 (i64 (jitterRange * 2) + 1) in
                  if span \<le> 0 then delay
                  else let v = uint (xorshift64 seed) mod span - jitterRange;
                           out = i64 (delay + v)
                       in if out < 0 then 0 else out)"

definition jitterSeedForEntry :: "InFlightEntry \<Rightarrow> u64" where
  "jitterSeedForEntry entry =
     push_bit 32 (ucast (ife_Seq entry)) OR push_bit 16 (word_of_int (ife_Attempts entry AND 0xffff))
       OR ucast (cmd_CommandID (ife_Command entry))"

definition entry_policy :: "DeliveryPolicyResolver option \<Rightarrow> string \<Rightarrow> Command \<Rightarrow> DeliveryPolicy" where
  "entry_policy resolver controllerID cmd =
     (let policy = \<lparr>pol_AckTimeout = 10 * second, pol_RetryBackoff = 0, pol_MaxRetries = 3\<rparr>;
          policy = (case resolver of None \<Rightarrow> policy | Some f \<Rightarrow> f controllerID cmd);
          policy = (if pol_AckTimeout policy \<le> 0 then policy\<lparr>pol_AckTimeout := 10 * second\<rparr> else policy)
      in if pol_MaxRetries policy < 0 then policy\<lparr>pol_MaxRetries := 0\<rparr> else policy)"

definition entry_wait :: "DeliveryPolicy \<Rightarrow> InFlightEntry \<Rightarrow> duration" where
  "entry_wait policy entry =
     (let ackTimeout = pol_AckTimeout policy;
          wait = i64 (ackTimeout + retryDelay (ife_Attempts entry) (pol_RetryBackoff policy) (jitterSeedForEntry entry))
      in if wait < 0 then ackTimeout else wait)"

text \<open>The body of the loop of \<^verbatim>\<open>ProcessInFlight\<close> for one key of the map.\<close>

definition process_entry :: "DeliveryPolicyResolver option \<Rightarrow> string \<Rightarrow> time \<Rightarrow> u8
    \<Rightarrow> Session \<times> InFlightOutcome list \<Rightarrow> Session \<times> InFlightOutcome list" where
  "process_entry resolver controllerID now seq acc = (case acc of (s, out) \<Rightarrow>
     (case map_of (ses_InFlight s) seq of
        None \<Rightarrow> (s, out)
      | Some entry \<Rightarrow>
          let policy = entry_policy resolver controllerID (ife_Command entry);
              maxRetries = pol_MaxRetries policy;
              wait = entry_wait policy entry
          in if now < ife_SentAt entry + wait then (s, out)
             else let s' = s\<lparr>ses_InFlight := AList.delete seq (ses_InFlight s)\<rparr>;
                      cmd = ife_Command entry
                  in if Expired cmd now
                     then (s', out @ [\<lparr>out_Type = ''expired'', out_Seq = seq, out_Command = cmd,
                             out_Attempts = ife_Attempts entry, out_Reason = ''ttl expired while waiting ack''\<rparr>])
                     else if ife_Attempts entry \<ge> i64 (maxRetries + 1)
                     then if now < ife_SentAt entry + i64 (wait + lateAckGrace)
                          then (s'\<lparr>ses_InFlight := AList.update seq entry (ses_InFlight s')\<rparr>, out)
                          else (s', out @ [\<lparr>out_Type = ''failed'', out_Seq = seq, out_Command = cmd,
                                  out_Attempts = ife_Attempts entry, out_Reason = ''ack timeout retries exceeded''\<rparr>])
                     else let cmd = cmd\<lparr>cmd_Attempts := ife_Attempts entry, cmd_RetrySeq := seq\<rparr>
                          in (s'\<lparr>ses_Queue := Queue_Push (ses_Queue s') cmd\<rparr>,
                              out @ [\<lparr>out_Type = ''retrying'', out_Seq = seq, out_Command = cmd,
                                out_Attempts = ife_Attempts entry, out_Reason = ''ack timeout''\<rparr>])))"

definition ProcessInFlight :: "'s Store \<Rightarrow> u8 list \<Rightarrow> string \<Rightarrow> time \<Rightarrow> DeliveryPolicyResolver option \<Rightarrow> 's Manager
    \<Rightarrow> InFlightOutcome list \<times> go_error option \<times> 's Manager" where
  "ProcessInFlight ops order controllerID now resolver m = (case map_of (m_sessions m) controllerID of
     None \<Rightarrow> ([], Some ErrSessionNotFound, m)
   | Some s \<Rightarrow>
       let (s, out) = fold (process_entry resolver controllerID now) order (s, []);
           (err, m) = update_session ops s m
       in (out, err, m))"

subsection \<open>Queries\<close>

definition ControllerIDs :: "'s Manager \<Rightarrow> string list" where
  "ControllerIDs m = map fst (m_sessions m)"

definition InFlightSeqs :: "string \<Rightarrow> 's Manager \<Rightarrow> u8 list" where
  "InFlightSeqs controllerID m = (case map_of (m_sessions m) controllerID of
     None \<Rightarrow> []
   | Some s \<Rightarrow> if length (ses_InFlight s) = 0 then []
             else sort_slice (\<lambda>a b. a < b) (map fst (ses_InFlight s)))"

definition InFlightCount :: "string \<Rightarrow> 's Manager \<Rightarrow> int" where
  "InFlightCount controllerID m = (case map_of (m_sessions m) controllerID of
     None \<Rightarrow> 0
   | Some s \<Rightarrow> int (length (ses_InFlight s)))"

definition SessionCount :: "'s Manager \<Rightarrow> int" where
  "SessionCount m = int (length (m_sessions m))"

definition add_stats :: "Session \<Rightarrow> Stats \<Rightarrow> Stats" where
  "add_stats s st =
     (let depth = Queue_Len (ses_Queue s);
          bytes = TotalEstimatedBytes (ses_Queue s);
          inFlight = int (length (ses_InFlight s));
          st = st\<lparr>st_QueueDepthSum := st_QueueDepthSum st + depth\<rparr>;
          st = (if depth > st_QueueDepthMax st then st\<lparr>st_QueueDepthMax := depth\<rparr> else st);
          st = st\<lparr>st_QueueBytesSum := st_QueueBytesSum st + bytes\<rparr>;
          st = (if bytes > st_QueueBytesMax st then st\<lparr>st_QueueBytesMax := bytes\<rparr> else st);
          st = st\<lparr>st_InFlightCountSum := st_InFlightCountSum st + inFlight\<rparr>;
          st = (if inFlight > st_InFlightCountMax st then st\<lparr>st_InFlightCountMax := inFlight\<rparr> else st)
      in if ses_Conn s \<noteq> None then st\<lparr>st_OnlineSessionCount := st_OnlineSessionCount st + 1\<rparr> else st)"

definition SnapshotStats :: "'s Manager \<Rightarrow> Stats" where
  "SnapshotStats m =
     fold add_stats (map snd (m_sessions m))
       \<lparr>st_SessionCount = int (length (m_sessions m)), st_QueueDepthSum = 0, st_QueueDepthMax = 0,
        st_QueueBytesSum = 0, st_QueueBytesMax = 0, st_InFlightCountSum = 0, st_InFlightCountMax = 0,
        st_OnlineSessionCount = 0\<rparr>"

definition queue_stat :: "Session \<Rightarrow> ControllerQueueStat" where
  "queue_stat s =
     \<lparr>cqs_ControllerID = ses_ControllerID s, cqs_QueueDepth = Queue_Len (ses_Queue s),
      cqs_QueueBytes = TotalEstimatedBytes (ses_Queue s), cqs_InFlight = int (length (ses_InFlight s)),
      cqs_Online = (ses_Conn s \<noteq> None), cqs_LastSeen = ses_LastSeen s\<rparr>"

definition queue_stat_before :: "ControllerQueueStat \<Rightarrow> ControllerQueueStat \<Rightarrow> bool" where
  "queue_stat_before a b =
     (if cqs_QueueDepth a \<noteq> cqs_QueueDepth b then cqs_QueueDepth a > cqs_QueueDepth b
      else if cqs_InFlight a \<noteq> cqs_InFlight b then cqs_InFlight a > cqs_InFlight b
      else cqs_ControllerID a < cqs_ControllerID b)"

definition TopQueueStats :: "int \<Rightarrow> 's Manager \<Rightarrow> ControllerQueueStat list" where
  "TopQueueStats limit m =
     (let limit = (if limit \<le> 0 then 20 else limit);
          out = map queue_stat (map snd (m_sessions m));
          out = sort_slice queue_stat_before out
      in if int (length out) > limit then take (nat limit) out else out)"

definition session_stat :: "Session \<Rightarrow> ControllerSessionStat" where
  "session_stat s =
     (let remote = (case ses_Conn s of None \<Rightarrow> []
                    | Some c \<Rightarrow> (case conn_RemoteAddr c of None \<Rightarrow> [] | Some a \<Rightarrow> a))
      in \<lparr>css_ControllerID = ses_ControllerID s, css_RemoteAddr = remote, css_QueueDepth = Queue_Len (ses_Queue s),
          css_QueueBytes = TotalEstimatedBytes (ses_Queue s), css_InFlight = int (length (ses_InFlight s)),
          css_Online = (ses_Conn s \<noteq> None), css_LastSeen = ses_LastSeen s, css_BufferFree = ses_BufferFree s,
          css_FWMode = ses_FWMode s, css_SyncMode = ses_SyncMode s, css_NextSeq = ses_NextSeq s\<rparr>)"

definition session_stat_before :: "ControllerSessionStat \<Rightarrow> ControllerSessionStat \<Rightarrow> bool" where
  "session_stat_before a b =
     (if css_Online a \<noteq> css_Online b then css_Online a
      else if css_QueueDepth a \<noteq> css_QueueDepth b then css_QueueDepth a > css_QueueDepth b
      else if css_LastSeen a \<noteq> css_LastSeen b then css_LastSeen a > css_LastSeen b
      else css_ControllerID a < css_ControllerID b)"

definition SessionStats :: "int \<Rightarrow> 's Manager \<Rightarrow> ControllerSessionStat list" where
  "SessionStats limit m =
     (let out = map session_stat (map snd (m_sessions m));
          out = sort_slice session_stat_before out
      in if limit > 0 \<and> int (length out) > limit then take (nat limit) out else out)"

end
