(* ===== verification/Manager_Laws.thy ===== *)
theory Manager_Laws
  imports Session_Manager
begin

text \<open>
  Laws of the session manager: the representation invariant and its preservation by every
  operation (\<open>mgr_step\<close>, one rule per method), what a successful call leaves in the store
  (proved once in the contract of the stores), the outcome of the overflow policies, and
  the fate of the commands in flight.
\<close>

subsection \<open>Updating sessions\<close>

lemma sessions_put [simp]:
  "m_sessions (put_session s m) = AList.update (ses_ControllerID s) s (m_sessions m)"
  "m_store (put_session s m) = m_store m" "m_maxConns (put_session s m) = m_maxConns m"
  "m_maxQueueDepth (put_session s m) = m_maxQueueDepth m"
  "m_maxQueueBytes (put_session s m) = m_maxQueueBytes m"
  "m_overflowPolicy (put_session s m) = m_overflowPolicy m"
  by (simp_all add: put_session_def)

lemma persistLocked_eq:
  "persistLocked ops s m = (fst (SaveSession ops (snapshot_of s) (m_store m)),
     m\<lparr>m_store := snd (SaveSession ops (snapshot_of s) (m_store m))\<rparr>)"
  by (simp add: persistLocked_def split_beta)

lemma update_session_eq:
  "update_session ops s m = (fst (SaveSession ops (snapshot_of s) (m_store m)),
     put_session s (m\<lparr>m_store := snd (SaveSession ops (snapshot_of s) (m_store m))\<rparr>))"
  by (simp add: update_session_def persistLocked_eq put_session_def)

lemma add_session_eq:
  "add_session ops s m =
     (case fst (SaveSession ops (snapshot_of s) (m_store m)) of
        Some e \<Rightarrow> (Inl e, m\<lparr>m_store := snd (SaveSession ops (snapshot_of s) (m_store m)),
            m_sessions := AList.delete (ses_ControllerID s) (AList.update (ses_ControllerID s) s (m_sessions m))\<rparr>)
      | None \<Rightarrow> (Inr s, put_session s (m\<lparr>m_store := snd (SaveSession ops (snapshot_of s) (m_store m))\<rparr>)))"
  by (simp add: add_session_def persistLocked_eq put_session_def split: option.split)

lemma ControllerID_snapshot [simp]: "sn_ControllerID (snapshot_of s) = ses_ControllerID s"
  by (simp add: snapshot_of_def)

subsection \<open>The invariant\<close>

definition inflight_ok :: "(u8, InFlightEntry) gomap \<Rightarrow> bool" where
  "inflight_ok f \<longleftrightarrow> wf_map f \<and> (\<forall>seq e. map_of f seq = Some e \<longrightarrow> ife_Seq e = seq)"

lemma inflight_ok_simps [simp]:
  "inflight_ok []"
  "inflight_ok f \<Longrightarrow> inflight_ok (AList.delete seq f)"
  "inflight_ok f \<Longrightarrow> ife_Seq e = seq \<Longrightarrow> inflight_ok (AList.update seq e f)"
  by (auto simp: inflight_ok_def)

lemma inflight_ok_Seq: "inflight_ok f \<Longrightarrow> map_of f seq = Some e \<Longrightarrow> ife_Seq e = seq"
  by (simp add: inflight_ok_def)

definition wf_session :: "Session \<Rightarrow> bool" where
  "wf_session s \<longleftrightarrow> queue_invar (ses_Queue s) \<and> wf_map (ses_Dedup s) \<and> inflight_ok (ses_InFlight s)"

definition wf_manager :: "'s Manager \<Rightarrow> bool" where
  "wf_manager m \<longleftrightarrow> wf_map (m_sessions m)
     \<and> (\<forall>k s. map_of (m_sessions m) k = Some s \<longrightarrow> ses_ControllerID s = k \<and> wf_session s)"

lemma wf_lookup:
  "wf_manager m \<Longrightarrow> map_of (m_sessions m) k = Some s \<Longrightarrow> ses_ControllerID s = k"
  "wf_manager m \<Longrightarrow> map_of (m_sessions m) k = Some s \<Longrightarrow> wf_session s"
  by (auto simp: wf_manager_def)

lemmas wf_at = wf_lookup(2) [rotated]

lemma wf_put [simp]: "wf_manager m \<Longrightarrow> wf_session s \<Longrightarrow> wf_manager (put_session s m)"
  by (auto simp: wf_manager_def)

lemma wf_store [simp]: "wf_manager (m\<lparr>m_store := st\<rparr>) = wf_manager m"
  by (simp add: wf_manager_def)

lemma wf_delete [simp]: "wf_manager m \<Longrightarrow> wf_manager (m\<lparr>m_sessions := AList.delete k (m_sessions m)\<rparr>)"
  by (auto simp: wf_manager_def)

lemma wf_update_session [simp]: "wf_manager m \<Longrightarrow> wf_session s \<Longrightarrow> wf_manager (snd (update_session ops s m))"
  by (simp add: update_session_eq)

lemma wf_new_session [simp]: "wf_session (new_session k c t)"
  by (simp add: wf_session_def new_session_def)

lemma delete_update_same: "AList.delete k (AList.update k v al) = AList.delete k al"
  by (induction al) (auto simp: AList.delete_eq)

lemma wf_add_session: "wf_manager m \<Longrightarrow> wf_session s \<Longrightarrow> wf_manager (snd (add_session ops s m))"
  by (auto simp: add_session_eq delete_update_same wf_manager_def split: option.splits)

text \<open>Changes of a session that keep it well formed.\<close>

lemma wf_session_simps [simp]:
  "wf_session s \<Longrightarrow> wf_session (s\<lparr>ses_Conn := c\<rparr>)"
  "wf_session s \<Longrightarrow> wf_session (s\<lparr>ses_LastSeen := t\<rparr>)"
  "wf_session s \<Longrightarrow> wf_session (s\<lparr>ses_lastTouchedPersistedAt := t\<rparr>)"
  "wf_session s \<Longrightarrow> wf_session (s\<lparr>ses_BufferFree := n\<rparr>)"
  "wf_session s \<Longrightarrow> wf_session (s\<lparr>ses_FWMode := b\<rparr>)"
  "wf_session s \<Longrightarrow> wf_session (s\<lparr>ses_SyncMode := b\<rparr>)"
  "wf_session s \<Longrightarrow> wf_session (s\<lparr>ses_FrameMode := f\<rparr>)"
  "wf_session s \<Longrightarrow> wf_session (s\<lparr>ses_NextSeq := q\<rparr>)"
  "wf_session s \<Longrightarrow> wf_session (s\<lparr>ses_Dedup := AList.update k t (ses_Dedup s)\<rparr>)"
  "wf_session s \<Longrightarrow> queue_invar qu \<Longrightarrow> wf_session (s\<lparr>ses_Queue := qu\<rparr>)"
  "wf_session s \<Longrightarrow> wf_session (s\<lparr>ses_InFlight := AList.delete seq (ses_InFlight s)\<rparr>)"
  "wf_session s \<Longrightarrow> ife_Seq e = seq \<Longrightarrow> wf_session (s\<lparr>ses_InFlight := AList.update seq e (ses_InFlight s)\<rparr>)"
  by (auto simp: wf_session_def)

lemma wf_session_queue: "wf_session s \<Longrightarrow> queue_invar (ses_Queue s)"
  by (simp add: wf_session_def)

subsection \<open>Overflow\<close>

lemma fits_iff: "fits m q cmd \<longleftrightarrow> \<not> depth_exceeded m q \<and> \<not> bytes_exceeded m q cmd"
  by (simp add: fits_def)

text \<open>The empty queue has room for a command unless the command alone is over the byte limit.\<close>

definition oversized :: "'s Manager \<Rightarrow> Command \<Rightarrow> bool" where
  "oversized m cmd \<longleftrightarrow> m_maxQueueBytes m > 0 \<and> EstimatedCommandBytes cmd > m_maxQueueBytes m"

lemma fits_empty: "fits m NewControllerQueue cmd \<longleftrightarrow> \<not> oversized m cmd"
  by (simp add: fits_iff depth_exceeded_def bytes_exceeded_def oversized_def cq.count_empty)

lemma oversized_never_fits: "oversized m cmd \<Longrightarrow> \<not> fits m q cmd"
  using cq.bytes_nonneg [of q] by (auto simp: fits_iff bytes_exceeded_def oversized_def)

text \<open>
  What the drop loop does: on success the command fits, and the dropped commands \<open>D\<close> are no
  younger than those that stay; on failure the queue is empty and the command oversized.
\<close>

definition drop_result :: "'s Manager \<Rightarrow> Command \<Rightarrow> ControllerQueue \<Rightarrow> go_error option \<Rightarrow> ControllerQueue
    \<Rightarrow> Command list \<Rightarrow> bool" where
  "drop_result m cmd q err q' D \<longleftrightarrow>
     mset (Queue_Snapshot q) = mset D + mset (Queue_Snapshot q')
     \<and> (\<forall>d\<in>set D. \<forall>c\<in>set (Queue_Snapshot q'). cmd_CreatedAt d \<le> cmd_CreatedAt c)
     \<and> (if oversized m cmd then err = Some ErrQueueBytesFull \<and> q' = NewControllerQueue
        else err = None \<and> fits m q' cmd)"

lemma drop_until_fits_result:
  "\<exists>D. drop_result m cmd q (fst (drop_until_fits m k cmd q ev)) (snd (snd (drop_until_fits m k cmd q ev))) D
     \<and> length (fst (snd (drop_until_fits m k cmd q ev))) = length ev + length D + (if oversized m cmd then 1 else 0)"
proof (induction m k cmd q ev rule: drop_until_fits.induct)
  case (1 m k cmd q ev)
  show ?case
  proof (cases "fits m q cmd")
    case True
    then have "\<not> oversized m cmd" using oversized_never_fits by blast
    with True show ?thesis
      by (intro exI [of _ "[]"]) (simp add: drop_until_fits.simps drop_result_def)
  next
    case False
    obtain r q1 where d: "DropOldest q = (r, q1)" by (rule prod.exhaust)
    show ?thesis
    proof (cases r)
      case None
      have q: "q = NewControllerQueue" "q1 = q"
        using d None DropOldest_None [of q] DropOldest_None_same [of q q1] by (simp_all add: Snapshot_Nil_iff)
      with False have "oversized m cmd" by (simp add: fits_empty)
      with False d None q show ?thesis
        by (intro exI [of _ "[]"]) (simp add: drop_until_fits.simps drop_result_def oversized_def)
    next
      case (Some c)
      let ?ev = "ev @ [overflow_event k (if bytes_exceeded m q cmd then ''bytes'' else ''depth'') ''drop_oldest'' ''dropped'']"
      have step: "drop_until_fits m k cmd q ev = drop_until_fits m k cmd q1 ?ev"
        using False d Some by (subst drop_until_fits.simps) simp
      obtain D where D: "drop_result m cmd q1 (fst (drop_until_fits m k cmd q1 ?ev))
          (snd (snd (drop_until_fits m k cmd q1 ?ev))) D"
          "length (fst (snd (drop_until_fits m k cmd q1 ?ev))) = length ?ev + length D + (if oversized m cmd then 1 else 0)"
        using 1 [OF False refl, of r q1 c] d Some by auto
      have old: "oldest_in (Queue_Snapshot q) c" "mset (Queue_Snapshot q) = add_mset c (mset (Queue_Snapshot q1))"
        using DropOldest_Some [of q c q1] d Some by simp_all
      let ?qf = "snd (snd (drop_until_fits m k cmd q1 ?ev))"
      have split: "mset (Queue_Snapshot q) = mset (c # D) + mset (Queue_Snapshot ?qf)"
        using D(1) old(2) unfolding drop_result_def by simp
      have "set (Queue_Snapshot q) = set (c # D) \<union> set (Queue_Snapshot ?qf)"
        using arg_cong [OF split, of set_mset] by simp
      then have "cmd_CreatedAt c \<le> cmd_CreatedAt x" if "x \<in> set (Queue_Snapshot ?qf)" for x
        using old(1) that unfolding oldest_in_def by blast
      then have "drop_result m cmd q (fst (drop_until_fits m k cmd q ev))
          (snd (snd (drop_until_fits m k cmd q ev))) (c # D)"
        using D(1) split unfolding step drop_result_def by simp
      with D(2) show ?thesis unfolding step by (intro exI [of _ "c # D"]) simp
    qed
  qed
qed

lemma drop_until_fits_invar:
  "queue_invar q \<Longrightarrow> queue_invar (snd (snd (drop_until_fits m k cmd q ev)))"
proof (induction m k cmd q ev rule: drop_until_fits.induct)
  case (1 m k cmd q ev)
  show ?case
  proof (cases "DropOldest q")
    case (Pair r q1)
    have "queue_invar q1" using cq.invar_drop [OF 1(2)] Pair by simp
    with 1 Pair show ?thesis
      by (subst drop_until_fits.simps) (auto simp: Let_def split: option.splits)
  qed
qed

lemma make_room_invar: "queue_invar q \<Longrightarrow> queue_invar (snd (snd (make_room m k cmd q)))"
  by (auto simp: make_room_def drop_until_fits_invar)

lemma make_room_ok:
  assumes "make_room m k cmd q = (None, ev, q')"
  shows "fits m q' cmd"
proof -
  have "drop_until_fits m k cmd q [] = (None, ev, q') \<Longrightarrow> fits m q' cmd"
    using drop_until_fits_result [of m cmd q k "[]"] by (auto simp: drop_result_def split: if_splits)
  with assms show ?thesis by (auto simp: make_room_def split: if_splits)
qed

lemma fits_push:
  assumes "fits m q cmd"
  shows "m_maxQueueDepth m > 0 \<Longrightarrow> Queue_Len (Queue_Push q cmd) \<le> m_maxQueueDepth m"
    and "m_maxQueueBytes m > 0 \<Longrightarrow> TotalEstimatedBytes (Queue_Push q cmd) \<le> m_maxQueueBytes m"
  using assms by (simp_all add: fits_iff depth_exceeded_def bytes_exceeded_def cq.count_push cq.bytes_push)

subsection \<open>Every operation keeps the invariant\<close>

lemma wf_Create: "wf_manager m \<Longrightarrow> wf_manager (snd (Create ops k c t m))"
  by (auto simp: Create_def Let_def split_beta update_session_eq wf_add_session dest: wf_at
      split: option.splits)

lemma wf_enqueue_session:
  assumes "wf_manager m" "wf_session s"
  shows "wf_manager (snd (snd (enqueue_session ops t1 t2 s cmd m)))"
proof -
  let ?s = "if cmd_DedupKey cmd \<noteq> [] then s\<lparr>ses_Dedup := AList.update (cmd_DedupKey cmd) t2 (ses_Dedup s)\<rparr> else s"
  have s: "wf_session ?s" using assms(2) by simp
  have "queue_invar (snd (snd (make_room m k cmd (ses_Queue ?s))))" for k
    using make_room_invar [OF wf_session_queue [OF s]] .
  then show ?thesis
    using assms(1) s unfolding enqueue_session_def Let_def
    by (auto simp: split_beta split: option.splits if_splits)
qed

lemma wf_enqueueLocked:
  assumes "wf_manager m"
  shows "wf_manager (snd (snd (enqueueLocked ops t0 t1 t2 k cmd m)))"
proof (cases "map_of (m_sessions m) k")
  case None
  let ?r = "createDetachedLocked ops k t0 m"
  have m: "wf_manager (snd ?r)" using assms by (simp add: createDetachedLocked_def wf_add_session)
  have s: "fst ?r = Inr s \<Longrightarrow> wf_session s" for s
    by (auto simp: createDetachedLocked_def add_session_eq split: option.splits)
  show ?thesis
  proof (cases "fst ?r")
    case (Inl e)
    with None m show ?thesis by (cases ?r) (simp add: enqueueLocked_def)
  next
    case (Inr s')
    with None m s show ?thesis by (cases ?r) (simp add: enqueueLocked_def wf_enqueue_session)
  qed
qed (use assms in \<open>auto simp: enqueueLocked_def wf_enqueue_session dest: wf_at\<close>)

lemma wf_process_entry: "wf_session (fst acc) \<Longrightarrow> wf_session (fst (process_entry res k now seq acc))"
proof (cases acc)
  case (Pair s out)
  moreover assume "wf_session (fst acc)"
  ultimately have s: "wf_session s" by simp
  then have "ife_Seq e = seq" if "map_of (ses_InFlight s) seq = Some e" for e
    using that by (auto simp: wf_session_def intro: inflight_ok_Seq)
  with s Pair show ?thesis
    by (auto simp: process_entry_def Let_def wf_session_def split: option.splits)
qed

lemma wf_process_entries:
  "wf_session (fst acc) \<Longrightarrow> wf_session (fst (fold (process_entry res k now) order acc))"
  by (induction order arbitrary: acc) (simp_all add: wf_process_entry)

lemma wf_ProcessInFlight:
  assumes "wf_manager m"
  shows "wf_manager (snd (snd (ProcessInFlight ops order k now res m)))"
proof (cases "map_of (m_sessions m) k")
  case (Some s)
  have "wf_session (fst (fold (process_entry res k now) order (s, [])))"
    using wf_process_entries [of "(s, [])"] wf_lookup(2) [OF assms Some] by simp
  with assms Some show ?thesis by (simp add: ProcessInFlight_def split_beta)
qed (use assms in \<open>simp add: ProcessInFlight_def\<close>)

lemma wf_AckInFlight:
  assumes "wf_manager m"
  shows "wf_manager (snd (AckInFlight ops k seq m))"
proof (cases "map_of (m_sessions m) k")
  case (Some s)
  have s: "wf_session s" using wf_lookup(2) [OF assms Some] .
  show ?thesis
  proof (cases "map_of (ses_InFlight s) seq")
    case (Some e)
    let ?s = "s\<lparr>ses_InFlight := AList.delete seq (ses_InFlight s)\<rparr>"
    have "ife_Seq e = seq" using s Some by (auto simp: wf_session_def intro: inflight_ok_Seq)
    then have "wf_session ?s" "wf_session (?s\<lparr>ses_InFlight := AList.update seq e (ses_InFlight ?s)\<rparr>)"
      using s by (auto simp: wf_session_def)
    with assms Some \<open>map_of (m_sessions m) k = Some s\<close> show ?thesis
      by (simp add: AckInFlight_def split_beta update_session_eq Let_def split: option.splits)
  qed (use assms Some in \<open>simp add: AckInFlight_def\<close>)
qed (use assms in \<open>simp add: AckInFlight_def\<close>)

lemma wf_restore_session [simp]: "wf_session (restore_session snap)"
proof -
  let ?f = "\<lambda>m v. AList.update (ifs_Seq v) \<lparr>ife_Seq = ifs_Seq v, ife_Command = ifs_Command v,
      ife_SentAt = ifs_SentAt v, ife_Attempts = ifs_Attempts v\<rparr> m"
  have "inflight_ok (foldl ?f m vs)" if "inflight_ok m" for m vs
    using that by (induction vs arbitrary: m) simp_all
  from this [of "[]" "sn_InFlight snap"] show ?thesis
    by (simp add: restore_session_def wf_session_def Let_def)
qed

lemma wf_restore_loop: "wf_manager m \<Longrightarrow> wf_manager (snd (restore_loop snaps n m))"
  by (induction snaps n m rule: restore_loop.induct) auto

text \<open>
  One rule per method that changes the manager, and one per operation of a queue that \<^verbatim>\<open>flushQueue\<close>
  calls on the queue object it got from \<^verbatim>\<open>DeliveryContext\<close>.
\<close>

inductive mgr_step :: "'s Store \<Rightarrow> 's Manager \<Rightarrow> 's Manager \<Rightarrow> bool" for ops where
  create: "mgr_step ops m (snd (Create ops k c t m))"
| delete: "mgr_step ops m (Manager_Delete ops k m)"
| offline: "mgr_step ops m (snd (MarkOffline ops k t m))"
| touch: "mgr_step ops m (Touch ops k t m)"
| enqueue: "mgr_step ops m (snd (snd (EnqueueWithEvents ops t0 t1 t2 k cmd m)))"
| buffer: "mgr_step ops m (UpdateBufferFree k n m)"
| fw_mode: "mgr_step ops m (snd (SetFWMode ops k b m))"
| sync_mode: "mgr_step ops m (snd (SetSyncMode ops k b m))"
| frame_mode: "mgr_step ops m (SetFrameMode k f m)"
| ack_sent: "mgr_step ops m (snd (AckSent ops k m))"
| restore: "mgr_step ops m (snd (Manager_Restore ops m))"
| next_seq: "mgr_step ops m (snd (NextCommandSeq ops k m))"
| register: "mgr_step ops m (snd (RegisterInFlight ops k seq cmd t m))"
| ack: "mgr_step ops m (snd (AckInFlight ops k seq m))"
| process: "mgr_step ops m (snd (snd (ProcessInFlight ops order k t res m)))"
| queue_pop: "map_of (m_sessions m) k = Some s \<Longrightarrow>
    mgr_step ops m (put_session (s\<lparr>ses_Queue := snd (PopNext (ses_Queue s) t fw sync)\<rparr>) m)"
| queue_drain: "map_of (m_sessions m) k = Some s \<Longrightarrow>
    mgr_step ops m (put_session (s\<lparr>ses_Queue := snd (DrainExpired (ses_Queue s) t)\<rparr>) m)"
| queue_push: "map_of (m_sessions m) k = Some s \<Longrightarrow>
    mgr_step ops m (put_session (s\<lparr>ses_Queue := foldl Queue_Push (ses_Queue s) cmds\<rparr>) m)"

inductive mgr_reach :: "'s Store \<Rightarrow> 's Manager \<Rightarrow> bool" for ops where
  init: "mgr_reach ops (NewManager maxConns maxDepth maxBytes policy st)"
| step: "mgr_reach ops m \<Longrightarrow> mgr_step ops m m' \<Longrightarrow> mgr_reach ops m'"

inductive_cases mgr_stepE: "mgr_step ops m m'"

lemmas setter_defs = MarkOffline_def Touch_def UpdateBufferFree_def SetFWMode_def SetSyncMode_def
  SetFrameMode_def AckSent_def NextCommandSeq_def RegisterInFlight_def

lemma invar_foldl_Push [simp]: "queue_invar q \<Longrightarrow> queue_invar (foldl Queue_Push q cmds)"
  by (induction cmds arbitrary: q) simp_all

lemma wf_step: "mgr_step ops m m' \<Longrightarrow> wf_manager m \<Longrightarrow> wf_manager m'"
proof (induction rule: mgr_step.induct)
  case (restore m)
  then show ?case
    using wf_restore_loop [of "m\<lparr>m_store := _\<rparr>"]
    by (auto simp: Manager_Restore_def split_beta split: prod.splits sum.splits)
qed (auto simp: setter_defs Manager_Delete_def EnqueueWithEvents_def persistLocked_eq Let_def split_beta
    wf_Create wf_enqueueLocked wf_AckInFlight wf_ProcessInFlight invar_PopNext invar_DrainExpired
    wf_session_queue dest: wf_at split: option.splits)

lemma wf_NewManager [simp]: "wf_manager (NewManager a b c p st)"
  by (simp add: NewManager_def wf_manager_def Let_def)

lemma wf_reach: "mgr_reach ops m \<Longrightarrow> wf_manager m"
  by (induction rule: mgr_reach.induct) (auto intro: wf_step)

subsection \<open>Enqueueing into a session\<close>

definition note_dedup :: "Command \<Rightarrow> time \<Rightarrow> Session \<Rightarrow> Session" where
  "note_dedup cmd now s = (if cmd_DedupKey cmd \<noteq> []
     then s\<lparr>ses_Dedup := AList.update (cmd_DedupKey cmd) now (ses_Dedup s)\<rparr> else s)"

lemma note_dedup_simps [simp]:
  "ses_ControllerID (note_dedup cmd t s) = ses_ControllerID s" "ses_Queue (note_dedup cmd t s) = ses_Queue s"
  by (simp_all add: note_dedup_def)

lemma enqueue_session_cases:
  assumes "\<not> is_duplicate s cmd t1" "make_room m (ses_ControllerID s) cmd (ses_Queue s) = (err, ev, q)"
  shows "enqueue_session ops t1 t2 s cmd m = (case err of
      Some e \<Rightarrow> (Some e, ev, put_session ((note_dedup cmd t2 s)\<lparr>ses_Queue := q\<rparr>) m)
    | None \<Rightarrow> (let (e, m') = update_session ops ((note_dedup cmd t2 s)\<lparr>ses_Queue := Queue_Push q cmd\<rparr>) m
               in (e, ev, m')))"
  using assms unfolding enqueue_session_def note_dedup_def [symmetric] Let_def
  by (simp split: option.splits)

lemma enqueue_session_ok:
  assumes "enqueue_session ops t1 t2 s cmd m = (None, ev, m')"
  obtains q where "make_room m (ses_ControllerID s) cmd (ses_Queue s) = (None, ev, q)"
    "update_session ops ((note_dedup cmd t2 s)\<lparr>ses_Queue := Queue_Push q cmd\<rparr>) m = (None, m')"
proof -
  obtain err ev' q where room: "make_room m (ses_ControllerID s) cmd (ses_Queue s) = (err, ev', q)"
    by (metis prod_cases3)
  have "\<not> is_duplicate s cmd t1" using assms by (auto simp: enqueue_session_def)
  from enqueue_session_cases [OF this room, of ops t2] assms room show thesis
    by (auto simp: Let_def split: option.splits prod.splits intro: that)
qed

text \<open>The session the command goes to: the existing one, or a detached one created for it.\<close>

lemma enqueueLocked_ok:
  assumes "enqueueLocked ops t0 t1 t2 k cmd m = (None, ev, m')"
  obtains s m0 where "enqueue_session ops t1 t2 s cmd m0 = (None, ev, m')" "wf_manager m \<Longrightarrow> ses_ControllerID s = k"
    "m0 = m \<or> add_session ops (new_session k None t0) m = (Inr s, m0)"
  using assms
proof (cases "map_of (m_sessions m) k")
  case None
  obtain r m0 where r: "add_session ops (new_session k None t0) m = (r, m0)" by (rule prod.exhaust)
  with assms None obtain s where "r = Inr s" "enqueue_session ops t1 t2 s cmd m0 = (None, ev, m')"
    by (cases r) (auto simp: enqueueLocked_def createDetachedLocked_def)
  moreover have "ses_ControllerID s = k"
    using r \<open>r = Inr s\<close> by (auto simp: add_session_eq new_session_def split: option.splits)
  ultimately show thesis using r by (intro that) auto
next
  case (Some s)
  with assms that show thesis by (auto simp: enqueueLocked_def wf_lookup(1))
qed

lemma add_session_limits:
  assumes "add_session ops s m = (r, m0)"
  shows "m_maxQueueDepth m0 = m_maxQueueDepth m" "m_maxQueueBytes m0 = m_maxQueueBytes m"
    "m_overflowPolicy m0 = m_overflowPolicy m"
  using assms by (auto simp: add_session_eq split: option.splits)

definition within_limits :: "'s Manager \<Rightarrow> ControllerQueue \<Rightarrow> bool" where
  "within_limits m q \<longleftrightarrow> (m_maxQueueDepth m > 0 \<longrightarrow> Queue_Len q \<le> m_maxQueueDepth m)
     \<and> (m_maxQueueBytes m > 0 \<longrightarrow> TotalEstimatedBytes q \<le> m_maxQueueBytes m)"

lemma enqueue_ok_session:
  assumes "wf_manager m" "EnqueueWithEvents ops t0 t1 t2 k cmd m = (None, ev, m')"
  shows "\<exists>s m0 q. update_session ops s m0 = (None, m') \<and> ses_ControllerID s = k
    \<and> (m0 = m \<or> (\<exists>r. add_session ops (new_session k None t0) m = (Inr r, m0)))
    \<and> ses_Queue s = Queue_Push q cmd \<and> within_limits m (ses_Queue s)"
proof -
  obtain s m0 where s: "enqueue_session ops t1 t2 s cmd m0 = (None, ev, m')" "ses_ControllerID s = k"
      "m0 = m \<or> add_session ops (new_session k None t0) m = (Inr s, m0)"
    using enqueueLocked_ok [of ops t0 t1 t2 k cmd m ev m'] assms by (auto simp: EnqueueWithEvents_def)
  obtain q where q: "make_room m0 (ses_ControllerID s) cmd (ses_Queue s) = (None, ev, q)"
      "update_session ops ((note_dedup cmd t2 s)\<lparr>ses_Queue := Queue_Push q cmd\<rparr>) m0 = (None, m')"
    using enqueue_session_ok [OF s(1)] .
  have "within_limits m0 (Queue_Push q cmd)"
    using fits_push [OF make_room_ok [OF q(1)]] by (simp add: within_limits_def)
  moreover have "m_maxQueueDepth m0 = m_maxQueueDepth m \<and> m_maxQueueBytes m0 = m_maxQueueBytes m"
    using s(3) add_session_limits(1,2) by blast
  then have "within_limits m0 x = within_limits m x" for x by (simp add: within_limits_def)
  ultimately show ?thesis using q(2) s(2,3)
    by (intro exI [of _ "(note_dedup cmd t2 s)\<lparr>ses_Queue := Queue_Push q cmd\<rparr>"] exI [of _ m0] exI [of _ q]) auto
qed

subsection \<open>What a successful call leaves in the store\<close>

definition durable :: "('s \<Rightarrow> string \<rightharpoonup> SessionSnapshot) \<Rightarrow> 's Manager \<Rightarrow> string \<Rightarrow> bool" where
  "durable view m k \<longleftrightarrow>
     (\<exists>s. map_of (m_sessions m) k = Some s \<and> view (m_store m) k = Some (snapshot_of s))"

context session_store
begin

lemma update_session_durable:
  assumes "invar (m_store m)" "update_session ops s m = (None, m')"
  shows "durable view m' (ses_ControllerID s)" "map_of (m_sessions m') (ses_ControllerID s) = Some s"
    "view (m_store m') = (view (m_store m))(ses_ControllerID s \<mapsto> snapshot_of s)"
proof -
  have m': "m' = put_session s (m\<lparr>m_store := snd (SaveSession ops (snapshot_of s) (m_store m))\<rparr>)"
    and "SaveSession ops (snapshot_of s) (m_store m) = (None, m_store m')"
    using assms(2) by (auto simp: update_session_eq prod_eq_iff)
  from save_ok [OF assms(1) this(2)]
  show v: "view (m_store m') = (view (m_store m))(ses_ControllerID s \<mapsto> snapshot_of s)" by simp
  from m' show s: "map_of (m_sessions m') (ses_ControllerID s) = Some s" by simp
  with v show "durable view m' (ses_ControllerID s)" by (simp add: durable_def)
qed

lemma add_session_invar: "invar (m_store m) \<Longrightarrow> invar (m_store (snd (add_session ops s m)))"
  by (simp add: add_session_eq save_invar split: option.split)

lemma enqueue_durable:
  assumes "wf_manager m" "invar (m_store m)" "EnqueueWithEvents ops t0 t1 t2 k cmd m = (None, ev, m')"
  shows "durable view m' k"
proof -
  obtain s m0 where s: "update_session ops s m0 = (None, m')" "ses_ControllerID s = k"
      "m0 = m \<or> (\<exists>r. add_session ops (new_session k None t0) m = (Inr r, m0))"
    using enqueue_ok_session [OF assms(1,3)] by blast
  have "invar (m_store m0)"
    using s(3) assms(2) add_session_invar [of m "new_session k None t0"] by (metis snd_conv)
  from update_session_durable(1) [OF this s(1)] s(2) show ?thesis by simp
qed

lemma setter_durable:
  assumes "wf_manager m" "invar (m_store m)" "map_of (m_sessions m) k = Some s"
  shows "MarkOffline ops k t m = (None, m') \<Longrightarrow> durable view m' k"
    and "SetFWMode ops k b m = (None, m') \<Longrightarrow> durable view m' k"
    and "SetSyncMode ops k b m = (None, m') \<Longrightarrow> durable view m' k"
    and "RegisterInFlight ops k seq cmd t m = (None, m') \<Longrightarrow> durable view m' k"
  using update_session_durable(1) [OF assms(2)] wf_lookup(1) [OF assms(1,3)] assms(3)
  by (fastforce simp: MarkOffline_def SetFWMode_def SetSyncMode_def RegisterInFlight_def Let_def)+

lemma ack_durable:
  assumes "wf_manager m" "invar (m_store m)" "AckInFlight ops k seq m = (Some r, m')"
  shows "durable view m' k"
proof -
  obtain s e where s: "map_of (m_sessions m) k = Some s" "map_of (ses_InFlight s) seq = Some e"
    using assms(3) by (auto simp: AckInFlight_def split: option.splits)
  let ?s = "s\<lparr>ses_InFlight := AList.delete seq (ses_InFlight s)\<rparr>"
  have "update_session ops ?s m = (None, m')"
    using assms(3) s by (auto simp: AckInFlight_def split_beta Let_def prod_eq_iff split: option.splits)
  from update_session_durable(1) [OF assms(2) this] wf_lookup(1) [OF assms(1) s(1)]
  show ?thesis by simp
qed

lemma process_durable:
  assumes "wf_manager m" "invar (m_store m)" "ProcessInFlight ops order k t res m = (out, None, m')"
  shows "durable view m' k"
proof -
  obtain s where s: "map_of (m_sessions m) k = Some s"
    using assms(3) by (auto simp: ProcessInFlight_def split: option.splits)
  let ?s = "fst (fold (process_entry res k t) order (s, []))"
  have "update_session ops ?s m = (None, m')"
    using assms(3) s by (auto simp: ProcessInFlight_def split_beta Let_def prod_eq_iff)
  moreover have "ses_ControllerID (fst (fold (process_entry res k t) order acc)) = ses_ControllerID (fst acc)" for acc
    by (induction order arbitrary: acc) (auto simp: process_entry_def Let_def split: prod.splits option.splits)
  ultimately show ?thesis
    using update_session_durable(1) [OF assms(2)] wf_lookup(1) [OF assms(1) s] by fastforce
qed

end

subsection \<open>Properties\<close>

text \<open>
  (C15) Invariant of the session manager: in every state that the methods of \<^verbatim>\<open>Manager\<close> reach, in any
  order, with any store and whatever errors the store returns, each controller id names one
  session of that id, every queue keeps its commands in the class of their priority, and each
  in-flight entry is filed under its own sequence number.
\<close>

theorem manager_invariant:
  assumes "mgr_reach ops m"
  shows "distinct (map fst (m_sessions m))
    \<and> (\<forall>k s. map_of (m_sessions m) k = Some s \<longrightarrow> ses_ControllerID s = k \<and> queue_invar (ses_Queue s)
        \<and> distinct (map fst (ses_InFlight s))
        \<and> (\<forall>seq e. map_of (ses_InFlight s) seq = Some e \<longrightarrow> ife_Seq e = seq))"
  using wf_reach [OF assms] by (auto simp: wf_manager_def wf_session_def inflight_ok_def wf_map_def)

definition sample_conn :: net_conn where
  "sample_conn = \<lparr>conn_id = 7, conn_RemoteAddr = None\<rparr>"

definition sample_manager :: "snapshots Manager" where
  "sample_manager = snd (Create InMemoryStore ''c1'' sample_conn 100 (NewManager 4 2 0 ''drop_oldest'' NewInMemoryStore))"

lemma sample_reach: "mgr_reach InMemoryStore sample_manager"
  unfolding sample_manager_def by (rule mgr_reach.step [OF mgr_reach.init mgr_step.create])

lemma sample_session:
  "map_of (m_sessions sample_manager) ''c1'' = Some (new_session ''c1'' (Some sample_conn) 100)"
  by (simp add: sample_manager_def Create_def NewManager_def Let_def onlineConnectionsLocked_def
      add_session_eq InMemoryStore_def InMemoryStore_SaveSession_def NewInMemoryStore_def new_session_def)

theorem manager_invariant_witness:
  "map_of (m_sessions sample_manager) ''c1'' \<noteq> None \<and> distinct (map fst (m_sessions sample_manager))"
  using manager_invariant [OF sample_reach] sample_session by blast

lemma enqueue_accepted:
  assumes "wf_manager m" "EnqueueWithEvents ops t0 t1 t2 k cmd m = (None, ev, m')"
  shows "\<exists>s. map_of (m_sessions m') k = Some s \<and> cmd \<in> set (Queue_Snapshot (ses_Queue s))
    \<and> (m_maxQueueDepth m > 0 \<longrightarrow> Queue_Len (ses_Queue s) \<le> m_maxQueueDepth m)
    \<and> (m_maxQueueBytes m > 0 \<longrightarrow> TotalEstimatedBytes (ses_Queue s) \<le> m_maxQueueBytes m)
    \<and> (\<forall>k'. k' \<noteq> k \<longrightarrow> map_of (m_sessions m') k' = map_of (m_sessions m) k')"
proof -
  obtain s m0 q where s: "update_session ops s m0 = (None, m')" "ses_ControllerID s = k"
      "m0 = m \<or> (\<exists>r. add_session ops (new_session k None t0) m = (Inr r, m0))"
      "ses_Queue s = Queue_Push q cmd" "within_limits m (ses_Queue s)"
    using enqueue_ok_session [OF assms] by blast
  have m': "map_of (m_sessions m') = (map_of (m_sessions m0))(k \<mapsto> s)"
    using s(1,2) by (auto simp: update_session_eq)
  have "map_of (m_sessions m0) k' = map_of (m_sessions m) k'" if "k' \<noteq> k" for k'
    using s(3) that by (auto simp: add_session_eq new_session_def split: option.splits)
  moreover have "cmd \<in> set (Queue_Snapshot (ses_Queue s))"
    unfolding s(4) set_mset_mset [symmetric] cq.contents_push by simp
  ultimately show ?thesis using m' s(5) by (auto simp: within_limits_def)
qed

text \<open>
  (C16) An accepted command is in the queue of its controller, whose length and estimated bytes are
  within the configured limits (a limit that is not positive is no limit), and every other session
  is as before.
\<close>

theorem enqueue_within_limits:
  assumes "mgr_reach ops m" "EnqueueWithEvents ops t0 t1 t2 k cmd m = (None, ev, m')"
  shows "\<exists>s. map_of (m_sessions m') k = Some s \<and> cmd \<in> set (Queue_Snapshot (ses_Queue s))
    \<and> (m_maxQueueDepth m > 0 \<longrightarrow> Queue_Len (ses_Queue s) \<le> m_maxQueueDepth m)
    \<and> (m_maxQueueBytes m > 0 \<longrightarrow> TotalEstimatedBytes (ses_Queue s) \<le> m_maxQueueBytes m)
    \<and> (\<forall>k'. k' \<noteq> k \<longrightarrow> map_of (m_sessions m') k' = map_of (m_sessions m) k')"
  using enqueue_accepted [OF wf_reach [OF assms(1)] assms(2)] .

lemma sample_fits: "fits sample_manager NewControllerQueue cmd"
  by (simp add: fits_empty oversized_def sample_manager_def Create_def NewManager_def Let_def
      onlineConnectionsLocked_def add_session_eq InMemoryStore_def InMemoryStore_SaveSession_def
      NewInMemoryStore_def)

lemma sample_enqueue:
  "fst (EnqueueWithEvents InMemoryStore 0 t1 t2 ''c1'' cmd sample_manager) = None"
  by (simp add: EnqueueWithEvents_def enqueueLocked_def sample_session enqueue_session_def is_duplicate_def
      make_room_def new_session_def sample_fits update_session_eq InMemoryStore_def
      InMemoryStore_SaveSession_def Let_def)

theorem enqueue_within_limits_witness:
  "\<exists>s. map_of (m_sessions (snd (snd (EnqueueWithEvents InMemoryStore 0 1 2 ''c1'' (sample_command ''high'' 1) sample_manager)))) ''c1''
     = Some s \<and> sample_command ''high'' 1 \<in> set (Queue_Snapshot (ses_Queue s))"
proof -
  let ?r = "EnqueueWithEvents InMemoryStore 0 1 2 ''c1'' (sample_command ''high'' 1) sample_manager"
  have "?r = (None, fst (snd ?r), snd (snd ?r))" using sample_enqueue by (simp add: prod_eq_iff)
  from enqueue_within_limits [OF sample_reach this] show ?thesis by blast
qed

text \<open>
  (C18) Deduplication: once a command with a dedup key has passed the duplicate check, a second
  command with that key within ten minutes is answered with \<^verbatim>\<open>ErrDuplicate\<close> and changes nothing.
  This is so whatever the first call returned: also when it was rejected by the limits or when its
  save failed, so that the retry of a rejected command is refused as a duplicate.
\<close>

theorem dedup_window:
  assumes "mgr_reach ops m" "map_of (m_sessions m) k = Some s" "\<not> is_duplicate s cmd t1"
    and "EnqueueWithEvents ops t0 t1 t2 k cmd m = (err, ev, m')"
    and "cmd_DedupKey cmd \<noteq> []" "cmd_DedupKey cmd' = cmd_DedupKey cmd" "time_sub t t2 < 10 * minute"
  shows "EnqueueWithEvents ops t' t t'' k cmd' m' = (Some ErrDuplicate, [], m')"
proof -
  have id: "ses_ControllerID s = k" using wf_lookup(1) [OF wf_reach [OF assms(1)] assms(2)] .
  obtain e ev' q where room: "make_room m (ses_ControllerID s) cmd (ses_Queue s) = (e, ev', q)"
    by (metis prod_cases3)
  have "\<exists>q'. map_of (m_sessions m') k = Some ((note_dedup cmd t2 s)\<lparr>ses_Queue := q'\<rparr>)"
    using assms(2,4) enqueue_session_cases [OF assms(3) room, of ops t2] id
    by (auto simp: EnqueueWithEvents_def enqueueLocked_def update_session_eq split: option.splits)
  moreover have "is_duplicate ((note_dedup cmd t2 s)\<lparr>ses_Queue := q'\<rparr>) cmd' t" for q'
    using assms(5-7) by (simp add: is_duplicate_def note_dedup_def)
  ultimately show ?thesis
    by (auto simp: EnqueueWithEvents_def enqueueLocked_def enqueue_session_def)
qed

theorem dedup_window_witness:
  "\<exists>m'. EnqueueWithEvents InMemoryStore 0 1 2 ''c1'' ((sample_command ''high'' 1)\<lparr>cmd_DedupKey := ''d''\<rparr>) sample_manager
       = (None, [], m')
     \<and> EnqueueWithEvents InMemoryStore 0 5 6 ''c1'' ((sample_command ''fw'' 4)\<lparr>cmd_DedupKey := ''d''\<rparr>) m'
       = (Some ErrDuplicate, [], m')"
proof -
  let ?c = "(sample_command ''high'' 1)\<lparr>cmd_DedupKey := ''d''\<rparr>"
  let ?r = "EnqueueWithEvents InMemoryStore 0 1 2 ''c1'' ?c sample_manager"
  have r: "?r = (None, [], snd (snd ?r))"
    by (simp add: EnqueueWithEvents_def enqueueLocked_def sample_session enqueue_session_def is_duplicate_def
        make_room_def new_session_def sample_fits update_session_eq InMemoryStore_def
        InMemoryStore_SaveSession_def Let_def)
  have "\<not> is_duplicate (new_session ''c1'' (Some sample_conn) 100) ?c 1"
    by (simp add: is_duplicate_def new_session_def)
  from dedup_window [OF sample_reach sample_session this r, of "(sample_command ''fw'' 4)\<lparr>cmd_DedupKey := ''d''\<rparr>" 5 0 6] r
  show ?thesis by (intro exI [of _ "snd (snd ?r)"]) (simp add: time_sub_def minute_def second_def maxInt64_def minInt64_def)
qed



end
