(* ===== verification/Recovery_Laws.thy ===== *)
theory Recovery_Laws
  imports Manager_Laws
begin

text \<open>
  What a process restart gives back: \<open>Manager_Restore\<close> on a fresh manager over the store that the
  old process left. The laws are proved once for every implementation of the store interface
  (locale \<open>session_store\<close>) and stated for the file store of \<^verbatim>\<open>internal/session/store.go\<close>.
\<close>

section \<open>Restart over a store\<close>

text \<open>What survives of a session: all but the connection, the dedup window and the frame mode.\<close>

definition revive :: "Session \<Rightarrow> Session" where
  "revive s = s\<lparr>ses_Conn := None, ses_lastTouchedPersistedAt := ses_LastSeen s, ses_Dedup := [],
     ses_FrameMode := FrameModeSequenced,
     ses_BufferFree := (if ses_BufferFree s \<le> 0 then 1500 else ses_BufferFree s)\<rparr>"

lemma foldl_update_fresh:
  assumes "distinct (map fst al)" "fst ` set acc \<inter> fst ` set al = {}"
  shows "foldl (\<lambda>m (k, v). AList.update k v m) acc al = acc @ al"
  using assms
proof (induction al arbitrary: acc)
  case (Cons p al)
  obtain k v where p: "p = (k, v)" by (rule prod.exhaust)
  have "AList.update k v acc = acc @ [p]"
    using Cons.prems(2) unfolding p by (induction acc) auto
  with Cons.IH [of "acc @ [p]"] Cons.prems p show ?case by auto
qed simp

lemma entry_eta:
  "ife_Seq v = seq \<Longrightarrow>
     \<lparr>ife_Seq = seq, ife_Command = ife_Command v, ife_SentAt = ife_SentAt v, ife_Attempts = ife_Attempts v\<rparr> = v"
  by (cases v) simp

lemma restore_inflight:
  assumes "inflight_ok f"
  shows "foldl (\<lambda>m v. AList.update (ifs_Seq v) \<lparr>ife_Seq = ifs_Seq v, ife_Command = ifs_Command v,
      ife_SentAt = ifs_SentAt v, ife_Attempts = ifs_Attempts v\<rparr> m) []
    (map (\<lambda>(seq, v). \<lparr>ifs_Seq = ife_Seq v, ifs_Command = ife_Command v, ifs_SentAt = ife_SentAt v,
        ifs_Attempts = ife_Attempts v\<rparr>) f) = f"
proof -
  have d: "distinct (map fst f)" using assms by (simp add: inflight_ok_def wf_map_def)
  then have "ife_Seq v = seq" if "(seq, v) \<in> set f" for seq v
    using assms map_of_is_SomeI [OF d that] by (simp add: inflight_ok_def)
  then have "foldl (\<lambda>m v. AList.update (ifs_Seq v) \<lparr>ife_Seq = ifs_Seq v, ife_Command = ifs_Command v,
      ife_SentAt = ifs_SentAt v, ife_Attempts = ifs_Attempts v\<rparr> m) []
    (map (\<lambda>(seq, v). \<lparr>ifs_Seq = ife_Seq v, ifs_Command = ife_Command v, ifs_SentAt = ife_SentAt v,
        ifs_Attempts = ife_Attempts v\<rparr>) f) = foldl (\<lambda>m (k, v). AList.update k v m) [] f"
    unfolding foldl_map by (intro foldl_cong) (auto simp: entry_eta)
  with foldl_update_fresh [OF d, of "[]"] show ?thesis by simp
qed

lemma restore_snapshot: "wf_session s \<Longrightarrow> restore_session (snapshot_of s) = revive s"
  by (simp add: restore_session_def snapshot_of_def revive_def restore_inflight wf_session_def
      Restore_Snapshot Let_def)

lemma restore_ControllerID [simp]: "ses_ControllerID (restore_session snap) = sn_ControllerID snap"
  by (simp add: restore_session_def Let_def)

lemma restore_loop_map:
  assumes "distinct (map sn_ControllerID snaps)"
  shows "map_of (m_sessions (snd (restore_loop snaps n m))) k =
    (if k = [] then map_of (m_sessions m) k else case map_of (map (\<lambda>s. (sn_ControllerID s, s)) snaps) k of
       Some snap \<Rightarrow> Some (restore_session snap) | None \<Rightarrow> map_of (m_sessions m) k)"
  using assms
proof (induction snaps arbitrary: n m)
  case (Cons snap snaps)
  have "map_of (map (\<lambda>s. (sn_ControllerID s, s)) snaps) (sn_ControllerID snap) = None"
    using Cons.prems by (auto simp: map_of_eq_None_iff image_image)
  with Cons show ?case by (auto split: option.split)
qed simp

lemma restore_loop_count:
  "fst (restore_loop snaps n m) = n + int (length (filter (\<lambda>s. sn_ControllerID s \<noteq> []) snaps))"
  by (induction snaps arbitrary: n m) auto

lemma restore_loop_store [simp]: "m_store (snd (restore_loop snaps n m)) = m_store m"
  by (induction snaps arbitrary: n m) (auto simp: put_session_def)

context session_store
begin

lemma restore_sessions:
  assumes "invar st" "Manager_Restore ops (NewManager a b c p st) = (Inr n, m')" "k \<noteq> []"
  shows "map_of (m_sessions m') k = map_option restore_session (view st k)"
proof -
  obtain l st' where l: "ListSessions ops st = (Inr l, st')"
    using assms(2) by (auto simp: Manager_Restore_def NewManager_def Let_def split: prod.splits sum.splits)
  have "m' = snd (restore_loop l 0 ((NewManager a b c p st)\<lparr>m_store := st'\<rparr>))"
    using assms(2) l by (auto simp: Manager_Restore_def NewManager_def Let_def split: prod.splits)
  moreover have "distinct (map sn_ControllerID l)" "map_of (map (\<lambda>s. (sn_ControllerID s, s)) l) = view st"
    using list_ok [OF assms(1) l] by auto
  ultimately show ?thesis using assms(3)
    by (simp add: restore_loop_map NewManager_def Let_def split: option.split)
qed

lemma restart_durable:
  assumes "wf_manager m" "invar (m_store m)" "durable view m k" "k \<noteq> []"
    and "Manager_Restore ops (NewManager a b c p (m_store m)) = (Inr n, m')"
  shows "map_of (m_sessions m') k = map_option revive (map_of (m_sessions m) k)"
  using restore_sessions [OF assms(2,5,4)] assms(3) wf_lookup(2) [OF assms(1)]
  by (auto simp: durable_def restore_snapshot)

lemma step_store_ok: "mgr_step ops m m' \<Longrightarrow> invar (m_store m) \<Longrightarrow> invar (m_store m')"
proof (induction rule: mgr_step.induct)
  case (restore m)
  then show ?case using list_invar [of "m_store m"]
    by (auto simp: Manager_Restore_def Let_def split_beta split: prod.splits sum.splits)
qed (auto simp: setter_defs Manager_Delete_def EnqueueWithEvents_def enqueueLocked_def enqueue_session_def
    createDetachedLocked_def Create_def AckInFlight_def ProcessInFlight_def persistLocked_eq update_session_eq
    put_session_def add_session_eq Let_def split_beta save_invar delete_invar split: option.splits sum.splits)

lemma run_store_ok: "(mgr_step ops)\<^sup>*\<^sup>* m m' \<Longrightarrow> invar (m_store m) \<Longrightarrow> invar (m_store m')"
  by (induction rule: rtranclp_induct) (auto intro: step_store_ok)

end

lemma run_reach: "(mgr_step ops)\<^sup>*\<^sup>* (NewManager a b c p st) m \<Longrightarrow> mgr_reach ops m"
  by (induction rule: rtranclp_induct) (auto intro: mgr_reach.intros)

subsection \<open>Properties\<close>


definition sample_fs :: file_system where
  "sample_fs = \<lparr>fs_file = FileJSON [], fs_modified = 0, fs_entries = [], fs_temps = 0, fs_now = 0, fs_faults = []\<rparr>"

definition sample_file_manager :: "file_system Manager" where
  "sample_file_manager =
     snd (Create (FileStore ''s'') ''c1'' sample_conn 100 (NewManager 4 2 0 ''drop_oldest'' sample_fs))"

lemma sample_file_run:
  "(mgr_step (FileStore ''s''))\<^sup>*\<^sup>* (NewManager 4 2 0 ''drop_oldest'' sample_fs) sample_file_manager"
  unfolding sample_file_manager_def by (rule r_into_rtranclp) (rule mgr_step.create)

lemma sample_fs_ok: "file_ok sample_fs"
  by (simp add: sample_fs_def file_ok_def file_data_def snapshots_ok_def)

lemma no_faults:
  assumes "fs_faults fs = []" "fs_file fs = FileJSON d"
  shows "SaveSession (FileStore base) snap fs
      = (None, fs\<lparr>fs_file := FileJSON (AList.update (sn_ControllerID snap) snap d), fs_modified := fs_now fs\<rparr>)"
    and "ListSessions (FileStore base) fs = (Inr (map snd d), fs)"
  using assms by (simp_all add: file_defs readAllLocked_def writeAllLocked_def fill_temp_def os_then_def os_call_def
      syncDir_def)

lemma sample_file_session:
  "map_of (m_sessions sample_file_manager) ''c1'' = Some (new_session ''c1'' (Some sample_conn) 100)"
  "fs_faults (m_store sample_file_manager) = []" "\<exists>d. fs_file (m_store sample_file_manager) = FileJSON d"
  "m_maxQueueDepth sample_file_manager = 2" "m_maxQueueBytes sample_file_manager = 0"
  by (simp_all add: sample_file_manager_def Create_def NewManager_def Let_def onlineConnectionsLocked_def
      add_session_eq no_faults sample_fs_def new_session_def)




end
