(* ===== verification/Inflight_Laws.thy ===== *)
theory Inflight_Laws
  imports Manager_Laws
begin

text \<open>
  Laws of the commands in flight: sequence numbers, acknowledgement, the acknowledgement
  timeout with its retries (\<^verbatim>\<open>ProcessInFlight\<close>) and the back-off of a retry (\<^verbatim>\<open>retryDelay\<close>).
\<close>

section \<open>Acknowledgement timeouts\<close>

text \<open>
  The fate of one entry at time \<open>now\<close>: \<open>None\<close> while it waits for its acknowledgement, and after
  that the outcome reported for it. \<open>res\<close> gives the policy of the command.
\<close>

definition entry_due :: "DeliveryPolicyResolver option \<Rightarrow> string \<Rightarrow> InFlightEntry \<Rightarrow> time" where
  "entry_due res k e = ife_SentAt e + entry_wait (entry_policy res k (ife_Command e)) e"

definition last_attempt :: "DeliveryPolicyResolver option \<Rightarrow> string \<Rightarrow> InFlightEntry \<Rightarrow> bool" where
  "last_attempt res k e \<longleftrightarrow> ife_Attempts e \<ge> i64 (pol_MaxRetries (entry_policy res k (ife_Command e)) + 1)"

definition entry_outcome :: "DeliveryPolicyResolver option \<Rightarrow> string \<Rightarrow> time \<Rightarrow> u8 \<Rightarrow> InFlightEntry
    \<Rightarrow> InFlightOutcome option" where
  "entry_outcome res k now seq e =
     (let cmd = ife_Command e;
          report = (\<lambda>typ c reason. Some \<lparr>out_Type = typ, out_Seq = seq, out_Command = c,
                      out_Attempts = ife_Attempts e, out_Reason = reason\<rparr>)
      in if now < entry_due res k e then None
         else if Expired cmd now then report ''expired'' cmd ''ttl expired while waiting ack''
         else if last_attempt res k e
         then if now < ife_SentAt e + i64 (entry_wait (entry_policy res k cmd) e + lateAckGrace) then None
              else report ''failed'' cmd ''ack timeout retries exceeded''
         else report ''retrying'' (cmd\<lparr>cmd_Attempts := ife_Attempts e, cmd_RetrySeq := seq\<rparr>) ''ack timeout'')"

definition retried :: "InFlightOutcome list \<Rightarrow> Command list" where
  "retried out = map out_Command (filter (\<lambda>o'. out_Type o' = ''retrying'') out)"

lemma retried_append [simp]: "retried (xs @ ys) = retried xs @ retried ys" "retried [] = []"
  by (simp_all add: retried_def)

text \<open>The outcomes of a pass over the keys \<open>order\<close>.\<close>

definition pass_outcomes :: "DeliveryPolicyResolver option \<Rightarrow> string \<Rightarrow> time \<Rightarrow> (u8 \<rightharpoonup> InFlightEntry) \<Rightarrow> u8 list
    \<Rightarrow> InFlightOutcome list" where
  "pass_outcomes res k now f order =
     List.map_filter (\<lambda>seq. Option.bind (f seq) (entry_outcome res k now seq)) order"

lemma pass_outcomes_simps [simp]:
  "pass_outcomes res k now f [] = []"
  "pass_outcomes res k now f (seq # order) =
     (case Option.bind (f seq) (entry_outcome res k now seq) of None \<Rightarrow> [] | Some out \<Rightarrow> [out])
       @ pass_outcomes res k now f order"
  by (simp_all add: pass_outcomes_def map_filter_simps split: option.split)

text \<open>
  A Go map may produce a key again when the loop body has deleted and re-inserted it; the keys
  without those repetitions are \<open>firsts order\<close>.
\<close>

primrec firsts :: "'a list \<Rightarrow> 'a list" where
  "firsts [] = []"
| "firsts (x # xs) = x # filter (\<lambda>y. y \<noteq> x) (firsts xs)"

lemma firsts_simps [simp]: "set (firsts xs) = set xs" "distinct (firsts xs)" "distinct xs \<Longrightarrow> firsts xs = xs"
  by (induction xs) (auto simp: filter_id_conv)

lemma pass_outcomes_after:
  "pass_outcomes res k now (f(seq := Option.bind (f seq)
      (\<lambda>e. if entry_outcome res k now seq e = None then Some e else None))) order
    = pass_outcomes res k now f (filter (\<lambda>q. q \<noteq> seq) order)"
  by (induction order) (auto split: bind_splits)

lemma process_entry_spec:
  assumes "map_of (ses_InFlight s) seq = Some e"
  shows "\<exists>f. process_entry res k now seq (s, out) =
      (s\<lparr>ses_InFlight := f, ses_Queue := foldl Queue_Push (ses_Queue s)
           (retried (case entry_outcome res k now seq e of None \<Rightarrow> [] | Some x \<Rightarrow> [x]))\<rparr>,
       out @ (case entry_outcome res k now seq e of None \<Rightarrow> [] | Some x \<Rightarrow> [x]))
    \<and> map_of f = (map_of (ses_InFlight s))(seq := if entry_outcome res k now seq e = None then Some e else None)"
proof -
  have upd: "(map_of (ses_InFlight s))(seq \<mapsto> e) = map_of (ses_InFlight s)" using assms by (simp add: fun_upd_idem)
  let ?wait = "entry_wait (entry_policy res k (ife_Command e)) e"
  show ?thesis
  proof (cases "now < ife_SentAt e + ?wait")
    case True
    with assms upd show ?thesis
      by (intro exI [of _ "ses_InFlight s"]) (simp add: process_entry_def entry_outcome_def entry_due_def Let_def)
  next
    case False
    have del: "map_of (AList.delete seq (ses_InFlight s)) = (map_of (ses_InFlight s))(seq := None)"
      by (rule AList.delete_conv')
    have "map_of (AList.update seq e (AList.delete seq (ses_InFlight s))) = map_of (ses_InFlight s)"
      unfolding AList.update_conv' del using upd by simp
    with False del assms upd show ?thesis
      by (auto simp: process_entry_def entry_outcome_def entry_due_def last_attempt_def retried_def Let_def)
  qed
qed

lemma two_updates:
  "ses_InFlight (s\<lparr>ses_InFlight := f, ses_Queue := q\<rparr>) = f" "ses_Queue (s\<lparr>ses_InFlight := f, ses_Queue := q\<rparr>) = q"
  "s\<lparr>ses_InFlight := f, ses_Queue := q\<rparr>\<lparr>ses_InFlight := f', ses_Queue := q'\<rparr> = s\<lparr>ses_InFlight := f', ses_Queue := q'\<rparr>"
  by simp_all

lemma process_fold:
  shows "\<exists>f. fold (process_entry res k now) order (s, out) =
      (s\<lparr>ses_InFlight := f, ses_Queue := foldl Queue_Push (ses_Queue s)
           (retried (pass_outcomes res k now (map_of (ses_InFlight s)) (firsts order)))\<rparr>,
       out @ pass_outcomes res k now (map_of (ses_InFlight s)) (firsts order))
    \<and> map_of f = (\<lambda>seq. if seq \<in> set order
        then Option.bind (map_of (ses_InFlight s) seq) (\<lambda>e. if entry_outcome res k now seq e = None then Some e else None)
        else map_of (ses_InFlight s) seq)"
proof (induction order arbitrary: s out)
  case (Cons seq order)
  let ?e = "map_of (ses_InFlight s) seq"
  let ?o = "case Option.bind ?e (entry_outcome res k now seq) of None \<Rightarrow> [] | Some x \<Rightarrow> [x]"
  obtain f where f: "process_entry res k now seq (s, out) =
        (s\<lparr>ses_InFlight := f, ses_Queue := foldl Queue_Push (ses_Queue s) (retried ?o)\<rparr>, out @ ?o)"
      "map_of f = (map_of (ses_InFlight s))(seq :=
         Option.bind ?e (\<lambda>e. if entry_outcome res k now seq e = None then Some e else None))"
  proof (cases ?e)
    case None
    then show thesis by (intro that [of "ses_InFlight s"]) (auto simp: process_entry_def)
  next
    case (Some e)
    from process_entry_spec [OF this, of res k now out] Some that show thesis by auto
  qed
  let ?s = "s\<lparr>ses_InFlight := f, ses_Queue := foldl Queue_Push (ses_Queue s) (retried ?o)\<rparr>"
  have same: "pass_outcomes res k now (map_of f) (firsts order)
      = pass_outcomes res k now (map_of (ses_InFlight s)) (filter (\<lambda>q. q \<noteq> seq) (firsts order))"
    unfolding f(2) by (rule pass_outcomes_after)
  from Cons.IH [of ?s "out @ ?o"] obtain g where g: "fold (process_entry res k now) order (?s, out @ ?o) =
        (?s\<lparr>ses_InFlight := g, ses_Queue := foldl Queue_Push (ses_Queue ?s)
           (retried (pass_outcomes res k now (map_of (ses_InFlight ?s)) (firsts order)))\<rparr>,
         (out @ ?o) @ pass_outcomes res k now (map_of (ses_InFlight ?s)) (firsts order))"
      "map_of g = (\<lambda>q. if q \<in> set order
        then Option.bind (map_of (ses_InFlight ?s) q) (\<lambda>e. if entry_outcome res k now q e = None then Some e else None)
        else map_of (ses_InFlight ?s) q)"
    by blast
  have step: "fold (process_entry res k now) (seq # order) (s, out) = fold (process_entry res k now) order (?s, out @ ?o)"
    by (simp add: f(1))
  have "map_of g q = (if q \<in> set (seq # order)
      then Option.bind (map_of (ses_InFlight s) q) (\<lambda>e. if entry_outcome res k now q e = None then Some e else None)
      else map_of (ses_InFlight s) q)" for q
    unfolding g(2) two_updates f(2) by (auto split: bind_splits)
  then show ?case
    unfolding step g(1) unfolding two_updates same firsts.simps pass_outcomes_simps
    by (intro exI [of _ g]) (simp add: fun_eq_iff)
next
  case Nil
  show ?case by (intro exI [of _ "ses_InFlight s"]) auto
qed

lemma process_pass:
  assumes "wf_manager m" "map_of (m_sessions m) k = Some s"
    and "set order = fst ` set (ses_InFlight s)"
    and "ProcessInFlight ops order k now res m = (out, err, m')"
  shows "\<exists>s'. map_of (m_sessions m') k = Some s'
    \<and> out = pass_outcomes res k now (map_of (ses_InFlight s)) (firsts order)
    \<and> (\<forall>seq. map_of (ses_InFlight s') seq = (case map_of (ses_InFlight s) seq of
          Some e \<Rightarrow> if entry_outcome res k now seq e = None then Some e else None | None \<Rightarrow> None))
    \<and> ses_Queue s' = foldl Queue_Push (ses_Queue s) (retried out)
    \<and> err = fst (SaveSession ops (snapshot_of s') (m_store m))"
proof -
  have id: "ses_ControllerID s = k" using wf_lookup(1) [OF assms(1,2)] .
  obtain f where f: "fold (process_entry res k now) order (s, []) =
      (s\<lparr>ses_InFlight := f, ses_Queue := foldl Queue_Push (ses_Queue s)
           (retried (pass_outcomes res k now (map_of (ses_InFlight s)) (firsts order)))\<rparr>,
       pass_outcomes res k now (map_of (ses_InFlight s)) (firsts order))"
    "map_of f = (\<lambda>seq. if seq \<in> set order
        then Option.bind (map_of (ses_InFlight s) seq) (\<lambda>e. if entry_outcome res k now seq e = None then Some e else None)
        else map_of (ses_InFlight s) seq)"
    using process_fold [of res k now order s "[]"] unfolding append_Nil by blast
  have none: "map_of (ses_InFlight s) seq = None" if "seq \<notin> set order" for seq
    using that assms(3) by (simp add: map_of_eq_None_iff)
  have f': "map_of f seq = (case map_of (ses_InFlight s) seq of
      Some e \<Rightarrow> if entry_outcome res k now seq e = None then Some e else None | None \<Rightarrow> None)" for seq
    using none [of seq] by (auto simp: f(2) split: option.split)
  from assms(2,4) id show ?thesis
    by (auto simp: ProcessInFlight_def f(1) f' update_session_eq)
qed

subsection \<open>Properties\<close>

text \<open>
  (C12) One pass of \<^verbatim>\<open>ProcessInFlight\<close>, whatever the iteration order of the Go map (and
  if a re-inserted key is produced again): each entry that
  is due is reported with exactly one outcome and is out of the in-flight set, each other entry is
  kept as it was, and the commands queued are exactly those reported as retrying, pushed in the
  order of the report with their attempts and their old sequence number. Nothing is lost and
  nothing is both retried and kept, also when the save fails.
\<close>

theorem process_inflight_exact:
  assumes "mgr_reach ops m" "map_of (m_sessions m) k = Some s"
    and "set order = fst ` set (ses_InFlight s)"
    and "ProcessInFlight ops order k now res m = (out, err, m')"
  shows "\<exists>s'. map_of (m_sessions m') k = Some s'
    \<and> out = pass_outcomes res k now (map_of (ses_InFlight s)) (firsts order)
    \<and> (\<forall>seq. map_of (ses_InFlight s') seq = (case map_of (ses_InFlight s) seq of
          Some e \<Rightarrow> if entry_outcome res k now seq e = None then Some e else None | None \<Rightarrow> None))
    \<and> ses_Queue s' = foldl Queue_Push (ses_Queue s) (retried out)
    \<and> err = fst (SaveSession ops (snapshot_of s') (m_store m))"
  using process_pass [OF wf_reach [OF assms(1)] assms(2-4)] by auto

definition sample_inflight :: "snapshots Manager" where
  "sample_inflight = snd (RegisterInFlight InMemoryStore ''c1'' 5 (sample_command ''high'' 0) 0 sample_manager)"

lemma sample_inflight_reach: "mgr_reach InMemoryStore sample_inflight"
  unfolding sample_inflight_def by (rule mgr_reach.step [OF sample_reach mgr_step.register])

definition sample_entry :: InFlightEntry where
  "sample_entry = \<lparr>ife_Seq = 5, ife_Command = sample_command ''high'' 0, ife_SentAt = 0, ife_Attempts = 1\<rparr>"

lemma sample_inflight_session:
  "map_of (m_sessions sample_inflight) ''c1''
     = Some ((new_session ''c1'' (Some sample_conn) 100)\<lparr>ses_InFlight := [(5, sample_entry)]\<rparr>)"
  by (simp add: sample_inflight_def RegisterInFlight_def sample_session update_session_eq new_session_def
      sample_entry_def sample_command_def Let_def minInt64_def maxInt64_def)

lemma sample_policy:
  "entry_policy None ''c1'' cmd = \<lparr>pol_AckTimeout = 10 * second, pol_RetryBackoff = 0, pol_MaxRetries = 3\<rparr>"
  "entry_wait \<lparr>pol_AckTimeout = 10 * second, pol_RetryBackoff = 0, pol_MaxRetries = 3\<rparr> sample_entry = 10 * second"
  by (simp_all add: entry_policy_def entry_wait_def retryDelay_def second_def minInt64_def maxInt64_def)

theorem process_inflight_exact_witness:
  "\<exists>m' s'. ProcessInFlight InMemoryStore [5] ''c1'' second None sample_inflight = ([], None, m')
     \<and> map_of (m_sessions m') ''c1'' = Some s' \<and> map_of (ses_InFlight s') 5 = Some sample_entry"
proof -
  let ?r = "ProcessInFlight InMemoryStore [5] ''c1'' second None sample_inflight"
  have "?r = (fst ?r, fst (snd ?r), snd (snd ?r))" by simp
  note r = process_inflight_exact [OF sample_inflight_reach sample_inflight_session _ this]
  have wait: "entry_outcome None ''c1'' second 5 sample_entry = None"
    by (simp add: entry_outcome_def entry_due_def sample_policy) (simp add: sample_entry_def second_def)
  have "fst (SaveSession InMemoryStore snap st) = None" for snap st
    by (simp add: InMemoryStore_def InMemoryStore_SaveSession_def)
  with r wait show ?thesis
    by (auto simp: prod_eq_iff)
qed

lemma pass_outcomes_mem:
  "seq \<in> set order \<Longrightarrow> f seq = Some e \<Longrightarrow> entry_outcome res k now seq e = Some x
    \<Longrightarrow> x \<in> set (pass_outcomes res k now f order)"
  by (induction order) auto

lemma entry_policy_bounds: "0 < pol_AckTimeout (entry_policy res k cmd)" "0 \<le> pol_MaxRetries (entry_policy res k cmd)"
  by (auto simp: entry_policy_def second_def Let_def split: option.split)

lemma entry_wait_nonneg: "0 < pol_AckTimeout pol \<Longrightarrow> 0 \<le> entry_wait pol e"
  by (simp add: entry_wait_def Let_def)

lemma entry_outcome_after:
  assumes "entry_policy res k (ife_Command e) = pol" "pol_MaxRetries pol < maxInt64"
    and "entry_wait pol e + lateAckGrace \<le> maxInt64" "ife_SentAt e + entry_wait pol e + lateAckGrace \<le> now"
  shows "\<exists>x. entry_outcome res k now seq e = Some x \<and> out_Seq x = seq \<and> out_Attempts x = ife_Attempts e
    \<and> (if Expired (ife_Command e) now then out_Type x = ''expired''
       else if ife_Attempts e \<le> pol_MaxRetries pol
       then out_Type x = ''retrying'' \<and> out_Command x = (ife_Command e)\<lparr>cmd_Attempts := ife_Attempts e, cmd_RetrySeq := seq\<rparr>
       else out_Type x = ''failed'')"
proof -
  note bounds = entry_policy_bounds [of res k "ife_Command e", unfolded assms(1)]
  note wait = entry_wait_nonneg [OF bounds(1), of e]
  have grace: "0 \<le> lateAckGrace" by (simp add: lateAckGrace_def second_def)
  have i: "i64 (entry_wait pol e + lateAckGrace) = entry_wait pol e + lateAckGrace"
      "i64 (pol_MaxRetries pol + 1) = pol_MaxRetries pol + 1"
    using wait grace assms(2,3) bounds(2) by (auto simp: minInt64_def)
  have due: "\<not> now < entry_due res k e" "\<not> now < ife_SentAt e + (entry_wait pol e + lateAckGrace)"
    using assms(4) grace by (simp_all add: entry_due_def assms(1))
  have lasta: "last_attempt res k e \<longleftrightarrow> \<not> ife_Attempts e \<le> pol_MaxRetries pol"
    by (auto simp: last_attempt_def assms(1) i)
  show ?thesis
    by (simp add: entry_outcome_def due lasta assms(1) i Let_def)
qed

lemma foldl_Push_mset: "mset (Queue_Snapshot (foldl Queue_Push q cs)) = mset (Queue_Snapshot q) + mset cs"
  by (induction cs arbitrary: q) (auto simp: cq.contents_push)

lemma retried_mem: "x \<in> set out \<Longrightarrow> out_Type x = ''retrying'' \<Longrightarrow> out_Command x \<in> set (retried out)"
  by (auto simp: retried_def)

text \<open>
  (C13) No command waits for its acknowledgement for ever: the first pass at or after the time sent
  plus its wait plus the grace for late acknowledgements takes the entry out of the in-flight set
  and reports it, as expired when its TTL is over, as retrying (and back in the queue, its attempts
  counted) while it has been sent at most \<^verbatim>\<open>MaxRetries\<close> times, and as failed after that, so that a
  command is sent at most \<^verbatim>\<open>MaxRetries + 1\<close> times.
\<close>

theorem inflight_resolved:
  assumes "mgr_reach ops m" "map_of (m_sessions m) k = Some s" "map_of (ses_InFlight s) seq = Some e"
    and "set order = fst ` set (ses_InFlight s)"
    and "entry_policy res k (ife_Command e) = pol" "pol_MaxRetries pol < maxInt64"
    and "entry_wait pol e + lateAckGrace \<le> maxInt64" "ife_SentAt e + entry_wait pol e + lateAckGrace \<le> now"
    and "ProcessInFlight ops order k now res m = (out, err, m')"
  shows "\<exists>s' x. map_of (m_sessions m') k = Some s' \<and> map_of (ses_InFlight s') seq = None
    \<and> x \<in> set out \<and> out_Seq x = seq \<and> out_Attempts x = ife_Attempts e
    \<and> (if Expired (ife_Command e) now then out_Type x = ''expired''
       else if ife_Attempts e \<le> pol_MaxRetries pol
       then out_Type x = ''retrying'' \<and> out_Command x \<in> set (Queue_Snapshot (ses_Queue s'))
         \<and> out_Command x = (ife_Command e)\<lparr>cmd_Attempts := ife_Attempts e, cmd_RetrySeq := seq\<rparr>
       else out_Type x = ''failed'')"
proof -
  obtain x where x: "entry_outcome res k now seq e = Some x" "out_Seq x = seq" "out_Attempts x = ife_Attempts e"
      "if Expired (ife_Command e) now then out_Type x = ''expired''
       else if ife_Attempts e \<le> pol_MaxRetries pol
       then out_Type x = ''retrying'' \<and> out_Command x = (ife_Command e)\<lparr>cmd_Attempts := ife_Attempts e, cmd_RetrySeq := seq\<rparr>
       else out_Type x = ''failed''"
    using entry_outcome_after [OF assms(5-8), of seq] by blast
  obtain s' where s': "map_of (m_sessions m') k = Some s'" "map_of (ses_InFlight s') seq = None"
      "out = pass_outcomes res k now (map_of (ses_InFlight s)) (firsts order)"
      "ses_Queue s' = foldl Queue_Push (ses_Queue s) (retried out)"
    using process_pass [OF wf_reach [OF assms(1)] assms(2,4,9)] assms(3) x(1) by auto
  have "seq \<in> set (firsts order)" using assms(3,4) by (metis firsts_simps(1) domI dom_map_of_conv_image_fst)
  then have mem: "x \<in> set out" using pass_outcomes_mem [of seq "firsts order" "map_of (ses_InFlight s)" e] assms(3) x(1) s'(3) by blast
  have "set (retried out) \<subseteq> set (Queue_Snapshot (ses_Queue s'))"
    unfolding s'(4) set_mset_mset [symmetric] foldl_Push_mset by simp
  with s' mem x retried_mem [OF mem] show ?thesis by (intro exI [of _ s'] exI [of _ x]) auto
qed

theorem inflight_resolved_witness:
  "\<exists>m' s' x. ProcessInFlight InMemoryStore [5] ''c1'' (12 * second) None sample_inflight = ([x], None, m')
     \<and> map_of (m_sessions m') ''c1'' = Some s' \<and> map_of (ses_InFlight s') 5 = None \<and> out_Type x = ''expired''"
proof -
  let ?r = "ProcessInFlight InMemoryStore [5] ''c1'' (12 * second) None sample_inflight"
  obtain x m' where r: "?r = ([x], None, m')"
    by (simp add: ProcessInFlight_def process_entry_def sample_inflight_session sample_policy update_session_eq
        InMemoryStore_def InMemoryStore_SaveSession_def)
      (simp add: sample_entry_def sample_command_def Expired_def second_def)
  have exp: "Expired (ife_Command sample_entry) (12 * second)"
    by (simp add: sample_entry_def sample_command_def Expired_def second_def)
  have "\<exists>s' y. map_of (m_sessions m') ''c1'' = Some s' \<and> map_of (ses_InFlight s') 5 = None \<and> y \<in> set [x]
      \<and> out_Seq y = 5 \<and> out_Attempts y = ife_Attempts sample_entry
      \<and> (if Expired (ife_Command sample_entry) (12 * second) then out_Type y = ''expired''
       else if ife_Attempts sample_entry \<le> pol_MaxRetries (entry_policy None ''c1'' (ife_Command sample_entry))
       then out_Type y = ''retrying'' \<and> out_Command y \<in> set (Queue_Snapshot (ses_Queue s'))
         \<and> out_Command y = (ife_Command sample_entry)\<lparr>cmd_Attempts := ife_Attempts sample_entry, cmd_RetrySeq := 5\<rparr>
       else out_Type y = ''failed'')"
    by (rule inflight_resolved [OF sample_inflight_reach sample_inflight_session _ _ refl _ _ _ r])
      (simp_all add: sample_policy lateAckGrace_def, simp_all add: sample_entry_def second_def maxInt64_def)
  with r exp show ?thesis by auto
qed

section \<open>Acknowledgement and sequence numbers\<close>

lemma AckInFlight_result:
  assumes "wf_manager m" "map_of (m_sessions m) k = Some s" "AckInFlight ops k seq m = (r, m')"
  shows "\<exists>s'. map_of (m_sessions m') k = Some s' \<and> s' = s\<lparr>ses_InFlight := ses_InFlight s'\<rparr>
    \<and> (\<forall>k'. k' \<noteq> k \<longrightarrow> map_of (m_sessions m') k' = map_of (m_sessions m) k')
    \<and> (case r of
         Some (cmd, n) \<Rightarrow> (\<exists>e. map_of (ses_InFlight s) seq = Some e \<and> cmd = ife_Command e \<and> n = ife_Attempts e)
           \<and> map_of (ses_InFlight s') = (map_of (ses_InFlight s))(seq := None)
           \<and> AckInFlight ops k seq m' = (None, m')
       | None \<Rightarrow> map_of (ses_InFlight s') = map_of (ses_InFlight s))
    \<and> (r = None \<longrightarrow> map_of (ses_InFlight s) seq = None \<or> (\<exists>snap st. fst (SaveSession ops snap st) \<noteq> None))"
proof -
  have id: "ses_ControllerID s = k" using wf_lookup(1) [OF assms(1,2)] .
  have upd: "(map_of (ses_InFlight s))(seq \<mapsto> e) = map_of (ses_InFlight s)" if "map_of (ses_InFlight s) seq = Some e" for e
    using that by (simp add: fun_upd_idem)
  show ?thesis
  proof (cases "map_of (ses_InFlight s) seq")
    case None
    with assms(2,3) show ?thesis by (auto simp: AckInFlight_def)
  next
    case (Some e)
    let ?s = "s\<lparr>ses_InFlight := AList.delete seq (ses_InFlight s)\<rparr>"
    have del: "map_of (AList.delete seq (ses_InFlight s)) = (map_of (ses_InFlight s))(seq := None)"
      by (rule AList.delete_conv')
    show ?thesis
    proof (cases "fst (SaveSession ops (snapshot_of ?s) (m_store m))")
      case None
      with assms(2,3) Some id del show ?thesis
        by (intro exI [of _ ?s]) (auto simp: AckInFlight_def update_session_eq Let_def)
    next
      case err: (Some er)
      with assms(2,3) Some id del upd [OF Some] show ?thesis
        by (intro exI [of _ "s\<lparr>ses_InFlight := AList.update seq e (AList.delete seq (ses_InFlight s))\<rparr>"])
          (auto simp: AckInFlight_def update_session_eq AList.update_conv' Let_def)
    qed
  qed
qed

text \<open>
  (C14) \<^verbatim>\<open>AckInFlight\<close> acknowledges once and loses nothing: when it returns a command, that is the
  entry registered under the sequence number, exactly this entry is gone, and a second
  acknowledgement of the number finds nothing; when it returns \<^verbatim>\<open>false\<close>, because the number is
  unknown or because the save failed, the in-flight set is as before. The rest of the session and
  the other sessions do not change.
\<close>

theorem ack_inflight_once:
  assumes "mgr_reach ops m" "map_of (m_sessions m) k = Some s" "AckInFlight ops k seq m = (r, m')"
  shows "\<exists>s'. map_of (m_sessions m') k = Some s' \<and> s' = s\<lparr>ses_InFlight := ses_InFlight s'\<rparr>
    \<and> (\<forall>k'. k' \<noteq> k \<longrightarrow> map_of (m_sessions m') k' = map_of (m_sessions m) k')
    \<and> (case r of
         Some (cmd, n) \<Rightarrow> (\<exists>e. map_of (ses_InFlight s) seq = Some e \<and> cmd = ife_Command e \<and> n = ife_Attempts e)
           \<and> map_of (ses_InFlight s') = (map_of (ses_InFlight s))(seq := None)
           \<and> AckInFlight ops k seq m' = (None, m')
       | None \<Rightarrow> map_of (ses_InFlight s') = map_of (ses_InFlight s))"
  using AckInFlight_result [OF wf_reach [OF assms(1)] assms(2,3)] by blast

theorem ack_inflight_once_witness:
  "\<exists>m' s'. AckInFlight InMemoryStore ''c1'' 5 sample_inflight = (Some (sample_command ''high'' 0, 1), m')
     \<and> map_of (m_sessions m') ''c1'' = Some s' \<and> map_of (ses_InFlight s') 5 = None
     \<and> AckInFlight InMemoryStore ''c1'' 5 m' = (None, m')"
proof -
  let ?r = "AckInFlight InMemoryStore ''c1'' 5 sample_inflight"
  have r: "?r = (Some (sample_command ''high'' 0, 1), snd ?r)"
    by (simp add: AckInFlight_def sample_inflight_session update_session_eq InMemoryStore_def
        InMemoryStore_SaveSession_def Let_def) (simp add: sample_entry_def)
  from ack_inflight_once [OF sample_inflight_reach sample_inflight_session r] r show ?thesis by auto
qed

text \<open>The results of \<open>n\<close> calls of \<^verbatim>\<open>NextCommandSeq\<close> in a row.\<close>

fun next_seqs :: "'s Store \<Rightarrow> string \<Rightarrow> nat \<Rightarrow> 's Manager \<Rightarrow> (go_error + u8) list" where
  "next_seqs ops k 0 m = []"
| "next_seqs ops k (Suc n) m = (let (r, m') = NextCommandSeq ops k m in r # next_seqs ops k n m')"

lemma next_seqs_eq:
  assumes "wf_manager m" "map_of (m_sessions m) k = Some s"
  shows "next_seqs ops k n m = map (\<lambda>i. Inr (ses_NextSeq s + of_nat (i + 1))) [0..<n]"
  using assms
proof (induction n arbitrary: m s)
  case (Suc n)
  let ?s = "s\<lparr>ses_NextSeq := ses_NextSeq s + 1\<rparr>"
  let ?m = "snd (update_session ops ?s m)"
  have "map_of (m_sessions ?m) k = Some ?s"
    using wf_lookup(1) [OF Suc.prems] by (simp add: update_session_eq)
  moreover have "wf_manager ?m" using wf_lookup(2) [OF Suc.prems] Suc.prems(1) by simp
  ultimately have "next_seqs ops k n ?m = map (\<lambda>i. Inr (ses_NextSeq s + 1 + of_nat (i + 1))) [0..<n]"
    using Suc.IH by simp
  then have "next_seqs ops k (Suc n) m
      = Inr (ses_NextSeq s + 1) # map (\<lambda>i. Inr (ses_NextSeq s + 1 + of_nat (i + 1))) [0..<n]"
    using Suc.prems(2) by (simp add: NextCommandSeq_def split_beta)
  then show ?case
    by (simp add: upt_rec [of 0 "Suc n"] map_Suc_upt [symmetric] comp_def add.assoc del: upt_Suc)
qed simp

text \<open>
  Sequence numbers count up from the stored one and wrap at 256: the \<open>n\<close>-th of a run of calls
  returns the stored number plus \<open>n\<close>, whether the saves succeed or not, and up to 256 calls in a row
  return different numbers.
\<close>

lemma sequence_numbers:
  assumes "mgr_reach ops m" "map_of (m_sessions m) k = Some s"
  shows "next_seqs ops k n m = map (\<lambda>i. Inr (ses_NextSeq s + of_nat (i + 1))) [0..<n]
    \<and> (n \<le> 256 \<longrightarrow> distinct (next_seqs ops k n m))"
proof -
  have inj: "i = j" if "ses_NextSeq s + of_nat (i + 1) = ses_NextSeq s + of_nat (j + 1)" "i < 256" "j < 256" for i j
  proof -
    have "(of_nat i :: u8) = of_nat j" using that(1) by simp
    then have "unat (of_nat i :: u8) = unat (of_nat j :: u8)" by simp
    with that(2,3) show ?thesis by (simp add: unat_of_nat)
  qed
  note eq = next_seqs_eq [OF wf_reach [OF assms(1)] assms(2), of ops n]
  have "distinct (map (\<lambda>i. Inr (ses_NextSeq s + of_nat (i + 1)) :: go_error + u8) [0..<n])" if "n \<le> 256"
    using that inj by (auto simp: distinct_map inj_on_def)
  with eq show ?thesis by simp
qed

text \<open>
  (C36) The back-off of a retry: none for the first sending; from the second attempt on the base is
  doubled per attempt up to 64 times the base, and the deterministic jitter moves the result by at
  most a fifth of it up or down. This holds for every seed while the arithmetic stays within 64
  bits, that is up to a base of about 83 days.
\<close>

theorem retry_delay_bounds:
  assumes "0 < base" "base * 64 * 20 \<le> maxInt64"
  defines "d \<equiv> \<lambda>attempts. base * 2 ^ nat (min 6 (attempts - 2))"
  shows "(attempts \<le> 1 \<longrightarrow> retryDelay attempts base seed = 0)
    \<and> (2 \<le> attempts \<longrightarrow> d attempts - d attempts div 5 \<le> retryDelay attempts base seed
         \<and> retryDelay attempts base seed \<le> d attempts + d attempts div 5 \<and> d attempts \<le> 64 * base)"
proof (cases "attempts \<le> 1")
  case True
  then show ?thesis by (simp add: retryDelay_def)
next
  case False
  let ?sh = "nat (min 6 (attempts - 2))"
  have sh: "(if (if attempts - 2 < 0 then 0 else attempts - 2) > maxRetryBackoffShift then maxRetryBackoffShift
      else if attempts - 2 < 0 then 0 else attempts - 2) = min 6 (attempts - 2)"
    using False by (auto simp: maxRetryBackoffShift_def)
  have p: "(2::int) ^ ?sh \<le> 2 ^ 6" by (rule power_increasing) auto
  define dl where "dl = d attempts"
  have dl: "0 < dl" "dl \<le> 64 * base" using assms(1) p by (auto simp: dl_def d_def mult.commute)
  then have small: "dl * 20 \<le> maxInt64" using assms(2) by simp
  then have i: "i64 dl = dl" "i64 (dl * 20) = dl * 20" using dl(1) by (auto simp: minInt64_def)
  have "dl * 20 div (5 * 20) = dl div 5" by (rule div_mult_mult2) simp
  then have j: "dl * 20 sdiv 100 = dl div 5" using dl(1) by (simp add: signed_divide_int_def)
  have "dl div 5 * 2 + 1 \<le> maxInt64" using small dl(1) by linarith
  then have k: "i64 (dl div 5 * 2) = dl div 5 * 2" "i64 (dl div 5 * 2 + 1) = dl div 5 * 2 + 1"
    using dl(1) by (auto simp: minInt64_def)
  define v where "v = uint (xorshift64 seed) mod (dl div 5 * 2 + 1) - dl div 5"
  have v: "- (dl div 5) \<le> v" "v \<le> dl div 5"
    using dl(1) pos_mod_bound [of "dl div 5 * 2 + 1" "uint (xorshift64 seed)"]
      pos_mod_sign [of "dl div 5 * 2 + 1" "uint (xorshift64 seed)"] by (auto simp: v_def)
  have "dl + v \<le> maxInt64" "minInt64 \<le> dl + v" using v small dl(1) by (simp_all add: minInt64_def)
  then have out: "i64 (dl + v) = dl + v" by simp
  have "retryDelay attempts base seed = (if dl div 5 \<le> 0 then dl else dl + v)"
  proof -
    have c: "\<not> (attempts \<le> 1 \<or> base \<le> 0)" "\<not> dl < 0" "\<not> dl + v < 0"
      using False assms(1) dl(1) v by auto
    have d5: "\<not> dl div 5 * 2 + 1 \<le> 0" if "\<not> dl div 5 \<le> 0" using that by simp
    show ?thesis
      unfolding retryDelay_def Let_def sh if_not_P [OF c(1)] dl_def [unfolded d_def, symmetric] i if_not_P [OF c(2)]
        jitterPercent_def j k v_def [symmetric] out if_not_P [OF c(3)]
      using d5 by simp
  qed
  with dl v False show ?thesis unfolding dl_def [symmetric] by auto
qed

theorem retry_delay_bounds_witness:
  "40 * second - 8 * second \<le> retryDelay 4 (10 * second) 77 \<and> retryDelay 4 (10 * second) 77 \<le> 40 * second + 8 * second"
  using retry_delay_bounds [of "10 * second" 4 77] by (simp add: second_def maxInt64_def)

end
