(* ===== verification/Config.thy ===== *)
theory Config
  imports Adapter_Prelude
begin

text \<open>
  The configuration of the adapter (\<^verbatim>\<open>internal/config/config.go\<close>): the record, its loading from
  the environment with the defaults, and the checks. The environment is a function from names to
  values, \<open>''''\<close> when a variable is not set, as \<^verbatim>\<open>os.Getenv\<close> has it. \<^verbatim>\<open>time.ParseDuration\<close> computes
  fractions in floating point and is a field of the environment: the results hold for any parser.
\<close>

section \<open>Configuration\<close>

record Config =
  cfg_ListenAddr :: string
  cfg_MetricsAddr :: string
  cfg_RegistrationWindow :: duration
  cfg_HeartbeatTimeout :: duration
  cfg_MaxConnections :: int
  cfg_MaxConnectionsPerIP :: int
  cfg_IPViolationWindow :: duration
  cfg_IPViolationLimit :: int
  cfg_IPBlockDuration :: duration
  cfg_MaxQueueDepth :: int
  cfg_MaxQueueBytes :: int
  cfg_QueueOverflow :: string
  cfg_AckTimeout :: duration
  cfg_RetryBackoff :: duration
  cfg_MaxRetries :: int
  cfg_AckTimeoutQuery :: duration
  cfg_RetryBackoffQuery :: duration
  cfg_MaxRetriesQuery :: int
  cfg_AckTimeoutSync :: duration
  cfg_RetryBackoffSync :: duration
  cfg_MaxRetriesSync :: int
  cfg_AckTimeoutFW :: duration
  cfg_RetryBackoffFW :: duration
  cfg_MaxRetriesFW :: int
  cfg_SweepInterval :: duration
  cfg_WriteTimeout :: duration
  cfg_ReadTimeout :: duration
  cfg_DebugLogs :: bool
  cfg_StoreBackend :: string
  cfg_StateFile :: string
  cfg_PostgresDSN :: string

record environment =
  Getenv :: "string \<Rightarrow> string"
  ParseDuration :: "string \<Rightarrow> duration option"

subsection \<open>Parsing of values\<close>

definition is_digit :: "char \<Rightarrow> bool" where
  "is_digit c \<longleftrightarrow> (48::nat) \<le> of_char c \<and> of_char c \<le> (57::nat)"

definition digits_value :: "string \<Rightarrow> int" where
  "digits_value ds = foldl (\<lambda>n c. 10 * n + (of_char c - 48)) 0 ds"

text \<open>\<^verbatim>\<open>strconv.Atoi\<close>; \<open>None\<close> is its error (syntax or range).\<close>

definition Atoi :: "string \<Rightarrow> int option" where
  "Atoi s =
     (let neg = (s \<noteq> [] \<and> hd s = CHR ''-'');
          ds = (if s \<noteq> [] \<and> (hd s = CHR ''-'' \<or> hd s = CHR ''+'') then tl s else s);
          v = (if neg then - digits_value ds else digits_value ds)
      in if ds = [] \<or> \<not> list_all is_digit ds \<or> v < minInt64 \<or> maxInt64 < v then None else Some v)"

text \<open>\<^verbatim>\<open>strconv.ParseBool\<close>.\<close>

definition ParseBool :: "string \<Rightarrow> bool option" where
  "ParseBool s =
     (if s \<in> set [''1'', ''t'', ''T'', ''TRUE'', ''true'', ''True''] then Some True
      else if s \<in> set [''0'', ''f'', ''F'', ''FALSE'', ''false'', ''False''] then Some False else None)"

definition envOrDefault :: "environment \<Rightarrow> string \<Rightarrow> string \<Rightarrow> string" where
  "envOrDefault env key fallback = (let v = Getenv env key in if v \<noteq> [] then v else fallback)"

definition envIntOrDefault :: "environment \<Rightarrow> string \<Rightarrow> int \<Rightarrow> int" where
  "envIntOrDefault env key fallback =
     (let v = Getenv env key in if v = [] then fallback
      else case Atoi v of None \<Rightarrow> fallback | Some n \<Rightarrow> n)"

definition envDurationOrDefault :: "environment \<Rightarrow> string \<Rightarrow> duration \<Rightarrow> duration" where
  "envDurationOrDefault env key fallback =
     (let v = Getenv env key in if v = [] then fallback
      else case ParseDuration env v of None \<Rightarrow> fallback | Some d \<Rightarrow> d)"

definition envBoolOrDefault :: "environment \<Rightarrow> string \<Rightarrow> bool \<Rightarrow> bool" where
  "envBoolOrDefault env key fallback =
     (let v = Getenv env key in if v = [] then fallback
      else case ParseBool v of None \<Rightarrow> fallback | Some parsed \<Rightarrow> parsed)"

subsection \<open>Loading\<close>

definition env_config :: "environment \<Rightarrow> Config" where
  "env_config env =
     \<lparr>cfg_ListenAddr = envOrDefault env ''TCPADAPTER_LISTEN_ADDR'' '':15010'',
      cfg_MetricsAddr = envOrDefault env ''TCPADAPTER_METRICS_ADDR'' '':18080'',
      cfg_RegistrationWindow = envDurationOrDefault env ''TCPADAPTER_REG_WINDOW'' (5 * second),
      cfg_HeartbeatTimeout = envDurationOrDefault env ''TCPADAPTER_HEARTBEAT_TIMEOUT'' (30 * second),
      cfg_MaxConnections = envIntOrDefault env ''TCPADAPTER_MAX_CONNECTIONS'' 10000,
      cfg_MaxConnectionsPerIP = envIntOrDefault env ''TCPADAPTER_MAX_CONNECTIONS_PER_IP'' 0,
      cfg_IPViolationWindow = envDurationOrDefault env ''TCPADAPTER_IP_VIOLATION_WINDOW'' (30 * second),
      cfg_IPViolationLimit = envIntOrDefault env ''TCPADAPTER_IP_VIOLATION_LIMIT'' 10,
      cfg_IPBlockDuration = envDurationOrDefault env ''TCPADAPTER_IP_BLOCK_DURATION'' (1 * minute),
      cfg_MaxQueueDepth = envIntOrDefault env ''TCPADAPTER_QUEUE_MAX_DEPTH'' 1000,
      cfg_MaxQueueBytes = envIntOrDefault env ''TCPADAPTER_QUEUE_MAX_BYTES'' 1048576,
      cfg_QueueOverflow = envOrDefault env ''TCPADAPTER_QUEUE_OVERFLOW'' ''drop_oldest'',
      cfg_AckTimeout = envDurationOrDefault env ''TCPADAPTER_ACK_TIMEOUT'' (10 * second),
      cfg_RetryBackoff = envDurationOrDefault env ''TCPADAPTER_RETRY_BACKOFF'' (3 * second),
      cfg_MaxRetries = envIntOrDefault env ''TCPADAPTER_MAX_RETRIES'' 3,
      cfg_AckTimeoutQuery = envDurationOrDefault env ''TCPADAPTER_ACK_TIMEOUT_QUERY'' (2 * second),
      cfg_RetryBackoffQuery = envDurationOrDefault env ''TCPADAPTER_RETRY_BACKOFF_QUERY'' (1 * second),
      cfg_MaxRetriesQuery = envIntOrDefault env ''TCPADAPTER_MAX_RETRIES_QUERY'' 2,
      cfg_AckTimeoutSync = envDurationOrDefault env ''TCPADAPTER_ACK_TIMEOUT_SYNC'' (15 * second),
      cfg_RetryBackoffSync = envDurationOrDefault env ''TCPADAPTER_RETRY_BACKOFF_SYNC'' (5 * second),
      cfg_MaxRetriesSync = envIntOrDefault env ''TCPADAPTER_MAX_RETRIES_SYNC'' 1,
      cfg_AckTimeoutFW = envDurationOrDefault env ''TCPADAPTER_ACK_TIMEOUT_FW'' (20 * second),
      cfg_RetryBackoffFW = envDurationOrDefault env ''TCPADAPTER_RETRY_BACKOFF_FW'' (3 * second),
      cfg_MaxRetriesFW = envIntOrDefault env ''TCPADAPTER_MAX_RETRIES_FW'' 3,
      cfg_SweepInterval = envDurationOrDefault env ''TCPADAPTER_SWEEP_INTERVAL'' (2 * second),
      cfg_WriteTimeout = envDurationOrDefault env ''TCPADAPTER_WRITE_TIMEOUT'' (10 * second),
      cfg_ReadTimeout = envDurationOrDefault env ''TCPADAPTER_READ_TIMEOUT'' (35 * second),
      cfg_DebugLogs = envBoolOrDefault env ''TCPADAPTER_DEBUG'' False,
      cfg_StoreBackend = envOrDefault env ''TCPADAPTER_STORE_BACKEND'' ''file'',
      cfg_StateFile = envOrDefault env ''TCPADAPTER_STATE_FILE'' ''.data/sessions.json'',
      cfg_PostgresDSN = envOrDefault env ''TCPADAPTER_POSTGRES_DSN'' ''''\<rparr>"

definition config_checks :: "Config \<Rightarrow> go_error option" where
  "config_checks cfg =
     (if cfg_MaxConnections cfg \<le> 0 then Some (Errorf ''TCPADAPTER_MAX_CONNECTIONS must be > 0'' [])
      else if cfg_MaxConnectionsPerIP cfg < 0
      then Some (Errorf ''TCPADAPTER_MAX_CONNECTIONS_PER_IP must be >= 0'' [])
      else if cfg_IPViolationLimit cfg < 0
      then Some (Errorf ''TCPADAPTER_IP_VIOLATION_LIMIT must be >= 0'' [])
      else if cfg_IPViolationLimit cfg > 0 \<and> cfg_IPViolationWindow cfg \<le> 0
      then Some (Errorf ''TCPADAPTER_IP_VIOLATION_WINDOW must be > 0 when TCPADAPTER_IP_VIOLATION_LIMIT > 0'' [])
      else if cfg_IPViolationLimit cfg > 0 \<and> cfg_IPBlockDuration cfg \<le> 0
      then Some (Errorf ''TCPADAPTER_IP_BLOCK_DURATION must be > 0 when TCPADAPTER_IP_VIOLATION_LIMIT > 0'' [])
      else if cfg_RegistrationWindow cfg \<le> 0 \<or> cfg_HeartbeatTimeout cfg \<le> 0
      then Some (Errorf ''timeouts must be > 0'' [])
      else if cfg_MaxQueueDepth cfg \<le> 0 then Some (Errorf ''TCPADAPTER_QUEUE_MAX_DEPTH must be > 0'' [])
      else if cfg_MaxQueueBytes cfg \<le> 0 then Some (Errorf ''TCPADAPTER_QUEUE_MAX_BYTES must be > 0'' [])
      else if cfg_QueueOverflow cfg \<noteq> ''drop_oldest'' \<and> cfg_QueueOverflow cfg \<noteq> ''reject''
      then Some (Errorf ''TCPADAPTER_QUEUE_OVERFLOW must be one of: drop_oldest, reject'' [])
      else if cfg_AckTimeout cfg \<le> 0 \<or> cfg_RetryBackoff cfg < 0
      then Some (Errorf ''TCPADAPTER_ACK_TIMEOUT must be > 0 and TCPADAPTER_RETRY_BACKOFF must be >= 0'' [])
      else if cfg_MaxRetries cfg < 0 then Some (Errorf ''TCPADAPTER_MAX_RETRIES must be >= 0'' [])
      else if cfg_AckTimeoutQuery cfg \<le> 0 \<or> cfg_RetryBackoffQuery cfg < 0 \<or> cfg_MaxRetriesQuery cfg < 0
      then Some (Errorf ''invalid query retry policy config'' [])
      else if cfg_AckTimeoutSync cfg \<le> 0 \<or> cfg_RetryBackoffSync cfg < 0 \<or> cfg_MaxRetriesSync cfg < 0
      then Some (Errorf ''invalid sync retry policy config'' [])
      else if cfg_AckTimeoutFW cfg \<le> 0 \<or> cfg_RetryBackoffFW cfg < 0 \<or> cfg_MaxRetriesFW cfg < 0
      then Some (Errorf ''invalid fw retry policy config'' [])
      else if cfg_SweepInterval cfg \<le> 0 then Some (Errorf ''TCPADAPTER_SWEEP_INTERVAL must be > 0'' [])
      else if cfg_StoreBackend cfg \<noteq> ''memory'' \<and> cfg_StoreBackend cfg \<noteq> ''file'' \<and> cfg_StoreBackend cfg \<noteq> ''postgres''
      then Some (Errorf ''TCPADAPTER_STORE_BACKEND must be one of: memory, file, postgres'' [])
      else if cfg_StoreBackend cfg = ''file'' \<and> cfg_StateFile cfg = []
      then Some (Errorf ''TCPADAPTER_STATE_FILE is required when TCPADAPTER_STORE_BACKEND=file'' [])
      else if cfg_StoreBackend cfg = ''postgres'' \<and> cfg_PostgresDSN cfg = []
      then Some (Errorf ''TCPADAPTER_POSTGRES_DSN is required when TCPADAPTER_STORE_BACKEND=postgres'' [])
      else None)"

definition Load :: "environment \<Rightarrow> go_error + Config" where
  "Load env = (let cfg = env_config env in check_nil (config_checks cfg) (Inr cfg))"

end
