(* ===== verification/Command_Policy.thy ===== *)
theory Command_Policy
  imports Config Session_Manager Messages
begin

text \<open>
  The policy of commands (\<^verbatim>\<open>internal/server/command_policy.go\<close>): the priority of each command id,
  the commands allowed in the firmware and synchronisation modes, and the delivery policy
  (acknowledgement timeout, back-off, retries) from the configuration.
\<close>

section \<open>Priorities and modes\<close>

definition canonicalPriority :: "(u8, string) gomap" where
  "canonicalPriority =
     [(1, PriorityHigh), (2, PriorityHigh), (3, PriorityHigh), (5, PriorityHigh), (6, PriorityQuery),
      (7, PriorityQuery), (8, PriorityHigh), (9, PriorityQuery), (10, PriorityQuery), (11, PriorityQuery),
      (12, PrioritySync), (13, PrioritySync), (14, PrioritySync), (15, PrioritySync), (16, PrioritySync),
      (17, PriorityHigh), (18, PriorityHigh), (19, PriorityHigh), (20, PriorityFW), (21, PriorityQuery),
      (22, PriorityQuery), (23, PriorityHigh), (24, PriorityHigh), (25, PriorityQuery), (27, PriorityQuery)]"

definition canonicalPriorityForCommand :: "u8 \<Rightarrow> string option" where
  "canonicalPriorityForCommand commandID = map_of canonicalPriority commandID"

definition normalizeCommandPriority :: "Command \<Rightarrow> go_error + Command" where
  "normalizeCommandPriority cmd = (case canonicalPriorityForCommand (cmd_CommandID cmd) of
     None \<Rightarrow> Inl (Errorf ''unsupported command id: %d'' [FByte (cmd_CommandID cmd)])
   | Some p \<Rightarrow> Inr (cmd\<lparr>cmd_Priority := p\<rparr>))"

definition commandAllowedInModes :: "u8 \<Rightarrow> bool \<Rightarrow> bool \<Rightarrow> bool" where
  "commandAllowedInModes commandID fwMode syncMode =
     (if fwMode
      then if commandID = 20 then True
           else canonicalPriorityForCommand commandID = Some PriorityHigh
      else if syncMode
      then if commandID \<ge> 12 \<and> commandID \<le> 16 then True
           else if commandID \<in> set [2, 3, 17, 18, 19, 20, 23] then False
           else (case canonicalPriorityForCommand commandID of
                   None \<Rightarrow> False | Some p \<Rightarrow> p = PriorityHigh)
      else True)"

section \<open>Delivery policies\<close>

definition mergeDeliveryPolicy :: "DeliveryPolicy \<Rightarrow> DeliveryPolicy \<Rightarrow> DeliveryPolicy" where
  "mergeDeliveryPolicy base specific =
     (if pol_AckTimeout specific = 0 \<and> pol_RetryBackoff specific = 0 \<and> pol_MaxRetries specific = 0 then base
      else let merged = base;
               merged = (if pol_AckTimeout specific > 0
                         then merged\<lparr>pol_AckTimeout := pol_AckTimeout specific\<rparr> else merged);
               merged = (if pol_RetryBackoff specific \<ge> 0
                         then merged\<lparr>pol_RetryBackoff := pol_RetryBackoff specific\<rparr> else merged)
           in if pol_MaxRetries specific \<ge> 0
              then merged\<lparr>pol_MaxRetries := pol_MaxRetries specific\<rparr> else merged)"

definition deliveryPolicyForCommand :: "Config \<Rightarrow> string \<Rightarrow> Command \<Rightarrow> DeliveryPolicy" where
  "deliveryPolicyForCommand cfg controllerID cmd =
     (let base = \<lparr>pol_AckTimeout = cfg_AckTimeout cfg, pol_RetryBackoff = cfg_RetryBackoff cfg,
                  pol_MaxRetries = cfg_MaxRetries cfg\<rparr>;
          base = (if pol_AckTimeout base \<le> 0 then base\<lparr>pol_AckTimeout := 10 * second\<rparr> else base);
          base = (if pol_MaxRetries base < 0 then base\<lparr>pol_MaxRetries := 0\<rparr> else base)
      in if cmd_Priority cmd = PriorityQuery
         then mergeDeliveryPolicy base \<lparr>pol_AckTimeout = cfg_AckTimeoutQuery cfg,
                pol_RetryBackoff = cfg_RetryBackoffQuery cfg, pol_MaxRetries = cfg_MaxRetriesQuery cfg\<rparr>
         else if cmd_Priority cmd = PrioritySync
         then mergeDeliveryPolicy base \<lparr>pol_AckTimeout = cfg_AckTimeoutSync cfg,
                pol_RetryBackoff = cfg_RetryBackoffSync cfg, pol_MaxRetries = cfg_MaxRetriesSync cfg\<rparr>
         else if cmd_CommandID cmd = CmdFWStart \<or> cmd_CommandID cmd = CmdFWBlock \<or> cmd_Priority cmd = PriorityFW
         then mergeDeliveryPolicy base \<lparr>pol_AckTimeout = cfg_AckTimeoutFW cfg,
                pol_RetryBackoff = cfg_RetryBackoffFW cfg, pol_MaxRetries = cfg_MaxRetriesFW cfg\<rparr>
         else base)"

section \<open>Properties\<close>

text \<open>Commands as \<^verbatim>\<open>EnqueueCommand\<close> queues them: with the priority of their id.\<close>

definition canonical :: "Command \<Rightarrow> bool" where
  "canonical cmd \<longleftrightarrow> canonicalPriorityForCommand (cmd_CommandID cmd) = Some (cmd_Priority cmd)"

lemma normalize_canonical: "normalizeCommandPriority cmd = Inr cmd' \<Longrightarrow> canonical cmd'"
  by (auto simp: normalizeCommandPriority_def canonical_def split: option.splits)

lemma canonical_values:
  assumes "canonicalPriorityForCommand i = Some p"
  shows "p \<in> {PriorityHigh, PriorityFW, PrioritySync, PriorityQuery}"
    and "p = PriorityFW \<longleftrightarrow> i = 20" and "p = PrioritySync \<longleftrightarrow> 12 \<le> i \<and> i \<le> 16"
  using assms by (auto simp: canonicalPriorityForCommand_def canonicalPriority_def word_le_nat_alt split: if_splits)

lemma PopNext_class:
  assumes "queue_invar q" "PopNext q now fw sync = (Some c, q')"
  shows "class_of c \<in> set (eligible fw sync)" "c \<in> set (Queue_Snapshot q)"
  using assms
  by (cases "q_high q"; cases "q_fw q"; cases "q_sync q"; cases "q_query q";
      auto simp: PopNext_def eligible_def queue_invar_def Queue_Snapshot_def split: if_splits)+

lemma canonical_class: "canonical c \<Longrightarrow> class_of c = cmd_Priority c"
  using canonical_values(1) [of "cmd_CommandID c" "cmd_Priority c"] by (auto simp: canonical_def class_of_def)



text \<open>What the checks of \<^verbatim>\<open>Load\<close> establish.\<close>

lemma Load_iff:
  "Load env = Inr cfg \<longleftrightarrow> cfg = env_config env \<and> config_checks cfg = None"
  by (auto simp: Load_def Let_def check_nil_eq_Inr)

text \<open>
  (C33) With a configuration that \<^verbatim>\<open>Load\<close> accepts, every command is delivered under exactly the
  configured profile of its kind (query, synchronisation, firmware, or the general one): the
  fall-backs of \<^verbatim>\<open>mergeDeliveryPolicy\<close> and of \<^verbatim>\<open>ProcessInFlight\<close> never apply, the acknowledgement
  timeout is positive, and neither the back-off nor the number of retries is negative. The limits
  of the queues are positive and the overflow policy is one the session manager knows.
\<close>

theorem loaded_profiles_apply:
  fixes k :: string and cmd :: Command
  assumes "Load env = Inr cfg"
  defines "pol \<equiv> deliveryPolicyForCommand cfg k cmd"
  shows "pol = (if cmd_Priority cmd = PriorityQuery
        then \<lparr>pol_AckTimeout = cfg_AckTimeoutQuery cfg, pol_RetryBackoff = cfg_RetryBackoffQuery cfg, pol_MaxRetries = cfg_MaxRetriesQuery cfg\<rparr>
      else if cmd_Priority cmd = PrioritySync
        then \<lparr>pol_AckTimeout = cfg_AckTimeoutSync cfg, pol_RetryBackoff = cfg_RetryBackoffSync cfg, pol_MaxRetries = cfg_MaxRetriesSync cfg\<rparr>
      else if cmd_CommandID cmd \<in> {CmdFWStart, CmdFWBlock} \<or> cmd_Priority cmd = PriorityFW
        then \<lparr>pol_AckTimeout = cfg_AckTimeoutFW cfg, pol_RetryBackoff = cfg_RetryBackoffFW cfg, pol_MaxRetries = cfg_MaxRetriesFW cfg\<rparr>
      else \<lparr>pol_AckTimeout = cfg_AckTimeout cfg, pol_RetryBackoff = cfg_RetryBackoff cfg, pol_MaxRetries = cfg_MaxRetries cfg\<rparr>)
    \<and> entry_policy (Some (deliveryPolicyForCommand cfg)) k cmd = pol
    \<and> 0 < pol_AckTimeout pol \<and> 0 \<le> pol_RetryBackoff pol \<and> 0 \<le> pol_MaxRetries pol
    \<and> 0 < cfg_MaxQueueDepth cfg \<and> 0 < cfg_MaxQueueBytes cfg \<and> cfg_QueueOverflow cfg \<in> {''drop_oldest'', ''reject''}"
proof -
  have "config_checks cfg = None" using assms(1) unfolding Load_iff by (rule conjunct2)
  then have ok: "0 < cfg_AckTimeout cfg" "0 \<le> cfg_RetryBackoff cfg" "0 \<le> cfg_MaxRetries cfg"
      "0 < cfg_AckTimeoutQuery cfg" "0 \<le> cfg_RetryBackoffQuery cfg" "0 \<le> cfg_MaxRetriesQuery cfg"
      "0 < cfg_AckTimeoutSync cfg" "0 \<le> cfg_RetryBackoffSync cfg" "0 \<le> cfg_MaxRetriesSync cfg"
      "0 < cfg_AckTimeoutFW cfg" "0 \<le> cfg_RetryBackoffFW cfg" "0 \<le> cfg_MaxRetriesFW cfg"
      "0 < cfg_MaxQueueDepth cfg" "0 < cfg_MaxQueueBytes cfg" "cfg_QueueOverflow cfg \<in> {''drop_oldest'', ''reject''}"
    unfolding config_checks_def by (simp_all split: if_splits)
  have merge: "mergeDeliveryPolicy b \<lparr>pol_AckTimeout = a, pol_RetryBackoff = r, pol_MaxRetries = n\<rparr>
      = \<lparr>pol_AckTimeout = a, pol_RetryBackoff = r, pol_MaxRetries = n\<rparr>" if "0 < a" "0 \<le> r" "0 \<le> n" for b a r n
    using that by (cases b) (simp add: mergeDeliveryPolicy_def)
  show ?thesis
    using ok by (simp add: pol_def entry_policy_def deliveryPolicyForCommand_def merge Let_def)
qed

theorem loaded_profiles_apply_witness:
  "\<exists>cfg. Load \<lparr>Getenv = \<lambda>_. [], ParseDuration = \<lambda>_. None\<rparr> = Inr cfg
     \<and> pol_AckTimeout (deliveryPolicyForCommand cfg ''c'' (sample_command ''query'' 0)) = 2 * second"
proof -
  let ?env = "\<lparr>Getenv = \<lambda>_. [], ParseDuration = \<lambda>_. None\<rparr>"
  have l: "Load ?env = Inr (env_config ?env)"
    by (simp add: Load_def config_checks_def env_config_def envOrDefault_def envIntOrDefault_def
        envDurationOrDefault_def envBoolOrDefault_def second_def minute_def)
  have "cfg_AckTimeoutQuery (env_config ?env) = 2 * second" by (simp add: env_config_def envDurationOrDefault_def)
  with l loaded_profiles_apply [OF l, of "''c''" "sample_command ''query'' 0"] show ?thesis
    by (auto simp: sample_command_def)
qed

end
