(* ===== verification/Server_State.thy ===== *)
theory Server_State
  imports Command_Policy Frame_Codec
begin

text \<open>
  The state of the server (\<^verbatim>\<open>internal/server/server.go\<close>) and the operations on it that send nothing:
  events for the message bus, counters, debug buffers (\<^verbatim>\<open>observability.go\<close>, \<^verbatim>\<open>kafka.go\<close>). Every group
  of fields has its own mutex in the code, so that each operation is one step.

  Readings of the clock and results of writes to connections come from the fields \<open>sv_clock\<close> and
  \<open>sv_writes\<close>: the \<open>n\<close>-th reading is \<open>sv_clock n\<close>. The bus and the wire are logs of what was published
  and written. Sums of times, floating-point numbers of seconds in the code, are exact. A text made by \<^verbatim>\<open>fmt.Sprintf\<close> or \<^verbatim>\<open>err.Error()\<close> in the reason of an event is kept as
  format and arguments, as the errors are.
\<close>

section \<open>Events\<close>

datatype reason =
    NoReason
  | Text string
  | Sprintf string "fmt_arg list"
  | ErrorText go_error

record AckEvent =
  ae_MessageID :: string
  ae_TraceID :: string
  ae_ControllerID :: string
  ae_CommandID :: u8
  ae_CommandSeq :: u8
  ae_Status :: string
  ae_Reason :: reason

record TelemetryEvent =
  te_ControllerID :: string
  te_CommandID :: u8
  te_TraceID :: string
  te_Payload :: "byte list"

record DebugEvent =
  de_Timestamp :: time
  de_Kind :: string
  de_ControllerID :: string
  de_RemoteAddr :: string
  de_CommandID :: u8
  de_CommandSeq :: u8
  de_MessageID :: string
  de_TraceID :: string
  de_Status :: string
  de_Reason :: reason
  de_PayloadLen :: int

record RawDebugMessage =
  raw_Timestamp :: time
  raw_Direction :: string
  raw_ControllerID :: string
  raw_RemoteAddr :: string
  raw_CommandID :: u8
  raw_CommandSeq :: u8
  raw_FrameMode :: FrameMode
  raw_TTL :: u8
  raw_RawHex :: string
  raw_PayloadHex :: string
  raw_PayloadLen :: int
  raw_MessageID :: string
  raw_TraceID :: string

record ipSecurityState =
  ip_violations :: "time list"
  ip_blockedTil :: time

section \<open>The server\<close>

record 's Server =
  sv_cfg :: Config
  sv_sessions :: "'s Manager"
  sv_active :: int
  sv_ready :: bool
  sv_shuttingDown :: bool
  sv_ackStats :: "(string, u64) gomap"
  sv_ackTerminalReasonStats :: "(string, u64) gomap"
  sv_ackLatencyBucketCounts :: "u64 list"
  sv_ackLatencyCount :: u64
  sv_ackLatencySum :: duration
  sv_telemetryStats :: "(string, u64) gomap"
  sv_ovfStats :: "(string, u64) gomap"
  sv_conns :: "net_conn list"
  sv_ipConnCount :: "(string, int) gomap"
  sv_ipSec :: "(string, ipSecurityState) gomap"
  sv_ipViolationTotal :: u64
  sv_ipBlockedRejectTotal :: u64
  sv_ipPerIPRejectTotal :: u64
  sv_ipBlockAppliedTotal :: u64
  sv_shutdownDrainCount :: u64
  sv_shutdownDrainSum :: duration
  sv_shutdownDrainLast :: duration
  sv_shutdownDrainTimeouts :: u64
  sv_debugEvents :: "DebugEvent list"
  sv_rawMessages :: "RawDebugMessage list"
  sv_acks :: "AckEvent list"
  sv_telemetry :: "TelemetryEvent list"
  sv_wire :: "(net_conn \<times> byte list) list"
  sv_clock :: "nat \<Rightarrow> time"
  sv_ticks :: nat
  sv_writes :: "nat \<Rightarrow> go_error option"
  sv_nwrites :: nat
  sv_unicode :: unicode

text \<open>\<^verbatim>\<open>ackLatencyBoundsSeconds\<close>, in nanoseconds.\<close>

definition ackLatencyBounds :: "duration list" where
  "ackLatencyBounds = [100000000, 500000000, second, 2 * second, 5 * second, 10 * second, 30 * second, 60 * second]"

definition New :: "Config \<Rightarrow> 's Manager \<Rightarrow> (nat \<Rightarrow> time) \<Rightarrow> (nat \<Rightarrow> go_error option) \<Rightarrow> unicode
    \<Rightarrow> 's Server" where
  "New cfg sessions clock writes uc =
     \<lparr>sv_cfg = cfg, sv_sessions = sessions, sv_active = 0, sv_ready = False, sv_shuttingDown = False,
      sv_ackStats = [], sv_ackTerminalReasonStats = [],
      sv_ackLatencyBucketCounts = replicate (length ackLatencyBounds) 0, sv_ackLatencyCount = 0, sv_ackLatencySum = 0,
      sv_telemetryStats = [], sv_ovfStats = [], sv_conns = [], sv_ipConnCount = [], sv_ipSec = [],
      sv_ipViolationTotal = 0, sv_ipBlockedRejectTotal = 0, sv_ipPerIPRejectTotal = 0, sv_ipBlockAppliedTotal = 0,
      sv_shutdownDrainCount = 0, sv_shutdownDrainSum = 0, sv_shutdownDrainLast = 0, sv_shutdownDrainTimeouts = 0,
      sv_debugEvents = [], sv_rawMessages = [], sv_acks = [], sv_telemetry = [], sv_wire = [],
      sv_clock = clock, sv_ticks = 0, sv_writes = writes, sv_nwrites = 0, sv_unicode = uc\<rparr>"

text \<open>\<^verbatim>\<open>time.Now()\<close> and \<^verbatim>\<open>conn.Write(b)\<close>; a failed write is taken to have sent nothing.\<close>

definition Now :: "'s Server \<Rightarrow> time \<times> 's Server" where
  "Now sv = (sv_clock sv (sv_ticks sv), sv\<lparr>sv_ticks := sv_ticks sv + 1\<rparr>)"

definition conn_Write :: "net_conn \<Rightarrow> byte list \<Rightarrow> 's Server \<Rightarrow> go_error option \<times> 's Server" where
  "conn_Write c b sv =
     (let sv' = sv\<lparr>sv_nwrites := sv_nwrites sv + 1\<rparr> in
      case sv_writes sv (sv_nwrites sv) of
        Some err \<Rightarrow> (Some err, sv')
      | None \<Rightarrow> (None, sv'\<lparr>sv_wire := sv_wire sv @ [(c, b)]\<rparr>))"

subsection \<open>Debug buffers\<close>

definition maxDebugEvents :: nat where
  "maxDebugEvents = 256"

definition maxRawDebugMessages :: nat where
  "maxRawDebugMessages = 256"

definition recordDebugEvent :: "DebugEvent \<Rightarrow> 's Server \<Rightarrow> 's Server" where
  "recordDebugEvent event sv =
     (if \<not> cfg_DebugLogs (sv_cfg sv) then sv
      else let events = sv_debugEvents sv @ [event];
               events = (if length events > maxDebugEvents
                         then drop (length events - maxDebugEvents) events else events)
           in sv\<lparr>sv_debugEvents := events\<rparr>)"

text \<open>The loop of the snapshots: from the last element down, while fewer than \<open>limit\<close> are taken.\<close>

fun take_latest :: "'a list \<Rightarrow> nat \<Rightarrow> nat \<Rightarrow> 'a list \<Rightarrow> 'a list" where
  "take_latest xs 0 limit out = out"
| "take_latest xs (Suc i) limit out =
     (if length out < limit then take_latest xs i limit (out @ [xs ! i]) else out)"

definition snapshot_limit :: "int \<Rightarrow> 'a list \<Rightarrow> int" where
  "snapshot_limit limit xs = (if limit \<le> 0 \<or> limit > int (length xs) then int (length xs) else limit)"

definition debugEventsSnapshot :: "int \<Rightarrow> 's Server \<Rightarrow> DebugEvent list" where
  "debugEventsSnapshot limit sv =
     (let limit = snapshot_limit limit (sv_debugEvents sv)
      in take_latest (sv_debugEvents sv) (length (sv_debugEvents sv)) (nat limit) [])"

definition recordRawMessage :: "RawDebugMessage \<Rightarrow> 's Server \<Rightarrow> 's Server" where
  "recordRawMessage msg sv =
     (if \<not> cfg_DebugLogs (sv_cfg sv) then sv
      else let msgs = sv_rawMessages sv @ [msg];
               msgs = (if length msgs > maxRawDebugMessages
                       then drop (length msgs - maxRawDebugMessages) msgs else msgs)
           in sv\<lparr>sv_rawMessages := msgs\<rparr>)"

definition rawMessagesSnapshot :: "int \<Rightarrow> 's Server \<Rightarrow> RawDebugMessage list" where
  "rawMessagesSnapshot limit sv =
     (let limit = snapshot_limit limit (sv_rawMessages sv)
      in take_latest (sv_rawMessages sv) (length (sv_rawMessages sv)) (nat limit) [])"

definition encodeFrameHex :: "Frame \<Rightarrow> string" where
  "encodeFrameHex frame = (case EncodeFrame frame of Inl _ \<Rightarrow> [] | Inr wire \<Rightarrow> EncodeToString wire)"

definition newIncomingTraceID :: "string \<Rightarrow> u8 \<Rightarrow> u8 \<Rightarrow> 's Server \<Rightarrow> string \<times> 's Server" where
  "newIncomingTraceID controllerID cmdID seq sv =
     (let controllerID = (if controllerID = [] then ''unknown'' else controllerID);
          (now, sv) = Now sv
      in (''rx-'' @ controllerID @ ''-'' @ fmt_d (uint cmdID) @ ''-'' @ fmt_d (uint seq) @ ''-'' @ fmt_d now, sv))"

definition maskControllerID :: "string \<Rightarrow> string" where
  "maskControllerID i =
     (if i = [] then [] else if length i \<le> 4 then ''****''
      else let n = length i in ''****'' @ drop (n - 4) i)"

definition logControllerID :: "string \<Rightarrow> 's Server \<Rightarrow> string" where
  "logControllerID i sv = (if cfg_DebugLogs (sv_cfg sv) then i else maskControllerID i)"

subsection \<open>Counters and the bus\<close>

text \<open>\<^verbatim>\<open>m[key]++\<close> and \<^verbatim>\<open>m[key]\<close> on a map of counters.\<close>

definition incr :: "'k \<Rightarrow> ('k, 'n::{one,zero,plus}) gomap \<Rightarrow> ('k, 'n) gomap" where
  "incr key m = AList.update key ((case map_of m key of None \<Rightarrow> 0 | Some n \<Rightarrow> n) + 1) m"

definition stat :: "('k, 'n::zero) gomap \<Rightarrow> 'k \<Rightarrow> 'n" where
  "stat m k = (case map_of m k of None \<Rightarrow> 0 | Some n \<Rightarrow> n)"

definition isTerminalAckStatus :: "string \<Rightarrow> bool" where
  "isTerminalAckStatus status \<longleftrightarrow> status \<in> set [''delivered'', ''failed'', ''expired'', ''unsupported'', ''duplicate'']"

text \<open>The zero \<^verbatim>\<open>time.Time\<close> is January 1 of year 1.\<close>

definition zero_time :: time where
  "zero_time = - 62135596800 * second"

fun add_latency :: "duration \<Rightarrow> duration list \<Rightarrow> u64 list \<Rightarrow> u64 list" where
  "add_latency latency (bound # bounds) (n # ns) =
     (if latency \<le> bound then (n + 1) # ns else n # add_latency latency bounds ns)"
| "add_latency latency _ ns = ns"

definition observeAckLatency :: "string \<Rightarrow> Command \<Rightarrow> 's Server \<Rightarrow> 's Server" where
  "observeAckLatency status cmd sv =
     (if \<not> isTerminalAckStatus status \<or> cmd_CreatedAt cmd = zero_time then sv
      else let (now, sv) = Now sv;
               latency = time_sub now (cmd_CreatedAt cmd)
           in if latency < 0 then sv
              else sv\<lparr>sv_ackLatencyCount := sv_ackLatencyCount sv + 1,
                      sv_ackLatencySum := sv_ackLatencySum sv + latency,
                      sv_ackLatencyBucketCounts :=
                        add_latency latency ackLatencyBounds (sv_ackLatencyBucketCounts sv)\<rparr>)"

definition PublishAck :: "AckEvent \<Rightarrow> 's Server \<Rightarrow> 's Server" where
  "PublishAck event sv = sv\<lparr>sv_acks := sv_acks sv @ [event]\<rparr>"

definition PublishTelemetry :: "TelemetryEvent \<Rightarrow> 's Server \<Rightarrow> 's Server" where
  "PublishTelemetry event sv = sv\<lparr>sv_telemetry := sv_telemetry sv @ [event]\<rparr>"

definition reason_text :: "unicode \<Rightarrow> reason \<Rightarrow> string" where
  "reason_text u r = (case r of
     NoReason \<Rightarrow> [] | Text s \<Rightarrow> s | Sprintf fmt args \<Rightarrow> fill_format fmt (map (arg_text u) args) | ErrorText err \<Rightarrow> error_text u err)"

definition normalizeReasonLabel :: "unicode \<Rightarrow> string \<Rightarrow> string" where
  "normalizeReasonLabel u reason =
     (let r = TrimSpace reason in
      if r = [] then ''unspecified''
      else let r = (case IndexByte r (CHR '';'') of
                      Some i \<Rightarrow> if i > 0 then TrimSpace (take i r) else r | None \<Rightarrow> r);
               r = (case IndexByte r (CHR '':'') of
                      Some i \<Rightarrow> if i > 0
                        then let prefix = TrimSpace (take i r) in if prefix \<noteq> [] then prefix else r
                        else r
                    | None \<Rightarrow> r);
               r = ToLower u r;
               r = map (\<lambda>c. if c = CHR '' '' then CHR ''_'' else c) r;
               r = (if length r > 48 then take 48 r else r)
           in if r = [] then ''unspecified'' else r)"

definition terminal_reason_key :: "unicode \<Rightarrow> AckEvent \<Rightarrow> string" where
  "terminal_reason_key u event =
     ''status='' @ ae_Status event @ '',reason='' @ normalizeReasonLabel u (reason_text u (ae_Reason event))"

definition publishAck :: "AckEvent \<Rightarrow> 's Server \<Rightarrow> 's Server" where
  "publishAck event sv =
     (let sv = sv\<lparr>sv_ackStats := incr (ae_Status event) (sv_ackStats sv)\<rparr>;
          sv = (if isTerminalAckStatus (ae_Status event)
                then sv\<lparr>sv_ackTerminalReasonStats :=
                       incr (terminal_reason_key (sv_unicode sv) event) (sv_ackTerminalReasonStats sv)\<rparr>
                else sv);
          (now, sv) = Now sv;
          sv = recordDebugEvent \<lparr>de_Timestamp = now, de_Kind = ''ack'', de_ControllerID = ae_ControllerID event,
                 de_RemoteAddr = [], de_CommandID = ae_CommandID event, de_CommandSeq = ae_CommandSeq event,
                 de_MessageID = ae_MessageID event, de_TraceID = ae_TraceID event, de_Status = ae_Status event,
                 de_Reason = ae_Reason event, de_PayloadLen = 0\<rparr> sv
      in PublishAck event sv)"

definition publishAckWithCommand :: "AckEvent \<Rightarrow> Command \<Rightarrow> 's Server \<Rightarrow> 's Server" where
  "publishAckWithCommand event cmd sv = publishAck event (observeAckLatency (ae_Status event) cmd sv)"

definition telemetry_key :: "u8 \<Rightarrow> string \<Rightarrow> string" where
  "telemetry_key cmdID source = ''command_id='' @ fmt_d (uint cmdID) @ '',trace_source='' @ source"

definition publishTelemetry :: "TelemetryEvent \<Rightarrow> string \<Rightarrow> 's Server \<Rightarrow> 's Server" where
  "publishTelemetry event traceSource sv =
     (let traceSource = (if traceSource = [] then ''rx'' else traceSource);
          key = telemetry_key (te_CommandID event) traceSource
      in PublishTelemetry event (sv\<lparr>sv_telemetryStats := incr key (sv_telemetryStats sv)\<rparr>))"

definition overflow_key :: "OverflowEvent \<Rightarrow> string" where
  "overflow_key e = ''limit='' @ ev_LimitType e @ '',policy='' @ ev_Policy e @ '',action='' @ ev_Action e"

definition recordOverflowMetric :: "OverflowEvent \<Rightarrow> 's Server \<Rightarrow> 's Server" where
  "recordOverflowMetric e sv = sv\<lparr>sv_ovfStats := incr (overflow_key e) (sv_ovfStats sv)\<rparr>"

subsection \<open>Shutdown\<close>

definition recordShutdownDrain :: "duration \<Rightarrow> bool \<Rightarrow> 's Server \<Rightarrow> 's Server" where
  "recordShutdownDrain d timedOut sv =
     (let sv = sv\<lparr>sv_shutdownDrainCount := sv_shutdownDrainCount sv + 1,
                  sv_shutdownDrainSum := sv_shutdownDrainSum sv + d, sv_shutdownDrainLast := d\<rparr>
      in if timedOut then sv\<lparr>sv_shutdownDrainTimeouts := sv_shutdownDrainTimeouts sv + 1\<rparr> else sv)"

end
