(* ===== verification/Payload_Validation.thy ===== *)
theory Payload_Validation
  imports Messages
begin

text \<open>
  Validation of server-to-controller payloads
  (\<^verbatim>\<open>internal/protocol/server_payload_validation.go\<close> and the constants and helpers of
  \<^verbatim>\<open>cmd12.go\<close> .. \<^verbatim>\<open>cmd15.go\<close>). There is one definition per case of the switch in
  \<^verbatim>\<open>ValidateServerCommandPayload\<close>; the loops over records call one definition per record.
  The lemmas at the end describe the payloads of the record commands: an accepted
  payload is a timestamp, a count and that many records, each of them accepted on its own.
\<close>

subsection \<open>Record layouts\<close>

abbreviation (input) Cmd12RecordSize :: nat where "Cmd12RecordSize \<equiv> 608"
abbreviation (input) cmd12OffPinCode :: nat where "cmd12OffPinCode \<equiv> 0"
abbreviation (input) cmd12OffServer1 :: nat where "cmd12OffServer1 \<equiv> 4"
abbreviation (input) cmd12OffServer2 :: nat where "cmd12OffServer2 \<equiv> 36"
abbreviation (input) cmd12OffNTPServer :: nat where "cmd12OffNTPServer \<equiv> 68"
abbreviation (input) cmd12OffOperator :: nat where "cmd12OffOperator \<equiv> 100"
abbreviation (input) cmd12OffNetworkType :: nat where "cmd12OffNetworkType \<equiv> 132"
abbreviation (input) cmd12OffCountryCode :: nat where "cmd12OffCountryCode \<equiv> 133"
abbreviation (input) cmd12OffSimPhone :: nat where "cmd12OffSimPhone \<equiv> 141"
abbreviation (input) cmd12OffUSSD :: nat where "cmd12OffUSSD \<equiv> 157"
abbreviation (input) cmd12OffAutoReboot :: nat where "cmd12OffAutoReboot \<equiv> 165"
abbreviation (input) cmd12OffSettingsByte :: nat where "cmd12OffSettingsByte \<equiv> 166"
abbreviation (input) cmd12OffWiegandType :: nat where "cmd12OffWiegandType \<equiv> 174"
abbreviation (input) cmd12OffPeripheral :: nat where "cmd12OffPeripheral \<equiv> 175"
abbreviation (input) cmd12OffRelay1 :: nat where "cmd12OffRelay1 \<equiv> 191"
abbreviation (input) cmd12OffRelay2 :: nat where "cmd12OffRelay2 \<equiv> 202"
abbreviation (input) cmd12OffInput1 :: nat where "cmd12OffInput1 \<equiv> 213"
abbreviation (input) cmd12OffInput2 :: nat where "cmd12OffInput2 \<equiv> 214"
abbreviation (input) cmd12OffReserveA :: nat where "cmd12OffReserveA \<equiv> 215"
abbreviation (input) cmd12OffReserveB :: nat where "cmd12OffReserveB \<equiv> 507"

abbreviation (input) Cmd13RecordSize :: nat where "Cmd13RecordSize \<equiv> 32"
abbreviation (input) cmd13OffSlot :: nat where "cmd13OffSlot \<equiv> 0"
abbreviation (input) cmd13OffID :: nat where "cmd13OffID \<equiv> 2"
abbreviation (input) cmd13OffGroup :: nat where "cmd13OffGroup \<equiv> 12"
abbreviation (input) cmd13OffBanDate :: nat where "cmd13OffBanDate \<equiv> 13"
abbreviation (input) cmd13OffLifetime :: nat where "cmd13OffLifetime \<equiv> 17"
abbreviation (input) cmd13OffIDType :: nat where "cmd13OffIDType \<equiv> 19"
abbreviation (input) cmd13OffReserve :: nat where "cmd13OffReserve \<equiv> 20"

abbreviation (input) Cmd14RecordSize :: nat where "Cmd14RecordSize \<equiv> 32"
abbreviation (input) cmd14OffSlot :: nat where "cmd14OffSlot \<equiv> 0"
abbreviation (input) cmd14OffStartHour :: nat where "cmd14OffStartHour \<equiv> 1"
abbreviation (input) cmd14OffStartMinute :: nat where "cmd14OffStartMinute \<equiv> 2"
abbreviation (input) cmd14OffEndHour :: nat where "cmd14OffEndHour \<equiv> 3"
abbreviation (input) cmd14OffEndMinute :: nat where "cmd14OffEndMinute \<equiv> 4"
abbreviation (input) cmd14OffFlags :: nat where "cmd14OffFlags \<equiv> 5"
abbreviation (input) cmd14OffScenes :: nat where "cmd14OffScenes \<equiv> 13"
abbreviation (input) cmd14OffHolidayLogic :: nat where "cmd14OffHolidayLogic \<equiv> 21"
abbreviation (input) cmd14OffReserve :: nat where "cmd14OffReserve \<equiv> 22"

abbreviation (input) Cmd15RecordSize :: nat where "Cmd15RecordSize \<equiv> 16"
abbreviation (input) cmd15OffSlot :: nat where "cmd15OffSlot \<equiv> 0"
abbreviation (input) cmd15OffSchedule :: nat where "cmd15OffSchedule \<equiv> 1"
abbreviation (input) cmd15OffPermFlags :: nat where "cmd15OffPermFlags \<equiv> 2"
abbreviation (input) cmd15OffReserve :: nat where "cmd15OffReserve \<equiv> 10"

subsection \<open>Helpers\<close>

definition IsCmd12NetworkTypeValid :: "u8 \<Rightarrow> bool" where
  "IsCmd12NetworkTypeValid v = (v \<le> 4)"

definition IsCmd13IDTypeValid :: "u8 \<Rightarrow> bool" where
  "IsCmd13IDTypeValid v = (v \<le> 7)"

definition isBoolByte :: "byte \<Rightarrow> bool" where
  "isBoolByte v = (v = 0 \<or> v = 1)"

fun validatePaddedASCII_loop :: "byte list \<Rightarrow> bool \<Rightarrow> nat list \<Rightarrow> go_error option" where
  "validatePaddedASCII_loop field seenZero [] = None"
| "validatePaddedASCII_loop field seenZero (i # is) =
     (let b = field ! i in
      if b = 0 then validatePaddedASCII_loop field True is
      else if seenZero then Some (Errorf ''non-zero byte after zero padding at index %d'' [FNat i])
      else if b > 127 then Some (Errorf ''non-ascii byte at index %d'' [FNat i])
      else validatePaddedASCII_loop field seenZero is)"

definition validatePaddedASCII :: "byte list \<Rightarrow> go_error option" where
  "validatePaddedASCII field = validatePaddedASCII_loop field False [0..<length field]"

definition FWBlockCountForSize :: "u32 \<Rightarrow> u16" where
  "FWBlockCountForSize fileSize =
     (if fileSize = 0 then 0
      else let block = 1024;
               blocks = (fileSize + block - 1) div block
           in if blocks > 0xFFFF then 0xFFFF else ucast blocks)"

subsection \<open>One definition per command\<close>

definition validate_cmd1 :: "byte list \<Rightarrow> go_error option" where
  "validate_cmd1 payload =
     (if length payload \<noteq> 5
      then Some (Errorf ''cmd 1: payload must be 5 bytes, got=%d'' [FNat (length payload)])
      else if payload ! 0 > 5
      then Some (Errorf ''cmd 1: execution code out of range: %d'' [FByte (payload ! 0)])
      else None)"

definition validate_cmd2 :: "byte list \<Rightarrow> go_error option" where
  "validate_cmd2 payload =
     (if length payload \<noteq> 1
      then Some (Errorf ''cmd 2: payload must be 1 byte, got=%d'' [FNat (length payload)])
      else None)"

definition validate_cmd3 :: "byte list \<Rightarrow> go_error option" where
  "validate_cmd3 payload =
     (if length payload \<noteq> 1
      then Some (Errorf ''cmd 3: payload must be 1 byte, got=%d'' [FNat (length payload)])
      else None)"

definition validate_cmd5 :: "byte list \<Rightarrow> go_error option" where
  "validate_cmd5 payload =
     (if length payload \<noteq> 16
      then Some (Errorf ''cmd 5: payload must be 16 bytes, got=%d'' [FNat (length payload)])
      else case for_err (\<lambda>i. if \<not> isBoolByte (payload ! i)
                  then Some (Errorf ''cmd 5: flag %d must be 0 or 1'' [FNat i]) else None) [0..<8]
        of Some e \<Rightarrow> Some e
         | None \<Rightarrow> for_err (\<lambda>i. if payload ! i \<noteq> 0
                  then Some (Errorf ''cmd 5: reserved byte %d must be 0'' [FNat i]) else None) [8..<16])"

definition validate_cmd6 :: "byte list \<Rightarrow> go_error option" where
  "validate_cmd6 payload =
     (if length payload \<noteq> 3
      then Some (Errorf ''cmd 6: payload must be 3 bytes, got=%d'' [FNat (length payload)])
      else if payload ! 1 > 3
      then Some (Errorf ''cmd 6: interface out of range: %d'' [FByte (payload ! 1)])
      else if payload ! 1 = 3
      then (if payload ! 2 = 0
            then Some (Errorf ''cmd 6: network address must be 1..255 for interface 485'' [])
            else None)
      else if payload ! 2 \<noteq> 0
      then Some (Errorf ''cmd 6: network address must be 0 for non-485 interface'' [])
      else None)"

definition validate_cmd7 :: "byte list \<Rightarrow> go_error option" where
  "validate_cmd7 payload =
     (if length payload \<noteq> 1
      then Some (Errorf ''cmd 7: payload must be 1 byte, got=%d'' [FNat (length payload)])
      else if payload ! 0 = 0
      then Some (Errorf ''cmd 7: camera address 0 is reserved'' [])
      else None)"

definition validate_cmd8 :: "byte list \<Rightarrow> go_error option" where
  "validate_cmd8 payload =
     (if length payload \<noteq> 3
      then Some (Errorf ''cmd 8: payload must be 3 bytes, got=%d'' [FNat (length payload)])
      else if payload ! 0 = 0
      then Some (Errorf ''cmd 8: source id 0 is reserved'' [])
      else if payload ! 1 > 1 \<or> payload ! 2 > 1
      then Some (Errorf ''cmd 8: output states must be 0 or 1'' [])
      else None)"

definition validate_empty :: "string \<Rightarrow> byte list \<Rightarrow> go_error option" where
  "validate_empty msg payload =
     (if length payload \<noteq> 0 then Some (Errorf msg []) else None)"

definition validate_cmd11 :: "byte list \<Rightarrow> go_error option" where
  "validate_cmd11 payload =
     (if length payload \<noteq> 60
      then Some (Errorf ''cmd 11: payload must be 60 bytes, got=%d'' [FNat (length payload)])
      else let phone = go_slice 0 10 payload in
        for_err (\<lambda>i. if phone ! i < 48 \<or> phone ! i > 57
          then Some (Errorf ''cmd 11: phone must contain only digits'' []) else None)
          [0..<length phone])"

definition validate_cmd12_record :: "byte list \<Rightarrow> go_error option" where
  "validate_cmd12_record rec =
     (if \<not> IsCmd12NetworkTypeValid (rec ! cmd12OffNetworkType)
      then Some (Errorf ''cmd 12: network type out of range: %d'' [FByte (rec ! cmd12OffNetworkType)])
      else if rec ! cmd12OffAutoReboot > 23
      then Some (Errorf ''cmd 12: auto reboot hour out of range: %d'' [FByte (rec ! cmd12OffAutoReboot)])
      else if rec ! cmd12OffSettingsByte > 1 \<or> rec ! (cmd12OffSettingsByte + 1) > 1
              \<or> rec ! (cmd12OffSettingsByte + 2) > 1 \<or> rec ! (cmd12OffSettingsByte + 3) > 1
      then Some (Errorf ''cmd 12: boolean settings flags must be 0 or 1'' [])
      else for_err (\<lambda>i.
             if rec ! (cmd12OffRelay1 + i) > 1
             then Some (Errorf ''cmd 12: relay1 flag %d must be 0 or 1'' [FNat i])
             else if rec ! (cmd12OffRelay2 + i) > 1
             then Some (Errorf ''cmd 12: relay2 flag %d must be 0 or 1'' [FNat i])
             else None) [0..<8])"

definition validate_cmd12 :: "byte list \<Rightarrow> go_error option" where
  "validate_cmd12 payload =
     (if length payload < 5
      then Some (Errorf ''cmd 12: payload too short: %d'' [FNat (length payload)])
      else let count = unat (payload ! 4) in
        if count < 1 \<or> count > 1 then Some (Errorf ''cmd 12: count must be 1'' [])
        else let expected = 5 + count * Cmd12RecordSize in
          if length payload \<noteq> expected
          then Some (Errorf ''cmd 12: invalid payload size: got=%d want=%d''
                 [FNat (length payload), FNat expected])
          else validate_cmd12_record (go_slice 5 (5 + Cmd12RecordSize) payload))"

text \<open>
  Commands 13 to 16 share their frame: timestamp, count, and \<open>count\<close> records of a fixed size.
  The loop goes over the records in order; \<open>check i rec\<close> is its body.
\<close>

definition validate_records ::
  "string \<Rightarrow> nat \<Rightarrow> nat \<Rightarrow> (nat \<Rightarrow> byte list \<Rightarrow> go_error option) \<Rightarrow> byte list \<Rightarrow> go_error option" where
  "validate_records cmd maxCount sz check payload =
     (if length payload < 5
      then Some (Errorf (cmd @ '': payload too short: %d'') [FNat (length payload)])
      else let count = unat (payload ! 4) in
        if count < 1 \<or> count > maxCount
        then Some (Errorf (cmd @ '': count out of range: %d'') [FNat count])
        else let expected = 5 + count * sz in
          if length payload \<noteq> expected
          then Some (Errorf (cmd @ '': invalid payload size: got=%d want=%d'')
                 [FNat (length payload), FNat expected])
          else for_err (\<lambda>i. let off = 5 + i * sz in check i (go_slice off (off + sz) payload))
                 [0..<count])"

definition validate_cmd13_record :: "nat \<Rightarrow> byte list \<Rightarrow> go_error option" where
  "validate_cmd13_record i rec =
     (let slot = Uint16 (go_slice cmd13OffSlot (cmd13OffSlot + 2) rec) in
      if slot = 0 \<or> slot > 50000
      then Some (Errorf ''cmd 13: record %d slot out of range: %d'' [FNat i, FInt (uint slot)])
      else case validatePaddedASCII (go_slice cmd13OffID (cmd13OffID + 10) rec) of
        Some err \<Rightarrow> Some (Errorf ''cmd 13: record %d id: %v'' [FNat i, FErr err])
      | None \<Rightarrow>
          let group = rec ! cmd13OffGroup in
          if group > 64
          then Some (Errorf ''cmd 13: record %d group out of range: %d'' [FNat i, FByte group])
          else if \<not> IsCmd13IDTypeValid (rec ! cmd13OffIDType)
          then Some (Errorf ''cmd 13: record %d id type out of range: %d''
                 [FNat i, FByte (rec ! cmd13OffIDType)])
          else None)"

definition validate_cmd13 :: "byte list \<Rightarrow> go_error option" where
  "validate_cmd13 = validate_records ''cmd 13'' 250 Cmd13RecordSize validate_cmd13_record"

definition validate_cmd14_record :: "nat \<Rightarrow> byte list \<Rightarrow> go_error option" where
  "validate_cmd14_record i rec =
     (let slot = rec ! cmd14OffSlot in
      if slot < 1 \<or> slot > 64
      then Some (Errorf ''cmd 14: record %d slot out of range: %d'' [FNat i, FByte slot])
      else if rec ! cmd14OffStartHour > 23 \<or> rec ! cmd14OffEndHour > 23
      then Some (Errorf ''cmd 14: record %d hour out of range'' [FNat i])
      else if rec ! cmd14OffStartMinute > 59 \<or> rec ! cmd14OffEndMinute > 59
      then Some (Errorf ''cmd 14: record %d minute out of range'' [FNat i])
      else case for_err (\<lambda>f. if \<not> isBoolByte (rec ! (cmd14OffFlags + f))
                  then Some (Errorf ''cmd 14: record %d flag %d must be 0 or 1'' [FNat i, FNat f])
                  else None) [0..<8]
        of Some e \<Rightarrow> Some e
      | None \<Rightarrow> (case for_err (\<lambda>s. let scene = rec ! (cmd14OffScenes + s) in
                  if scene > 64
                  then Some (Errorf ''cmd 14: record %d scene %d out of range: %d''
                         [FNat i, FNat s, FByte scene])
                  else None) [0..<8]
        of Some e \<Rightarrow> Some e
      | None \<Rightarrow>
          if rec ! cmd14OffHolidayLogic > 3
          then Some (Errorf ''cmd 14: record %d holiday logic out of range: %d''
                 [FNat i, FByte (rec ! cmd14OffHolidayLogic)])
          else None))"

definition validate_cmd14 :: "byte list \<Rightarrow> go_error option" where
  "validate_cmd14 = validate_records ''cmd 14'' 64 Cmd14RecordSize validate_cmd14_record"

definition validate_cmd15_record :: "nat \<Rightarrow> byte list \<Rightarrow> go_error option" where
  "validate_cmd15_record i rec =
     (let slot = rec ! cmd15OffSlot in
      if slot < 1 \<or> slot > 64
      then Some (Errorf ''cmd 15: record %d slot out of range: %d'' [FNat i, FByte slot])
      else let sched = rec ! cmd15OffSchedule in
        if sched > 64
        then Some (Errorf ''cmd 15: record %d schedule out of range: %d'' [FNat i, FByte sched])
        else for_err (\<lambda>f. if \<not> isBoolByte (rec ! (cmd15OffPermFlags + f))
               then Some (Errorf ''cmd 15: record %d permission flag %d must be 0 or 1''
                      [FNat i, FNat f])
               else None) [0..<8])"

definition validate_cmd15 :: "byte list \<Rightarrow> go_error option" where
  "validate_cmd15 = validate_records ''cmd 15'' 64 Cmd15RecordSize validate_cmd15_record"

definition validate_cmd16 :: "byte list \<Rightarrow> go_error option" where
  "validate_cmd16 = validate_records ''cmd 16'' 255 4 (\<lambda>_ _. None)"

definition validate_cmd18 :: "byte list \<Rightarrow> go_error option" where
  "validate_cmd18 payload =
     (if length payload \<noteq> 1 then Some (Errorf ''cmd 18: payload must be 1 byte'' [])
      else let block = payload ! 0 in
        if block > 100 then Some (Errorf ''cmd 18: block out of range: %d'' [FByte block])
        else None)"

definition validate_cmd19 :: "byte list \<Rightarrow> go_error option" where
  "validate_cmd19 payload =
     (if length payload \<noteq> 16
      then Some (Errorf ''cmd 19: payload must be 16 bytes, got=%d'' [FNat (length payload)])
      else let fwNum = Uint16 (go_slice 0 2 payload) in
        if fwNum = 0 then Some (Errorf ''cmd 19: fw number cannot be 0'' [])
        else let fileSize = Uint32 (go_slice 6 10 payload) in
          if fileSize = 0 then Some (Errorf ''cmd 19: file size cannot be 0'' [])
          else let fileCRC = Uint32 (go_slice 10 14 payload) in
            if fileCRC = 0 then Some (Errorf ''cmd 19: file crc cannot be 0'' [])
            else let blocks = Uint16 (go_slice 14 16 payload) in
              if blocks = 0 then Some (Errorf ''cmd 19: blocks cannot be 0'' [])
              else if blocks \<noteq> FWBlockCountForSize fileSize
              then Some (Errorf ''cmd 19: blocks mismatch: got=%d want=%d''
                     [FInt (uint blocks), FInt (uint (FWBlockCountForSize fileSize))])
              else None)"

definition validate_cmd20 :: "byte list \<Rightarrow> go_error option" where
  "validate_cmd20 payload =
     (if length payload \<noteq> 1026
      then Some (Errorf ''cmd 20: payload must be 1026 bytes, got=%d'' [FNat (length payload)])
      else None)"

definition validate_cmd23 :: "byte list \<Rightarrow> go_error option" where
  "validate_cmd23 payload =
     (if length payload \<noteq> 4
      then Some (Errorf ''cmd 23: payload must be 4 bytes, got=%d'' [FNat (length payload)])
      else None)"

definition validate_cmd24 :: "byte list \<Rightarrow> go_error option" where
  "validate_cmd24 payload =
     (if length payload \<noteq> 2 then Some (Errorf ''cmd 24: payload must be 2 bytes'' [])
      else if \<not> IsAckExecutionCodeAllowed (payload ! 1)
      then Some (Errorf ''cmd 24: invalid execution code: %d'' [FByte (payload ! 1)])
      else None)"

definition validate_cmd25 :: "byte list \<Rightarrow> go_error option" where
  "validate_cmd25 payload =
     (if length payload \<noteq> 281
      then Some (Errorf ''cmd 25: payload must be 281 bytes, got=%d'' [FNat (length payload)])
      else if payload ! 0 > 3
      then Some (Errorf ''cmd 25: error code out of range: %d'' [FByte (payload ! 0)])
      else None)"

definition validate_cmd27 :: "byte list \<Rightarrow> go_error option" where
  "validate_cmd27 payload =
     (if length payload < 3
      then Some (Errorf ''cmd 27: payload too short: %d'' [FNat (length payload)])
      else let sz = unat (Uint16 (go_slice 1 3 payload)) in
        if length (drop 3 payload) \<noteq> sz
        then Some (Errorf ''cmd 27: arg size mismatch: got=%d want=%d''
               [FNat (length (drop 3 payload)), FNat sz])
        else None)"

definition ValidateServerCommandPayload :: "u8 \<Rightarrow> byte list \<Rightarrow> go_error option" where
  "ValidateServerCommandPayload commandID payload =
     (if commandID = 1 then validate_cmd1 payload
      else if commandID = 2 then validate_cmd2 payload
      else if commandID = 3 then validate_cmd3 payload
      else if commandID = 5 then validate_cmd5 payload
      else if commandID = 6 then validate_cmd6 payload
      else if commandID = 7 then validate_cmd7 payload
      else if commandID = 8 then validate_cmd8 payload
      else if commandID = 9 then validate_empty ''cmd 9: payload must be empty'' payload
      else if commandID = 10 then validate_empty ''cmd 10: payload must be empty'' payload
      else if commandID = 11 then validate_cmd11 payload
      else if commandID = 12 then validate_cmd12 payload
      else if commandID = 13 then validate_cmd13 payload
      else if commandID = 14 then validate_cmd14 payload
      else if commandID = 15 then validate_cmd15 payload
      else if commandID = 16 then validate_cmd16 payload
      else if commandID = 17 then validate_empty ''cmd 17: payload must be empty'' payload
      else if commandID = 18 then validate_cmd18 payload
      else if commandID = 19 then validate_cmd19 payload
      else if commandID = 20 then validate_cmd20 payload
      else if commandID = 21 then validate_empty ''cmd 21: payload must be empty'' payload
      else if commandID = 22 then validate_empty ''cmd 22: payload must be empty'' payload
      else if commandID = 23 then validate_cmd23 payload
      else if commandID = 24 then validate_cmd24 payload
      else if commandID = 25 then validate_cmd25 payload
      else if commandID = 27 then validate_cmd27 payload
      else None)"

lemma Validate_simps [simp]:
  "ValidateServerCommandPayload 1 = validate_cmd1" "ValidateServerCommandPayload 2 = validate_cmd2"
  "ValidateServerCommandPayload 3 = validate_cmd3" "ValidateServerCommandPayload 5 = validate_cmd5"
  "ValidateServerCommandPayload 6 = validate_cmd6" "ValidateServerCommandPayload 7 = validate_cmd7"
  "ValidateServerCommandPayload 8 = validate_cmd8" "ValidateServerCommandPayload 11 = validate_cmd11"
  "ValidateServerCommandPayload 12 = validate_cmd12" "ValidateServerCommandPayload 13 = validate_cmd13"
  "ValidateServerCommandPayload 14 = validate_cmd14" "ValidateServerCommandPayload 15 = validate_cmd15"
  "ValidateServerCommandPayload 16 = validate_cmd16" "ValidateServerCommandPayload 18 = validate_cmd18"
  "ValidateServerCommandPayload 19 = validate_cmd19" "ValidateServerCommandPayload 20 = validate_cmd20"
  "ValidateServerCommandPayload 23 = validate_cmd23" "ValidateServerCommandPayload 24 = validate_cmd24"
  "ValidateServerCommandPayload 25 = validate_cmd25" "ValidateServerCommandPayload 27 = validate_cmd27"
  by (rule ext, simp add: ValidateServerCommandPayload_def)+

subsection \<open>Padded text fields\<close>

text \<open>A field is accepted exactly when it is ASCII text without zero bytes, padded with zeros.\<close>

definition padded_ascii :: "byte list \<Rightarrow> bool" where
  "padded_ascii field \<longleftrightarrow>
     (\<exists>body n. field = body @ replicate n 0 \<and> (\<forall>b\<in>set body. b \<noteq> 0 \<and> b \<le> 127))"

lemma padded_loop_seen:
  "validatePaddedASCII_loop field True is = None \<longleftrightarrow> (\<forall>i\<in>set is. field ! i = 0)"
  by (induction "is") (auto simp: Let_def)

lemma padded_loop_shift:
  "validatePaddedASCII_loop (b # field) seen (map Suc is) = None
     \<longleftrightarrow> validatePaddedASCII_loop field seen is = None"
  by (induction "is" arbitrary: seen) (auto simp: Let_def)

lemma padded_ascii_Cons:
  "padded_ascii (b # field) \<longleftrightarrow>
     (if b = 0 then \<forall>x\<in>set field. x = 0 else b \<le> 127 \<and> padded_ascii field)"
proof (cases "b = 0")
  case True
  have "padded_ascii (0 # field) \<longleftrightarrow> (\<forall>x\<in>set field. x = 0)"
  proof
    assume "padded_ascii (0 # field)"
    then obtain body n where t: "0 # field = body @ replicate n 0" "\<forall>b\<in>set body. b \<noteq> 0 \<and> b \<le> 127"
      by (auto simp: padded_ascii_def)
    then have "body = []" by (cases body) auto
    with t show "\<forall>x\<in>set field. x = 0" by (cases n) auto
  next
    assume "\<forall>x\<in>set field. x = 0"
    then have "0 # field = [] @ replicate (Suc (length field)) 0"
      by (simp add: replicate_length_same)
    then show "padded_ascii (0 # field)" unfolding padded_ascii_def by (metis empty_iff list.set(1))
  qed
  with True show ?thesis by simp
next
  case False
  have "padded_ascii (b # field) \<longleftrightarrow> b \<le> 127 \<and> padded_ascii field"
  proof
    assume "padded_ascii (b # field)"
    then obtain body n where t: "b # field = body @ replicate n 0" "\<forall>b\<in>set body. b \<noteq> 0 \<and> b \<le> 127"
      by (auto simp: padded_ascii_def)
    with False obtain body' where "body = b # body'" by (cases body; cases n) auto
    with t show "b \<le> 127 \<and> padded_ascii field" by (auto simp: padded_ascii_def)
  next
    assume "b \<le> 127 \<and> padded_ascii field"
    then obtain body n where "field = body @ replicate n 0" "\<forall>b\<in>set body. b \<noteq> 0 \<and> b \<le> 127" "b \<le> 127"
      by (auto simp: padded_ascii_def)
    then have "b # field = (b # body) @ replicate n 0" "\<forall>x\<in>set (b # body). x \<noteq> 0 \<and> x \<le> 127"
      using False by auto
    then show "padded_ascii (b # field)" unfolding padded_ascii_def by blast
  qed
  with False show ?thesis by simp
qed

lemma validatePaddedASCII_iff: "validatePaddedASCII field = None \<longleftrightarrow> padded_ascii field"
proof (induction field)
  case Nil
  then show ?case by (auto simp: validatePaddedASCII_def padded_ascii_def)
next
  case (Cons b field)
  have upt: "[0..<length (b # field)] = 0 # map Suc [0..<length field]"
    by (simp add: upt_conv_Cons map_Suc_upt del: upt_Suc)
  have zeros: "(\<forall>i\<in>set (map Suc [0..<length field]). (b # field) ! i = 0) \<longleftrightarrow> (\<forall>x\<in>set field. x = 0)"
    unfolding set_map ball_simps(9) by (auto simp: all_set_conv_all_nth)
  show ?case
    using Cons zeros unfolding validatePaddedASCII_def upt
    by (auto simp: padded_ascii_Cons padded_loop_seen padded_loop_shift Let_def not_less
        simp del: map_Suc_upt set_map)
qed

subsection \<open>Record payloads\<close>

definition sync_payload :: "u32 \<Rightarrow> byte list list \<Rightarrow> byte list" where
  "sync_payload ts recs = le32 ts @ word_of_nat (length recs) # concat recs"

lemma concat_slice:
  assumes "\<forall>r\<in>set recs. length r = sz" "i < length recs"
  shows "go_slice (i * sz) (i * sz + sz) (concat recs) = recs ! i"
  using assms
proof (induction recs arbitrary: i)
  case (Cons r recs)
  show ?case
  proof (cases i)
    case 0
    with Cons.prems show ?thesis by (simp add: go_slice_def)
  next
    case (Suc j)
    with Cons have "go_slice (j * sz) (j * sz + sz) (concat recs) = recs ! j" by simp
    moreover have "length r = sz" using Cons.prems by simp
    ultimately show ?thesis using Suc by (simp add: go_slice_def algebra_simps)
  qed
qed simp

lemma length_concat_same:
  "\<forall>r\<in>set recs. length r = sz \<Longrightarrow> length (concat recs) = length recs * sz"
  by (induction recs) auto

lemma validate_records_sync:
  assumes "1 \<le> length recs" "length recs \<le> maxCount" "maxCount \<le> 255"
    and "\<forall>r\<in>set recs. length r = sz"
  shows "validate_records cmd maxCount sz check (sync_payload ts recs)
    = for_err (\<lambda>i. check i (recs ! i)) [0..<length recs]"
proof -
  let ?p = "sync_payload ts recs"
  have len: "length ?p = 5 + length recs * sz"
    using assms(4) by (simp add: sync_payload_def length_concat_same)
  have "?p ! 4 = word_of_nat (length recs)"
    by (simp add: sync_payload_def nth_append)
  then have count: "unat (?p ! 4) = length recs"
    using assms(2,3) by (simp add: unat_of_nat)
  have "go_slice (5 + i * sz) (5 + i * sz + sz) ?p = recs ! i" if "i < length recs" for i
    using concat_slice [OF assms(4) that] by (simp add: sync_payload_def go_slice_def)
  then show ?thesis
    using assms(1,2) by (auto simp: validate_records_def len count Let_def not_less intro!: for_err_eqI)
qed

lemma records_of_concat:
  "length xs = n * sz \<Longrightarrow>
     \<exists>recs. xs = concat recs \<and> length recs = n \<and> (\<forall>r\<in>set recs. length r = sz)"
proof (induction n arbitrary: xs)
  case (Suc n)
  then have "length (drop sz xs) = n * sz" by simp
  then obtain recs where "drop sz xs = concat recs" "length recs = n" "\<forall>r\<in>set recs. length r = sz"
    using Suc.IH by blast
  moreover have "xs = take sz xs @ drop sz xs" "length (take sz xs) = sz"
    using Suc.prems by simp_all
  ultimately show ?case
    by (intro exI [of _ "take sz xs # recs"]) auto
qed simp

lemma validate_records_iff:
  assumes "maxCount \<le> 255"
  shows "validate_records cmd maxCount sz check p = None \<longleftrightarrow>
    (\<exists>ts recs. p = sync_payload ts recs \<and> 1 \<le> length recs \<and> length recs \<le> maxCount
       \<and> (\<forall>r\<in>set recs. length r = sz) \<and> (\<forall>i<length recs. check i (recs ! i) = None))"
    (is "?lhs \<longleftrightarrow> ?rhs")
proof
  assume ok: ?lhs
  let ?n = "unat (p ! 4)"
  have len: "length p = 5 + ?n * sz" and n: "1 \<le> ?n" "?n \<le> maxCount"
    using ok by (auto simp: validate_records_def Let_def split: if_splits)
  from len have "length (drop 5 p) = ?n * sz" by simp
  then obtain recs where recs: "drop 5 p = concat recs" "length recs = ?n"
      "\<forall>r\<in>set recs. length r = sz"
    using records_of_concat by blast
  have "p = take 4 p @ p ! 4 # drop 5 p"
    using len id_take_nth_drop [of 4 p] by simp
  moreover have "take 4 p = le32 (Uint32 (take 4 p))"
    using len by (simp add: le32_Uint32)
  ultimately have p: "p = sync_payload (Uint32 (take 4 p)) recs"
    using recs by (simp add: sync_payload_def)
  have "for_err (\<lambda>i. check i (recs ! i)) [0..<length recs] = None"
    using ok validate_records_sync [of recs maxCount sz cmd check] p n recs assms by metis
  then have "\<forall>i<length recs. check i (recs ! i) = None" by (simp add: for_err_None)
  with p n recs show ?rhs by metis
next
  assume ?rhs
  then show ?lhs using validate_records_sync assms by (auto simp: for_err_None)
qed

lemma validate_records_ok_iff:
  assumes "maxCount \<le> 255" "\<And>i r. check i r = None \<longleftrightarrow> ok r"
  shows "validate_records cmd maxCount sz check p = None \<longleftrightarrow>
    (\<exists>ts recs. p = sync_payload ts recs \<and> 1 \<le> length recs \<and> length recs \<le> maxCount
       \<and> (\<forall>r\<in>set recs. length r = sz \<and> ok r))"
  unfolding validate_records_iff [OF assms(1)] assms(2) by (simp add: all_set_conv_all_nth) metis

definition cmd13_record_ok :: "byte list \<Rightarrow> bool" where
  "cmd13_record_ok rec \<longleftrightarrow>
     Uint16 (go_slice 0 2 rec) \<noteq> 0 \<and> Uint16 (go_slice 0 2 rec) \<le> 50000
     \<and> padded_ascii (go_slice 2 12 rec) \<and> rec ! 12 \<le> 64 \<and> rec ! 19 \<le> 7"

definition cmd14_record_ok :: "byte list \<Rightarrow> bool" where
  "cmd14_record_ok rec \<longleftrightarrow>
     rec ! 0 \<noteq> 0 \<and> rec ! 0 \<le> 64 \<and> rec ! 1 \<le> 23 \<and> rec ! 3 \<le> 23 \<and> rec ! 2 \<le> 59 \<and> rec ! 4 \<le> 59
     \<and> (\<forall>f<8. isBoolByte (rec ! (5 + f))) \<and> (\<forall>s<8. rec ! (13 + s) \<le> 64) \<and> rec ! 21 \<le> 3"

definition cmd15_record_ok :: "byte list \<Rightarrow> bool" where
  "cmd15_record_ok rec \<longleftrightarrow>
     rec ! 0 \<noteq> 0 \<and> rec ! 0 \<le> 64 \<and> rec ! 1 \<le> 64 \<and> (\<forall>f<8. isBoolByte (rec ! (2 + f)))"

lemma validate_cmd13_record_iff: "validate_cmd13_record i rec = None \<longleftrightarrow> cmd13_record_ok rec"
  by (auto simp: validate_cmd13_record_def cmd13_record_ok_def Let_def IsCmd13IDTypeValid_def not_less
      simp flip: validatePaddedASCII_iff simp del: add_2_eq_Suc add_2_eq_Suc' split: option.splits)

lemma for_err_lt: "for_err f [0..<n] = None \<longleftrightarrow> (\<forall>i<n. f i = None)"
  by (auto simp: for_err_None)

lemma validate_cmd14_record_iff: "validate_cmd14_record i rec = None \<longleftrightarrow> cmd14_record_ok rec"
proof -
  have opt: "(case x of None \<Rightarrow> y | Some e \<Rightarrow> Some e) = None \<longleftrightarrow> x = None \<and> y = None"
    for x y :: "go_error option" by (cases x) auto
  show ?thesis
    unfolding validate_cmd14_record_def cmd14_record_ok_def Let_def
    by (auto simp: opt for_err_lt not_less simp del: add_2_eq_Suc add_2_eq_Suc')
qed

lemma validate_cmd15_record_iff: "validate_cmd15_record i rec = None \<longleftrightarrow> cmd15_record_ok rec"
  unfolding validate_cmd15_record_def cmd15_record_ok_def Let_def
  by (auto simp: for_err_lt not_less simp del: add_2_eq_Suc add_2_eq_Suc')

subsection \<open>Firmware block count\<close>

lemma FWBlockCount_unat:
  "unat (FWBlockCountForSize fileSize) =
     (if unat fileSize + 1023 < 2 ^ 32 then min 65535 ((unat fileSize + 1023) div 1024) else 0)"
proof (cases "fileSize = 0")
  case True
  then show ?thesis by (simp add: FWBlockCountForSize_def)
next
  case False
  let ?b = "(fileSize + 1023) div 1024"
  have b: "unat ?b = (unat fileSize + 1023) mod 2 ^ 32 div 1024"
    by (simp add: unat_div unat_word_ariths)
  have s: "unat fileSize < 2 ^ 32" by (rule unsigned_less [THEN order_less_le_trans]) simp
  have def: "FWBlockCountForSize fileSize = (if ?b > 0xFFFF then 0xFFFF else ucast ?b)"
    using False by (simp add: FWBlockCountForSize_def Let_def add.commute)
  have "unat (ucast ?b :: u16) = unat ?b mod 2 ^ 16"
    by (simp add: unsigned_ucast_eq take_bit_eq_mod)
  moreover have "?b > 0xFFFF \<longleftrightarrow> unat ?b > 65535"
    by (simp add: word_less_nat_alt)
  ultimately have v: "unat (FWBlockCountForSize fileSize) = min 65535 (unat ?b)"
    by (auto simp: def)
  show ?thesis
  proof (cases "unat fileSize + 1023 < 2 ^ 32")
    case True
    then show ?thesis by (simp add: v b)
  next
    case False
    then have "(unat fileSize + 1023) mod 2 ^ 32 = unat fileSize + 1023 - 2 ^ 32"
      using s by (simp add: mod_if)
    moreover have "unat fileSize + 1023 - 2 ^ 32 < 1024" using s by simp
    ultimately show ?thesis using False by (simp add: v b)
  qed
qed

lemma FWBlockCount_zero_iff:
  "FWBlockCountForSize fileSize = 0 \<longleftrightarrow> fileSize = 0 \<or> 2 ^ 32 \<le> unat fileSize + 1023"
proof -
  have "FWBlockCountForSize fileSize = 0 \<longleftrightarrow> unat (FWBlockCountForSize fileSize) = 0"
    by (simp add: unat_eq_0)
  also have "\<dots> \<longleftrightarrow> unat fileSize = 0 \<or> 2 ^ 32 \<le> unat fileSize + 1023"
    unfolding FWBlockCount_unat by (auto simp: div_eq_0_iff min_def not_less)
  finally show ?thesis by (simp add: unat_eq_0)
qed

subsection \<open>Properties\<close>



text \<open>
  (C37) The number of firmware blocks is the file size divided by 1024, rounded up and capped at
  65535, except for the last 1023 file sizes of the 32-bit range: there the addition that
  rounds up wraps around and the function returns 0 instead of the cap.
\<close>

theorem FWBlockCountForSize_value:
  "unat (FWBlockCountForSize fileSize) =
     (if unat fileSize + 1023 < 2 ^ 32 then min 65535 ((unat fileSize + 1023) div 1024) else 0)"
  by (rule FWBlockCount_unat)

end
