(* ===== verification/Delivery.thy ===== *)
theory Delivery
  imports Server_State Payload_Validation Inflight_Laws
begin

text \<open>
  Delivery of commands (\<^verbatim>\<open>internal/server/server.go\<close>): enqueueing through the server, the flush of a
  controller's queue to its connection, and the processing of timeouts. \<^verbatim>\<open>flushQueue\<close> runs under the
  flush lock of its controller and is modelled as one step: no other operation on the session runs
  between its parts. \<^verbatim>\<open>dctx.Queue\<close> is the queue object of the session itself, so that popping from it
  changes the session.
\<close>

section \<open>Enqueueing\<close>

definition EnqueueCommand :: "'s Store \<Rightarrow> string \<Rightarrow> Command \<Rightarrow> 's Server \<Rightarrow> go_error option \<times> 's Server" where
  "EnqueueCommand ops controllerID cmd sv =
     (let (cmd, sv) = (if cmd_CreatedAt cmd = zero_time
                       then let (now, sv) = Now sv in (cmd\<lparr>cmd_CreatedAt := now\<rparr>, sv) else (cmd, sv))
      in case normalizeCommandPriority cmd of
           Inl err \<Rightarrow> (Some err, sv)
         | Inr normalized \<Rightarrow>
             let (t0, sv) = Now sv; (t1, sv) = Now sv; (t2, sv) = Now sv;
                 (err, events, m) = EnqueueWithEvents ops t0 t1 t2 controllerID normalized (sv_sessions sv)
             in (err, fold recordOverflowMetric events (sv\<lparr>sv_sessions := m\<rparr>)))"

definition ttlToWire :: "duration \<Rightarrow> u8" where
  "ttlToWire ttl =
     (if ttl \<le> 0 then 255
      else let sec = ttl sdiv second;
               sec = (if sec \<le> 0 then 1 else sec)
           in if sec > 250 then 255 else word_of_int sec)"

section \<open>Flushing a queue\<close>

text \<open>Operations on the queue of a session, in place.\<close>

definition queue_of :: "string \<Rightarrow> 's Server \<Rightarrow> ControllerQueue" where
  "queue_of controllerID sv = (case map_of (m_sessions (sv_sessions sv)) controllerID of
     Some s \<Rightarrow> ses_Queue s | None \<Rightarrow> NewControllerQueue)"

definition set_queue :: "string \<Rightarrow> ControllerQueue \<Rightarrow> 's Server \<Rightarrow> 's Server" where
  "set_queue controllerID q sv = (case map_of (m_sessions (sv_sessions sv)) controllerID of
     Some s \<Rightarrow> sv\<lparr>sv_sessions := put_session (s\<lparr>ses_Queue := q\<rparr>) (sv_sessions sv)\<rparr> | None \<Rightarrow> sv)"

definition push_all :: "string \<Rightarrow> Command list \<Rightarrow> 's Server \<Rightarrow> 's Server" where
  "push_all controllerID cmds sv = set_queue controllerID (foldl Queue_Push (queue_of controllerID sv) cmds) sv"

definition ack_event :: "string \<Rightarrow> Command \<Rightarrow> u8 \<Rightarrow> string \<Rightarrow> reason \<Rightarrow> AckEvent" where
  "ack_event controllerID cmd seq status reason =
     \<lparr>ae_MessageID = cmd_MessageID cmd, ae_TraceID = cmd_TraceID cmd, ae_ControllerID = controllerID,
      ae_CommandID = cmd_CommandID cmd, ae_CommandSeq = seq, ae_Status = status, ae_Reason = reason\<rparr>"

text \<open>The variables of a flush: the server, the modes of \<open>dctx\<close>, the budget and the commands set aside.\<close>

record 's flush =
  fl_sv :: "'s Server"
  fl_FWMode :: bool
  fl_SyncMode :: bool
  fl_remaining :: int
  fl_skipped :: "Command list"

datatype scan_result =
    Continue
  | Sent
  | Return "go_error option"

definition report :: "string \<Rightarrow> Command \<Rightarrow> u8 \<Rightarrow> string \<Rightarrow> reason \<Rightarrow> 's flush \<Rightarrow> 's flush" where
  "report controllerID cmd seq status reason fl =
     fl\<lparr>fl_sv := publishAckWithCommand (ack_event controllerID cmd seq status reason) cmd (fl_sv fl)\<rparr>"

definition restore_skipped :: "string \<Rightarrow> 's flush \<Rightarrow> 's flush" where
  "restore_skipped controllerID fl = fl\<lparr>fl_sv := push_all controllerID (fl_skipped fl) (fl_sv fl)\<rparr>"

text \<open>
  After the frame is written: the command is in flight, modes are switched, the sending is recorded
  and the session persisted. Every error is reported and ends the flush.
\<close>

definition record_sent :: "string \<Rightarrow> DeliveryContext \<Rightarrow> net_conn \<Rightarrow> Command \<Rightarrow> u8 \<Rightarrow> byte list \<Rightarrow> byte list
    \<Rightarrow> 's Server \<Rightarrow> 's Server" where
  "record_sent controllerID dctx conn cmd seq payload frameBytes sv =
     (let (t1, sv) = Now sv;
          remote = (case conn_RemoteAddr conn of Some a \<Rightarrow> a | None \<Rightarrow> []);
          sv = recordDebugEvent \<lparr>de_Timestamp = t1, de_Kind = ''tx'', de_ControllerID = controllerID,
                 de_RemoteAddr = remote, de_CommandID = cmd_CommandID cmd, de_CommandSeq = seq,
                 de_MessageID = cmd_MessageID cmd, de_TraceID = cmd_TraceID cmd, de_Status = [],
                 de_Reason = NoReason, de_PayloadLen = int (length (cmd_Payload cmd)) + 1\<rparr> sv;
          (t2, sv) = Now sv
      in recordRawMessage \<lparr>raw_Timestamp = t2, raw_Direction = ''tx'', raw_ControllerID = controllerID,
                 raw_RemoteAddr = remote, raw_CommandID = cmd_CommandID cmd, raw_CommandSeq = seq,
                 raw_FrameMode = dc_FrameMode dctx, raw_TTL = ttlToWire (cmd_TTL cmd),
                 raw_RawHex = EncodeToString frameBytes, raw_PayloadHex = EncodeToString payload,
                 raw_PayloadLen = int (length payload), raw_MessageID = cmd_MessageID cmd,
                 raw_TraceID = cmd_TraceID cmd\<rparr> sv)"

text \<open>
  A call on the session manager, and \<^verbatim>\<open>if err := f(); err != nil { fail }\<close> followed by the rest.
\<close>

definition on_sessions :: "('s Manager \<Rightarrow> 'r \<times> 's Manager) \<Rightarrow> 's flush \<Rightarrow> 'r \<times> 's flush" where
  "on_sessions f fl =
     (let (r, m) = f (sv_sessions (fl_sv fl)) in (r, fl\<lparr>fl_sv := (fl_sv fl)\<lparr>sv_sessions := m\<rparr>\<rparr>))"

definition if_err :: "go_error option \<times> 's flush \<Rightarrow> (go_error \<Rightarrow> 's flush \<Rightarrow> 'r \<times> 's flush) \<Rightarrow> ('s flush \<Rightarrow> 'r \<times> 's flush)
    \<Rightarrow> 'r \<times> 's flush" where
  "if_err call fail rest = (case call of (Some err, fl) \<Rightarrow> fail err fl | (None, fl) \<Rightarrow> rest fl)"

definition after_write :: "'s Store \<Rightarrow> string \<Rightarrow> DeliveryContext \<Rightarrow> net_conn \<Rightarrow> Command \<Rightarrow> u8 \<Rightarrow> byte list \<Rightarrow> byte list
    \<Rightarrow> 's flush \<Rightarrow> scan_result \<times> 's flush" where
  "after_write ops controllerID dctx conn cmd seq payload frameBytes fl =
     (let failed = (\<lambda>seq err fl. (Return (Some err), report controllerID cmd seq ''failed'' (ErrorText err) fl));
          (t, sv) = Now (fl_sv fl)
      in if_err (on_sessions (RegisterInFlight ops controllerID seq cmd t) (fl\<lparr>fl_sv := sv\<rparr>))
           (\<lambda>err fl. let (r, fl) = failed 0 err fl in (r, restore_skipped controllerID fl))
           (\<lambda>fl. if_err
             (if cmd_CommandID cmd \<ge> 12 \<and> cmd_CommandID cmd \<le> 16
              then let (err, fl) = on_sessions (SetSyncMode ops controllerID True) fl
                   in (err, if err = None then fl\<lparr>fl_SyncMode := True\<rparr> else fl)
              else (None, fl))
             (failed 0)
           (\<lambda>fl. if_err
             (if cmd_CommandID cmd = 19
              then let (err, fl) = on_sessions (SetFWMode ops controllerID True) fl
                   in (err, if err = None then fl\<lparr>fl_FWMode := True\<rparr> else fl)
              else (None, fl))
             (failed 0)
           (\<lambda>fl. let sv = record_sent controllerID dctx conn cmd seq payload frameBytes (fl_sv fl);
                     fl = fl\<lparr>fl_sv := publishAck (ack_event controllerID cmd seq ''accepted'' NoReason) sv,
                              fl_remaining := fl_remaining fl - int (length frameBytes)\<rparr>
                 in if_err (on_sessions (AckSent ops controllerID) fl) (failed seq) (\<lambda>fl. (Sent, fl))))))"

definition send_command :: "'s Store \<Rightarrow> string \<Rightarrow> DeliveryContext \<Rightarrow> net_conn \<Rightarrow> Command \<Rightarrow> 's flush
    \<Rightarrow> scan_result \<times> 's flush" where
  "send_command ops controllerID dctx conn cmd fl =
     (let payload = cmd_CommandID cmd # cmd_Payload cmd in
      case ValidateServerCommandPayload (cmd_CommandID cmd) (cmd_Payload cmd) of
        Some err \<Rightarrow> (Continue, report controllerID cmd 0 ''failed'' (Sprintf ''invalid payload: %v'' [FErr err]) fl)
      | None \<Rightarrow>
      let (r, fl) = (if cmd_RetrySeq cmd = 0 then on_sessions (NextCommandSeq ops controllerID) fl
                     else (Inr (cmd_RetrySeq cmd), fl))
      in case r of Inl err \<Rightarrow> (Return (Some err), restore_skipped controllerID fl) | Inr seq \<Rightarrow>
      let cmd = cmd\<lparr>cmd_RetrySeq := 0\<rparr> in
      case EncodeFrame \<lparr>f_TTL = ttlToWire (cmd_TTL cmd), f_Seq = seq, f_Payload = payload, f_Mode = dc_FrameMode dctx\<rparr> of
        Inl err \<Rightarrow> (Continue, report controllerID cmd 0 ''failed'' (ErrorText err) fl)
      | Inr frameBytes \<Rightarrow>
      if int (length frameBytes) > fl_remaining fl
      then (Return None, restore_skipped controllerID (fl\<lparr>fl_sv := push_all controllerID [cmd] (fl_sv fl)\<rparr>))
      else let (err, sv) = conn_Write conn frameBytes (fl_sv fl); fl = fl\<lparr>fl_sv := sv\<rparr> in
        case err of
          Some e \<Rightarrow> (Return (Some e), restore_skipped controllerID (report controllerID cmd 0 ''failed'' (ErrorText e) fl))
        | None \<Rightarrow> after_write ops controllerID dctx conn cmd seq payload frameBytes fl)"

text \<open>The loop over the queue: at most \<open>scan\<close> pops, until a command is sent or the flush returns.\<close>

fun scan_queue :: "'s Store \<Rightarrow> string \<Rightarrow> DeliveryContext \<Rightarrow> net_conn \<Rightarrow> nat \<Rightarrow> 's flush \<Rightarrow> scan_result \<times> 's flush" where
  "scan_queue ops controllerID dctx conn 0 fl = (Continue, fl)"
| "scan_queue ops controllerID dctx conn (Suc n) fl =
     (let (t, sv) = Now (fl_sv fl);
          (r, q) = PopNext (queue_of controllerID sv) t (fl_FWMode fl) (fl_SyncMode fl);
          fl = fl\<lparr>fl_sv := set_queue controllerID q sv\<rparr>
      in case r of
           None \<Rightarrow> (Continue, fl)
         | Some cmd \<Rightarrow>
             let (t, sv) = Now (fl_sv fl); fl = fl\<lparr>fl_sv := sv\<rparr> in
             if Expired cmd t
             then scan_queue ops controllerID dctx conn n
                    (report controllerID cmd 0 ''expired'' (Text ''ttl expired before send'') fl)
             else if \<not> commandAllowedInModes (cmd_CommandID cmd) (fl_FWMode fl) (fl_SyncMode fl)
             then scan_queue ops controllerID dctx conn n (fl\<lparr>fl_skipped := fl_skipped fl @ [cmd]\<rparr>)
             else case send_command ops controllerID dctx conn cmd fl of
                    (Continue, fl) \<Rightarrow> scan_queue ops controllerID dctx conn n fl
                  | (r, fl) \<Rightarrow> (r, fl))"

text \<open>The expired commands are drained and reported before each scan.\<close>

definition drain_expired :: "string \<Rightarrow> 's Server \<Rightarrow> 's Server" where
  "drain_expired controllerID sv =
     (let (t, sv) = Now sv;
          (expired, q) = DrainExpired (queue_of controllerID sv) t
      in fold (\<lambda>cmd. publishAckWithCommand
                 (ack_event controllerID cmd 0 ''expired'' (Text ''ttl expired before send'')) cmd)
           expired (set_queue controllerID q sv))"

text \<open>Leaving a mode when its queue is empty, after something was sent.\<close>

definition leave_modes :: "'s Store \<Rightarrow> string \<Rightarrow> 's flush \<Rightarrow> go_error option \<times> 's flush" where
  "leave_modes ops controllerID fl =
     if_err
       (if fl_SyncMode fl \<and> \<not> HasSync (queue_of controllerID (fl_sv fl))
        then let (err, fl) = on_sessions (SetSyncMode ops controllerID False) fl
             in (err, if err = None then fl\<lparr>fl_SyncMode := False\<rparr> else fl)
        else (None, fl))
       (\<lambda>err fl. (Some err, fl))
     (\<lambda>fl. if_err
       (if fl_FWMode fl \<and> \<not> HasFW (queue_of controllerID (fl_sv fl))
        then let (err, fl) = on_sessions (SetFWMode ops controllerID False) fl
             in (err, if err = None then fl\<lparr>fl_FWMode := False\<rparr> else fl)
        else (None, fl))
       (\<lambda>err fl. (Some err, fl))
     (\<lambda>fl. (None, fl)))"

text \<open>
  One turn of the loop of \<^verbatim>\<open>flushQueue\<close>: \<open>Inl err\<close> when the flush returns, \<open>Inr ()\<close> when the loop
  goes on, which is only so after a command was sent. \<open>finish_turn\<close> is the part after the scan.
\<close>

definition finish_turn :: "'s Store \<Rightarrow> string \<Rightarrow> scan_result \<Rightarrow> 's flush \<Rightarrow> (go_error option + unit) \<times> 's flush" where
  "finish_turn ops controllerID r fl = (case r of
     Return err \<Rightarrow> (Inl err, fl)
   | Continue \<Rightarrow> (Inl None, restore_skipped controllerID fl)
   | Sent \<Rightarrow> (case leave_modes ops controllerID (restore_skipped controllerID fl) of
       (Some err, fl) \<Rightarrow> (Inl (Some err), fl)
     | (None, fl) \<Rightarrow> (Inr (), fl)))"

definition flush_turn :: "'s Store \<Rightarrow> string \<Rightarrow> DeliveryContext \<Rightarrow> net_conn \<Rightarrow> 's flush
    \<Rightarrow> (go_error option + unit) \<times> 's flush" where
  "flush_turn ops controllerID dctx conn fl =
     (let fl = fl\<lparr>fl_sv := drain_expired controllerID (fl_sv fl)\<rparr>;
          scan = Queue_Len (queue_of controllerID (fl_sv fl))
      in if scan = 0 then (Inl None, fl)
         else let (r, fl) = scan_queue ops controllerID dctx conn (nat scan) (fl\<lparr>fl_skipped := []\<rparr>)
              in finish_turn ops controllerID r fl)"

section \<open>The pieces of a flush\<close>

text \<open>What the operations that only count and publish leave alone.\<close>

lemma Now_simps [simp]:
  "sv_sessions (snd (Now sv)) = sv_sessions sv" "sv_acks (snd (Now sv)) = sv_acks sv"
  "sv_wire (snd (Now sv)) = sv_wire sv" "sv_cfg (snd (Now sv)) = sv_cfg sv"
  by (simp_all add: Now_def)

lemma record_simps [simp]:
  "sv_sessions (recordDebugEvent e sv) = sv_sessions sv" "sv_acks (recordDebugEvent e sv) = sv_acks sv"
  "sv_wire (recordDebugEvent e sv) = sv_wire sv" "sv_cfg (recordDebugEvent e sv) = sv_cfg sv"
  "sv_sessions (recordRawMessage r sv) = sv_sessions sv" "sv_acks (recordRawMessage r sv) = sv_acks sv"
  "sv_wire (recordRawMessage r sv) = sv_wire sv" "sv_cfg (recordRawMessage r sv) = sv_cfg sv"
  by (simp_all add: recordDebugEvent_def recordRawMessage_def Let_def)

lemma record_sent_simps [simp]:
  "sv_sessions (record_sent k d c cmd seq p f sv) = sv_sessions sv" "sv_acks (record_sent k d c cmd seq p f sv) = sv_acks sv"
  "sv_wire (record_sent k d c cmd seq p f sv) = sv_wire sv" "sv_cfg (record_sent k d c cmd seq p f sv) = sv_cfg sv"
  by (simp_all add: record_sent_def split_beta Let_def)

lemma observe_simps [simp]:
  "sv_sessions (observeAckLatency st cmd sv) = sv_sessions sv" "sv_acks (observeAckLatency st cmd sv) = sv_acks sv"
  "sv_wire (observeAckLatency st cmd sv) = sv_wire sv" "sv_cfg (observeAckLatency st cmd sv) = sv_cfg sv"
  by (simp_all add: observeAckLatency_def split_beta Let_def)

lemma publish_simps [simp]:
  "sv_sessions (publishAck e sv) = sv_sessions sv" "sv_acks (publishAck e sv) = sv_acks sv @ [e]"
  "sv_wire (publishAck e sv) = sv_wire sv" "sv_cfg (publishAck e sv) = sv_cfg sv"
  "sv_sessions (publishAckWithCommand e cmd sv) = sv_sessions sv"
  "sv_acks (publishAckWithCommand e cmd sv) = sv_acks sv @ [e]"
  "sv_wire (publishAckWithCommand e cmd sv) = sv_wire sv" "sv_cfg (publishAckWithCommand e cmd sv) = sv_cfg sv"
  by (simp_all add: publishAck_def publishAckWithCommand_def PublishAck_def split_beta Let_def)

text \<open>The session of the controller is there, with queue \<open>q\<close>.\<close>

definition has_queue :: "'s Manager \<Rightarrow> string \<Rightarrow> ControllerQueue \<Rightarrow> bool" where
  "has_queue m k q \<longleftrightarrow> (\<exists>s. map_of (m_sessions m) k = Some s \<and> ses_ControllerID s = k \<and> ses_Queue s = q)"

lemma has_queue_of: "has_queue (sv_sessions sv) k q \<Longrightarrow> queue_of k sv = q"
  by (auto simp: has_queue_def queue_of_def)

lemma has_set_queue: "has_queue (sv_sessions sv) k q \<Longrightarrow> has_queue (sv_sessions (set_queue k q' sv)) k q'"
  by (auto simp: has_queue_def set_queue_def)

lemma set_queue_simps [simp]:
  "sv_acks (set_queue k q sv) = sv_acks sv" "sv_wire (set_queue k q sv) = sv_wire sv" "sv_cfg (set_queue k q sv) = sv_cfg sv"
  by (simp_all add: set_queue_def split: option.split)

lemma has_push_all:
  "has_queue (sv_sessions sv) k q \<Longrightarrow> has_queue (sv_sessions (push_all k cs sv)) k (foldl Queue_Push q cs)"
  by (simp add: push_all_def has_queue_of has_set_queue)

lemma push_all_simps [simp]:
  "sv_acks (push_all k cs sv) = sv_acks sv" "sv_wire (push_all k cs sv) = sv_wire sv" "sv_cfg (push_all k cs sv) = sv_cfg sv"
  by (simp_all add: push_all_def)

text \<open>The manager's operations during a flush keep the queue of the session.\<close>

lemma manager_keeps_queue:
  assumes "has_queue m k q"
  shows "has_queue (snd (NextCommandSeq ops k m)) k q" "has_queue (snd (RegisterInFlight ops k seq cmd t m)) k q"
    "has_queue (snd (SetSyncMode ops k b m)) k q" "has_queue (snd (SetFWMode ops k b m)) k q"
    "has_queue (snd (AckSent ops k m)) k q" "\<exists>seq. fst (NextCommandSeq ops k m) = Inr seq"
  using assms by (auto simp: has_queue_def NextCommandSeq_def RegisterInFlight_def SetSyncMode_def SetFWMode_def
      AckSent_def persistLocked_eq update_session_eq Let_def)

lemma report_simps [simp]:
  "sv_sessions (fl_sv (report k cmd seq st r fl)) = sv_sessions (fl_sv fl)"
  "sv_acks (fl_sv (report k cmd seq st r fl)) = sv_acks (fl_sv fl) @ [ack_event k cmd seq st r]"
  "sv_wire (fl_sv (report k cmd seq st r fl)) = sv_wire (fl_sv fl)"
  "fl_skipped (report k cmd seq st r fl) = fl_skipped fl" "fl_remaining (report k cmd seq st r fl) = fl_remaining fl"
  "fl_FWMode (report k cmd seq st r fl) = fl_FWMode fl" "fl_SyncMode (report k cmd seq st r fl) = fl_SyncMode fl"
  by (simp_all add: report_def)

lemma restore_skipped_simps [simp]:
  "sv_acks (fl_sv (restore_skipped k fl)) = sv_acks (fl_sv fl)" "sv_wire (fl_sv (restore_skipped k fl)) = sv_wire (fl_sv fl)"
  "fl_skipped (restore_skipped k fl) = fl_skipped fl" "fl_remaining (restore_skipped k fl) = fl_remaining fl"
  by (simp_all add: restore_skipped_def)

lemma on_sessions_simps [simp]:
  "sv_acks (fl_sv (snd (on_sessions f fl))) = sv_acks (fl_sv fl)" "sv_wire (fl_sv (snd (on_sessions f fl))) = sv_wire (fl_sv fl)"
  "fl_skipped (snd (on_sessions f fl)) = fl_skipped fl" "fl_remaining (snd (on_sessions f fl)) = fl_remaining fl"
  "sv_sessions (fl_sv (snd (on_sessions f fl))) = snd (f (sv_sessions (fl_sv fl)))"
  "fst (on_sessions f fl) = fst (f (sv_sessions (fl_sv fl)))"
  by (simp_all add: on_sessions_def split_beta)

text \<open>Two states of a flush that agree on what the queue, the bus, the wire and the budget hold.\<close>

definition same_flush :: "string \<Rightarrow> 's flush \<Rightarrow> 's flush \<Rightarrow> bool" where
  "same_flush k fl fl' \<longleftrightarrow> sv_acks (fl_sv fl') = sv_acks (fl_sv fl) \<and> sv_wire (fl_sv fl') = sv_wire (fl_sv fl)
     \<and> fl_skipped fl' = fl_skipped fl \<and> fl_remaining fl' = fl_remaining fl
     \<and> (\<forall>q. has_queue (sv_sessions (fl_sv fl)) k q \<longrightarrow> has_queue (sv_sessions (fl_sv fl')) k q)"

lemma same_flush_trans: "same_flush k a b \<Longrightarrow> same_flush k b c \<Longrightarrow> same_flush k a c"
  by (simp add: same_flush_def)

lemma same_flush_calls:
  "same_flush k fl (snd (on_sessions (NextCommandSeq ops k) fl))"
  "same_flush k fl (snd (on_sessions (RegisterInFlight ops k seq cmd t) fl))"
  "same_flush k fl (snd (on_sessions (SetSyncMode ops k b) fl))"
  "same_flush k fl (snd (on_sessions (SetFWMode ops k b) fl))"
  "same_flush k fl (snd (on_sessions (AckSent ops k) fl))"
  by (simp_all add: same_flush_def manager_keeps_queue)

lemma same_flush_modes:
  "same_flush k fl (snd (if b then let (err, fl') = on_sessions (SetSyncMode ops k v) fl
      in (err, if err = None then fl'\<lparr>fl_SyncMode := v'\<rparr> else fl') else (None, fl)))"
  "same_flush k fl (snd (if b then let (err, fl') = on_sessions (SetFWMode ops k v) fl
      in (err, if err = None then fl'\<lparr>fl_FWMode := v'\<rparr> else fl') else (None, fl)))"
  using same_flush_calls(3,4) [of k fl ops v] by (auto simp: same_flush_def split_beta)

lemma same_flush_clock: "same_flush k fl (fl\<lparr>fl_sv := snd (Now (fl_sv fl))\<rparr>)"
  by (simp add: same_flush_def)

lemma if_errE:
  assumes "if_err call fail rest = (r, fl')" "same_flush k fl (snd call)"
  obtains (err) e fl1 where "same_flush k fl fl1" "fail e fl1 = (r, fl')" "call = (Some e, fl1)"
  | (ok) fl1 where "same_flush k fl fl1" "rest fl1 = (r, fl')" "call = (None, fl1)"
  using assms by (cases call; cases "fst call") (auto simp: if_err_def)

lemma after_write_cases:
  assumes "after_write ops k d c cmd seq p f fl = (r, fl')"
  shows "sv_wire (fl_sv fl') = sv_wire (fl_sv fl) \<and> ((r = Sent
        \<and> (\<forall>q. has_queue (sv_sessions (fl_sv fl)) k q \<longrightarrow> has_queue (sv_sessions (fl_sv fl')) k q)
        \<and> sv_acks (fl_sv fl') = sv_acks (fl_sv fl) @ [ack_event k cmd seq ''accepted'' NoReason]
        \<and> fl_skipped fl' = fl_skipped fl \<and> fl_remaining fl' = fl_remaining fl - int (length f))
    \<or> (\<exists>e. r = Return (Some e)))"
proof -
  note modes = same_flush_modes [unfolded split_beta Let_def]
  note run = assms [unfolded after_write_def split_beta Let_def]
  from run same_flush_trans [OF same_flush_clock same_flush_calls(2)] show ?thesis
  proof (cases rule: if_errE)
    case (err e fl1)
    then show ?thesis by (auto simp: same_flush_def)
  next
    case reg: (ok fl1)
    from reg(2) same_flush_trans [OF reg(1) modes(1)] show ?thesis
    proof (cases rule: if_errE)
      case (err e fl2)
      then show ?thesis by (auto simp: same_flush_def)
    next
      case sync: (ok fl2)
      from sync(2) same_flush_trans [OF sync(1) modes(2)] show ?thesis
      proof (cases rule: if_errE)
        case (err e fl3)
        then show ?thesis by (auto simp: same_flush_def)
      next
        case fw: (ok fl3)
        from fw(2) same_flush_calls(5) show ?thesis
        proof (cases rule: if_errE)
          case (err e fl4)
          with fw(1) show ?thesis by (auto simp: same_flush_def)
        next
          case (ok fl4)
          with fw(1) show ?thesis by (auto simp: same_flush_def)
        qed
      qed
    qed
  qed
qed

text \<open>A frame that carries a command with a valid payload, in the frame mode of the session.\<close>

definition valid_frame :: "FrameMode \<Rightarrow> byte list \<Rightarrow> bool" where
  "valid_frame mode w \<longleftrightarrow> (\<exists>f. EncodeFrame f = Inr w \<and> f_Mode f = mode
     \<and> ValidateServerCommandPayload (hd (f_Payload f)) (tl (f_Payload f)) = None)"

lemma valid_frame_length: "valid_frame mode w \<Longrightarrow> 9 < length w"
  by (auto simp: valid_frame_def EncodeFrame_ok len_simps neq_Nil_conv split: if_splits)

definition cmd_key :: "Command \<Rightarrow> string \<times> string \<times> u8" where
  "cmd_key cmd = (cmd_MessageID cmd, cmd_TraceID cmd, cmd_CommandID cmd)"

definition ev_key :: "AckEvent \<Rightarrow> string \<times> string \<times> u8" where
  "ev_key e = (ae_MessageID e, ae_TraceID e, ae_CommandID e)"

lemma key_simps [simp]:
  "ev_key (ack_event k cmd seq st r) = cmd_key cmd" "cmd_key (cmd\<lparr>cmd_RetrySeq := n\<rparr>) = cmd_key cmd"
  by (simp_all add: ev_key_def cmd_key_def ack_event_def)

definition sent_result :: "string \<Rightarrow> DeliveryContext \<Rightarrow> net_conn \<Rightarrow> Command \<Rightarrow> ControllerQueue \<Rightarrow> 's flush \<Rightarrow> scan_result
    \<Rightarrow> 's flush \<Rightarrow> bool" where
  "sent_result k d c cmd q fl r fl' = (case r of
     Continue \<Rightarrow> has_queue (sv_sessions (fl_sv fl')) k q \<and> sv_wire (fl_sv fl') = sv_wire (fl_sv fl)
       \<and> fl_skipped fl' = fl_skipped fl \<and> fl_remaining fl' = fl_remaining fl
       \<and> (\<exists>e. sv_acks (fl_sv fl') = sv_acks (fl_sv fl) @ [e] \<and> ev_key e = cmd_key cmd)
   | Sent \<Rightarrow> has_queue (sv_sessions (fl_sv fl')) k q \<and> fl_skipped fl' = fl_skipped fl
       \<and> (\<exists>e. sv_acks (fl_sv fl') = sv_acks (fl_sv fl) @ [e] \<and> ev_key e = cmd_key cmd)
       \<and> (\<exists>w. valid_frame (dc_FrameMode d) w \<and> sv_wire (fl_sv fl') = sv_wire (fl_sv fl) @ [(c, w)]
            \<and> int (length w) \<le> fl_remaining fl \<and> fl_remaining fl' = fl_remaining fl - int (length w))
   | Return None \<Rightarrow> sv_wire (fl_sv fl') = sv_wire (fl_sv fl) \<and> sv_acks (fl_sv fl') = sv_acks (fl_sv fl)
       \<and> has_queue (sv_sessions (fl_sv fl')) k (foldl Queue_Push q (cmd\<lparr>cmd_RetrySeq := 0\<rparr> # fl_skipped fl))
   | Return (Some err) \<Rightarrow> sv_wire (fl_sv fl') = sv_wire (fl_sv fl)
       \<or> (\<exists>w. valid_frame (dc_FrameMode d) w \<and> sv_wire (fl_sv fl') = sv_wire (fl_sv fl) @ [(c, w)]
            \<and> int (length w) \<le> fl_remaining fl))"

lemma send_command_cases:
  assumes "has_queue (sv_sessions (fl_sv fl)) k q" "send_command ops k d c cmd fl = (r, fl')"
  shows "sent_result k d c cmd q fl r fl'"
proof (cases "ValidateServerCommandPayload (cmd_CommandID cmd) (cmd_Payload cmd)")
  case (Some err)
  with assms show ?thesis by (auto simp: send_command_def sent_result_def)
next
  case valid: None
  define call where "call = (if cmd_RetrySeq cmd = 0 then on_sessions (NextCommandSeq ops k) fl
      else (Inr (cmd_RetrySeq cmd), fl))"
  obtain seq0 where "fst (NextCommandSeq ops k (sv_sessions (fl_sv fl))) = Inr seq0"
    using manager_keeps_queue(6) [OF assms(1), of ops] by blast
  then have "call = (Inr (if cmd_RetrySeq cmd = 0 then seq0 else cmd_RetrySeq cmd), snd call)"
    "same_flush k fl (snd call)"
    using same_flush_calls(1) [of k fl ops] by (auto simp: call_def on_sessions_def same_flush_def split_beta)
  then obtain seq fl1 where call: "call = (Inr seq, fl1)" and same: "same_flush k fl fl1" by blast
  let ?cmd = "cmd\<lparr>cmd_RetrySeq := 0\<rparr>"
  let ?f = "\<lparr>f_TTL = ttlToWire (cmd_TTL cmd), f_Seq = seq, f_Payload = cmd_CommandID cmd # cmd_Payload cmd,
      f_Mode = dc_FrameMode d\<rparr>"
  note run = assms(2) [unfolded send_command_def Let_def valid option.case call_def [symmetric, unfolded call]]
  have hq: "has_queue (sv_sessions (fl_sv fl1)) k q" using assms(1) same by (simp add: same_flush_def)
  show ?thesis
  proof (cases "EncodeFrame ?f")
    case (Inl err)
    with run call same hq show ?thesis by (auto simp: call_def [symmetric] sent_result_def same_flush_def)
  next
    case (Inr w)
    have vf: "valid_frame (dc_FrameMode d) w" unfolding valid_frame_def using Inr valid by (intro exI [of _ ?f]) simp
    consider (full) "int (length w) > fl_remaining fl1"
      | (err) e sv where "\<not> int (length w) > fl_remaining fl1" "conn_Write c w (fl_sv fl1) = (Some e, sv)"
      | (ok) sv where "\<not> int (length w) > fl_remaining fl1" "conn_Write c w (fl_sv fl1) = (None, sv)"
      by (metis not_None_eq prod.collapse)
    then show ?thesis
    proof cases
      case full
      with run call Inr same has_push_all [OF hq, of "[?cmd]"]
      show ?thesis
        by (auto simp: call_def [symmetric] sent_result_def same_flush_def restore_skipped_def has_push_all)
    next
      case err
      then have "sv_wire sv = sv_wire (fl_sv fl1)" by (auto simp: conn_Write_def Let_def split: option.splits)
      with err run call Inr same show ?thesis by (auto simp: call_def [symmetric] sent_result_def same_flush_def)
    next
      case ok
      then have sv: "sv_wire sv = sv_wire (fl_sv fl1) @ [(c, w)]" "sv_acks sv = sv_acks (fl_sv fl1)"
          "sv_sessions sv = sv_sessions (fl_sv fl1)"
        by (auto simp: conn_Write_def Let_def split: option.splits)
      have aw: "after_write ops k d c ?cmd seq (cmd_CommandID cmd # cmd_Payload cmd) w (fl1\<lparr>fl_sv := sv\<rparr>) = (r, fl')"
        using ok run call Inr by (auto simp: call_def [symmetric])
      have "has_queue (sv_sessions (fl_sv (fl1\<lparr>fl_sv := sv\<rparr>))) k q" using hq sv by simp
      from this after_write_cases [OF aw] sv vf ok(1) same show ?thesis
        by (auto simp: sent_result_def same_flush_def)
    qed
  qed
qed

definition keys :: "Command list \<Rightarrow> (string \<times> string \<times> u8) multiset" where
  "keys cs = image_mset cmd_key (mset cs)"

lemma keys_simps [simp]:
  "keys [] = {#}" "keys (c # cs) = add_mset (cmd_key c) (keys cs)" "keys (xs @ ys) = keys xs + keys ys"
  by (simp_all add: keys_def)

lemma keys_foldl_Push: "keys (Queue_Snapshot (foldl Queue_Push q cs)) = keys (Queue_Snapshot q) + keys cs"
  by (simp add: keys_def foldl_Push_mset)

text \<open>Bytes written.\<close>

definition wire_bytes :: "(net_conn \<times> byte list) list \<Rightarrow> int" where
  "wire_bytes W = (\<Sum>x\<leftarrow>W. int (length (snd x)))"

lemma wire_bytes_simps [simp]:
  "wire_bytes [] = 0" "wire_bytes (x # W) = int (length (snd x)) + wire_bytes W" "wire_bytes (V @ W) = wire_bytes V + wire_bytes W"
  by (simp_all add: wire_bytes_def)

lemma wire_bytes_nonneg [simp]: "0 \<le> wire_bytes W"
  by (induction W) auto

text \<open>
  What a part of a flush did: \<open>W\<close> was written within the budget, and unless it ended with an error,
  every command that left the queue has one event of \<open>E\<close>.
\<close>

definition flush_result :: "string \<Rightarrow> FrameMode \<Rightarrow> net_conn \<Rightarrow> ControllerQueue \<Rightarrow> 's flush \<Rightarrow> scan_result \<Rightarrow> 's flush
    \<Rightarrow> (net_conn \<times> byte list) list \<Rightarrow> AckEvent list \<Rightarrow> bool" where
  "flush_result k mode c q fl r fl' W E \<longleftrightarrow>
     sv_wire (fl_sv fl') = sv_wire (fl_sv fl) @ W \<and> (\<forall>x\<in>set W. fst x = c \<and> valid_frame mode (snd x))
     \<and> wire_bytes W \<le> max 0 (fl_remaining fl)
     \<and> ((\<nexists>err. r = Return (Some err)) \<longrightarrow> sv_acks (fl_sv fl') = sv_acks (fl_sv fl) @ E
        \<and> (\<exists>q'. has_queue (sv_sessions (fl_sv fl')) k q'
           \<and> keys (Queue_Snapshot q) + keys (fl_skipped fl) = keys (Queue_Snapshot q')
               + (if r = Return None then {#} else keys (fl_skipped fl')) + mset (map ev_key E)))
     \<and> (r \<in> {Continue, Sent} \<longrightarrow> fl_remaining fl' = fl_remaining fl - wire_bytes W) \<and> (r = Sent \<longleftrightarrow> W \<noteq> [] \<and> r \<in> {Continue, Sent})"

lemma flush_result_prepend:
  assumes "flush_result k mode c q2 fl2 r fl' W E" "sv_acks (fl_sv fl2) = sv_acks (fl_sv fl) @ E0"
    and "sv_wire (fl_sv fl2) = sv_wire (fl_sv fl)" "fl_remaining fl2 = fl_remaining fl"
    and "keys (Queue_Snapshot q) + keys (fl_skipped fl) = keys (Queue_Snapshot q2) + keys (fl_skipped fl2) + mset (map ev_key E0)"
  shows "flush_result k mode c q fl r fl' W (E0 @ E)"
  using assms by (auto simp: flush_result_def ac_simps)

lemma flush_result_send:
  assumes "sent_result k d c cmd q1 fl r fl'" "r \<noteq> Continue"
    and "keys (Queue_Snapshot q) = add_mset (cmd_key cmd) (keys (Queue_Snapshot q1))"
  shows "\<exists>W E. flush_result k (dc_FrameMode d) c q fl r fl' W E"
proof (cases r)
  case Sent
  then obtain e w where "sv_acks (fl_sv fl') = sv_acks (fl_sv fl) @ [e]" "ev_key e = cmd_key cmd"
      "sv_wire (fl_sv fl') = sv_wire (fl_sv fl) @ [(c, w)]" "valid_frame (dc_FrameMode d) w"
    using assms(1) by (auto simp: sent_result_def)
  with Sent assms show ?thesis
    by (intro exI [of _ "[(c, w)]"] exI [of _ "[e]"]) (auto simp: sent_result_def flush_result_def)
next
  case (Return err)
  show ?thesis
  proof (cases err)
    case None
    let ?q = "foldl Queue_Push q1 (cmd\<lparr>cmd_RetrySeq := 0\<rparr> # fl_skipped fl)"
    have "keys (Queue_Snapshot q) + keys (fl_skipped fl) = keys (Queue_Snapshot ?q)"
      unfolding keys_foldl_Push by (simp add: assms(3))
    moreover have "has_queue (sv_sessions (fl_sv fl')) k ?q" "sv_wire (fl_sv fl') = sv_wire (fl_sv fl)"
        "sv_acks (fl_sv fl') = sv_acks (fl_sv fl)"
      using assms(1) unfolding Return None sent_result_def by simp_all
    ultimately show ?thesis unfolding Return None
      by (intro exI [of _ "[]"]) (auto simp: flush_result_def simp del: foldl_Cons)
  next
    case (Some e)
    then consider "sv_wire (fl_sv fl') = sv_wire (fl_sv fl)"
      | w where "valid_frame (dc_FrameMode d) w" "sv_wire (fl_sv fl') = sv_wire (fl_sv fl) @ [(c, w)]"
        "int (length w) \<le> fl_remaining fl"
      using assms(1) Return by (auto simp: sent_result_def)
    then show ?thesis
    proof cases
      case 1
      with Return Some show ?thesis by (intro exI [of _ "[]"]) (simp add: flush_result_def)
    next
      case 2
      with Return Some show ?thesis by (intro exI [of _ "[(c, w)]"]) (simp add: flush_result_def)
    qed
  qed
qed (use assms(2) in simp)

lemma scan_queue_result:
  assumes "has_queue (sv_sessions (fl_sv fl)) k q"
  shows "\<exists>W E. flush_result k (dc_FrameMode d) c q fl (fst (scan_queue ops k d c n fl)) (snd (scan_queue ops k d c n fl)) W E"
  using assms
proof (induction n arbitrary: fl q)
  case 0
  then show ?case by (intro exI [of _ "[]"]) (auto simp: flush_result_def)
next
  case (Suc n)
  obtain t sv where now: "Now (fl_sv fl) = (t, sv)" by (rule prod.exhaust)
  have sv: "sv_sessions sv = sv_sessions (fl_sv fl)" "sv_acks sv = sv_acks (fl_sv fl)" "sv_wire sv = sv_wire (fl_sv fl)"
    using Now_simps [of "fl_sv fl"] now by simp_all
  obtain r q1 where pop: "PopNext q t (fl_FWMode fl) (fl_SyncMode fl) = (r, q1)" by (rule prod.exhaust)
  have qo: "queue_of k sv = q" using Suc.prems sv(1) by (simp add: has_queue_of)
  let ?fl1 = "fl\<lparr>fl_sv := set_queue k q1 sv\<rparr>"
  have hq1: "has_queue (sv_sessions (set_queue k q1 sv)) k q1" using Suc.prems sv(1) has_set_queue [of sv k q q1] by simp
  show ?case
  proof (cases r)
    case None
    with pop have "q1 = q" by (simp add: PopNext_None)
    with None pop now qo hq1 sv show ?thesis
      by (intro exI [of _ "[]"]) (auto simp: flush_result_def)
  next
    case (Some cmd)
    note qm = PopNext_Some(1) [OF pop [unfolded Some]]
    have kq: "keys (Queue_Snapshot q) = add_mset (cmd_key cmd) (keys (Queue_Snapshot q1))"
      by (simp add: keys_def qm)
    obtain t2 sv2 where now2: "Now (set_queue k q1 sv) = (t2, sv2)" by (rule prod.exhaust)
    have sv2: "sv_sessions sv2 = sv_sessions (set_queue k q1 sv)" "sv_acks sv2 = sv_acks (fl_sv fl)"
        "sv_wire sv2 = sv_wire (fl_sv fl)"
      using Now_simps [of "set_queue k q1 sv"] now2 sv by simp_all
    let ?fl2 = "fl\<lparr>fl_sv := sv2\<rparr>"
    have hq2: "has_queue (sv_sessions (fl_sv ?fl2)) k q1" using hq1 sv2(1) by simp
    note step = now qo pop Some now2
    show ?thesis
    proof (cases "Expired cmd t2")
      case True
      let ?fl3 = "report k cmd 0 ''expired'' (Text ''ttl expired before send'') ?fl2"
      have eq: "scan_queue ops k d c (Suc n) fl = scan_queue ops k d c n ?fl3" using step True by simp
      obtain W E where "flush_result k (dc_FrameMode d) c q1 ?fl3 (fst (scan_queue ops k d c n ?fl3))
          (snd (scan_queue ops k d c n ?fl3)) W E"
        using Suc.IH [of ?fl3 q1] hq2 by auto
      from flush_result_prepend [OF this, of fl "[ack_event k cmd 0 ''expired'' (Text ''ttl expired before send'')]" q]
      show ?thesis unfolding eq using sv2 kq by auto
    next
      case fresh: False
      show ?thesis
      proof (cases "commandAllowedInModes (cmd_CommandID cmd) (fl_FWMode fl) (fl_SyncMode fl)")
        case False
        let ?fl3 = "?fl2\<lparr>fl_skipped := fl_skipped fl @ [cmd]\<rparr>"
        have eq: "scan_queue ops k d c (Suc n) fl = scan_queue ops k d c n ?fl3" using step fresh False by simp
        obtain W E where "flush_result k (dc_FrameMode d) c q1 ?fl3 (fst (scan_queue ops k d c n ?fl3))
            (snd (scan_queue ops k d c n ?fl3)) W E"
          using Suc.IH [of ?fl3 q1] hq2 by auto
        from flush_result_prepend [OF this, of fl "[]" q] show ?thesis unfolding eq using sv2 kq by auto
      next
        case True
        obtain r fl3 where send: "send_command ops k d c cmd ?fl2 = (r, fl3)" by (rule prod.exhaust)
        note res = send_command_cases [OF hq2 send]
        have eq: "scan_queue ops k d c (Suc n) fl = (if r = Continue then scan_queue ops k d c n fl3 else (r, fl3))"
          using step fresh True send by (cases r) simp_all
        show ?thesis
        proof (cases "r = Continue")
          case True
          then obtain e where e: "sv_acks (fl_sv fl3) = sv_acks (fl_sv fl) @ [e]" "ev_key e = cmd_key cmd"
            using res sv2 by (auto simp: sent_result_def)
          obtain W E where "flush_result k (dc_FrameMode d) c q1 fl3 (fst (scan_queue ops k d c n fl3))
              (snd (scan_queue ops k d c n fl3)) W E"
            using Suc.IH [of fl3 q1] res True by (auto simp: sent_result_def)
          from flush_result_prepend [OF this, of fl "[e]" q] show ?thesis
            unfolding eq using True res e kq sv2 by (auto simp: sent_result_def)
        next
          case False
          obtain W E where "flush_result k (dc_FrameMode d) c q ?fl2 r fl3 W E"
            using flush_result_send [OF res False kq] by blast
          from flush_result_prepend [OF this, of fl "[]" q] show ?thesis
            unfolding eq using False sv2 by auto
        qed
      qed
    qed
  qed
qed

subsection \<open>One turn of the loop\<close>

lemma fold_publish:
  "sv_acks (fold (\<lambda>cmd. publishAckWithCommand (ev cmd) cmd) cs sv) = sv_acks sv @ map ev cs"
  "sv_sessions (fold (\<lambda>cmd. publishAckWithCommand (ev cmd) cmd) cs sv) = sv_sessions sv"
  "sv_wire (fold (\<lambda>cmd. publishAckWithCommand (ev cmd) cmd) cs sv) = sv_wire sv"
  by (induction cs arbitrary: sv) auto

lemma drain_mset:
  assumes "DrainExpired q t = (ex, q')"
  shows "keys (Queue_Snapshot q) = keys ex + keys (Queue_Snapshot q')"
proof -
  have "ex = filter (\<lambda>c. Expired c t) (Queue_Snapshot q)" "Queue_Snapshot q' = filter (\<lambda>c. \<not> Expired c t) (Queue_Snapshot q)"
    using assms by (auto simp: DrainExpired_eq Queue_Snapshot_def)
  then show ?thesis
    using mset_filter_split [of "Queue_Snapshot q" "\<lambda>c. Expired c t"] by (simp add: keys_def flip: image_mset_union)
qed

lemma drain_expired_result:
  assumes "has_queue (sv_sessions sv) k q"
  shows "\<exists>q' E. has_queue (sv_sessions (drain_expired k sv)) k q' \<and> sv_acks (drain_expired k sv) = sv_acks sv @ E
    \<and> sv_wire (drain_expired k sv) = sv_wire sv \<and> keys (Queue_Snapshot q) = keys (Queue_Snapshot q') + mset (map ev_key E)"
proof -
  obtain t sv1 where now: "Now sv = (t, sv1)" by (rule prod.exhaust)
  have sv1: "sv_sessions sv1 = sv_sessions sv" "sv_acks sv1 = sv_acks sv" "sv_wire sv1 = sv_wire sv"
    using Now_simps [of sv] now by simp_all
  have qo: "queue_of k sv1 = q" using assms sv1(1) by (simp add: has_queue_of)
  obtain ex q' where d: "DrainExpired q t = (ex, q')" by (rule prod.exhaust)
  have "has_queue (sv_sessions (set_queue k q' sv1)) k q'" using assms sv1(1) has_set_queue [of sv1 k q q'] by simp
  moreover have "mset (map (ev_key \<circ> (\<lambda>cmd. ack_event k cmd 0 ''expired'' (Text ''ttl expired before send''))) ex) = keys ex"
    by (simp add: keys_def comp_def)
  ultimately show ?thesis
    using drain_mset [OF d] sv1 unfolding drain_expired_def now prod.case qo d Let_def fold_publish
    by (intro exI [of _ q'] exI [of _ "map (\<lambda>cmd. ack_event k cmd 0 ''expired'' (Text ''ttl expired before send'')) ex"])
      (simp add: add.commute)
qed

lemma leave_modes_same: "same_flush k fl (snd (leave_modes ops k fl))"
proof -
  obtain r fl' where run: "leave_modes ops k fl = (r, fl')" by (rule prod.exhaust)
  note modes = same_flush_modes [unfolded split_beta Let_def]
  have "same_flush k fl fl'"
    using run [unfolded leave_modes_def split_beta Let_def] modes(1)
  proof (cases rule: if_errE)
    case (ok fl1)
    from ok(2) same_flush_trans [OF ok(1) modes(2)] show ?thesis
      by (cases rule: if_errE) auto
  qed auto
  with run show ?thesis by simp
qed

definition turn_result :: "string \<Rightarrow> FrameMode \<Rightarrow> net_conn \<Rightarrow> ControllerQueue \<Rightarrow> 's flush \<Rightarrow> go_error option + unit \<Rightarrow> 's flush
    \<Rightarrow> (net_conn \<times> byte list) list \<Rightarrow> AckEvent list \<Rightarrow> bool" where
  "turn_result k mode c q fl r fl' W E \<longleftrightarrow>
     sv_wire (fl_sv fl') = sv_wire (fl_sv fl) @ W \<and> (\<forall>x\<in>set W. fst x = c \<and> valid_frame mode (snd x))
     \<and> wire_bytes W \<le> max 0 (fl_remaining fl)
     \<and> (r \<in> {Inl None, Inr ()} \<longrightarrow> sv_acks (fl_sv fl') = sv_acks (fl_sv fl) @ E
        \<and> (\<exists>q'. has_queue (sv_sessions (fl_sv fl')) k q'
           \<and> keys (Queue_Snapshot q) = keys (Queue_Snapshot q') + mset (map ev_key E)))
     \<and> (r = Inr () \<longrightarrow> W \<noteq> [] \<and> fl_remaining fl' = fl_remaining fl - wire_bytes W)"

lemma restore_skipped_queue:
  assumes "has_queue (sv_sessions (fl_sv fl)) k q"
  shows "\<exists>q'. has_queue (sv_sessions (fl_sv (restore_skipped k fl))) k q'
    \<and> keys (Queue_Snapshot q') = keys (Queue_Snapshot q) + keys (fl_skipped fl)"
  using has_push_all [OF assms, of "fl_skipped fl"] keys_foldl_Push by (auto simp: restore_skipped_def)

lemma finish_turn_result:
  assumes "flush_result k mode c q fl r fl3 W E" "fl_skipped fl = []"
  shows "turn_result k mode c q fl (fst (finish_turn ops k r fl3)) (snd (finish_turn ops k r fl3)) W E"
proof (cases "\<exists>err. r = Return err")
  case True
  with assms show ?thesis by (auto simp: finish_turn_def flush_result_def turn_result_def)
next
  case False
  then obtain q2 where q2: "has_queue (sv_sessions (fl_sv fl3)) k q2"
      "keys (Queue_Snapshot q) = keys (Queue_Snapshot q2) + keys (fl_skipped fl3) + mset (map ev_key E)"
    using assms by (auto simp: flush_result_def)
  let ?fl4 = "restore_skipped k fl3"
  obtain q4 where q4: "has_queue (sv_sessions (fl_sv ?fl4)) k q4"
      "keys (Queue_Snapshot q) = keys (Queue_Snapshot q4) + mset (map ev_key E)"
    using restore_skipped_queue [OF q2(1)] q2(2) by auto
  show ?thesis
  proof (cases r)
    case Continue
    with assms(1) q4 show ?thesis by (auto simp: finish_turn_def flush_result_def turn_result_def)
  next
    case Sent
    obtain e fl5 where l: "leave_modes ops k ?fl4 = (e, fl5)" by (rule prod.exhaust)
    have "same_flush k ?fl4 fl5" using leave_modes_same [of k ?fl4 ops] l by simp
    with Sent assms(1) q4 l show ?thesis
      by (cases e) (auto simp: finish_turn_def flush_result_def turn_result_def same_flush_def)
  qed (use False in blast)
qed

lemma turn_result_prepend:
  assumes "turn_result k mode c q1 fl1 r fl' W E" "sv_acks (fl_sv fl1) = sv_acks (fl_sv fl) @ E1"
    and "sv_wire (fl_sv fl1) = sv_wire (fl_sv fl)" "fl_remaining fl1 = fl_remaining fl"
    and "keys (Queue_Snapshot q) = keys (Queue_Snapshot q1) + mset (map ev_key E1)"
  shows "turn_result k mode c q fl r fl' W (E1 @ E)"
  using assms by (auto simp: turn_result_def ac_simps)

lemma flush_turn_result:
  assumes "has_queue (sv_sessions (fl_sv fl)) k q"
  shows "\<exists>W E. turn_result k (dc_FrameMode d) c q fl (fst (flush_turn ops k d c fl)) (snd (flush_turn ops k d c fl)) W E"
proof -
  let ?fl1 = "fl\<lparr>fl_sv := drain_expired k (fl_sv fl)\<rparr>"
  obtain q1 E1 where q1: "has_queue (sv_sessions (fl_sv ?fl1)) k q1" "sv_acks (fl_sv ?fl1) = sv_acks (fl_sv fl) @ E1"
      "sv_wire (fl_sv ?fl1) = sv_wire (fl_sv fl)" "keys (Queue_Snapshot q) = keys (Queue_Snapshot q1) + mset (map ev_key E1)"
    using drain_expired_result [OF assms] by auto
  have qo: "queue_of k (drain_expired k (fl_sv fl)) = q1" using q1(1) by (simp add: has_queue_of)
  show ?thesis
  proof (cases "Queue_Len q1 = 0")
    case True
    with q1 qo show ?thesis
      by (intro exI [of _ "[]"] exI [of _ E1]) (auto simp: flush_turn_def turn_result_def)
  next
    case False
    let ?fl2 = "?fl1\<lparr>fl_skipped := []\<rparr>"
    obtain r fl3 where scan: "scan_queue ops k d c (nat (Queue_Len q1)) ?fl2 = (r, fl3)" by (rule prod.exhaust)
    obtain W E where "flush_result k (dc_FrameMode d) c q1 ?fl2 r fl3 W E"
      using scan_queue_result [of ?fl2 k q1 d c ops "nat (Queue_Len q1)"] q1(1) scan by auto
    from turn_result_prepend [OF finish_turn_result [OF this], of fl E1 q] q1 False scan qo
    show ?thesis by (auto simp: flush_turn_def)
  qed
qed

subsection \<open>The loop ends\<close>

text \<open>A command is only counted as sent when its frame, which is not empty, was taken off the budget.\<close>

lemma send_command_remaining:
  assumes "send_command ops k d c cmd fl = (r, fl')"
  shows "(r = Sent \<longrightarrow> fl_remaining fl' < fl_remaining fl) \<and> (r = Continue \<longrightarrow> fl_remaining fl' = fl_remaining fl)"
proof -
  have pos: "EncodeFrame f = Inr w \<Longrightarrow> 0 < length w" for f w by (auto simp: EncodeFrame_ok len_simps)
  have aw: "after_write ops k d c cmd' seq p w (fl1\<lparr>fl_sv := sv\<rparr>) = (r', fl2) \<Longrightarrow>
      (r' = Sent \<longrightarrow> fl_remaining fl2 = fl_remaining fl1 - int (length w)) \<and> r' \<noteq> Continue" for cmd' seq p w fl1 sv r' fl2
    using after_write_cases [of ops k d c cmd' seq p w "fl1\<lparr>fl_sv := sv\<rparr>" r' fl2] by auto
  show ?thesis
    using assms unfolding send_command_def Let_def split_beta
    by (auto split: option.splits sum.splits if_splits dest!: pos aw)
qed

lemma scan_queue_remaining:
  "scan_queue ops k d c n fl = (Sent, fl') \<Longrightarrow> fl_remaining fl' < fl_remaining fl"
proof (induction n arbitrary: fl)
  case (Suc n)
  then show ?case
    by (auto simp: Let_def split: prod.splits option.splits if_splits scan_result.splits
        dest!: send_command_remaining Suc.IH)
qed simp

lemma flush_turn_remaining:
  assumes "flush_turn ops k d c fl = (Inr (), fl')"
  shows "fl_remaining fl' < fl_remaining fl"
proof -
  let ?fl = "fl\<lparr>fl_sv := drain_expired k (fl_sv fl), fl_skipped := []\<rparr>"
  let ?n = "nat (Queue_Len (queue_of k (drain_expired k (fl_sv fl))))"
  obtain r fl3 where scan: "scan_queue ops k d c ?n ?fl = (r, fl3)" by (rule prod.exhaust)
  with assms have fin: "finish_turn ops k r fl3 = (Inr (), fl')"
    by (auto simp: flush_turn_def Let_def split: if_splits)
  then have "r = Sent" by (auto simp: finish_turn_def split: scan_result.splits)
  with fin have "leave_modes ops k (restore_skipped k fl3) = (None, fl')"
    by (auto simp: finish_turn_def split: prod.splits option.splits)
  with leave_modes_same [of k "restore_skipped k fl3" ops] have "fl_remaining fl' = fl_remaining fl3"
    by (simp add: same_flush_def)
  with scan_queue_remaining [of ops k d c ?n ?fl fl3] scan \<open>r = Sent\<close> show ?thesis by simp
qed

function flush_loop :: "'s Store \<Rightarrow> string \<Rightarrow> DeliveryContext \<Rightarrow> net_conn \<Rightarrow> 's flush \<Rightarrow> go_error option \<times> 's flush" where
  "flush_loop ops controllerID dctx conn fl =
     (if \<not> fl_remaining fl > 0 then (None, fl)
      else case flush_turn ops controllerID dctx conn fl of
             (Inl err, fl) \<Rightarrow> (err, fl)
           | (Inr _, fl) \<Rightarrow> flush_loop ops controllerID dctx conn fl)"
  by pat_completeness auto
termination
  by (relation "measure (\<lambda>(ops, k, d, c, fl). nat (fl_remaining fl))") (auto dest!: sym [THEN flush_turn_remaining])

declare flush_loop.simps [simp del]

definition flushQueue :: "'s Store \<Rightarrow> string \<Rightarrow> 's Server \<Rightarrow> go_error option \<times> 's Server" where
  "flushQueue ops controllerID sv = (case Manager_DeliveryContext controllerID (sv_sessions sv) of
     None \<Rightarrow> (Some ErrSessionNotFound, sv)
   | Some dctx \<Rightarrow> (case dc_Conn dctx of
       None \<Rightarrow> (None, sv)
     | Some conn \<Rightarrow>
         if InFlightCount controllerID (sv_sessions sv) > 0 then (None, sv)
         else let maxBudget = (if dc_BufferFree dctx \<le> 0 then 1500 else dc_BufferFree dctx);
                  (err, fl) = flush_loop ops controllerID dctx conn
                    \<lparr>fl_sv = sv, fl_FWMode = dc_FWMode dctx, fl_SyncMode = dc_SyncMode dctx,
                     fl_remaining = maxBudget, fl_skipped = []\<rparr>
              in (err, fl_sv fl)))"

lemma turn_result_trans:
  assumes "turn_result k mode c q fl (Inr ()) fl1 W1 E1" "0 < fl_remaining fl"
    and "\<And>q1. has_queue (sv_sessions (fl_sv fl1)) k q1 \<Longrightarrow> \<exists>W E. turn_result k mode c q1 fl1 r fl' W E"
  shows "\<exists>W E. turn_result k mode c q fl r fl' W E"
proof -
  obtain q1 where q1: "has_queue (sv_sessions (fl_sv fl1)) k q1"
      "keys (Queue_Snapshot q) = keys (Queue_Snapshot q1) + mset (map ev_key E1)"
    using assms(1) by (auto simp: turn_result_def)
  obtain W E where "turn_result k mode c q1 fl1 r fl' W E" using assms(3) [OF q1(1)] by blast
  with assms(1,2) q1(2) show ?thesis
    by (intro exI [of _ "W1 @ W"] exI [of _ "E1 @ E"]) (auto simp: turn_result_def ac_simps)
qed

lemma flush_loop_result:
  assumes "has_queue (sv_sessions (fl_sv fl)) k q"
  shows "\<exists>W E. turn_result k (dc_FrameMode d) c q fl (Inl (fst (flush_loop ops k d c fl))) (snd (flush_loop ops k d c fl)) W E"
  using assms
proof (induction ops k d c fl arbitrary: q rule: flush_loop.induct)
  case (1 ops k d c fl)
  show ?case
  proof (cases "fl_remaining fl > 0")
    case False
    with 1(2) show ?thesis
      by (subst (1 2) flush_loop.simps, intro exI [of _ "[]"]) (auto simp: turn_result_def)
  next
    case True
    obtain r fl1 where turn: "flush_turn ops k d c fl = (r, fl1)" by (rule prod.exhaust)
    obtain W E where res: "turn_result k (dc_FrameMode d) c q fl r fl1 W E"
      using flush_turn_result [OF 1(2), of d c ops] turn by auto
    show ?thesis
    proof (cases r)
      case (Inl err)
      with True turn res show ?thesis by (subst (1 2) flush_loop.simps) auto
    next
      case (Inr u)
      have step: "flush_loop ops k d c fl = flush_loop ops k d c fl1"
        using True turn Inr by (subst flush_loop.simps) simp
      have "\<exists>W E. turn_result k (dc_FrameMode d) c q1 fl1 (Inl (fst (flush_loop ops k d c fl1)))
          (snd (flush_loop ops k d c fl1)) W E" if "has_queue (sv_sessions (fl_sv fl1)) k q1" for q1
        using 1(1) True turn Inr that by simp
      with turn_result_trans [of k _ c q fl fl1 W E] res Inr True step show ?thesis by auto
    qed
  qed
qed

section \<open>Timeouts\<close>

definition publish_outcome :: "string \<Rightarrow> InFlightOutcome \<Rightarrow> 's Server \<Rightarrow> 's Server" where
  "publish_outcome controllerID out sv =
     (let event = ack_event controllerID (out_Command out) (out_Seq out) (out_Type out) (Text (out_Reason out))
      in if out_Type out = ''retrying'' then publishAck event sv
         else if out_Type out = ''expired'' \<or> out_Type out = ''failed''
         then publishAckWithCommand event (out_Command out) sv
         else sv)"

definition processInFlight :: "'s Store \<Rightarrow> u8 list \<Rightarrow> string \<Rightarrow> 's Server \<Rightarrow> 's Server" where
  "processInFlight ops order controllerID sv =
     (let (now, sv) = Now sv;
          (outcomes, err, m) = ProcessInFlight ops order controllerID now
             (Some (deliveryPolicyForCommand (sv_cfg sv))) (sv_sessions sv);
          sv = sv\<lparr>sv_sessions := m\<rparr>
      in case err of Some _ \<Rightarrow> sv | None \<Rightarrow> fold (publish_outcome controllerID) outcomes sv)"

text \<open>
  One tick of \<^verbatim>\<open>sweepLoop\<close>: the controllers in the order \<open>ids\<close> of the map, each with an iteration
  order of its in-flight entries. Errors of a flush are only logged.
\<close>

definition sweep :: "'s Store \<Rightarrow> (string \<times> u8 list) list \<Rightarrow> 's Server \<Rightarrow> 's Server" where
  "sweep ops ids sv = fold (\<lambda>(controllerID, order) sv.
     snd (flushQueue ops controllerID (processInFlight ops order controllerID sv))) ids sv"

end
