(* ===== verification/Connection_Guard.thy ===== *)
theory Connection_Guard
  imports Server_State
begin

text \<open>
  Admission of connections (\<^verbatim>\<open>internal/server/server.go\<close>): the limits on all connections and on those
  of one host, and the temporary block of a host after protocol violations. Every operation runs
  under \<^verbatim>\<open>connMu\<close>. \<^verbatim>\<open>net.SplitHostPort\<close> is modelled as the library defines it.
\<close>

section \<open>Hosts\<close>

text \<open>\<open>None\<close> is the error; the kind of error is not used.\<close>

definition SplitHostPort :: "string \<Rightarrow> (string \<times> string) option" where
  "SplitHostPort hostport = (case LastIndexByte hostport (CHR '':'') of
     None \<Rightarrow> None
   | Some i \<Rightarrow>
       let parsed = (if hostport ! 0 = CHR ''[''
              then (case IndexByte hostport (CHR '']'') of
                      None \<Rightarrow> None
                    | Some end' \<Rightarrow> if end' + 1 = i then Some (take (end' - 1) (drop 1 hostport), 1, end' + 1) else None)
              else let host = take i hostport
                   in if IndexByte host (CHR '':'') \<noteq> None then None else Some (host, 0, 0))
       in case parsed of
            None \<Rightarrow> None
          | Some (host, j, k) \<Rightarrow>
              if IndexByte (drop j hostport) (CHR ''['') \<noteq> None \<or> IndexByte (drop k hostport) (CHR '']'') \<noteq> None
              then None else Some (host, drop (i + 1) hostport))"

definition connRemoteHost :: "net_conn \<Rightarrow> string" where
  "connRemoteHost conn = (case conn_RemoteAddr conn of
     None \<Rightarrow> []
   | Some remote \<Rightarrow> (case SplitHostPort remote of None \<Rightarrow> remote | Some (host, _) \<Rightarrow> host))"

section \<open>Tracking\<close>

definition untrackConn :: "net_conn \<Rightarrow> 's Server \<Rightarrow> 's Server" where
  "untrackConn conn sv =
     (let sv = sv\<lparr>sv_conns := filter (\<lambda>c. c \<noteq> conn) (sv_conns sv)\<rparr>;
          host = connRemoteHost conn
      in case map_of (sv_ipConnCount sv) host of
           None \<Rightarrow> sv
         | Some n \<Rightarrow> if n \<le> 1 then sv\<lparr>sv_ipConnCount := AList.delete host (sv_ipConnCount sv)\<rparr>
                    else sv\<lparr>sv_ipConnCount := AList.update host (n - 1) (sv_ipConnCount sv)\<rparr>)"

definition conn_count :: "string \<Rightarrow> 's Server \<Rightarrow> int" where
  "conn_count host sv = (case map_of (sv_ipConnCount sv) host of None \<Rightarrow> 0 | Some n \<Rightarrow> n)"

definition tryTrackConn :: "net_conn \<Rightarrow> 's Server \<Rightarrow> bool \<times> 's Server" where
  "tryTrackConn conn sv =
     (let host = connRemoteHost conn in
      if cfg_MaxConnectionsPerIP (sv_cfg sv) > 0 \<and> conn_count host sv \<ge> cfg_MaxConnectionsPerIP (sv_cfg sv)
      then (False, sv)
      else (True, sv\<lparr>sv_conns := List.insert conn (sv_conns sv),
                     sv_ipConnCount := incr host (sv_ipConnCount sv)\<rparr>))"

section \<open>Violations\<close>

definition isIPBlocked :: "string \<Rightarrow> time \<Rightarrow> 's Server \<Rightarrow> bool \<times> 's Server" where
  "isIPBlocked host now sv =
     (if cfg_IPViolationLimit (sv_cfg sv) \<le> 0 then (False, sv)
      else case map_of (sv_ipSec sv) host of
             None \<Rightarrow> (False, sv)
           | Some st \<Rightarrow>
               if ip_blockedTil st = zero_time then (False, sv)
               else if now < ip_blockedTil st then (True, sv)
               else (False, sv\<lparr>sv_ipSec := AList.update host \<lparr>ip_violations = [], ip_blockedTil = zero_time\<rparr> (sv_ipSec sv)\<rparr>))"

definition registerIPViolation :: "string \<Rightarrow> time \<Rightarrow> 's Server \<Rightarrow> 's Server" where
  "registerIPViolation host now sv =
     (if cfg_IPViolationLimit (sv_cfg sv) \<le> 0 \<or> host = [] then sv
      else let sv = sv\<lparr>sv_ipViolationTotal := sv_ipViolationTotal sv + 1\<rparr>;
               st = (case map_of (sv_ipSec sv) host of
                       Some st \<Rightarrow> st | None \<Rightarrow> \<lparr>ip_violations = [], ip_blockedTil = zero_time\<rparr>);
               cutoff = now + - cfg_IPViolationWindow (sv_cfg sv);
               keep = filter (\<lambda>ts. ts > cutoff) (ip_violations st);
               st = st\<lparr>ip_violations := keep @ [now]\<rparr>
           in if int (length (ip_violations st)) \<ge> cfg_IPViolationLimit (sv_cfg sv)
              then let st = st\<lparr>ip_blockedTil := now + cfg_IPBlockDuration (sv_cfg sv), ip_violations := []\<rparr>
                   in sv\<lparr>sv_ipSec := AList.update host st (sv_ipSec sv),
                         sv_ipBlockAppliedTotal := sv_ipBlockAppliedTotal sv + 1\<rparr>
              else sv\<lparr>sv_ipSec := AList.update host st (sv_ipSec sv)\<rparr>)"

section \<open>Accepting\<close>

text \<open>
  The body of the accept loop of \<^verbatim>\<open>Run\<close> for a new connection: \<open>True\<close> when it is handed to
  \<^verbatim>\<open>handleConn\<close>, \<open>False\<close> when it is closed. \<open>release_conn\<close> is the deferred part of \<^verbatim>\<open>handleConn\<close>.
\<close>

definition accept_conn :: "net_conn \<Rightarrow> 's Server \<Rightarrow> bool \<times> 's Server" where
  "accept_conn conn sv =
     (if sv_active sv \<ge> cfg_MaxConnections (sv_cfg sv) then (False, sv)
      else let host = connRemoteHost conn;
               (now, sv) = Now sv;
               (blocked, sv) = isIPBlocked host now sv
           in if blocked then (False, sv\<lparr>sv_ipBlockedRejectTotal := sv_ipBlockedRejectTotal sv + 1\<rparr>)
              else let (tracked, sv) = tryTrackConn conn sv
                   in if \<not> tracked then (False, sv\<lparr>sv_ipPerIPRejectTotal := sv_ipPerIPRejectTotal sv + 1\<rparr>)
                      else (True, sv\<lparr>sv_active := sv_active sv + 1\<rparr>))"

definition release_conn :: "net_conn \<Rightarrow> 's Server \<Rightarrow> 's Server" where
  "release_conn conn sv = untrackConn conn (sv\<lparr>sv_active := sv_active sv - 1\<rparr>)"

section \<open>The counters agree with the connections\<close>

definition host_conns :: "string \<Rightarrow> 's Server \<Rightarrow> net_conn list" where
  "host_conns host sv = filter (\<lambda>c. connRemoteHost c = host) (sv_conns sv)"

definition guard_ok :: "'s Server \<Rightarrow> bool" where
  "guard_ok sv \<longleftrightarrow> distinct (sv_conns sv) \<and> wf_map (sv_ipConnCount sv) \<and> sv_active sv = int (length (sv_conns sv))
     \<and> (\<forall>h. map_of (sv_ipConnCount sv) h =
           (if host_conns h sv = [] then None else Some (int (length (host_conns h sv)))))"

lemma conn_count_ok: "guard_ok sv \<Longrightarrow> conn_count h sv = int (length (host_conns h sv))"
  by (simp add: guard_ok_def conn_count_def)

lemma guard_New: "guard_ok (New cfg m clk wr uc)"
  by (simp add: guard_ok_def New_def host_conns_def wf_map_def)

text \<open>Changes of the server that leave the tracked connections alone.\<close>

lemma guard_ok_cong:
  "sv_conns sv' = sv_conns sv \<Longrightarrow> sv_ipConnCount sv' = sv_ipConnCount sv \<Longrightarrow> sv_active sv' = sv_active sv
    \<Longrightarrow> guard_ok sv' = guard_ok sv"
  by (simp add: guard_ok_def host_conns_def)

lemma guard_track:
  assumes "guard_ok sv" "conn \<notin> set (sv_conns sv)" "tryTrackConn conn sv = (True, sv')"
  shows "guard_ok (sv'\<lparr>sv_active := sv_active sv' + 1\<rparr>)"
proof -
  let ?h = "connRemoteHost conn"
  have sv': "sv' = sv\<lparr>sv_conns := conn # sv_conns sv, sv_ipConnCount := incr ?h (sv_ipConnCount sv)\<rparr>"
    using assms(2,3) by (auto simp: tryTrackConn_def Let_def List.insert_def split: if_splits)
  have "map_of (incr ?h (sv_ipConnCount sv)) = (map_of (sv_ipConnCount sv))(?h \<mapsto> conn_count ?h sv + 1)"
    by (simp add: incr_def conn_count_def AList.update_conv')
  with assms(1,2) conn_count_ok [OF assms(1), of ?h] show ?thesis
    by (auto simp: guard_ok_def sv' host_conns_def incr_def)
qed

lemma filter_remove_length:
  "distinct xs \<Longrightarrow> x \<in> set xs \<Longrightarrow> P x \<Longrightarrow> length (filter P xs) = Suc (length (filter P (filter (\<lambda>c. c \<noteq> x) xs)))"
proof (induction xs)
  case (Cons y ys)
  then show ?case
    by (cases "x = y") (auto intro!: arg_cong [of _ _ length] filter_cong)
qed simp

lemma guard_release:
  assumes "guard_ok sv" "conn \<in> set (sv_conns sv)"
  shows "guard_ok (release_conn conn sv)"
proof -
  let ?h = "connRemoteHost conn"
  let ?cs = "filter (\<lambda>c. c \<noteq> conn) (sv_conns sv)"
  have d: "distinct (sv_conns sv)" using assms(1) by (simp add: guard_ok_def)
  note rem = filter_remove_length [OF d assms(2)]
  have all: "length (sv_conns sv) = Suc (length ?cs)" using rem [of "\<lambda>_. True"] by simp
  have mine: "length (host_conns ?h sv) = Suc (length (filter (\<lambda>c. connRemoteHost c = ?h) ?cs))"
    unfolding host_conns_def by (rule rem) simp
  have other: "filter (\<lambda>c. connRemoteHost c = h) ?cs = host_conns h sv" if "h \<noteq> ?h" for h
    using that by (auto simp: host_conns_def intro!: filter_cong)
  have n: "map_of (sv_ipConnCount sv) ?h = Some (int (length (host_conns ?h sv)))"
    using assms(1) mine by (auto simp: guard_ok_def)
  have old: "map_of (sv_ipConnCount sv) h = (if host_conns h sv = [] then None else Some (int (length (host_conns h sv))))" for h
    using assms(1) by (simp add: guard_ok_def)
  let ?cnt = "sv_ipConnCount (release_conn conn sv)"
  have conns: "sv_conns (release_conn conn sv) = ?cs" "sv_active (release_conn conn sv) = sv_active sv - 1"
    by (simp_all add: release_conn_def untrackConn_def Let_def split: option.splits)
  have wf: "wf_map ?cnt"
    using assms(1) n by (simp add: release_conn_def untrackConn_def Let_def guard_ok_def)
  have "map_of ?cnt h = (if host_conns h (release_conn conn sv) = [] then None
      else Some (int (length (host_conns h (release_conn conn sv)))))" for h
  proof (cases "h = ?h")
    case True
    have "map_of ?cnt ?h = (if int (length (host_conns ?h sv)) \<le> 1 then None else Some (int (length (host_conns ?h sv)) - 1))"
      using n by (simp add: release_conn_def untrackConn_def Let_def AList.update_conv' AList.delete_conv')
    moreover have "host_conns ?h (release_conn conn sv) = filter (\<lambda>c. connRemoteHost c = ?h) ?cs"
      by (simp add: host_conns_def conns)
    ultimately show ?thesis
      using True mine by (cases "filter (\<lambda>c. connRemoteHost c = ?h) ?cs") (simp_all del: filter_filter)
  next
    case False
    then have "map_of ?cnt h = map_of (sv_ipConnCount sv) h"
      using n by (simp add: release_conn_def untrackConn_def Let_def AList.update_conv' AList.delete_conv')
    moreover have "host_conns h (release_conn conn sv) = host_conns h sv"
      using other [OF False] by (simp add: host_conns_def conns)
    ultimately show ?thesis using old by simp
  qed
  with d all assms(1) wf show ?thesis by (simp add: guard_ok_def conns)
qed

section \<open>The connection limits\<close>

definition within_conn_limits :: "'s Server \<Rightarrow> bool" where
  "within_conn_limits sv \<longleftrightarrow> guard_ok sv \<and> int (length (sv_conns sv)) \<le> max 0 (cfg_MaxConnections (sv_cfg sv))
     \<and> (0 < cfg_MaxConnectionsPerIP (sv_cfg sv) \<longrightarrow>
         (\<forall>h. int (length (host_conns h sv)) \<le> cfg_MaxConnectionsPerIP (sv_cfg sv)))"

lemma isIPBlocked_frame:
  "sv_conns (snd (isIPBlocked h t sv)) = sv_conns sv" "sv_ipConnCount (snd (isIPBlocked h t sv)) = sv_ipConnCount sv"
  "sv_active (snd (isIPBlocked h t sv)) = sv_active sv" "sv_cfg (snd (isIPBlocked h t sv)) = sv_cfg sv"
  "sv_sessions (snd (isIPBlocked h t sv)) = sv_sessions sv"
  by (simp_all add: isIPBlocked_def split: option.splits)

lemma Now_frame:
  "sv_conns (snd (Now sv)) = sv_conns sv" "sv_ipConnCount (snd (Now sv)) = sv_ipConnCount sv"
  "sv_active (snd (Now sv)) = sv_active sv" "sv_cfg (snd (Now sv)) = sv_cfg sv" "sv_ipSec (snd (Now sv)) = sv_ipSec sv"
  "sv_sessions (snd (Now sv)) = sv_sessions sv"
  by (simp_all add: Now_def)

lemma within_conn_limits_cong:
  "sv_conns sv' = sv_conns sv \<Longrightarrow> sv_ipConnCount sv' = sv_ipConnCount sv \<Longrightarrow> sv_active sv' = sv_active sv
    \<Longrightarrow> sv_cfg sv' = sv_cfg sv \<Longrightarrow> within_conn_limits sv' = within_conn_limits sv"
  by (simp add: within_conn_limits_def guard_ok_def host_conns_def)

lemma tryTrackConn_limits:
  assumes "within_conn_limits sv" "conn \<notin> set (sv_conns sv)" "sv_active sv < cfg_MaxConnections (sv_cfg sv)"
    "tryTrackConn conn sv = (True, sv')"
  shows "within_conn_limits (sv'\<lparr>sv_active := sv_active sv' + 1\<rparr>)"
proof -
  have g: "guard_ok sv" using assms(1) by (simp add: within_conn_limits_def)
  have "conn_count (connRemoteHost conn) sv < cfg_MaxConnectionsPerIP (sv_cfg sv)" if "0 < cfg_MaxConnectionsPerIP (sv_cfg sv)"
    using assms(4) that by (auto simp: tryTrackConn_def Let_def split: if_splits)
  moreover have "sv_conns sv' = conn # sv_conns sv" "sv_cfg sv' = sv_cfg sv"
    using assms(2,4) by (auto simp: tryTrackConn_def Let_def List.insert_def split: if_splits)
  moreover have "sv_active sv = int (length (sv_conns sv))" using g by (simp add: guard_ok_def)
  ultimately show ?thesis
    using guard_track [OF g assms(2,4)] assms(1,3) conn_count_ok [OF g, of "connRemoteHost conn"]
    by (auto simp: within_conn_limits_def host_conns_def)
qed

lemma accept_conn_limits:
  assumes "within_conn_limits sv" "conn \<notin> set (sv_conns sv)"
  shows "within_conn_limits (snd (accept_conn conn sv))"
proof (cases "sv_active sv \<ge> cfg_MaxConnections (sv_cfg sv)")
  case True
  then show ?thesis using assms(1) by (simp add: accept_conn_def)
next
  case False
  obtain now sv1 where N: "Now sv = (now, sv1)" by fastforce
  obtain b sv2 where B: "isIPBlocked (connRemoteHost conn) now sv1 = (b, sv2)" by fastforce
  obtain t sv3 where T: "tryTrackConn conn sv2 = (t, sv3)" by fastforce
  have fr: "sv_conns sv2 = sv_conns sv" "sv_ipConnCount sv2 = sv_ipConnCount sv" "sv_active sv2 = sv_active sv"
      "sv_cfg sv2 = sv_cfg sv"
    using Now_frame [of sv] isIPBlocked_frame [of "connRemoteHost conn" now sv1] by (simp_all add: N B)
  then have w: "within_conn_limits sv2" using assms(1) within_conn_limits_cong [of sv2 sv] by simp
  have "t \<Longrightarrow> within_conn_limits (sv3\<lparr>sv_active := sv_active sv3 + 1\<rparr>)"
    using tryTrackConn_limits [OF w] T assms(2) False fr by simp
  moreover have "\<not> t \<Longrightarrow> sv3 = sv2" using T by (auto simp: tryTrackConn_def Let_def split: if_splits)
  ultimately show ?thesis
    using w False by (simp add: accept_conn_def N B T within_conn_limits_cong
        [of "sv2\<lparr>sv_ipBlockedRejectTotal := _\<rparr>" sv2] within_conn_limits_cong [of "sv2\<lparr>sv_ipPerIPRejectTotal := _\<rparr>" sv2])
qed

lemma release_conn_limits:
  assumes "within_conn_limits sv" "conn \<in> set (sv_conns sv)"
  shows "within_conn_limits (release_conn conn sv)"
proof -
  have eq: "sv_conns (release_conn conn sv) = filter (\<lambda>c. c \<noteq> conn) (sv_conns sv)" "sv_cfg (release_conn conn sv) = sv_cfg sv"
    by (simp_all add: release_conn_def untrackConn_def Let_def split: option.splits)
  have "length (filter P (filter Q xs)) \<le> length (filter P xs)" for P Q and xs :: "net_conn list"
    by (induction xs) simp_all
  then have host: "int (length (host_conns h (release_conn conn sv))) \<le> int (length (host_conns h sv))" for h
    unfolding host_conns_def eq by (simp only: of_nat_le_iff)
  have all: "int (length (sv_conns (release_conn conn sv))) \<le> int (length (sv_conns sv))" by (simp add: eq)
  show ?thesis
    using assms guard_release [of sv conn] order_trans [OF all] order_trans [OF host]
    by (simp add: within_conn_limits_def eq(2))
qed

section \<open>When a host is blocked\<close>

definition register_all :: "string \<Rightarrow> time list \<Rightarrow> 's Server \<Rightarrow> 's Server" where
  "register_all host ts sv = foldl (\<lambda>sv t. registerIPViolation host t sv) sv ts"

lemma register_below:
  assumes "host \<noteq> []" "int (length vs) + 1 < cfg_IPViolationLimit (sv_cfg sv)"
    "map_of (sv_ipSec sv) host = (if vs = [] then None else Some \<lparr>ip_violations = vs, ip_blockedTil = zero_time\<rparr>)"
    "\<forall>v\<in>set vs. t - cfg_IPViolationWindow (sv_cfg sv) < v"
  shows "map_of (sv_ipSec (registerIPViolation host t sv)) =
    (map_of (sv_ipSec sv))(host \<mapsto> \<lparr>ip_violations = vs @ [t], ip_blockedTil = zero_time\<rparr>)"
proof -
  have "filter (\<lambda>ts. t - cfg_IPViolationWindow (sv_cfg sv) < ts) vs = vs" using assms(4) by (simp add: filter_id_conv)
  with assms(1-3) show ?thesis
    by (simp add: registerIPViolation_def Let_def AList.update_conv')
qed

lemma register_at_limit:
  assumes "host \<noteq> []" "int (length vs) + 1 = cfg_IPViolationLimit (sv_cfg sv)"
    "map_of (sv_ipSec sv) host = (if vs = [] then None else Some \<lparr>ip_violations = vs, ip_blockedTil = zero_time\<rparr>)"
    "\<forall>v\<in>set vs. t - cfg_IPViolationWindow (sv_cfg sv) < v"
  shows "map_of (sv_ipSec (registerIPViolation host t sv)) =
    (map_of (sv_ipSec sv))(host \<mapsto> \<lparr>ip_violations = [], ip_blockedTil = t + cfg_IPBlockDuration (sv_cfg sv)\<rparr>)"
proof -
  have "filter (\<lambda>ts. t - cfg_IPViolationWindow (sv_cfg sv) < ts) vs = vs" using assms(4) by (simp add: filter_id_conv)
  with assms(1-3) show ?thesis
    by (cases "vs = []") (simp_all add: registerIPViolation_def Let_def AList.update_conv')
qed

lemma register_cfg: "sv_cfg (registerIPViolation host t sv) = sv_cfg sv"
  by (simp add: registerIPViolation_def Let_def)

lemma register_all_cfg: "sv_cfg (register_all host ts sv) = sv_cfg sv"
  unfolding register_all_def by (induction ts arbitrary: sv) (simp_all add: register_cfg)

lemma register_all_below:
  assumes "host \<noteq> []" "int (length ts) < cfg_IPViolationLimit (sv_cfg sv)" "map_of (sv_ipSec sv) host = None"
    "sorted ts" "\<forall>t\<in>set ts. last ts - cfg_IPViolationWindow (sv_cfg sv) < t" "ts \<noteq> []"
  shows "map_of (sv_ipSec (register_all host ts sv)) =
    (map_of (sv_ipSec sv))(host \<mapsto> \<lparr>ip_violations = ts, ip_blockedTil = zero_time\<rparr>)"
  using assms(6,2,4,5)
proof (induction ts rule: rev_nonempty_induct)
  case (single t)
  then show ?case
    using register_below [of host "[]" sv t] assms(1,3) by (simp add: register_all_def)
next
  case (snoc t ts)
  have win: "\<forall>v\<in>set ts. t - cfg_IPViolationWindow (sv_cfg sv) < v" and le: "last ts \<le> t"
    using snoc.prems(2,3) snoc.hyps by (auto simp: sorted_append)
  then have "\<forall>v\<in>set ts. last ts - cfg_IPViolationWindow (sv_cfg sv) < v" by fastforce
  with snoc have "map_of (sv_ipSec (register_all host ts sv)) =
      (map_of (sv_ipSec sv))(host \<mapsto> \<lparr>ip_violations = ts, ip_blockedTil = zero_time\<rparr>)"
    by (simp add: sorted_append fun_upd_def)
  with register_below [of host ts "register_all host ts sv" t] win assms(1) snoc.prems(1) snoc.hyps
  show ?case by (simp add: register_all_cfg) (simp add: register_all_def)
qed

lemma register_all_limit:
  assumes "host \<noteq> []" "int (length ts) = cfg_IPViolationLimit (sv_cfg sv)" "map_of (sv_ipSec sv) host = None"
    "sorted ts" "\<forall>t\<in>set ts. last ts - cfg_IPViolationWindow (sv_cfg sv) < t" "ts \<noteq> []"
  shows "map_of (sv_ipSec (register_all host ts sv)) = (map_of (sv_ipSec sv))
    (host \<mapsto> \<lparr>ip_violations = [], ip_blockedTil = last ts + cfg_IPBlockDuration (sv_cfg sv)\<rparr>)"
proof -
  obtain us t where ts: "ts = us @ [t]" using assms(6) by (cases ts rule: rev_cases) auto
  have win: "\<forall>v\<in>set us. t - cfg_IPViolationWindow (sv_cfg sv) < v" "us \<noteq> [] \<Longrightarrow> last us \<le> t"
    using assms(4,5) by (auto simp: ts sorted_append)
  have us: "map_of (sv_ipSec (register_all host us sv)) = (if us = [] then map_of (sv_ipSec sv) else
      (map_of (sv_ipSec sv))(host \<mapsto> \<lparr>ip_violations = us, ip_blockedTil = zero_time\<rparr>))"
    using register_all_below [of host us sv] assms win by (fastforce simp: ts sorted_append register_all_def)
  have "register_all host ts sv = registerIPViolation host t (register_all host us sv)"
    by (simp add: ts register_all_def)
  moreover have "map_of (sv_ipSec (registerIPViolation host t (register_all host us sv))) =
      (map_of (sv_ipSec (register_all host us sv)))
      (host \<mapsto> \<lparr>ip_violations = [], ip_blockedTil = t + cfg_IPBlockDuration (sv_cfg (register_all host us sv))\<rparr>)"
    by (rule register_at_limit) (use assms us win in \<open>auto simp: ts register_all_cfg\<close>)
  ultimately show ?thesis using us by (simp add: ts register_all_cfg)
qed

lemma isIPBlocked_iff:
  "fst (isIPBlocked h now sv) \<longleftrightarrow> 0 < cfg_IPViolationLimit (sv_cfg sv) \<and>
     (\<exists>st. map_of (sv_ipSec sv) h = Some st \<and> ip_blockedTil st \<noteq> zero_time \<and> now < ip_blockedTil st)"
  by (auto simp: isIPBlocked_def split: option.splits)


definition ascii_tables :: unicode where
  "ascii_tables = \<lparr>uc_ToLower = \<lambda>r. r, uc_IsPrint = \<lambda>_. False\<rparr>"

definition sample_config :: Config where
  "sample_config = env_config \<lparr>Getenv = \<lambda>_. [], ParseDuration = \<lambda>_. None\<rparr>"


end
