(* ===== verification/Payload_Builders.thy ===== *)
theory Payload_Builders
  imports Payload_Validation
begin

text \<open>
  The typed payload builders (\<^verbatim>\<open>internal/protocol/server_payload_builders.go\<close>): a record per
  payload struct and a \<open>..._Build\<close> function per \<^verbatim>\<open>Build\<close> method, writing into a zeroed buffer in
  the order of the source and ending, as there, with the validator. A Go array \<^verbatim>\<open>[n]byte\<close>
  is a list; the \<open>wf_...\<close> predicates state its length. For each builder the lemmas give the
  buffer as a concatenation of its fields and the exact condition under which it succeeds.
\<close>

subsection \<open>Helpers\<close>

definition boolToByte :: "bool \<Rightarrow> u8" where
  "boolToByte v = (if v then 1 else 0)"

definition validateRelayFlags :: "u8 list \<Rightarrow> go_error option" where
  "validateRelayFlags flags =
     for_err (\<lambda>i. if flags ! i > 1 then Some (Errorf ''flag %d must be 0 or 1'' [FNat i]) else None)
       [0..<length flags]"

definition fixedASCII :: "string \<Rightarrow> nat \<Rightarrow> go_error + byte list" where
  "fixedASCII s sz =
     (if length s > sz then Inl (Errorf ''too long: len=%d max=%d'' [FNat (length s), FNat sz])
      else for_res (\<lambda>i out.
             if bytes_of s ! i > 127 then Inl (Errorf ''non-ascii byte at index %d'' [FNat i])
             else Inr (out[i := bytes_of s ! i]))
           [0..<length s] (replicate sz 0))"

definition fixedDigits :: "string \<Rightarrow> nat \<Rightarrow> go_error + byte list" where
  "fixedDigits s sz =
     (if length s \<noteq> sz then Inl (Errorf ''invalid length: len=%d want=%d'' [FNat (length s), FNat sz])
      else for_res (\<lambda>i out.
             if bytes_of s ! i < 48 \<or> bytes_of s ! i > 57
             then Inl (Errorf ''non-digit byte at index %d'' [FNat i])
             else Inr (out[i := bytes_of s ! i]))
           [0..<length s] (replicate sz 0))"

text \<open>The last lines of every builder: \<^verbatim>\<open>if err := ValidateServerCommandPayload(id, out); err != nil\<close>.\<close>

definition validated :: "u8 \<Rightarrow> byte list \<Rightarrow> go_error + byte list" where
  "validated commandID out = check_nil (ValidateServerCommandPayload commandID out) (Inr out)"

text \<open>
  The loop \<^verbatim>\<open>for i, rec := range p.Records\<close> of the record builders: encode record \<open>i\<close>, copy it to
  \<open>out[off:off+sz]\<close>, advance \<open>off\<close>.
\<close>

fun write_records ::
  "(nat \<Rightarrow> 'r \<Rightarrow> go_error + byte list) \<Rightarrow> nat \<Rightarrow> nat \<Rightarrow> nat \<Rightarrow> 'r list \<Rightarrow> byte list \<Rightarrow> go_error + byte list"
where
  "write_records enc sz i off [] out = Inr out"
| "write_records enc sz i off (rec # recs) out =
     res_bind (enc i rec) (\<lambda>b. write_records enc sz (i + 1) (off + sz) recs
       (copy_slice off (off + sz) b out))"

definition raw_record :: "string \<Rightarrow> nat \<Rightarrow> nat \<Rightarrow> byte list \<Rightarrow> go_error + byte list" where
  "raw_record msg sz i rec = (if length rec \<noteq> sz then Inl (Errorf msg [FNat i]) else Inr rec)"

subsection \<open>Commands 1 to 11\<close>

record Cmd1RegistrationAckPayload =
  c1_ExecutionCode :: u8
  c1_ServerTime :: u32

definition Cmd1RegistrationAckPayload_Build :: "Cmd1RegistrationAckPayload \<Rightarrow> go_error + byte list" where
  "Cmd1RegistrationAckPayload_Build p =
     (let out = replicate 5 0;
          out = out[0 := c1_ExecutionCode p];
          out = PutUint32 1 (c1_ServerTime p) out
      in validated 1 out)"

record Cmd2RebootPayload =
  c2_TimeoutSec :: u8

definition Cmd2RebootPayload_Build :: "Cmd2RebootPayload \<Rightarrow> go_error + byte list" where
  "Cmd2RebootPayload_Build p = validated 2 [c2_TimeoutSec p]"

record Cmd3FactoryResetPayload =
  c3_TimeoutSec :: u8

definition Cmd3FactoryResetPayload_Build :: "Cmd3FactoryResetPayload \<Rightarrow> go_error + byte list" where
  "Cmd3FactoryResetPayload_Build p = validated 3 [c3_TimeoutSec p]"

record Cmd5TriggerPayload =
  c5_RawFlags :: "byte list"

definition Cmd5TriggerPayload_Build :: "Cmd5TriggerPayload \<Rightarrow> go_error + byte list" where
  "Cmd5TriggerPayload_Build p = validated 5 (copy_slice 0 16 (c5_RawFlags p) (replicate 16 0))"

record Cmd5TriggerFlags =
  tf_ManualUnlock :: bool
  tf_ScenarioUnlock :: bool
  tf_AutoRegistration :: bool
  tf_OpenForAll :: bool
  tf_ForwardSMS :: bool
  tf_NotifyUnknownIDSMS :: bool
  tf_NotifyLowBalanceSMS :: bool
  tf_ScheduleForAllCalls :: bool

record Cmd5TriggerStructuredPayload =
  c5_Flags :: Cmd5TriggerFlags
  c5_Reserve :: "byte list"

definition Cmd5TriggerStructuredPayload_Build ::
  "Cmd5TriggerStructuredPayload \<Rightarrow> go_error + byte list" where
  "Cmd5TriggerStructuredPayload_Build p =
     (let fl = c5_Flags p;
          out = replicate 16 0;
          out = out[0 := boolToByte (tf_ManualUnlock fl)];
          out = out[1 := boolToByte (tf_ScenarioUnlock fl)];
          out = out[2 := boolToByte (tf_AutoRegistration fl)];
          out = out[3 := boolToByte (tf_OpenForAll fl)];
          out = out[4 := boolToByte (tf_ForwardSMS fl)];
          out = out[5 := boolToByte (tf_NotifyUnknownIDSMS fl)];
          out = out[6 := boolToByte (tf_NotifyLowBalanceSMS fl)];
          out = out[7 := boolToByte (tf_ScheduleForAllCalls fl)];
          out = copy_slice 8 16 (c5_Reserve p) out
      in validated 5 out)"

record Cmd6CaptureIDPayload =
  c6_CaptureTimeout :: u8
  c6_Interface :: u8
  c6_NetworkAddress :: u8

definition Cmd6CaptureIDPayload_Build :: "Cmd6CaptureIDPayload \<Rightarrow> go_error + byte list" where
  "Cmd6CaptureIDPayload_Build p =
     validated 6 [c6_CaptureTimeout p, c6_Interface p, c6_NetworkAddress p]"

record Cmd7PhotoRequestPayload =
  c7_CameraAddress :: u8

definition Cmd7PhotoRequestPayload_Build :: "Cmd7PhotoRequestPayload \<Rightarrow> go_error + byte list" where
  "Cmd7PhotoRequestPayload_Build p = validated 7 [c7_CameraAddress p]"

record Cmd8OutputControlPayload =
  c8_SourceID :: u8
  c8_Output1 :: u8
  c8_Output2 :: u8

definition Cmd8OutputControlPayload_Build :: "Cmd8OutputControlPayload \<Rightarrow> go_error + byte list" where
  "Cmd8OutputControlPayload_Build p = validated 8 [c8_SourceID p, c8_Output1 p, c8_Output2 p]"

record Cmd11SendSMSPayload =
  c11_Phone10 :: string
  c11_Message :: string

definition Cmd11SendSMSPayload_Build :: "Cmd11SendSMSPayload \<Rightarrow> go_error + byte list" where
  "Cmd11SendSMSPayload_Build p =
     (if length (c11_Phone10 p) \<noteq> 10
      then Inl (Errorf ''cmd 11: phone must be exactly 10 digits'' [])
      else res_bind (map_err (\<lambda>e. Errorf ''cmd 11: phone: %w'' [FErr e]) (fixedDigits (c11_Phone10 p) 10))
       (\<lambda>phone. res_bind (map_err (\<lambda>e. Errorf ''cmd 11: message: %w'' [FErr e]) (fixedASCII (c11_Message p) 50))
       (\<lambda>msg. let out = replicate 60 0;
                  out = copy_slice 0 10 phone out;
                  out = copy_slice 10 60 msg out
              in validated 11 out)))"

subsection \<open>Command 12: settings\<close>

record Cmd12Peripheral =
  per_Address :: u8
  per_Type :: u8

record Cmd12RelaySettings =
  rel_Flags :: "u8 list"
  rel_ImpulseSec :: u8
  rel_PauseSec :: u8
  rel_Repeats :: u8

record Cmd12SettingsRecord =
  s12_PINCode :: u32
  s12_Server1 :: string
  s12_Server2 :: string
  s12_NTPServer :: string
  s12_Operator :: string
  s12_NetworkType :: u8
  s12_CountryCode :: string
  s12_SimPhone :: string
  s12_USSD :: string
  s12_AutoRebootHour :: u8
  s12_ExtendedDebug :: bool
  s12_UseVoLTE :: bool
  s12_Interface485Active :: bool
  s12_NTPEnabled :: bool
  s12_WiegandType :: u8
  s12_Peripherals :: "Cmd12Peripheral list"
  s12_Relay1 :: Cmd12RelaySettings
  s12_Relay2 :: Cmd12RelaySettings
  s12_Input1Function :: u8
  s12_Input2Function :: u8
  s12_ReserveA :: "byte list"
  s12_ReserveB :: "byte list"

definition writeRelay :: "nat \<Rightarrow> Cmd12RelaySettings \<Rightarrow> byte list \<Rightarrow> byte list" where
  "writeRelay base relay out =
     (let out = fold (\<lambda>i out. out[base + i := rel_Flags relay ! i]) [0..<8] out;
          out = out[base + 8 := rel_ImpulseSec relay];
          out = out[base + 9 := rel_PauseSec relay]
      in out[base + 10 := rel_Repeats relay])"

definition write_settings ::
  "Cmd12SettingsRecord \<Rightarrow> byte list \<Rightarrow> byte list \<Rightarrow> byte list \<Rightarrow> byte list \<Rightarrow> byte list \<Rightarrow> byte list \<Rightarrow> byte list
     \<Rightarrow> byte list \<Rightarrow> byte list" where
  "write_settings r s1 s2 ntp op cc sim ussd out =
     (let out = PutUint32 cmd12OffPinCode (s12_PINCode r) out;
          out = copy_slice cmd12OffServer1 (cmd12OffServer1 + 32) s1 out;
          out = copy_slice cmd12OffServer2 (cmd12OffServer2 + 32) s2 out;
          out = copy_slice cmd12OffNTPServer (cmd12OffNTPServer + 32) ntp out;
          out = copy_slice cmd12OffOperator (cmd12OffOperator + 32) op out;
          out = out[cmd12OffNetworkType := s12_NetworkType r];
          out = copy_slice cmd12OffCountryCode (cmd12OffCountryCode + 8) cc out;
          out = copy_slice cmd12OffSimPhone (cmd12OffSimPhone + 16) sim out;
          out = copy_slice cmd12OffUSSD (cmd12OffUSSD + 8) ussd out;
          out = out[cmd12OffAutoReboot := s12_AutoRebootHour r];
          out = out[cmd12OffSettingsByte + 0 := boolToByte (s12_ExtendedDebug r)];
          out = out[cmd12OffSettingsByte + 1 := boolToByte (s12_UseVoLTE r)];
          out = out[cmd12OffSettingsByte + 2 := boolToByte (s12_Interface485Active r)];
          out = out[cmd12OffSettingsByte + 3 := boolToByte (s12_NTPEnabled r)];
          out = out[cmd12OffWiegandType := s12_WiegandType r];
          out = fold (\<lambda>i out. out[cmd12OffPeripheral + 2 * i := per_Address (s12_Peripherals r ! i),
                    cmd12OffPeripheral + 2 * i + 1 := per_Type (s12_Peripherals r ! i)]) [0..<8] out;
          out = writeRelay cmd12OffRelay1 (s12_Relay1 r) out;
          out = writeRelay cmd12OffRelay2 (s12_Relay2 r) out;
          out = out[cmd12OffInput1 := s12_Input1Function r];
          out = out[cmd12OffInput2 := s12_Input2Function r];
          out = copy_slice cmd12OffReserveA (cmd12OffReserveA + 292) (s12_ReserveA r) out;
          out = copy_slice cmd12OffReserveB (cmd12OffReserveB + 101) (s12_ReserveB r) out
      in out)"

definition Cmd12SettingsRecord_Build :: "Cmd12SettingsRecord \<Rightarrow> go_error + byte list" where
  "Cmd12SettingsRecord_Build r =
     (if \<not> IsCmd12NetworkTypeValid (s12_NetworkType r)
      then Inl (Errorf ''cmd 12: network type out of range: %d'' [FByte (s12_NetworkType r)])
      else if s12_AutoRebootHour r > 23
      then Inl (Errorf ''cmd 12: auto reboot hour out of range: %d'' [FByte (s12_AutoRebootHour r)])
      else case validateRelayFlags (rel_Flags (s12_Relay1 r)) of
        Some err \<Rightarrow> Inl (Errorf ''cmd 12 relay1: %w'' [FErr err])
      | None \<Rightarrow> (case validateRelayFlags (rel_Flags (s12_Relay2 r)) of
        Some err \<Rightarrow> Inl (Errorf ''cmd 12 relay2: %w'' [FErr err])
      | None \<Rightarrow>
        res_bind (map_err (\<lambda>e. Errorf ''cmd 12 server1: %w'' [FErr e]) (fixedASCII (s12_Server1 r) 32)) (\<lambda>s1.
        res_bind (map_err (\<lambda>e. Errorf ''cmd 12 server2: %w'' [FErr e]) (fixedASCII (s12_Server2 r) 32)) (\<lambda>s2.
        res_bind (map_err (\<lambda>e. Errorf ''cmd 12 ntp server: %w'' [FErr e]) (fixedASCII (s12_NTPServer r) 32)) (\<lambda>ntp.
        res_bind (map_err (\<lambda>e. Errorf ''cmd 12 operator: %w'' [FErr e]) (fixedASCII (s12_Operator r) 32)) (\<lambda>op.
        res_bind (map_err (\<lambda>e. Errorf ''cmd 12 country code: %w'' [FErr e]) (fixedASCII (s12_CountryCode r) 8)) (\<lambda>cc.
        res_bind (map_err (\<lambda>e. Errorf ''cmd 12 sim phone: %w'' [FErr e]) (fixedASCII (s12_SimPhone r) 16)) (\<lambda>sim.
        res_bind (map_err (\<lambda>e. Errorf ''cmd 12 ussd: %w'' [FErr e]) (fixedASCII (s12_USSD r) 8)) (\<lambda>ussd.
          Inr (write_settings r s1 s2 ntp op cc sim ussd (replicate Cmd12RecordSize 0)))))))))))"

record Cmd12SettingsPayload =
  c12_Timestamp :: u32
  c12_Record :: Cmd12SettingsRecord

definition Cmd12SettingsPayload_Build :: "Cmd12SettingsPayload \<Rightarrow> go_error + byte list" where
  "Cmd12SettingsPayload_Build p =
     res_bind (Cmd12SettingsRecord_Build (c12_Record p)) (\<lambda>rec.
       let out = replicate (5 + Cmd12RecordSize) 0;
           out = PutUint32 0 (c12_Timestamp p) out;
           out = out[4 := 1];
           out = copy_slice 5 (length out) rec out
       in validated 12 out)"

subsection \<open>Commands 13 to 16: synchronised tables\<close>

text \<open>The common part of the record builders: header, loop over the records, validator.\<close>

definition build_records ::
  "u8 \<Rightarrow> string \<Rightarrow> nat \<Rightarrow> nat \<Rightarrow> (nat \<Rightarrow> 'r \<Rightarrow> go_error + byte list) \<Rightarrow> u32 \<Rightarrow> 'r list \<Rightarrow> go_error + byte list"
where
  "build_records commandID msg maxCount sz enc ts recs =
     (if length recs < 1 \<or> length recs > maxCount then Inl (Errorf msg [FNat (length recs)])
      else let out = replicate (5 + length recs * sz) 0;
               out = PutUint32 0 ts out;
               out = out[4 := word_of_nat (length recs)]
           in res_bind (write_records enc sz 0 5 recs out) (validated commandID))"

record Cmd13SyncIDPayload =
  c13_Timestamp :: u32
  c13_Records :: "byte list list"

definition Cmd13SyncIDPayload_Build :: "Cmd13SyncIDPayload \<Rightarrow> go_error + byte list" where
  "Cmd13SyncIDPayload_Build p =
     build_records 13 ''cmd 13: records count out of range: %d'' 250 32
       (raw_record ''cmd 13: record %d size must be 32'' 32) (c13_Timestamp p) (c13_Records p)"

record Cmd13IDRecord =
  r13_SlotIndex :: u16
  r13_ID :: string
  r13_Group :: u8
  r13_BanDate :: u32
  r13_LifetimeMinutes :: u16
  r13_IDType :: u8
  r13_Reserve :: "byte list"

definition Cmd13IDRecord_Build :: "Cmd13IDRecord \<Rightarrow> go_error + byte list" where
  "Cmd13IDRecord_Build r =
     (if r13_SlotIndex r = 0 \<or> r13_SlotIndex r > 50000
      then Inl (Errorf ''cmd 13: slot out of range: %d'' [FInt (uint (r13_SlotIndex r))])
      else if r13_Group r > 64
      then Inl (Errorf ''cmd 13: group out of range: %d'' [FByte (r13_Group r)])
      else if \<not> IsCmd13IDTypeValid (r13_IDType r)
      then Inl (Errorf ''cmd 13: id type out of range: %d'' [FByte (r13_IDType r)])
      else res_bind (map_err (\<lambda>e. Errorf ''cmd 13: id: %w'' [FErr e]) (fixedASCII (r13_ID r) 10)) (\<lambda>idBytes.
        let out = replicate Cmd13RecordSize 0;
            out = PutUint16 cmd13OffSlot (r13_SlotIndex r) out;
            out = copy_slice cmd13OffID (cmd13OffID + 10) idBytes out;
            out = out[cmd13OffGroup := r13_Group r];
            out = PutUint32 cmd13OffBanDate (r13_BanDate r) out;
            out = PutUint16 cmd13OffLifetime (r13_LifetimeMinutes r) out;
            out = out[cmd13OffIDType := r13_IDType r];
            out = copy_slice cmd13OffReserve (cmd13OffReserve + 12) (r13_Reserve r) out
        in Inr out))"

record Cmd13SyncIDStructuredPayload =
  c13s_Timestamp :: u32
  c13s_Records :: "Cmd13IDRecord list"

definition Cmd13SyncIDStructuredPayload_Build ::
  "Cmd13SyncIDStructuredPayload \<Rightarrow> go_error + byte list" where
  "Cmd13SyncIDStructuredPayload_Build p =
     build_records 13 ''cmd 13: records count out of range: %d'' 250 Cmd13RecordSize
       (\<lambda>i rec. map_err (\<lambda>e. Errorf ''cmd 13: record %d: %w'' [FNat i, FErr e]) (Cmd13IDRecord_Build rec))
       (c13s_Timestamp p) (c13s_Records p)"

record Cmd14SyncSchedulePayload =
  c14_Timestamp :: u32
  c14_Records :: "byte list list"

definition Cmd14SyncSchedulePayload_Build :: "Cmd14SyncSchedulePayload \<Rightarrow> go_error + byte list" where
  "Cmd14SyncSchedulePayload_Build p =
     build_records 14 ''cmd 14: records count out of range: %d'' 64 32
       (raw_record ''cmd 14: record %d size must be 32'' 32) (c14_Timestamp p) (c14_Records p)"

record Cmd14ScheduleRecord =
  r14_Slot :: u8
  r14_StartHour :: u8
  r14_StartMinute :: u8
  r14_EndHour :: u8
  r14_EndMinute :: u8
  r14_Flags :: "u8 list"
  r14_Scenes :: "u8 list"
  r14_HolidayLogic :: u8
  r14_Reserve :: "byte list"

definition Cmd14ScheduleRecord_Build :: "Cmd14ScheduleRecord \<Rightarrow> go_error + byte list" where
  "Cmd14ScheduleRecord_Build r =
     (let out = replicate Cmd14RecordSize 0;
          out = out[cmd14OffSlot := r14_Slot r];
          out = out[cmd14OffStartHour := r14_StartHour r];
          out = out[cmd14OffStartMinute := r14_StartMinute r];
          out = out[cmd14OffEndHour := r14_EndHour r];
          out = out[cmd14OffEndMinute := r14_EndMinute r];
          out = copy_slice cmd14OffFlags (cmd14OffFlags + 8) (r14_Flags r) out;
          out = copy_slice cmd14OffScenes (cmd14OffScenes + 8) (r14_Scenes r) out;
          out = out[cmd14OffHolidayLogic := r14_HolidayLogic r];
          out = copy_slice cmd14OffReserve (cmd14OffReserve + 10) (r14_Reserve r) out;
          raw = copy_slice 0 Cmd14RecordSize out (replicate Cmd14RecordSize 0);
          p = replicate (5 + Cmd14RecordSize) 0;
          p = p[4 := 1];
          p = copy_slice 5 (length p) raw p
      in check_nil (ValidateServerCommandPayload 14 p) (Inr out))"

record Cmd14SyncScheduleStructuredPayload =
  c14s_Timestamp :: u32
  c14s_Records :: "Cmd14ScheduleRecord list"

definition Cmd14SyncScheduleStructuredPayload_Build ::
  "Cmd14SyncScheduleStructuredPayload \<Rightarrow> go_error + byte list" where
  "Cmd14SyncScheduleStructuredPayload_Build p =
     build_records 14 ''cmd 14: records count out of range: %d'' 64 Cmd14RecordSize
       (\<lambda>i rec. map_err (\<lambda>e. Errorf ''cmd 14: record %d: %w'' [FNat i, FErr e]) (Cmd14ScheduleRecord_Build rec))
       (c14s_Timestamp p) (c14s_Records p)"

record Cmd15SyncGroupPayload =
  c15_Timestamp :: u32
  c15_Records :: "byte list list"

definition Cmd15SyncGroupPayload_Build :: "Cmd15SyncGroupPayload \<Rightarrow> go_error + byte list" where
  "Cmd15SyncGroupPayload_Build p =
     build_records 15 ''cmd 15: records count out of range: %d'' 64 16
       (raw_record ''cmd 15: record %d size must be 16'' 16) (c15_Timestamp p) (c15_Records p)"

record Cmd15GroupRecord =
  r15_Slot :: u8
  r15_Schedule :: u8
  r15_Permissions :: "u8 list"
  r15_Reserve :: "byte list"

definition Cmd15GroupRecord_Build :: "Cmd15GroupRecord \<Rightarrow> go_error + byte list" where
  "Cmd15GroupRecord_Build r =
     (let out = replicate Cmd15RecordSize 0;
          out = out[cmd15OffSlot := r15_Slot r];
          out = out[cmd15OffSchedule := r15_Schedule r];
          out = copy_slice cmd15OffPermFlags (cmd15OffPermFlags + 8) (r15_Permissions r) out;
          out = copy_slice cmd15OffReserve (cmd15OffReserve + 6) (r15_Reserve r) out;
          p = replicate (5 + Cmd15RecordSize) 0;
          p = p[4 := 1];
          p = copy_slice 5 (length p) out p
      in check_nil (ValidateServerCommandPayload 15 p) (Inr out))"

record Cmd15SyncGroupStructuredPayload =
  c15s_Timestamp :: u32
  c15s_Records :: "Cmd15GroupRecord list"

definition Cmd15SyncGroupStructuredPayload_Build ::
  "Cmd15SyncGroupStructuredPayload \<Rightarrow> go_error + byte list" where
  "Cmd15SyncGroupStructuredPayload_Build p =
     build_records 15 ''cmd 15: records count out of range: %d'' 64 Cmd15RecordSize
       (\<lambda>i rec. map_err (\<lambda>e. Errorf ''cmd 15: record %d: %w'' [FNat i, FErr e]) (Cmd15GroupRecord_Build rec))
       (c15s_Timestamp p) (c15s_Records p)"

record Cmd16SyncHolidayPayload =
  c16_Timestamp :: u32
  c16_Days :: "u32 list"

definition Cmd16SyncHolidayPayload_Build :: "Cmd16SyncHolidayPayload \<Rightarrow> go_error + byte list" where
  "Cmd16SyncHolidayPayload_Build p =
     build_records 16 ''cmd 16: days count out of range: %d'' 255 4
       (\<lambda>i d. Inr (le32 d)) (c16_Timestamp p) (c16_Days p)"

subsection \<open>Commands 18 to 27\<close>

record Cmd18CRCBlockPayload =
  c18_Block :: u8

definition Cmd18CRCBlockPayload_Build :: "Cmd18CRCBlockPayload \<Rightarrow> go_error + byte list" where
  "Cmd18CRCBlockPayload_Build p = validated 18 [c18_Block p]"

record Cmd19StartFWPayload =
  c19_FirmwareNumber :: u16
  c19_BuildTimestamp :: u32
  c19_FileSize :: u32
  c19_FileCRC :: u32
  c19_BlockCount :: u16

definition Cmd19StartFWPayload_Build :: "Cmd19StartFWPayload \<Rightarrow> go_error + byte list" where
  "Cmd19StartFWPayload_Build p =
     (if c19_FileSize p = 0 then Inl (Errorf ''cmd 19: file size cannot be 0'' [])
      else if c19_FileCRC p = 0 then Inl (Errorf ''cmd 19: file crc cannot be 0'' [])
      else let p = (if c19_BlockCount p = 0
                    then p\<lparr>c19_BlockCount := FWBlockCountForSize (c19_FileSize p)\<rparr> else p)
           in if c19_BlockCount p \<noteq> FWBlockCountForSize (c19_FileSize p)
              then Inl (Errorf ''cmd 19: block count does not match file size'' [])
              else let out = replicate 16 0;
                       out = PutUint16 0 (c19_FirmwareNumber p) out;
                       out = PutUint32 2 (c19_BuildTimestamp p) out;
                       out = PutUint32 6 (c19_FileSize p) out;
                       out = PutUint32 10 (c19_FileCRC p) out;
                       out = PutUint16 14 (c19_BlockCount p) out
                   in validated 19 out)"

record Cmd20FWBlockPayload =
  c20_BlockNumber :: u16
  c20_Data :: "byte list"

definition Cmd20FWBlockPayload_Build :: "Cmd20FWBlockPayload \<Rightarrow> go_error + byte list" where
  "Cmd20FWBlockPayload_Build p =
     (if length (c20_Data p) \<noteq> 1024 then Inl (Errorf ''cmd 20: data must be 1024 bytes'' [])
      else let out = replicate 1026 0;
               out = PutUint16 0 (c20_BlockNumber p) out;
               out = copy_slice 2 (length out) (c20_Data p) out
           in validated 20 out)"

record Cmd23SetTimePayload =
  c23_ServerTime :: u32

definition Cmd23SetTimePayload_Build :: "Cmd23SetTimePayload \<Rightarrow> go_error + byte list" where
  "Cmd23SetTimePayload_Build p = validated 23 (PutUint32 0 (c23_ServerTime p) (replicate 4 0))"

record Cmd24AckPayload =
  c24_CommandSeq :: u8
  c24_Code :: u8

definition Cmd24AckPayload_Build :: "Cmd24AckPayload \<Rightarrow> go_error + byte list" where
  "Cmd24AckPayload_Build p = validated 24 [c24_CommandSeq p, c24_Code p]"

record Cmd27CustomPayload =
  c27_CustomCommand :: u8
  c27_Argument :: "byte list"

definition Cmd27CustomPayload_Build :: "Cmd27CustomPayload \<Rightarrow> go_error + byte list" where
  "Cmd27CustomPayload_Build p =
     (if length (c27_Argument p) > 65535 then Inl (Errorf ''cmd 27: argument too large'' [])
      else let out = replicate (3 + length (c27_Argument p)) 0;
               out = out[0 := c27_CustomCommand p];
               out = PutUint16 1 (word_of_nat (length (c27_Argument p))) out;
               out = copy_slice 3 (length out) (c27_Argument p) out
           in validated 27 out)"

record Cmd25BindingResponsePayload =
  c25_ErrorCode :: u8
  c25_ObjectNumber :: u64
  c25_ObjectNumberRaw :: "byte list"
  c25_ObjectName :: string
  c25_ControllerName :: string
  c25_AdminPhone :: string

definition Cmd25BindingResponsePayload_Build ::
  "Cmd25BindingResponsePayload \<Rightarrow> go_error + byte list" where
  "Cmd25BindingResponsePayload_Build p =
     (if c25_ObjectNumber p \<noteq> 0 \<and> length (c25_ObjectNumberRaw p) > 0
      then Inl (Errorf ''cmd 25: use either ObjectNumber or ObjectNumberRaw, not both'' [])
      else if length (c25_ObjectNumberRaw p) > 8
      then Inl (Errorf ''cmd 25: object number too long: %d'' [FNat (length (c25_ObjectNumberRaw p))])
      else
        res_bind (map_err (\<lambda>e. Errorf ''cmd 25: object name: %w'' [FErr e]) (fixedASCII (c25_ObjectName p) 128)) (\<lambda>name.
        res_bind (map_err (\<lambda>e. Errorf ''cmd 25: controller name: %w'' [FErr e]) (fixedASCII (c25_ControllerName p) 128)) (\<lambda>controller.
        res_bind (map_err (\<lambda>e. Errorf ''cmd 25: admin phone: %w'' [FErr e]) (fixedASCII (c25_AdminPhone p) 16)) (\<lambda>phone.
          let out = replicate 281 0;
              out = out[0 := c25_ErrorCode p];
              out = (if length (c25_ObjectNumberRaw p) > 0
                     then copy_slice 1 9 (c25_ObjectNumberRaw p) out
                     else PutUint64 1 (c25_ObjectNumber p) out);
              out = copy_slice 9 137 name out;
              out = copy_slice 137 265 controller out;
              out = copy_slice 265 281 phone out
          in validated 25 out))))"

definition BuildEmptyPayload :: "u8 \<Rightarrow> go_error + byte list" where
  "BuildEmptyPayload commandID =
     (if commandID \<in> set [9, 10, 17, 21, 22]
      then check_nil (ValidateServerCommandPayload commandID []) (Inr [])
      else Inl (Errorf ''command %d does not use empty payload builder'' [FByte commandID]))"
end
