(* ===== verification/Connection.thy ===== *)
theory Connection
  imports Delivery Connection_Guard Payload_Builders
begin

text \<open>
  The life of a connection (\<^verbatim>\<open>handleConn\<close> of \<^verbatim>\<open>internal/server/server.go\<close>): registration, the frames
  of a controller, and the end of the connection. What the controller sends is a \<open>reader\<close>: the bytes
  it will deliver and the error that ends them, which is \<open>ErrDeadlineExceeded\<close> when a read deadline
  passes. Deadlines themselves have no other effect. \<open>order\<close> gives the iteration order of the
  map of in-flight entries in a state. \<^verbatim>\<open>RemoteAddr()\<close> of an accepted connection is not nil.
\<close>

section \<open>Acknowledgements to the controller\<close>

definition buildRegistrationAckPayload :: "time \<Rightarrow> go_error + byte list" where
  "buildRegistrationAckPayload now =
     Cmd1RegistrationAckPayload_Build \<lparr>c1_ExecutionCode = AckCodeOK, c1_ServerTime = word_of_int (now div second)\<rparr>"

definition send_frame :: "net_conn \<Rightarrow> FrameMode \<Rightarrow> u8 \<Rightarrow> u8 \<Rightarrow> go_error + byte list \<Rightarrow> 's Server
    \<Rightarrow> (go_error + byte list \<times> byte list) \<times> 's Server" where
  "send_frame conn mode seq cmdID built sv = (case built of
     Inl err \<Rightarrow> (Inl err, sv)
   | Inr payload \<Rightarrow>
       (case EncodeFrame \<lparr>f_TTL = 255, f_Seq = seq, f_Payload = cmdID # payload, f_Mode = mode\<rparr> of
          Inl err \<Rightarrow> (Inl err, sv)
        | Inr frame \<Rightarrow>
            (case conn_Write conn frame sv of
               (Some err, sv) \<Rightarrow> (Inl err, sv)
             | (None, sv) \<Rightarrow> (Inr (frame, payload), sv))))"

definition sendRegistrationAck :: "net_conn \<Rightarrow> FrameMode \<Rightarrow> u8 \<Rightarrow> 's Server
    \<Rightarrow> (go_error + byte list \<times> byte list) \<times> 's Server" where
  "sendRegistrationAck conn mode seq sv =
     (let (now, sv) = Now sv
      in send_frame conn mode seq CmdRegistrationAck (buildRegistrationAckPayload now) sv)"

definition buildControllerAckPayload :: "u8 \<Rightarrow> u8 \<Rightarrow> go_error + byte list" where
  "buildControllerAckPayload seq code = Cmd24AckPayload_Build \<lparr>c24_CommandSeq = seq, c24_Code = code\<rparr>"

definition sendControllerAck :: "net_conn \<Rightarrow> FrameMode \<Rightarrow> u8 \<Rightarrow> u8 \<Rightarrow> 's Server
    \<Rightarrow> (go_error + byte list \<times> byte list) \<times> 's Server" where
  "sendControllerAck conn mode seq code sv =
     send_frame conn mode seq CmdControllerAck (buildControllerAckPayload seq code) sv"

definition remote_addr :: "net_conn \<Rightarrow> string" where
  "remote_addr conn = (case conn_RemoteAddr conn of Some a \<Rightarrow> a | None \<Rightarrow> [])"

text \<open>The debug records of an acknowledgement.\<close>

definition record_ack :: "string \<Rightarrow> net_conn \<Rightarrow> Frame \<Rightarrow> u8 \<Rightarrow> int \<Rightarrow> byte list \<Rightarrow> byte list \<Rightarrow> 's Server \<Rightarrow> 's Server" where
  "record_ack controllerID conn frame ackID payloadLen rawAck ackPayload sv =
     (let (t1, sv) = Now sv;
          (trace1, sv) = newIncomingTraceID controllerID ackID (f_Seq frame) sv;
          sv = recordDebugEvent \<lparr>de_Timestamp = t1, de_Kind = ''tx'', de_ControllerID = controllerID,
                 de_RemoteAddr = remote_addr conn, de_CommandID = ackID, de_CommandSeq = f_Seq frame,
                 de_MessageID = [], de_TraceID = trace1, de_Status = [], de_Reason = NoReason,
                 de_PayloadLen = payloadLen\<rparr> sv;
          (t2, sv) = Now sv;
          (trace2, sv) = newIncomingTraceID controllerID ackID (f_Seq frame) sv
      in recordRawMessage \<lparr>raw_Timestamp = t2, raw_Direction = ''tx'', raw_ControllerID = controllerID,
                 raw_RemoteAddr = remote_addr conn, raw_CommandID = ackID, raw_CommandSeq = f_Seq frame,
                 raw_FrameMode = f_Mode frame, raw_TTL = 255, raw_RawHex = EncodeToString rawAck,
                 raw_PayloadHex = EncodeToString (ackID # ackPayload), raw_PayloadLen = payloadLen,
                 raw_MessageID = [], raw_TraceID = trace2\<rparr> sv)"

section \<open>The variables of a connection\<close>

record conn_state =
  cs_registered :: bool
  cs_controllerID :: string
  cs_frameMode :: FrameMode
  cs_lastHeartbeat :: time
  cs_registrationDeadline :: time

definition violation :: "net_conn \<Rightarrow> 's Server \<Rightarrow> 's Server" where
  "violation conn sv = (let (now, sv) = Now sv in registerIPViolation (connRemoteHost conn) now sv)"

definition map_sessions :: "('s Manager \<Rightarrow> 's Manager) \<Rightarrow> 's Server \<Rightarrow> 's Server" where
  "map_sessions f sv = sv\<lparr>sv_sessions := f (sv_sessions sv)\<rparr>"

section \<open>Registration\<close>

text \<open>The result \<open>None\<close> of the handlers below stands for \<^verbatim>\<open>return\<close>: the connection is closed.\<close>

definition register_conn :: "'s Store \<Rightarrow> net_conn \<Rightarrow> u8 \<Rightarrow> Frame \<Rightarrow> conn_state \<Rightarrow> 's Server
    \<Rightarrow> conn_state option \<times> 's Server" where
  "register_conn ops conn cmdID frame cs sv =
     (if cmdID \<noteq> 1 then (None, violation conn sv)
      else case ParseRegistrationPayload (f_Payload frame) of
        Inl err \<Rightarrow> (None, violation conn sv)
      | Inr reg \<Rightarrow>
          let id' = reg_IMEI reg;
              (now, sv) = Now sv;
              (r, m) = Create ops id' conn now (sv_sessions sv);
              sv = sv\<lparr>sv_sessions := m\<rparr>
          in case r of
               Inl err \<Rightarrow> (None, sv)
             | Inr s \<Rightarrow>
                 let sv = map_sessions (SetFrameMode id' (f_Mode frame)) sv;
                     (r, sv) = sendRegistrationAck conn (f_Mode frame) (f_Seq frame) sv
                 in case r of
                      Inl err \<Rightarrow> (let (now, sv) = Now sv
                                  in (None, map_sessions (\<lambda>m. snd (MarkOffline ops id' now m)) sv))
                    | Inr (rawAck, ackPayload) \<Rightarrow>
                        let sv = record_ack id' conn frame CmdRegistrationAck 6 rawAck ackPayload sv;
                            (now, sv) = Now sv
                        in (Some (cs\<lparr>cs_registered := True, cs_controllerID := id', cs_frameMode := f_Mode frame,
                                     cs_lastHeartbeat := now\<rparr>), sv))"

section \<open>Frames of a registered controller\<close>

definition handle_status1 :: "'s Store \<Rightarrow> net_conn \<Rightarrow> Frame \<Rightarrow> conn_state \<Rightarrow> 's Server
    \<Rightarrow> bool \<times> conn_state \<times> 's Server" where
  "handle_status1 ops conn frame cs sv = (case ParseStatus1Payload (f_Payload frame) of
     Inl _ \<Rightarrow> (True, cs, sv)
   | Inr st \<Rightarrow>
       let (now, sv) = Now sv;
           cs = cs\<lparr>cs_lastHeartbeat := now\<rparr>;
           sv = map_sessions (UpdateBufferFree (cs_controllerID cs) (uint (st1_BufferFree st))) sv;
           (r, sv) = sendControllerAck conn (f_Mode frame) (f_Seq frame) AckCodeOK sv
       in case r of
            Inl err \<Rightarrow> (False, cs, sv)
          | Inr (rawAck, ackPayload) \<Rightarrow>
              let sv = record_ack (cs_controllerID cs) conn frame CmdControllerAck 3 rawAck ackPayload sv
              in if Status1ReadyForFW (st1_Flags st)
                 then let (err, m) = SetFWMode ops (cs_controllerID cs) True (sv_sessions sv)
                      in (err = None, cs, sv\<lparr>sv_sessions := m\<rparr>)
                 else (True, cs, sv))"

text \<open>The trace id of the frame and its source (\<^verbatim>\<open>traceID\<close>, \<^verbatim>\<open>traceSource\<close>) may become those of a command.\<close>

definition command_trace :: "string \<Rightarrow> string \<times> string \<Rightarrow> string \<times> string" where
  "command_trace traceID trace = (if traceID \<noteq> [] then (traceID, ''command'') else trace)"

definition handle_ack11 :: "'s Store \<Rightarrow> string \<Rightarrow> Frame \<Rightarrow> string \<times> string \<Rightarrow> 's Server
    \<Rightarrow> (string \<times> string) \<times> 's Server" where
  "handle_ack11 ops controllerID frame trace sv = (case ParseAck11Payload (f_Payload frame) of
     Inl _ \<Rightarrow> (trace, sv)
   | Inr ack \<Rightarrow>
       let sv = map_sessions (UpdateBufferFree controllerID (uint (a11_BufferFreeBytes ack))) sv;
           interp = InterpretAck11ExecutionCode (a11_ExecutionCode ack);
           seq = a11_CommandSeq ack
       in if as_Terminal interp
          then let (r, m) = AckInFlight ops controllerID seq (sv_sessions sv);
                   sv = sv\<lparr>sv_sessions := m\<rparr>
               in case r of
                    Some (cmd, attempts) \<Rightarrow>
                      (command_trace (cmd_TraceID cmd) trace,
                       publishAckWithCommand (ack_event controllerID cmd seq (as_Status interp)
                         (Sprintf ''%s; code=%d; attempts=%d''
                            [FStr (as_Reason interp), FByte (a11_ExecutionCode ack), FInt attempts])) cmd sv)
                  | None \<Rightarrow> (trace, sv)
          else let (msgID, ackTraceID, cmdID) =
                     (case PeekInFlight controllerID seq (sv_sessions sv) of
                        Some (cmd, _) \<Rightarrow> (cmd_MessageID cmd, cmd_TraceID cmd, cmd_CommandID cmd)
                      | None \<Rightarrow> (''inflight-'' @ controllerID @ ''-'' @ fmt_d (uint seq), [], 0))
               in (command_trace ackTraceID trace,
                   publishAck \<lparr>ae_MessageID = msgID, ae_TraceID = ackTraceID, ae_ControllerID = controllerID,
                     ae_CommandID = cmdID, ae_CommandSeq = seq, ae_Status = as_Status interp,
                     ae_Reason = Sprintf ''%s; code=%d'' [FStr (as_Reason interp), FByte (a11_ExecutionCode ack)]\<rparr> sv))"

definition handle_fw4 :: "'s Store \<Rightarrow> string \<Rightarrow> Frame \<Rightarrow> 's Server \<Rightarrow> bool \<times> 's Server" where
  "handle_fw4 ops controllerID frame sv = (case ParseFWStatus4Payload (f_Payload frame) of
     Inl _ \<Rightarrow> (True, sv)
   | Inr fw \<Rightarrow>
       if IsFWFinished (fw4_ProgressOrErr fw) \<or> IsFWFailed (fw4_ProgressOrErr fw)
       then let (err, m) = SetFWMode ops controllerID False (sv_sessions sv)
            in (err = None, sv\<lparr>sv_sessions := m\<rparr>)
       else (True, sv))"

definition dispatch_frame :: "'s Store \<Rightarrow> net_conn \<Rightarrow> u8 \<Rightarrow> Frame \<Rightarrow> string \<times> string \<Rightarrow> conn_state \<Rightarrow> 's Server
    \<Rightarrow> bool \<times> (string \<times> string) \<times> conn_state \<times> 's Server" where
  "dispatch_frame ops conn cmdID frame trace cs sv =
     (if cmdID = 2 then let (ok, cs, sv) = handle_status1 ops conn frame cs sv in (ok, trace, cs, sv)
      else if cmdID = 11
      then let (trace, sv) = handle_ack11 ops (cs_controllerID cs) frame trace sv in (True, trace, cs, sv)
      else if cmdID = 4
      then let (ok, sv) = handle_fw4 ops (cs_controllerID cs) frame sv in (ok, trace, cs, sv)
      else (True, trace, cs, sv))"

text \<open>A frame of the registered controller, from \<^verbatim>\<open>Touch\<close> to the flush of its queue.\<close>

definition serve_frame :: "'s Store \<Rightarrow> ('s Server \<Rightarrow> u8 list) \<Rightarrow> net_conn \<Rightarrow> u8 \<Rightarrow> Frame \<Rightarrow> conn_state \<Rightarrow> 's Server
    \<Rightarrow> bool \<times> conn_state \<times> 's Server" where
  "serve_frame ops order conn cmdID frame cs sv =
     (let (now, sv) = Now sv;
          sv = map_sessions (Touch ops (cs_controllerID cs) now) sv;
          (traceID, sv) = newIncomingTraceID (cs_controllerID cs) cmdID (f_Seq frame) sv;
          (ok, (traceID, traceSource), cs, sv) = dispatch_frame ops conn cmdID frame (traceID, ''rx'') cs sv
      in if \<not> ok then (False, cs, sv)
         else let (now, sv) = Now sv;
                  sv = recordDebugEvent \<lparr>de_Timestamp = now, de_Kind = ''rx'', de_ControllerID = cs_controllerID cs,
                         de_RemoteAddr = remote_addr conn, de_CommandID = cmdID, de_CommandSeq = f_Seq frame,
                         de_MessageID = [], de_TraceID = traceID, de_Status = [], de_Reason = NoReason,
                         de_PayloadLen = int (length (f_Payload frame))\<rparr> sv;
                  sv = publishTelemetry \<lparr>te_ControllerID = cs_controllerID cs, te_CommandID = cmdID,
                         te_TraceID = traceID, te_Payload = f_Payload frame\<rparr> traceSource sv;
                  sv = processInFlight ops (order sv) (cs_controllerID cs) sv;
                  (err, sv) = flushQueue ops (cs_controllerID cs) sv
              in (err = None, cs, sv))"

definition handle_frame :: "'s Store \<Rightarrow> ('s Server \<Rightarrow> u8 list) \<Rightarrow> net_conn \<Rightarrow> Frame \<Rightarrow> conn_state \<Rightarrow> 's Server
    \<Rightarrow> bool \<times> conn_state \<times> 's Server" where
  "handle_frame ops order conn frame cs sv = (case CommandID frame of
     (_, False) \<Rightarrow> (False, cs, if cs_registered cs then sv else violation conn sv)
   | (cmdID, True) \<Rightarrow>
       let (now, sv) = Now sv;
           sv = recordRawMessage \<lparr>raw_Timestamp = now, raw_Direction = ''rx'', raw_ControllerID = cs_controllerID cs,
                  raw_RemoteAddr = remote_addr conn, raw_CommandID = cmdID, raw_CommandSeq = f_Seq frame,
                  raw_FrameMode = f_Mode frame, raw_TTL = f_TTL frame, raw_RawHex = encodeFrameHex frame,
                  raw_PayloadHex = EncodeToString (f_Payload frame),
                  raw_PayloadLen = int (length (f_Payload frame)), raw_MessageID = [], raw_TraceID = []\<rparr> sv
       in if cs_registered cs then serve_frame ops order conn cmdID frame cs sv
          else case register_conn ops conn cmdID frame cs sv of
                 (None, sv) \<Rightarrow> (False, cs, sv)
               | (Some cs, sv) \<Rightarrow> serve_frame ops order conn cmdID frame cs sv)"

section \<open>The loop of a connection\<close>

definition ErrDeadlineExceeded :: go_error where
  "ErrDeadlineExceeded = ErrorsNew ''i/o timeout''"

definition isTimeout :: "go_error \<Rightarrow> bool" where
  "isTimeout err \<longleftrightarrow> err = ErrDeadlineExceeded"

text \<open>
  The checks before a read: \<open>True\<close> when the loop goes on to read. The heartbeat is checked twice, at
  two readings of the clock.
\<close>

definition heartbeat_checks :: "conn_state \<Rightarrow> 's Server \<Rightarrow> bool \<times> 's Server" where
  "heartbeat_checks cs sv =
     (let timeout = cfg_HeartbeatTimeout (sv_cfg sv)
      in if cs_registered cs \<and> timeout > 0
         then let (now, sv) = Now sv
              in if time_sub now (cs_lastHeartbeat cs) > timeout then (False, sv)
                 else let (now, sv) = Now sv
                      in (\<not> time_sub (cs_lastHeartbeat cs + timeout) now \<le> 0, sv)
         else (True, sv))"

definition before_read :: "net_conn \<Rightarrow> conn_state \<Rightarrow> 's Server \<Rightarrow> bool \<times> 's Server" where
  "before_read conn cs sv =
     (if \<not> cs_registered cs
      then let (now, sv) = Now sv
           in if now > cs_registrationDeadline cs then (False, violation conn sv)
              else heartbeat_checks cs sv
      else heartbeat_checks cs sv)"

definition conn_turn :: "'s Store \<Rightarrow> ('s Server \<Rightarrow> u8 list) \<Rightarrow> net_conn \<Rightarrow> conn_state \<Rightarrow> reader \<Rightarrow> 's Server
    \<Rightarrow> bool \<times> conn_state \<times> reader \<times> 's Server" where
  "conn_turn ops order conn cs rd sv =
     (let (ok, sv) = before_read conn cs sv
      in if \<not> ok then (False, cs, rd, sv)
         else case ReadFrameWithMode rd (cs_frameMode cs) of
                (Inl err, rd) \<Rightarrow>
                  (False, cs, rd, if isTimeout err then sv else if \<not> cs_registered cs then violation conn sv else sv)
              | (Inr frame, rd) \<Rightarrow>
                  let (ok, cs, sv) = handle_frame ops order conn frame cs sv in (ok, cs, rd, sv))"

lemma ReadFull_shrinks: "length (rd_buf (snd (ReadFull r n))) \<le> length (rd_buf r) - n"
  by (simp add: ReadFull_def)

lemma ReadFrameWithMode_shrinks:
  assumes "ReadFrameWithMode r mode = (Inr f, r')"
  shows "length (rd_buf r') + 9 \<le> length (rd_buf r)"
proof -
  have full: "ReadFull r n = (Inr b, r') \<Longrightarrow> length (rd_buf r') + n = length (rd_buf r)" for r n b r'
    by (auto simp: ReadFull_def split: if_splits)
  show ?thesis
    using assms by (auto simp: ReadFrameWithMode_def Let_def split: prod.splits sum.splits if_splits dest!: full)
qed

lemma conn_turn_shrinks:
  "conn_turn ops order conn cs rd sv = (True, cs', rd', sv') \<Longrightarrow> length (rd_buf rd') + 9 \<le> length (rd_buf rd)"
  by (auto simp: conn_turn_def Let_def split: prod.splits sum.splits if_splits dest!: ReadFrameWithMode_shrinks)

function conn_loop :: "'s Store \<Rightarrow> ('s Server \<Rightarrow> u8 list) \<Rightarrow> net_conn \<Rightarrow> conn_state \<Rightarrow> reader \<Rightarrow> 's Server
    \<Rightarrow> conn_state \<times> 's Server" where
  "conn_loop ops order conn cs rd sv = (case conn_turn ops order conn cs rd sv of
     (True, cs, rd, sv) \<Rightarrow> conn_loop ops order conn cs rd sv
   | (False, cs, rd, sv) \<Rightarrow> (cs, sv))"
  by pat_completeness auto
termination
  by (relation "measure (\<lambda>(ops, order, conn, cs, rd, sv). length (rd_buf rd))")
    (auto dest!: sym [THEN conn_turn_shrinks])

declare conn_loop.simps [simp del]

definition close_conn :: "'s Store \<Rightarrow> net_conn \<Rightarrow> conn_state \<Rightarrow> 's Server \<Rightarrow> 's Server" where
  "close_conn ops conn cs sv =
     (let sv = (if cs_registered cs \<and> cs_controllerID cs \<noteq> []
                then let (now, sv) = Now sv
                     in map_sessions (\<lambda>m. snd (MarkOffline ops (cs_controllerID cs) now m)) sv
                else sv)
      in release_conn conn sv)"

definition handleConn :: "'s Store \<Rightarrow> ('s Server \<Rightarrow> u8 list) \<Rightarrow> net_conn \<Rightarrow> reader \<Rightarrow> 's Server \<Rightarrow> 's Server" where
  "handleConn ops order conn rd sv =
     (let (t0, sv) = Now sv;
          (t1, sv) = Now sv;
          cs = \<lparr>cs_registered = False, cs_controllerID = [], cs_frameMode = FrameModeAuto, cs_lastHeartbeat = t0,
                cs_registrationDeadline = t1 + cfg_RegistrationWindow (sv_cfg sv)\<rparr>;
          (cs, sv) = conn_loop ops order conn cs rd sv
      in close_conn ops conn cs sv)"

end
