(* ===== verification/Server_Laws.thy ===== *)
theory Server_Laws
  imports Connection "HOL-Library.Sublist"
begin

text \<open>
  Laws of the server as a whole. Every operation of the server changes the sessions only through
  steps of the session manager, so that the invariants of the manager hold in every state the
  server reaches (\<open>server_reach\<close>); the tables of connections change only when a connection is accepted
  or closed; what was published and written is never taken back.
\<close>

section \<open>Operations that serve sessions\<close>

text \<open>The counters of the dashboard count the published events.\<close>

definition counted :: "'s Server \<Rightarrow> bool" where
  "counted sv \<longleftrightarrow> (\<forall>st. stat (sv_ackStats sv) st = of_nat (length (filter (\<lambda>e. ae_Status e = st) (sv_acks sv))))
     \<and> sum_list (map snd (sv_telemetryStats sv)) = of_nat (length (sv_telemetry sv))"

lemma stat_incr: "stat (incr k m) k' = stat m k' + (if k' = k then 1 else 0 :: u64)"
  by (simp add: stat_def incr_def update_conv')

lemma sum_incr: "sum_list (map snd (incr k m)) = sum_list (map snd m) + (1 :: u64)"
  by (induction m) (auto simp: incr_def)

lemma counted_cong:
  "sv_ackStats sv' = sv_ackStats sv \<Longrightarrow> sv_acks sv' = sv_acks sv \<Longrightarrow> sv_telemetryStats sv' = sv_telemetryStats sv
    \<Longrightarrow> sv_telemetry sv' = sv_telemetry sv \<Longrightarrow> counted sv' = counted sv"
  by (simp add: counted_def)

lemma counted_sessions [simp]: "counted (sv\<lparr>sv_sessions := m\<rparr>) = counted sv"
  by (simp add: counted_def)

definition serves :: "'s Store \<Rightarrow> 's Server \<Rightarrow> 's Server \<Rightarrow> bool" where
  "serves ops sv sv' \<longleftrightarrow> (mgr_step ops)\<^sup>*\<^sup>* (sv_sessions sv) (sv_sessions sv')
     \<and> sv_cfg sv' = sv_cfg sv \<and> sv_conns sv' = sv_conns sv \<and> sv_ipConnCount sv' = sv_ipConnCount sv
     \<and> sv_active sv' = sv_active sv \<and> sv_ready sv' = sv_ready sv \<and> sv_shuttingDown sv' = sv_shuttingDown sv
     \<and> (counted sv \<longrightarrow> counted sv') \<and> prefix (sv_acks sv) (sv_acks sv')
     \<and> prefix (sv_telemetry sv) (sv_telemetry sv') \<and> prefix (sv_wire sv) (sv_wire sv')
     \<and> (length (sv_debugEvents sv) \<le> maxDebugEvents \<longrightarrow> length (sv_debugEvents sv') \<le> maxDebugEvents)
     \<and> (length (sv_rawMessages sv) \<le> maxRawDebugMessages \<longrightarrow> length (sv_rawMessages sv') \<le> maxRawDebugMessages)"

lemma serves_refl [simp, intro]: "serves ops sv sv"
  by (simp add: serves_def)

lemma serves_trans: "serves ops a b \<Longrightarrow> serves ops b c \<Longrightarrow> serves ops a c"
  by (auto simp: serves_def intro: rtranclp_trans prefix_order.trans)

lemma serves_basic:
  "serves ops sv (snd (Now sv))" "serves ops sv (recordDebugEvent e sv)" "serves ops sv (recordRawMessage r sv)"
  "serves ops sv (snd (conn_Write c b sv))" "serves ops sv (recordOverflowMetric ov sv)"
  "serves ops sv (observeAckLatency st cmd sv)" "serves ops sv (registerIPViolation h now sv)"
  by (simp_all add: serves_def Now_def recordDebugEvent_def recordRawMessage_def conn_Write_def recordOverflowMetric_def
      observeAckLatency_def registerIPViolation_def maxDebugEvents_def maxRawDebugMessages_def counted_def Let_def
      split: option.split)

lemma serves_publish:
  "serves ops sv (publishAck a sv)" "serves ops sv (publishTelemetry t src sv)"
  by (simp_all add: serves_def publishAck_def publishTelemetry_def PublishAck_def PublishTelemetry_def Now_def
      recordDebugEvent_def maxDebugEvents_def counted_def stat_incr sum_incr Let_def)

text \<open>The rules extend a run by one more operation, so that a composed operation is followed from its end.\<close>

named_theorems serves_intros

lemmas serves_basic_intros [serves_intros] = serves_basic [THEN serves_trans [rotated]] serves_publish [THEN serves_trans [rotated]]

lemma serves_sessions [serves_intros]:
  "serves ops sv0 sv \<Longrightarrow> (mgr_step ops)\<^sup>*\<^sup>* (sv_sessions sv) m \<Longrightarrow> serves ops sv0 (sv\<lparr>sv_sessions := m\<rparr>)"
  by (auto simp: serves_def)

lemma serves_if [serves_intros]:
  "serves ops sv0 a \<Longrightarrow> serves ops sv0 b \<Longrightarrow> serves ops sv0 (if c then a else b)"
  by simp

lemma serves_publishAckWithCommand [serves_intros]:
  "serves ops sv0 sv \<Longrightarrow> serves ops sv0 (publishAckWithCommand e cmd sv)"
  unfolding publishAckWithCommand_def by (intro serves_intros)

lemma serves_newIncomingTraceID [serves_intros]:
  "serves ops sv0 sv \<Longrightarrow> serves ops sv0 (snd (newIncomingTraceID k c s sv))"
  unfolding newIncomingTraceID_def Let_def split_beta snd_conv by (intro serves_intros)

lemma serves_fold:
  "serves ops sv0 sv \<Longrightarrow> (\<And>x sv. serves ops sv0 sv \<Longrightarrow> serves ops sv0 (f x sv)) \<Longrightarrow> serves ops sv0 (fold f xs sv)"
  by (induction xs arbitrary: sv) auto

section \<open>Delivery\<close>

lemmas mgr_step1 = r_into_rtranclp [of "mgr_step ops" for ops]

lemma serves_set_queue:
  assumes "serves ops sv0 sv" "\<And>s. map_of (m_sessions (sv_sessions sv)) k = Some s \<Longrightarrow>
    (mgr_step ops)\<^sup>*\<^sup>* (sv_sessions sv) (put_session (s\<lparr>ses_Queue := q\<rparr>) (sv_sessions sv))"
  shows "serves ops sv0 (set_queue k q sv)"
  using assms by (auto simp: set_queue_def intro: serves_sessions split: option.splits)

lemma serves_pop [serves_intros]:
  "serves ops sv0 sv \<Longrightarrow> serves ops sv0 (set_queue k (snd (PopNext (queue_of k sv) t fw sync)) sv)"
  by (rule serves_set_queue) (auto simp: queue_of_def intro: mgr_step1 mgr_step.queue_pop)

lemma serves_drain [serves_intros]:
  "serves ops sv0 sv \<Longrightarrow> serves ops sv0 (set_queue k (snd (DrainExpired (queue_of k sv) t)) sv)"
  by (rule serves_set_queue) (auto simp: queue_of_def intro: mgr_step1 mgr_step.queue_drain)

lemma serves_push_all [serves_intros]: "serves ops sv0 sv \<Longrightarrow> serves ops sv0 (push_all k cs sv)"
  unfolding push_all_def
  by (rule serves_set_queue) (auto simp: queue_of_def intro: mgr_step1 mgr_step.queue_push)

lemma serves_report [serves_intros]: "serves ops sv0 (fl_sv fl) \<Longrightarrow> serves ops sv0 (fl_sv (report k cmd seq st r fl))"
  by (simp add: report_def serves_intros)

lemma serves_restore_skipped [serves_intros]:
  "serves ops sv0 (fl_sv fl) \<Longrightarrow> serves ops sv0 (fl_sv (restore_skipped k fl))"
  by (simp add: restore_skipped_def serves_intros)

lemma serves_record_sent [serves_intros]:
  "serves ops sv0 sv \<Longrightarrow> serves ops sv0 (record_sent k d c cmd seq p f sv)"
  unfolding record_sent_def Let_def split_beta by (intro serves_intros)

lemma serves_on_sessions:
  "serves ops sv0 (fl_sv fl) \<Longrightarrow> (\<And>m. mgr_step ops m (snd (f m))) \<Longrightarrow> serves ops sv0 (fl_sv (snd (on_sessions f fl)))"
  by (auto simp: on_sessions_def split_beta intro: serves_sessions mgr_step1)

lemma serves_calls [serves_intros]:
  assumes "serves ops sv0 (fl_sv fl)"
  shows "serves ops sv0 (fl_sv (snd (on_sessions (NextCommandSeq ops k) fl)))"
    "serves ops sv0 (fl_sv (snd (on_sessions (RegisterInFlight ops k seq cmd t) fl)))"
    "serves ops sv0 (fl_sv (snd (on_sessions (SetSyncMode ops k b) fl)))"
    "serves ops sv0 (fl_sv (snd (on_sessions (SetFWMode ops k b) fl)))"
    "serves ops sv0 (fl_sv (snd (on_sessions (AckSent ops k) fl)))"
  by (rule serves_on_sessions [OF assms], rule mgr_step.intros)+

lemma serves_flush [serves_intros]:
  "serves ops sv0 sv \<Longrightarrow> serves ops sv0 (fl_sv (fl\<lparr>fl_sv := sv\<rparr>))"
  "serves ops sv0 (fl_sv fl) \<Longrightarrow> serves ops sv0 (fl_sv (fl\<lparr>fl_remaining := n\<rparr>))"
  "serves ops sv0 (fl_sv fl) \<Longrightarrow> serves ops sv0 (fl_sv (fl\<lparr>fl_skipped := cs\<rparr>))"
  "serves ops sv0 (fl_sv fl) \<Longrightarrow> serves ops sv0 (fl_sv (snd (r, fl)))"
  by simp_all

lemma serves_modes:
  assumes "serves ops sv0 (fl_sv fl)"
  shows "serves ops sv0 (fl_sv (snd (if b then let (err, fl') = on_sessions (SetSyncMode ops k v) fl
        in (err, if err = None then fl'\<lparr>fl_SyncMode := v'\<rparr> else fl') else (None, fl))))"
    "serves ops sv0 (fl_sv (snd (if b then let (err, fl') = on_sessions (SetFWMode ops k v) fl
        in (err, if err = None then fl'\<lparr>fl_FWMode := v'\<rparr> else fl') else (None, fl))))"
  using serves_calls(3,4) [OF assms, of k v] assms by (auto simp: split_beta)

lemma serves_if_err [serves_intros]:
  assumes "serves ops sv0 (fl_sv (snd call))"
    "\<And>err fl. serves ops sv0 (fl_sv fl) \<Longrightarrow> serves ops sv0 (fl_sv (snd (fail err fl)))"
    "\<And>fl. serves ops sv0 (fl_sv fl) \<Longrightarrow> serves ops sv0 (fl_sv (snd (rest fl)))"
  shows "serves ops sv0 (fl_sv (snd (if_err call fail rest)))"
  using assms by (cases call; cases "fst call") (auto simp: if_err_def)

lemmas serves_modes_intros [serves_intros] = serves_modes [unfolded split_beta Let_def]

lemma serves_after_write [serves_intros]:
  "serves ops sv0 (fl_sv fl) \<Longrightarrow> serves ops sv0 (fl_sv (snd (after_write ops k d c cmd seq p f fl)))"
  unfolding after_write_def Let_def split_beta snd_conv by (intro serves_intros; assumption?)

lemma serves_send_command [serves_intros]:
  assumes "serves ops sv0 (fl_sv fl)"
  shows "serves ops sv0 (fl_sv (snd (send_command ops k d c cmd fl)))"
  using assms unfolding send_command_def Let_def split_beta
  by (auto split: option.split sum.split intro!: serves_intros)

lemma serves_scan_queue [serves_intros]:
  "serves ops sv0 (fl_sv fl) \<Longrightarrow> serves ops sv0 (fl_sv (snd (scan_queue ops k d c n fl)))"
proof (induction n arbitrary: fl)
  case (Suc n)
  obtain t sv1 where t: "Now (fl_sv fl) = (t, sv1)" by (rule prod.exhaust)
  obtain r q where pop: "PopNext (queue_of k sv1) t (fl_FWMode fl) (fl_SyncMode fl) = (r, q)" by (rule prod.exhaust)
  obtain t' sv2 where t': "Now (set_queue k q sv1) = (t', sv2)" by (rule prod.exhaust)
  let ?fl2 = "fl\<lparr>fl_sv := sv2\<rparr>"
  have "serves ops sv0 sv1" using serves_basic_intros(1) [OF Suc.prems] t by simp
  from serves_pop [OF this, of k t "fl_FWMode fl" "fl_SyncMode fl"] pop
  have sv1: "serves ops sv0 (set_queue k q sv1)" by simp
  then have sv2: "serves ops sv0 sv2" using serves_basic_intros(1) [OF sv1] t' by simp
  show ?case
  proof (cases r)
    case None
    with sv1 show ?thesis by (simp add: t pop)
  next
    case (Some cmd)
    obtain res fl3 where send: "send_command ops k d c cmd ?fl2 = (res, fl3)" by (rule prod.exhaust)
    have "serves ops sv0 (fl_sv fl3)" using serves_send_command [of ops sv0 ?fl2 k d c cmd] sv2 send by simp
    with sv2 Some send show ?thesis
      by (cases res) (auto simp: t t' pop Let_def intro!: Suc.IH serves_intros)
  qed
qed simp

lemma serves_drain_expired [serves_intros]: "serves ops sv0 sv \<Longrightarrow> serves ops sv0 (drain_expired k sv)"
  unfolding drain_expired_def Let_def split_beta
  by (rule serves_fold) (assumption | rule serves_intros)+

lemma serves_leave_modes [serves_intros]:
  "serves ops sv0 (fl_sv fl) \<Longrightarrow> serves ops sv0 (fl_sv (snd (leave_modes ops k fl)))"
  unfolding leave_modes_def Let_def split_beta by (intro serves_intros; assumption?)

lemma serves_finish_turn [serves_intros]:
  assumes "serves ops sv0 (fl_sv fl)"
  shows "serves ops sv0 (fl_sv (snd (finish_turn ops k r fl)))"
proof (cases r)
  case Sent
  have "serves ops sv0 (fl_sv (snd (leave_modes ops k (restore_skipped k fl))))" using assms by (intro serves_intros)
  with Sent show ?thesis by (auto simp: finish_turn_def split: prod.split option.split)
qed (use assms in \<open>auto simp: finish_turn_def intro: serves_intros\<close>)

lemma serves_flush_turn [serves_intros]:
  assumes "serves ops sv0 (fl_sv fl)"
  shows "serves ops sv0 (fl_sv (snd (flush_turn ops k d c fl)))"
  using assms unfolding flush_turn_def Let_def split_beta by (auto intro!: serves_intros)

lemma serves_flush_loop [serves_intros]:
  "serves ops sv0 (fl_sv fl) \<Longrightarrow> serves ops sv0 (fl_sv (snd (flush_loop ops k d c fl)))"
proof (induction ops k d c fl rule: flush_loop.induct)
  case (1 ops k d c fl)
  have "serves ops sv0 (fl_sv (snd (flush_turn ops k d c fl)))" using 1(2) by (intro serves_intros)
  with 1 show ?case
    by (subst flush_loop.simps) (auto split: prod.split sum.split)
qed

lemma serves_flushQueue [serves_intros]:
  "serves ops sv0 sv \<Longrightarrow> serves ops sv0 (snd (flushQueue ops k sv))"
  unfolding flushQueue_def Let_def split_beta
  by (auto split: option.split intro!: serves_flush_loop)

lemma serves_publish_outcome [serves_intros]:
  "serves ops sv0 sv \<Longrightarrow> serves ops sv0 (publish_outcome k out sv)"
  unfolding publish_outcome_def Let_def by (auto intro: serves_intros)

lemma serves_processInFlight [serves_intros]:
  assumes "serves ops sv0 sv"
  shows "serves ops sv0 (processInFlight ops order k sv)"
proof -
  obtain now sv1 where n: "Now sv = (now, sv1)" by (rule prod.exhaust)
  obtain outs err m where p: "ProcessInFlight ops order k now (Some (deliveryPolicyForCommand (sv_cfg sv1))) (sv_sessions sv1)
      = (outs, err, m)" by (rule prod_cases3)
  have "serves ops sv0 sv1" using serves_basic_intros(1) [OF assms] n by simp
  moreover have "mgr_step ops (sv_sessions sv1) m"
    using mgr_step.process [of ops "sv_sessions sv1" order k now "Some (deliveryPolicyForCommand (sv_cfg sv1))"] p by simp
  ultimately have "serves ops sv0 (sv1\<lparr>sv_sessions := m\<rparr>)" by (intro serves_sessions mgr_step1)
  with n p show ?thesis
    by (auto simp: processInFlight_def Let_def split: option.split intro!: serves_fold serves_publish_outcome)
qed

lemma serves_sweep [serves_intros]: "serves ops sv0 sv \<Longrightarrow> serves ops sv0 (sweep ops ids sv)"
  unfolding sweep_def split_beta by (rule serves_fold) (assumption | rule serves_intros)+

lemma serves_EnqueueCommand [serves_intros]:
  assumes "serves ops sv0 sv"
  shows "serves ops sv0 (snd (EnqueueCommand ops k cmd sv))"
proof -
  have step: "(mgr_step ops)\<^sup>*\<^sup>* m (snd (snd (EnqueueWithEvents ops t0 t1 t2 k cmd' m)))" for t0 t1 t2 cmd' m
    by (rule mgr_step1) (rule mgr_step.enqueue)
  show ?thesis
    using assms unfolding EnqueueCommand_def Let_def split_beta
    by (auto split: sum.split intro!: serves_intros serves_fold step)
qed

section \<open>Connections\<close>

lemma serves_violation [serves_intros]: "serves ops sv0 sv \<Longrightarrow> serves ops sv0 (violation conn sv)"
  unfolding violation_def Let_def split_beta by (intro serves_intros)

lemma serves_send_frame [serves_intros]:
  assumes "serves ops sv0 sv"
  shows "serves ops sv0 (snd (send_frame conn mode seq c built sv))"
proof -
  have "conn_Write conn b sv = (r, sv') \<Longrightarrow> serves ops sv0 sv'" for b r sv'
    using serves_basic_intros(4) [OF assms, of conn b] by simp
  with assms show ?thesis by (auto simp: send_frame_def split: sum.split prod.split option.split)
qed

lemma serves_acks [serves_intros]:
  "serves ops sv0 sv \<Longrightarrow> serves ops sv0 (snd (sendRegistrationAck conn mode seq sv))"
  "serves ops sv0 sv \<Longrightarrow> serves ops sv0 (snd (sendControllerAck conn mode seq code sv))"
  unfolding sendRegistrationAck_def sendControllerAck_def Let_def split_beta by (assumption | rule serves_intros)+

lemma serves_record_ack [serves_intros]:
  "serves ops sv0 sv \<Longrightarrow> serves ops sv0 (record_ack k conn frame c n raw p sv)"
  unfolding record_ack_def Let_def split_beta by (intro serves_intros)

lemma serves_map_sessions:
  "serves ops sv0 sv \<Longrightarrow> (\<And>m. mgr_step ops m (f m)) \<Longrightarrow> serves ops sv0 (map_sessions f sv)"
  unfolding map_sessions_def by (auto intro: serves_sessions mgr_step1)

lemma serves_methods [serves_intros]:
  assumes "serves ops sv0 sv"
  shows "serves ops sv0 (map_sessions (SetFrameMode k f) sv)" "serves ops sv0 (map_sessions (Touch ops k t) sv)"
    "serves ops sv0 (map_sessions (UpdateBufferFree k n) sv)"
    "serves ops sv0 (map_sessions (\<lambda>m. snd (MarkOffline ops k t m)) sv)"
  by (rule serves_map_sessions [OF assms], rule mgr_step.intros)+

lemma method_steps [serves_intros]:
  "(mgr_step ops)\<^sup>*\<^sup>* m (snd (Create ops k c t m))" "(mgr_step ops)\<^sup>*\<^sup>* m (snd (SetFWMode ops k b m))"
  "(mgr_step ops)\<^sup>*\<^sup>* m (snd (AckInFlight ops k seq m))"
  by (rule mgr_step1, rule mgr_step.intros)+

lemma serves_register_conn [serves_intros]:
  "serves ops sv0 sv \<Longrightarrow> serves ops sv0 (snd (register_conn ops conn c frame cs sv))"
  unfolding register_conn_def Let_def split_beta
  by (auto split: sum.split intro!: serves_intros)

lemma serves_handle_status1 [serves_intros]:
  "serves ops sv0 sv \<Longrightarrow> serves ops sv0 (snd (snd (handle_status1 ops conn frame cs sv)))"
  unfolding handle_status1_def Let_def split_beta
  by (auto split: sum.split intro!: serves_intros)

lemma serves_handle_ack11 [serves_intros]:
  "serves ops sv0 sv \<Longrightarrow> serves ops sv0 (snd (handle_ack11 ops k frame trace sv))"
  unfolding handle_ack11_def Let_def split_beta
  by (auto split: sum.split option.split intro!: serves_intros)

lemma serves_handle_fw4 [serves_intros]:
  "serves ops sv0 sv \<Longrightarrow> serves ops sv0 (snd (handle_fw4 ops k frame sv))"
  unfolding handle_fw4_def Let_def split_beta
  by (auto split: sum.split intro!: serves_intros)

lemma serves_dispatch_frame [serves_intros]:
  "serves ops sv0 sv \<Longrightarrow> serves ops sv0 (snd (snd (snd (dispatch_frame ops conn c frame trace cs sv))))"
  unfolding dispatch_frame_def Let_def split_beta by (auto intro!: serves_intros)

lemma serves_serve_frame [serves_intros]:
  "serves ops sv0 sv \<Longrightarrow> serves ops sv0 (snd (snd (serve_frame ops order conn c frame cs sv)))"
  unfolding serve_frame_def Let_def split_beta by (auto intro!: serves_intros)

lemma serves_handle_frame [serves_intros]:
  assumes "serves ops sv0 sv"
  shows "serves ops sv0 (snd (snd (handle_frame ops order conn frame cs sv)))"
  using assms unfolding handle_frame_def Let_def split_beta
  by (auto split: prod.split bool.split option.split intro!: serves_intros)

lemma serves_heartbeat_checks [serves_intros]:
  "serves ops sv0 sv \<Longrightarrow> serves ops sv0 (snd (heartbeat_checks cs sv))"
  unfolding heartbeat_checks_def Let_def split_beta by (auto intro!: serves_intros)

lemma serves_before_read [serves_intros]:
  "serves ops sv0 sv \<Longrightarrow> serves ops sv0 (snd (before_read conn cs sv))"
  unfolding before_read_def Let_def split_beta by (auto intro!: serves_intros)

lemma serves_conn_turn [serves_intros]:
  "serves ops sv0 sv \<Longrightarrow> serves ops sv0 (snd (snd (snd (conn_turn ops order conn cs rd sv))))"
  unfolding conn_turn_def Let_def split_beta
  by (auto split: sum.split intro!: serves_intros)

lemma serves_conn_loop [serves_intros]:
  "serves ops sv0 sv \<Longrightarrow> serves ops sv0 (snd (conn_loop ops order conn cs rd sv))"
proof (induction ops order conn cs rd sv rule: conn_loop.induct)
  case (1 ops order conn cs rd sv)
  obtain go cs1 rd1 sv1 where turn: "conn_turn ops order conn cs rd sv = (go, cs1, rd1, sv1)" by (rule prod_cases4)
  have "serves ops sv0 sv1" using serves_conn_turn [OF 1(2), of order conn cs rd] turn by simp
  with 1 turn show ?case by (subst conn_loop.simps) (auto split: bool.split)
qed

section \<open>The server as a transition system\<close>

text \<open>
  The steps of the server: a new connection, one turn of the loop of a connection (with whatever
  variables and input), its end, a command from outside, a tick of the sweeper. The sessions may
  come from a restart.
\<close>

inductive server_step :: "'s Store \<Rightarrow> ('s Server \<Rightarrow> u8 list) \<Rightarrow> 's Server \<Rightarrow> 's Server \<Rightarrow> bool" for ops order where
  accept: "conn \<notin> set (sv_conns sv) \<Longrightarrow> server_step ops order sv (snd (accept_conn conn sv))"
| turn: "conn \<in> set (sv_conns sv) \<Longrightarrow>
    server_step ops order sv (snd (snd (snd (conn_turn ops order conn cs rd sv))))"
| close: "conn \<in> set (sv_conns sv) \<Longrightarrow> server_step ops order sv (close_conn ops conn cs sv)"
| enqueue: "server_step ops order sv (snd (EnqueueCommand ops k cmd sv))"
| sweep: "server_step ops order sv (sweep ops ids sv)"

inductive server_reach :: "'s Store \<Rightarrow> ('s Server \<Rightarrow> u8 list) \<Rightarrow> 's Server \<Rightarrow> bool" for ops order where
  init: "mgr_reach ops m \<Longrightarrow> server_reach ops order (New cfg m clock writes uc)"
| step: "server_reach ops order sv \<Longrightarrow> server_step ops order sv sv' \<Longrightarrow> server_reach ops order sv'"

definition server_ok :: "'s Store \<Rightarrow> 's Server \<Rightarrow> bool" where
  "server_ok ops sv \<longleftrightarrow> mgr_reach ops (sv_sessions sv) \<and> within_conn_limits sv
     \<and> length (sv_debugEvents sv) \<le> maxDebugEvents \<and> length (sv_rawMessages sv) \<le> maxRawDebugMessages"

lemma mgr_reach_steps: "(mgr_step ops)\<^sup>*\<^sup>* m m' \<Longrightarrow> mgr_reach ops m \<Longrightarrow> mgr_reach ops m'"
  by (induction rule: rtranclp_induct) (auto intro: mgr_reach.step)

lemma server_ok_serves: "serves ops sv sv' \<Longrightarrow> server_ok ops sv \<Longrightarrow> server_ok ops sv'"
  using within_conn_limits_cong [of sv' sv] mgr_reach_steps [of ops "sv_sessions sv" "sv_sessions sv'"]
  by (simp add: serves_def server_ok_def)

lemma accept_conn_frame:
  "sv_sessions (snd (accept_conn conn sv)) = sv_sessions sv"
  "sv_debugEvents (snd (accept_conn conn sv)) = sv_debugEvents sv"
  "sv_rawMessages (snd (accept_conn conn sv)) = sv_rawMessages sv"
  "sv_ready (snd (accept_conn conn sv)) = sv_ready sv" "sv_shuttingDown (snd (accept_conn conn sv)) = sv_shuttingDown sv"
  "counted (snd (accept_conn conn sv)) = counted sv"
  by (simp_all add: counted_def accept_conn_def Now_def isIPBlocked_def tryTrackConn_def Let_def split_beta split: option.split)

lemma release_conn_frame:
  "sv_sessions (release_conn conn sv) = sv_sessions sv" "sv_debugEvents (release_conn conn sv) = sv_debugEvents sv"
  "sv_rawMessages (release_conn conn sv) = sv_rawMessages sv" "sv_ready (release_conn conn sv) = sv_ready sv"
  "sv_shuttingDown (release_conn conn sv) = sv_shuttingDown sv" "counted (release_conn conn sv) = counted sv"
  by (simp_all add: counted_def release_conn_def untrackConn_def Let_def split: option.split)

lemma close_conn_eq:
  obtains sv1 where "serves ops sv sv1" "close_conn ops conn cs sv = release_conn conn sv1"
proof -
  define sv1 where "sv1 = (if cs_registered cs \<and> cs_controllerID cs \<noteq> []
      then map_sessions (\<lambda>m. snd (MarkOffline ops (cs_controllerID cs) (fst (Now sv)) m)) (snd (Now sv)) else sv)"
  have "serves ops sv sv1" unfolding sv1_def by (auto intro!: serves_intros)
  moreover have "close_conn ops conn cs sv = release_conn conn sv1"
    by (simp add: close_conn_def sv1_def split_beta Let_def)
  ultimately show thesis by (rule that)
qed

lemma server_ok_close:
  assumes "server_ok ops sv" "conn \<in> set (sv_conns sv)"
  shows "server_ok ops (close_conn ops conn cs sv)"
proof -
  obtain sv1 where s: "serves ops sv sv1" "close_conn ops conn cs sv = release_conn conn sv1" by (rule close_conn_eq)
  then have "sv_conns sv1 = sv_conns sv" by (simp add: serves_def)
  moreover have "server_ok ops sv1" using server_ok_serves [OF s(1) assms(1)] .
  ultimately show ?thesis
    using assms(2) release_conn_limits [of sv1 conn] by (simp add: s(2) server_ok_def release_conn_frame)
qed

text \<open>No step touches the flags of the life of the server, and all keep the counters right.\<close>

definition same_life :: "'s Server \<Rightarrow> 's Server \<Rightarrow> bool" where
  "same_life sv sv' \<longleftrightarrow> sv_ready sv' = sv_ready sv \<and> sv_shuttingDown sv' = sv_shuttingDown sv \<and> (counted sv \<longrightarrow> counted sv')"

lemma serves_same_life: "serves ops sv sv' \<Longrightarrow> same_life sv sv'"
  by (simp add: serves_def same_life_def)

lemma step_same_life: "server_step ops order sv sv' \<Longrightarrow> same_life sv sv'"
proof (induction rule: server_step.induct)
  case (accept conn sv)
  then show ?case by (simp add: same_life_def accept_conn_frame)
next
  case (close conn sv cs)
  obtain sv1 where "serves ops sv sv1" "close_conn ops conn cs sv = release_conn conn sv1" by (rule close_conn_eq)
  then show ?case using serves_same_life [of ops sv sv1] by (simp add: same_life_def release_conn_frame)
qed (rule serves_same_life [of ops]; intro serves_intros serves_refl)+

lemma server_ok_step: "server_step ops order sv sv' \<Longrightarrow> server_ok ops sv \<Longrightarrow> server_ok ops sv'"
proof (induction rule: server_step.induct)
  case (accept conn sv)
  then show ?case using accept_conn_limits [of sv conn] by (simp add: server_ok_def accept_conn_frame)
qed (auto intro: server_ok_serves server_ok_close serves_intros)

lemma server_ok_reach: "server_reach ops order sv \<Longrightarrow> server_ok ops sv"
proof (induction rule: server_reach.induct)
  case (init m cfg clock writes uc)
  then show ?case
    using guard_New [of cfg m clock writes uc]
    by (simp add: server_ok_def within_conn_limits_def New_def host_conns_def)
qed (rule server_ok_step)

lemma reach_wf: "server_reach ops order sv \<Longrightarrow> wf_manager (sv_sessions sv)"
  using server_ok_reach wf_reach by (fastforce simp: server_ok_def)

text \<open>A server with one online session, whose command has expired when its queue is flushed.\<close>

definition sample_server :: "snapshots Server" where
  "sample_server = snd (EnqueueCommand InMemoryStore ''c1'' (sample_command ''query'' 0)
     (New sample_config sample_manager (\<lambda>_. 5 * second) (\<lambda>_. None) ascii_tables))"

lemma sample_server_reach: "server_reach InMemoryStore (\<lambda>_. []) sample_server"
  unfolding sample_server_def
  by (rule server_reach.step [OF server_reach.init [OF sample_reach] server_step.enqueue])

definition sample_queued :: Session where
  "sample_queued = (new_session ''c1'' (Some sample_conn) 100)
     \<lparr>ses_Queue := Queue_Push NewControllerQueue (sample_command ''query'' 0)\<rparr>"

lemma sample_server_eq:
  "sv_acks sample_server = []" "sv_wire sample_server = []" "sv_clock sample_server = (\<lambda>_. 5 * second)"
  "map_of (m_sessions (sv_sessions sample_server)) ''c1'' = Some sample_queued"
proof -
  have "normalizeCommandPriority (sample_command ''query'' 0) = Inr (sample_command ''query'' 0)"
    by (simp add: normalizeCommandPriority_def sample_command_def canonicalPriorityForCommand_def canonicalPriority_def)
  moreover have "cmd_CreatedAt (sample_command ''query'' 0) \<noteq> zero_time"
    by (simp add: sample_command_def zero_time_def second_def)
  moreover have "make_room sample_manager k (sample_command ''query'' 0) NewControllerQueue = (None, [], NewControllerQueue)" for k
    by (simp add: make_room_def sample_fits)
  ultimately show "sv_acks sample_server = []" "sv_wire sample_server = []" "sv_clock sample_server = (\<lambda>_. 5 * second)"
    "map_of (m_sessions (sv_sessions sample_server)) ''c1'' = Some sample_queued"
    by (simp_all add: sample_server_def EnqueueCommand_def New_def Now_def Let_def EnqueueWithEvents_def enqueueLocked_def
        sample_session enqueue_session_def is_duplicate_def new_session_def update_session_eq InMemoryStore_def
        InMemoryStore_SaveSession_def sample_queued_def  sample_command_def)
qed

lemma sample_drain:
  "queue_of ''c1'' (drain_expired ''c1'' sample_server) = NewControllerQueue"
  "map ev_key (sv_acks (drain_expired ''c1'' sample_server)) = [(''m'', [], 22)]"
proof -
  let ?q = "Queue_Push NewControllerQueue (sample_command ''query'' 0)"
  have q: "queue_of ''c1'' (snd (Now sample_server)) = ?q"
    by (simp add: queue_of_def sample_server_eq sample_queued_def)
  have d: "DrainExpired ?q (5 * second) = ([sample_command ''query'' 0], NewControllerQueue)"
    by (simp add: DrainExpired_eq Queue_Snapshot_def Queue_Push_def NewControllerQueue_def sample_command_def
        Expired_def second_def)
  have n: "fst (Now sample_server) = 5 * second" by (simp add: Now_def sample_server_eq)
  have h: "has_queue (sv_sessions (set_queue ''c1'' NewControllerQueue (snd (Now sample_server)))) ''c1'' NewControllerQueue"
    by (rule has_set_queue [of _ _ ?q]) (simp add: has_queue_def sample_server_eq sample_queued_def new_session_def)
  show "queue_of ''c1'' (drain_expired ''c1'' sample_server) = NewControllerQueue"
    using has_queue_of [OF h] by (simp add: drain_expired_def split_beta q d n) (simp add: queue_of_def)
  show "map ev_key (sv_acks (drain_expired ''c1'' sample_server)) = [(''m'', [], 22)]"
    by (simp add: drain_expired_def split_beta q d n sample_server_eq) (simp add: sample_command_def cmd_key_def)
qed

lemma sample_flush:
  "flushQueue InMemoryStore ''c1'' sample_server = (None, drain_expired ''c1'' sample_server)"
  by (simp add: flushQueue_def Manager_DeliveryContext_def sample_server_eq sample_queued_def new_session_def
      InFlightCount_def flush_loop.simps flush_turn_def sample_drain cq.count_empty)



section \<open>Flushing in a reachable state\<close>

lemma flushQueue_result:
  assumes "wf_manager (sv_sessions sv)" "map_of (m_sessions (sv_sessions sv)) k = Some s"
    and "flushQueue ops k sv = (err, sv')"
  obtains "sv' = sv" "err = None" "ses_Conn s = None \<or> ses_InFlight s \<noteq> []"
  | c W E fl where "ses_Conn s = Some c" "ses_InFlight s = []"
    "turn_result k (ses_FrameMode s) c (ses_Queue s)
       \<lparr>fl_sv = sv, fl_FWMode = ses_FWMode s, fl_SyncMode = ses_SyncMode s,
        fl_remaining = (if ses_BufferFree s \<le> 0 then 1500 else ses_BufferFree s), fl_skipped = []\<rparr>
       (Inl err) fl W E" "fl_sv fl = sv'"
proof (cases "ses_Conn s = None \<or> ses_InFlight s \<noteq> []")
  case True
  with assms(2,3) show thesis
    by (intro that(1)) (auto simp: flushQueue_def Manager_DeliveryContext_def InFlightCount_def split: option.splits if_splits)
next
  case False
  then obtain c where c: "ses_Conn s = Some c" by auto
  obtain d where d: "Manager_DeliveryContext k (sv_sessions sv) = Some d" "dc_Conn d = Some c"
      "dc_BufferFree d = ses_BufferFree s" "dc_FWMode d = ses_FWMode s" "dc_SyncMode d = ses_SyncMode s"
      "dc_FrameMode d = ses_FrameMode s"
    using assms(2) c by (simp add: Manager_DeliveryContext_def)
  let ?fl = "\<lparr>fl_sv = sv, fl_FWMode = ses_FWMode s, fl_SyncMode = ses_SyncMode s,
      fl_remaining = (if ses_BufferFree s \<le> 0 then 1500 else ses_BufferFree s), fl_skipped = []\<rparr>"
  have "InFlightCount k (sv_sessions sv) = 0" using assms(2) False by (simp add: InFlightCount_def)
  with assms(3) d have run: "flush_loop ops k d c ?fl = (err, snd (flush_loop ops k d c ?fl))"
      "fl_sv (snd (flush_loop ops k d c ?fl)) = sv'"
    by (auto simp: flushQueue_def Let_def split_beta prod_eq_iff)
  have "has_queue (sv_sessions (fl_sv ?fl)) k (ses_Queue s)"
    using assms(2) wf_lookup(1) [OF assms(1,2)] by (simp add: has_queue_def)
  from flush_loop_result [OF this, of d c ops] obtain W E where
    "turn_result k (ses_FrameMode s) c (ses_Queue s) ?fl (Inl err) (snd (flush_loop ops k d c ?fl)) W E"
    using run(1) d(6) by (metis fst_conv)
  with False c run(2) show thesis by (intro that(2)) auto
qed

text \<open>
  (C3) No command is lost or reported twice by a flush that ends without error: the commands that
  left the queue of the controller are, with their multiplicities, exactly those for which one
  event was published (accepted, expired or failed); all others are still in the queue.
\<close>

theorem flush_reports_once:
  assumes "server_reach ops order sv" "map_of (m_sessions (sv_sessions sv)) k = Some s"
    and "flushQueue ops k sv = (None, sv')"
  shows "\<exists>s' E. map_of (m_sessions (sv_sessions sv')) k = Some s' \<and> sv_acks sv' = sv_acks sv @ E
    \<and> image_mset cmd_key (mset (Queue_Snapshot (ses_Queue s)))
       = image_mset cmd_key (mset (Queue_Snapshot (ses_Queue s'))) + mset (map ev_key E)"
  using reach_wf [OF assms(1)] assms(2,3)
proof (cases rule: flushQueue_result)
  case 1
  with assms(2) show ?thesis by auto
next
  case (2 c W E fl)
  then show ?thesis by (auto simp: turn_result_def has_queue_def keys_def)
qed

theorem flush_reports_once_witness:
  "\<exists>s' E. flushQueue InMemoryStore ''c1'' sample_server = (None, drain_expired ''c1'' sample_server)
     \<and> map_of (m_sessions (sv_sessions (drain_expired ''c1'' sample_server))) ''c1'' = Some s'
     \<and> sv_acks (drain_expired ''c1'' sample_server) = E \<and> {#(''m'', [], 22)#}
       = image_mset cmd_key (mset (Queue_Snapshot (ses_Queue s'))) + mset (map ev_key E)"
  using flush_reports_once [OF sample_server_reach sample_server_eq(4) sample_flush] sample_flush
  by (auto simp: sample_server_eq(1) sample_queued_def sample_command_def cmd_key_def cq.contents_empty)



end
