(* ===== verification/Connection_Laws.thy ===== *)
theory Connection_Laws
  imports Server_Laws
begin

text \<open>
  Laws of connections: a peer that does not register has no effect, what a registration does,
  and how acknowledgement frames are matched with commands in flight.
\<close>

section \<open>Before registration\<close>

text \<open>Nothing visible changed: sessions, events, telemetry and bytes written are the same.\<close>

definition silent :: "'s Server \<Rightarrow> 's Server \<Rightarrow> bool" where
  "silent sv sv' \<longleftrightarrow> sv_sessions sv' = sv_sessions sv \<and> sv_acks sv' = sv_acks sv
     \<and> sv_telemetry sv' = sv_telemetry sv \<and> sv_wire sv' = sv_wire sv"

lemma silent_trans: "silent a b \<Longrightarrow> silent b c \<Longrightarrow> silent a c"
  by (simp add: silent_def)

lemma silent_steps:
  "silent sv sv" "silent sv (snd (Now sv))" "silent sv (violation conn sv)" "silent sv (recordRawMessage r sv)"
  "silent sv (release_conn conn sv)" "silent sv (snd (heartbeat_checks cs sv))" "silent sv (snd (before_read conn cs sv))"
  by (simp_all add: silent_def violation_def registerIPViolation_def recordRawMessage_def release_conn_def untrackConn_def
      heartbeat_checks_def before_read_def Now_def Let_def split_beta split: option.split)

lemma handle_frame_unregistered:
  assumes "\<not> cs_registered cs" "isl (ParseRegistrationPayload (f_Payload frame))"
    and "handle_frame ops order conn frame cs sv = (go, cs', sv')"
  shows "\<not> go \<and> cs' = cs \<and> silent sv sv'"
proof -
  obtain cmdID ok where c: "CommandID frame = (cmdID, ok)" by (rule prod.exhaust)
  have "register_conn ops conn cmdID frame cs sv1 = (None, violation conn sv1)" for sv1
    using assms(2) c by (auto simp: register_conn_def split: sum.splits)
  then have "handle_frame ops order conn frame cs sv = (False, cs, if ok
      then violation conn (recordRawMessage \<lparr>raw_Timestamp = fst (Now sv), raw_Direction = ''rx'',
        raw_ControllerID = cs_controllerID cs, raw_RemoteAddr = remote_addr conn, raw_CommandID = cmdID,
        raw_CommandSeq = f_Seq frame, raw_FrameMode = f_Mode frame, raw_TTL = f_TTL frame,
        raw_RawHex = encodeFrameHex frame, raw_PayloadHex = EncodeToString (f_Payload frame),
        raw_PayloadLen = int (length (f_Payload frame)), raw_MessageID = [], raw_TraceID = []\<rparr> (snd (Now sv)))
      else violation conn sv)"
    using assms(1) c by (simp add: handle_frame_def split_beta Let_def)
  with assms(3) show ?thesis
    using silent_trans [OF silent_trans [OF silent_steps(2,4)] silent_steps(3)] silent_steps(3) by auto
qed

lemma conn_turn_unregistered:
  assumes "\<not> cs_registered cs"
    and "\<And>f rd'. ReadFrameWithMode rd (cs_frameMode cs) = (Inr f, rd') \<Longrightarrow> isl (ParseRegistrationPayload (f_Payload f))"
    and "conn_turn ops order conn cs rd sv = (go, cs', rd', sv')"
  shows "\<not> go \<and> cs' = cs \<and> silent sv sv'"
proof -
  obtain ok sv1 where b: "before_read conn cs sv = (ok, sv1)" by (rule prod.exhaust)
  then have s1: "silent sv sv1" using silent_steps(7) [of sv conn cs] by simp
  obtain r rd1 where r: "ReadFrameWithMode rd (cs_frameMode cs) = (r, rd1)" by (rule prod.exhaust)
  show ?thesis
  proof (cases "ok \<and> \<not> isl r")
    case True
    then obtain f where f: "r = Inr f" by (cases r) auto
    obtain go' cs2 sv2 where h: "handle_frame ops order conn f cs sv1 = (go', cs2, sv2)" by (rule prod_cases3)
    have "\<not> go' \<and> cs2 = cs \<and> silent sv1 sv2"
      using handle_frame_unregistered [OF assms(1) _ h] assms(2) r f by blast
    with assms(3) b r f h True s1 show ?thesis by (auto simp: conn_turn_def intro: silent_trans)
  next
    case False
    with assms(1,3) b r s1 show ?thesis
      by (cases r) (auto simp: conn_turn_def intro: silent_trans silent_steps(3) split: if_splits)
  qed
qed



section \<open>Registration\<close>

lemma Create_ok:
  assumes "wf_manager m" "Create ops k c t m = (Inr s, m')"
  shows "ses_Conn s = Some c" "ses_ControllerID s = k" "map_of (m_sessions m') = (map_of (m_sessions m))(k \<mapsto> s)"
    "\<forall>s0. map_of (m_sessions m) k = Some s0 \<longrightarrow> ses_Conn s0 = None"
  using assms wf_lookup(1) [OF assms(1), of k]
  by (auto simp: Create_def Let_def update_session_eq add_session_eq new_session_def split: option.splits if_splits)

lemma registration_ack_payload: "buildRegistrationAckPayload t = Inr (0 # le32 (word_of_int (t div second)))"
proof -
  have "(replicate 5 0)[0 := 0] = zbuf 5 [0 :: byte]" by (simp add: zbuf_def numeral_eq_Suc)
  moreover have "PutUint32 1 v (zbuf 5 [0]) = 0 # le32 v" for v
    by (subst zbuf_Put) (simp_all add: zbuf_def)
  ultimately show ?thesis
    by (simp add: buildRegistrationAckPayload_def Cmd1RegistrationAckPayload_Build_def validated_def validate_cmd1_def check_nil_def)
qed

lemma send_frame_ok:
  assumes "send_frame conn mode seq c built sv = (Inr (w, p), sv')"
  shows "built = Inr p" "EncodeFrame \<lparr>f_TTL = 255, f_Seq = seq, f_Payload = c # p, f_Mode = mode\<rparr> = Inr w"
    "sv_wire sv' = sv_wire sv @ [(conn, w)]" "sv_sessions sv' = sv_sessions sv"
  using assms
  by (auto simp: send_frame_def conn_Write_def Let_def split: sum.splits option.splits prod.splits)

lemma record_ack_simps [simp]:
  "sv_sessions (record_ack k conn frame c n raw p sv) = sv_sessions sv" "sv_wire (record_ack k conn frame c n raw p sv) = sv_wire sv"
  by (simp_all add: record_ack_def newIncomingTraceID_def split_beta Let_def)


text \<open>
  (C10) A registration that succeeds puts the controller online under the identity it gave: its
  session, which was offline or new, has this connection and the frame mode of the registration, the other sessions
  are untouched, and exactly one frame is written, which the controller reads in that mode as the
  acknowledgement of its own sequence number: code 0 and the time of the server.
\<close>

theorem registration_outcome:
  assumes "server_reach ops order sv" "register_conn ops conn cmdID frame cs sv = (Some cs', sv')"
    and "f_Mode frame \<noteq> FrameModeAuto"
  shows "\<exists>reg s w t. ParseRegistrationPayload (f_Payload frame) = Inr reg
    \<and> cs_registered cs' \<and> cs_controllerID cs' = reg_IMEI reg \<and> cs_frameMode cs' = f_Mode frame
    \<and> (\<forall>s0. map_of (m_sessions (sv_sessions sv)) (reg_IMEI reg) = Some s0 \<longrightarrow> ses_Conn s0 = None)
    \<and> map_of (m_sessions (sv_sessions sv')) = (map_of (m_sessions (sv_sessions sv)))(reg_IMEI reg \<mapsto> s)
    \<and> ses_Conn s = Some conn \<and> ses_FrameMode s = f_Mode frame
    \<and> sv_wire sv' = sv_wire sv @ [(conn, w)]
    \<and> ReadFrameWithMode \<lparr>rd_buf = w, rd_err = io_EOF\<rparr> (f_Mode frame) =
        (Inr \<lparr>f_TTL = 255, f_Seq = if f_Mode frame = FrameModeCompact then 0 else f_Seq frame,
              f_Payload = 1 # 0 # le32 t, f_Mode = f_Mode frame\<rparr>, \<lparr>rd_buf = [], rd_err = io_EOF\<rparr>)"
proof -
  obtain reg where reg: "ParseRegistrationPayload (f_Payload frame) = Inr reg" and cmd: "cmdID = 1"
    using assms(2) by (auto simp: register_conn_def split: if_splits sum.splits)
  obtain now sv1 where n: "Now sv = (now, sv1)" by (rule prod.exhaust)
  obtain r m where c: "Create ops (reg_IMEI reg) conn now (sv_sessions sv1) = (r, m)" by (rule prod.exhaust)
  obtain s where s: "r = Inr s" using assms(2) by (cases r) (auto simp: register_conn_def reg cmd n c)
  define sv2 where "sv2 = map_sessions (SetFrameMode (reg_IMEI reg) (f_Mode frame)) (sv1\<lparr>sv_sessions := m\<rparr>)"
  obtain a sv3 where a: "sendRegistrationAck conn (f_Mode frame) (f_Seq frame) sv2 = (a, sv3)" by (rule prod.exhaust)
  obtain w p where w: "a = Inr (w, p)"
    using assms(2) by (cases a) (auto simp: register_conn_def reg cmd n c s Let_def sv2_def [symmetric] a split: prod.splits)
  have res: "cs_registered cs'" "cs_controllerID cs' = reg_IMEI reg" "cs_frameMode cs' = f_Mode frame"
      "sv_sessions sv' = sv_sessions sv3" "sv_wire sv' = sv_wire sv3"
    using assms(2) by (auto simp: register_conn_def reg cmd n c s Let_def sv2_def [symmetric] a w split_beta)
  have sv1: "sv_sessions sv1 = sv_sessions sv" "sv_wire sv1 = sv_wire sv" using n by (auto simp: Now_def)
  note send = send_frame_ok [OF a [unfolded sendRegistrationAck_def split_beta Let_def w]]
  obtain t where p: "p = 0 # le32 t" using send(1) by (auto simp: registration_ack_payload)
  have wf: "wf_manager (sv_sessions sv1)" using reach_wf [OF assms(1)] sv1 by simp
  note create = Create_ok [OF wf c [unfolded s]]
  have "map_of (m_sessions (sv_sessions sv3)) = (map_of (m_sessions (sv_sessions sv)))(reg_IMEI reg \<mapsto> s\<lparr>ses_FrameMode := f_Mode frame\<rparr>)"
    using create sv1 send(4) by (simp add: sv2_def map_sessions_def SetFrameMode_def)
  moreover have "sv_wire sv3 = sv_wire sv @ [(conn, w)]" using send(3) sv1 by (simp add: sv2_def map_sessions_def)
  moreover have "ReadFrameWithMode \<lparr>rd_buf = w, rd_err = io_EOF\<rparr> (f_Mode frame) =
        (Inr \<lparr>f_TTL = 255, f_Seq = if f_Mode frame = FrameModeCompact then 0 else f_Seq frame,
              f_Payload = 1 # 0 # le32 t, f_Mode = f_Mode frame\<rparr>, \<lparr>rd_buf = [], rd_err = io_EOF\<rparr>)"
    using read_encoded [OF send(2), of "\<lparr>rd_buf = w, rd_err = io_EOF\<rparr>" "[]" "f_Mode frame"] assms(3) p
    by (cases "f_Mode frame") (simp_all add: frame_of_data_encoded wire_frame_def)
  ultimately show ?thesis
    using reg res create(1,4) sv1
    by (intro exI [of _ reg] exI [of _ "s\<lparr>ses_FrameMode := f_Mode frame\<rparr>"] exI [of _ w] exI [of _ t]) simp
qed


lemma sample_registration_run:
  assumes "sv = New sample_config (NewManager 4 2 0 ''drop_oldest'' NewInMemoryStore) (\<lambda>_. 0) (\<lambda>_. None) ascii_tables"
  shows "\<exists>cs' sv'. register_conn InMemoryStore sample_conn 1 sample_registration cs sv = (Some cs', sv')"
proof -
  have e: "EncodeFrame \<lparr>f_TTL = 255, f_Seq = q, f_Payload = 1 # 0 # le32 t, f_Mode = m\<rparr>
      = Inr (frame_wire (frame_data \<lparr>f_TTL = 255, f_Seq = q, f_Payload = 1 # 0 # le32 t, f_Mode = m\<rparr>))" for q t m
    by (simp add: EncodeFrame_ok len_simps)
  have "\<exists>x. fst (register_conn InMemoryStore sample_conn 1 sample_registration cs sv) = Some x"
    by (simp add: register_conn_def assms Parse_sample_registration Create_def New_def Now_def NewManager_def Let_def
        onlineConnectionsLocked_def add_session_eq InMemoryStore_def InMemoryStore_SaveSession_def NewInMemoryStore_def
        new_session_def sendRegistrationAck_def send_frame_def registration_ack_payload e conn_Write_def
        map_sessions_def SetFrameMode_def split_beta)
  then show ?thesis by (metis prod.collapse)
qed

theorem registration_outcome_witness:
  "\<exists>cs' sv' s. register_conn InMemoryStore sample_conn 1 sample_registration
      \<lparr>cs_registered = False, cs_controllerID = [], cs_frameMode = FrameModeAuto, cs_lastHeartbeat = 0, cs_registrationDeadline = 9\<rparr>
      (New sample_config (NewManager 4 2 0 ''drop_oldest'' NewInMemoryStore) (\<lambda>_. 0) (\<lambda>_. None) ascii_tables) = (Some cs', sv')
    \<and> map_of (m_sessions (sv_sessions sv')) ''490154203237518'' = Some s \<and> ses_Conn s = Some sample_conn"
proof -
  let ?sv = "New sample_config (NewManager 4 2 0 ''drop_oldest'' NewInMemoryStore) (\<lambda>_. 0) (\<lambda>_. None) ascii_tables"
  let ?cs = "\<lparr>cs_registered = False, cs_controllerID = [], cs_frameMode = FrameModeAuto, cs_lastHeartbeat = 0,
      cs_registrationDeadline = 9\<rparr>"
  obtain cs' sv' where r: "register_conn InMemoryStore sample_conn 1 sample_registration ?cs ?sv = (Some cs', sv')"
    using sample_registration_run [OF refl, of ?cs] by blast
  have "server_reach InMemoryStore (\<lambda>_. []) ?sv" by (rule server_reach.init [OF mgr_reach.init])
  moreover have "f_Mode sample_registration \<noteq> FrameModeAuto" by (simp add: sample_registration_def)
  ultimately have "\<exists>s. map_of (m_sessions (sv_sessions sv')) ''490154203237518'' = Some s \<and> ses_Conn s = Some sample_conn"
    using registration_outcome [OF _ r] by (force simp: Parse_sample_registration)
  with r show ?thesis by blast
qed

section \<open>Acknowledgement frames\<close>

lemma map_sessions_simps [simp]:
  "sv_sessions (map_sessions f sv) = f (sv_sessions sv)" "sv_acks (map_sessions f sv) = sv_acks sv"
  by (simp_all add: map_sessions_def)

text \<open>
  (C11) An acknowledgement frame with a final code ends exactly the command it names: the command in
  flight under its sequence number is taken out of flight and one event with the final status of
  the code is published for it. When the number is not in flight, or the change cannot be saved, nothing is
  published and nothing leaves the set in flight, so that the command is still retried or expired later. The
  free buffer the frame reports is taken over, and the queue is not touched.
\<close>

theorem ack_frame_outcome:
  assumes "server_reach ops order sv" "map_of (m_sessions (sv_sessions sv)) k = Some s"
    and "ParseAck11Payload (f_Payload frame) = Inr ack" "a11_ExecutionCode ack \<noteq> AckCodeStarted"
    and "handle_ack11 ops k frame trace sv = (trace', sv')"
  shows "\<exists>s'. map_of (m_sessions (sv_sessions sv')) k = Some s'
    \<and> ses_BufferFree s' = uint (a11_BufferFreeBytes ack) \<and> ses_Queue s' = ses_Queue s
    \<and> ((\<exists>e reason. map_of (ses_InFlight s) (a11_CommandSeq ack) = Some e
          \<and> map_of (ses_InFlight s') = (map_of (ses_InFlight s))(a11_CommandSeq ack := None)
          \<and> sv_acks sv' = sv_acks sv @ [ack_event k (ife_Command e) (a11_CommandSeq ack)
              (as_Status (InterpretAck11ExecutionCode (a11_ExecutionCode ack))) reason])
      \<or> (map_of (ses_InFlight s) (a11_CommandSeq ack) = None \<or> (\<exists>snap st. fst (SaveSession ops snap st) \<noteq> None))
          \<and> map_of (ses_InFlight s') = map_of (ses_InFlight s) \<and> sv_acks sv' = sv_acks sv)
    \<and> isTerminalAckStatus (as_Status (InterpretAck11ExecutionCode (a11_ExecutionCode ack)))"
proof -
  let ?seq = "a11_CommandSeq ack"
  let ?m = "UpdateBufferFree k (uint (a11_BufferFreeBytes ack)) (sv_sessions sv)"
  let ?s = "s\<lparr>ses_BufferFree := uint (a11_BufferFreeBytes ack)\<rparr>"
  have wf: "wf_manager (sv_sessions sv)" using reach_wf [OF assms(1)] .
  have m: "map_of (m_sessions ?m) k = Some ?s"
    using assms(2) wf_lookup(1) [OF wf assms(2)] by (simp add: UpdateBufferFree_def)
  have wfm: "wf_manager ?m" using wf_step [OF mgr_step.buffer wf] .
  obtain r m' where a: "AckInFlight ops k ?seq ?m = (r, m')" by (rule prod.exhaust)
  have st: "isTerminalAckStatus (as_Status (InterpretAck11ExecutionCode (a11_ExecutionCode ack)))"
    using assms(4) by (simp add: InterpretAck11ExecutionCode_def isTerminalAckStatus_def)
  from AckInFlight_result [OF wfm m a] obtain s' where s': "map_of (m_sessions m') k = Some s'"
      "s' = ?s\<lparr>ses_InFlight := ses_InFlight s'\<rparr>"
      "case r of Some (cmd, n) \<Rightarrow> (\<exists>e. map_of (ses_InFlight ?s) ?seq = Some e \<and> cmd = ife_Command e \<and> n = ife_Attempts e)
             \<and> map_of (ses_InFlight s') = (map_of (ses_InFlight ?s))(?seq := None) \<and> AckInFlight ops k ?seq m' = (None, m')
         | None \<Rightarrow> map_of (ses_InFlight s') = map_of (ses_InFlight ?s)"
      "r = None \<longrightarrow> map_of (ses_InFlight ?s) ?seq = None \<or> (\<exists>snap st. fst (SaveSession ops snap st) \<noteq> None)"
    by blast
  have "ses_BufferFree s' = uint (a11_BufferFreeBytes ack)" "ses_Queue s' = ses_Queue s" by (subst s'(2), simp)+
  moreover have "sv_sessions sv' = m' \<and> (case r of
      Some (cmd, n) \<Rightarrow> \<exists>reason. sv_acks sv' = sv_acks sv @ [ack_event k cmd ?seq
              (as_Status (InterpretAck11ExecutionCode (a11_ExecutionCode ack))) reason]
    | None \<Rightarrow> sv_acks sv' = sv_acks sv)"
    using assms(3-5) a by (cases r) (auto simp: handle_ack11_def Interpret_terminal Let_def)
  ultimately show ?thesis using s' st by (cases r) (auto split: prod.splits)
qed

theorem ack_frame_outcome_witness:
  "\<exists>tr sv' s'. handle_ack11 InMemoryStore ''c1''
      \<lparr>f_TTL = 0, f_Seq = 9, f_Payload = [11, 5, 0, 0, 0, 0, 0, 0, 4], f_Mode = FrameModeSequenced\<rparr> ([], ''rx'')
      (New sample_config sample_inflight (\<lambda>_. 0) (\<lambda>_. None) ascii_tables) = (tr, sv')
    \<and> map_of (m_sessions (sv_sessions sv')) ''c1'' = Some s' \<and> map_of (ses_InFlight s') 5 = None
    \<and> map ae_Status (sv_acks sv') = [''delivered'']"
proof -
  let ?f = "\<lparr>f_TTL = 0, f_Seq = 9, f_Payload = [11, 5, 0, 0, 0, 0, 0, 0, 4], f_Mode = FrameModeSequenced\<rparr>"
  let ?sv = "New sample_config sample_inflight (\<lambda>_. 0) (\<lambda>_. None) ascii_tables"
  let ?ack = "\<lparr>a11_CommandSeq = 5, a11_ExecutionCode = 0, a11_ControllerTime = 0, a11_BufferFreeBytes = 1024\<rparr>"
  let ?s = "(new_session ''c1'' (Some sample_conn) 100)\<lparr>ses_InFlight := [(5, sample_entry)]\<rparr>"
  have reach: "server_reach InMemoryStore (\<lambda>_. []) ?sv" by (rule server_reach.init [OF sample_inflight_reach])
  have sess: "map_of (m_sessions (sv_sessions ?sv)) ''c1'' = Some ?s" by (simp add: New_def sample_inflight_session)
  have p: "ParseAck11Payload (f_Payload ?f) = Inr ?ack"
    by (simp add: ParseAck11Payload_def go_slice_def Uint16_def Uint32_def)
  have code: "a11_ExecutionCode ?ack \<noteq> AckCodeStarted" by simp
  obtain tr sv' where h: "handle_ack11 InMemoryStore ''c1'' ?f ([], ''rx'') ?sv = (tr, sv')" by (rule prod.exhaust)
  have save: "fst (SaveSession InMemoryStore snap st) = None" for snap st
    by (simp add: InMemoryStore_def InMemoryStore_SaveSession_def)
  have acks: "sv_acks ?sv = []" by (simp add: New_def)
  from ack_frame_outcome [OF reach sess p code h] save acks show ?thesis
    using h by (auto simp: InterpretAck11ExecutionCode_def ack_event_def)
qed

end
