(* ===== verification/Go_Json.thy ===== *)
theory Go_Json
  imports Go_Text
begin

text \<open>
  What the server uses of \<^verbatim>\<open>encoding/json\<close>: decoding a JSON value into a struct. The text of a document
  is represented by the value it stands for; a number keeps its literal, an object the order of
  its members. A struct is decoded member by member: the field is found by its exact name or, if
  there is none, by its name up to case folding; unknown members are skipped; \<^verbatim>\<open>null\<close> changes nothing; a
  value of the wrong kind or out of range is an error, of which the first is returned. What is
  stored after an error is not modelled, since no caller uses a struct whose decoding failed.
\<close>

datatype json =
    JNull
  | JBool bool
  | JNumber string
  | JString string
  | JArray "json list"
  | JObject "(string \<times> json) list"

section \<open>Names of members\<close>

text \<open>The folding of names: letters to upper case; two runes beyond ASCII fold to ASCII letters.\<close>

definition fold_rune :: "int \<Rightarrow> int" where
  "fold_rune r = (if 97 \<le> r \<and> r \<le> 122 then r - 32 else if r = 383 then 83 else if r = 8490 then 75 else r)"

definition fold_name :: "string \<Rightarrow> int list" where
  "fold_name s = map (fold_rune \<circ> fst) (runes (bytes_of s))"

section \<open>Values\<close>

definition json_kind :: "json \<Rightarrow> string" where
  "json_kind j = (case j of JNull \<Rightarrow> ''null'' | JBool _ \<Rightarrow> ''bool'' | JNumber s \<Rightarrow> ''number '' @ s
     | JString _ \<Rightarrow> ''string'' | JArray _ \<Rightarrow> ''array'' | JObject _ \<Rightarrow> ''object'')"

definition UnmarshalTypeError :: "json \<Rightarrow> string \<Rightarrow> go_error" where
  "UnmarshalTypeError j typ = Errorf ''json: cannot unmarshal %s into Go value of type %s'' [FStr (json_kind j), FStr typ]"

text \<open>\<^verbatim>\<open>strconv.ParseUint(s, 10, 64)\<close> on the literal of a number, and the check of the width.\<close>

definition number_value :: "string \<Rightarrow> int" where
  "number_value s = foldl (\<lambda>n c. 10 * n + (of_char c - 48)) 0 s"

definition json_uint :: "nat \<Rightarrow> json \<Rightarrow> go_error + int option" where
  "json_uint w j = (case j of
     JNull \<Rightarrow> Inr None
   | JNumber s \<Rightarrow>
       if s \<noteq> [] \<and> list_all (\<lambda>c. 48 \<le> (of_char c :: nat) \<and> (of_char c :: nat) \<le> 57) s \<and> number_value s < 2 ^ w
       then Inr (Some (number_value s)) else Inl (UnmarshalTypeError j ''uint'')
   | _ \<Rightarrow> Inl (UnmarshalTypeError j ''uint''))"

text \<open>\<^verbatim>\<open>strconv.ParseInt(s, 10, 64)\<close> for an \<^verbatim>\<open>int\<close> field.\<close>

definition json_int :: "json \<Rightarrow> go_error + int option" where
  "json_int j = (case j of
     JNull \<Rightarrow> Inr None
   | JNumber s \<Rightarrow>
       let (neg, ds) = (case s of CHR ''-'' # ds \<Rightarrow> (True, ds) | _ \<Rightarrow> (False, s));
           v = (if neg then - number_value ds else number_value ds)
       in if ds \<noteq> [] \<and> list_all (\<lambda>c. 48 \<le> (of_char c :: nat) \<and> (of_char c :: nat) \<le> 57) ds \<and> minInt64 \<le> v \<and> v \<le> maxInt64
          then Inr (Some v) else Inl (UnmarshalTypeError j ''int'')
   | _ \<Rightarrow> Inl (UnmarshalTypeError j ''int''))"

definition json_bool :: "json \<Rightarrow> go_error + bool option" where
  "json_bool j = (case j of JNull \<Rightarrow> Inr None | JBool b \<Rightarrow> Inr (Some b) | _ \<Rightarrow> Inl (UnmarshalTypeError j ''bool''))"

definition json_string :: "json \<Rightarrow> go_error + string option" where
  "json_string j = (case j of JNull \<Rightarrow> Inr None | JString s \<Rightarrow> Inr (Some s) | _ \<Rightarrow> Inl (UnmarshalTypeError j ''string''))"

section \<open>Structs\<close>

text \<open>
  A field is its name and how a member is stored in the struct. \<^verbatim>\<open>json.RawMessage\<close> takes any value.
\<close>

type_synonym 'r field = "string \<times> (json \<Rightarrow> 'r \<Rightarrow> go_error + 'r)"

definition stored :: "('a \<Rightarrow> 'r \<Rightarrow> 'r) \<Rightarrow> 'r \<Rightarrow> go_error + 'a option \<Rightarrow> go_error + 'r" where
  "stored upd r v = res_bind v (\<lambda>x. Inr (case x of None \<Rightarrow> r | Some a \<Rightarrow> upd a r))"

definition uint_field :: "string \<Rightarrow> (('n::len) word \<Rightarrow> 'r \<Rightarrow> 'r) \<Rightarrow> 'r field" where
  "uint_field name upd = (name, \<lambda>j r. stored (\<lambda>n. upd (word_of_int n)) r (json_uint LENGTH('n) j))"

definition int_field :: "string \<Rightarrow> (int \<Rightarrow> 'r \<Rightarrow> 'r) \<Rightarrow> 'r field" where
  "int_field name upd = (name, \<lambda>j r. stored upd r (json_int j))"

definition bool_field :: "string \<Rightarrow> (bool \<Rightarrow> 'r \<Rightarrow> 'r) \<Rightarrow> 'r field" where
  "bool_field name upd = (name, \<lambda>j r. stored upd r (json_bool j))"

definition string_field :: "string \<Rightarrow> (string \<Rightarrow> 'r \<Rightarrow> 'r) \<Rightarrow> 'r field" where
  "string_field name upd = (name, \<lambda>j r. stored upd r (json_string j))"

definition raw_field :: "string \<Rightarrow> (json \<Rightarrow> 'r \<Rightarrow> 'r) \<Rightarrow> 'r field" where
  "raw_field name upd = (name, \<lambda>j r. Inr (upd j r))"

definition find_field :: "'r field list \<Rightarrow> string \<Rightarrow> (json \<Rightarrow> 'r \<Rightarrow> go_error + 'r) option" where
  "find_field fs key = (case map_of fs key of
     Some f \<Rightarrow> Some f
   | None \<Rightarrow> map_option snd (find (\<lambda>(name, _). fold_name name = fold_name key) fs))"

fun decode_members :: "'r field list \<Rightarrow> (string \<times> json) list \<Rightarrow> 'r \<Rightarrow> go_error + 'r" where
  "decode_members fs [] r = Inr r"
| "decode_members fs ((key, j) # ms) r = (case find_field fs key of
     None \<Rightarrow> decode_members fs ms r
   | Some f \<Rightarrow> res_bind (f j r) (decode_members fs ms))"

text \<open>\<^verbatim>\<open>json.Unmarshal\<close> into a struct with the value \<open>r\<close>.\<close>

definition Unmarshal :: "'r field list \<Rightarrow> 'r \<Rightarrow> json \<Rightarrow> go_error + 'r" where
  "Unmarshal fs r j = (case j of
     JNull \<Rightarrow> Inr r
   | JObject ms \<Rightarrow> decode_members fs ms r
   | _ \<Rightarrow> Inl (UnmarshalTypeError j ''struct''))"

definition struct_field :: "string \<Rightarrow> 's field list \<Rightarrow> ('r \<Rightarrow> 's) \<Rightarrow> ('s \<Rightarrow> 'r \<Rightarrow> 'r) \<Rightarrow> 'r field" where
  "struct_field name fs sel upd = (name, \<lambda>j r. res_bind (Unmarshal fs (sel r) j) (\<lambda>v. Inr (upd v r)))"

text \<open>
  An array of fixed length: surplus elements are skipped, missing ones become zero. A slice grows as
  needed, each new element starting at zero.
\<close>

fun decode_array :: "(json \<Rightarrow> 'a \<Rightarrow> go_error + 'a) \<Rightarrow> 'a \<Rightarrow> json list \<Rightarrow> 'a list \<Rightarrow> go_error + 'a list" where
  "decode_array dec zero js [] = Inr []"
| "decode_array dec zero [] (x # xs) = Inr (zero # map (\<lambda>_. zero) xs)"
| "decode_array dec zero (j # js) (x # xs) =
     res_bind (dec j x) (\<lambda>v. res_bind (decode_array dec zero js xs) (\<lambda>vs. Inr (v # vs)))"

definition array_field :: "string \<Rightarrow> (json \<Rightarrow> 'a \<Rightarrow> go_error + 'a) \<Rightarrow> 'a \<Rightarrow> ('r \<Rightarrow> 'a list) \<Rightarrow> ('a list \<Rightarrow> 'r \<Rightarrow> 'r) \<Rightarrow> 'r field" where
  "array_field name dec zero sel upd = (name, \<lambda>j r. case j of
     JNull \<Rightarrow> Inr r
   | JArray js \<Rightarrow> res_bind (decode_array dec zero js (sel r)) (\<lambda>vs. Inr (upd vs r))
   | _ \<Rightarrow> Inl (UnmarshalTypeError j ''array''))"

definition uint_value :: "json \<Rightarrow> ('n::len) word \<Rightarrow> go_error + 'n word" where
  "uint_value j x = stored (\<lambda>n _. word_of_int n) x (json_uint LENGTH('n) j)"

definition Unmarshal_slice :: "'r field list \<Rightarrow> 'r \<Rightarrow> json \<Rightarrow> go_error + 'r list" where
  "Unmarshal_slice fs zero j = (case j of
     JNull \<Rightarrow> Inr []
   | JArray js \<Rightarrow> for_res (\<lambda>e vs. res_bind (Unmarshal fs zero e) (\<lambda>v. Inr (vs @ [v]))) js []
   | _ \<Rightarrow> Inl (UnmarshalTypeError j ''slice''))"

section \<open>Laws\<close>

lemma number_value_snoc: "number_value (s @ [c]) = 10 * number_value s + (of_char c - 48)"
  by (simp add: number_value_def)

lemma decimal_digits: "list_all (\<lambda>c. 48 \<le> (of_char c :: nat) \<and> (of_char c :: nat) \<le> 57) (decimal n) \<and> decimal n \<noteq> []"
  by (induction n rule: decimal.induct) (subst decimal.simps, auto simp: decimal.simps)

lemma number_value_decimal: "number_value (decimal n) = int n"
proof (induction n rule: decimal.induct)
  case (1 n)
  have "of_char (char_of (48 + m) :: char) = (48 + int m)" if "m < 10" for m :: nat
    using that of_nat_of_char [of "char_of (48 + m)", where ?'a = int, symmetric] by simp
  moreover have "10 * int (n div 10) + int (n mod 10) = int n" by presburger
  ultimately show ?case using 1
    by (subst decimal.simps) (auto simp: number_value_snoc number_value_def [of "[_]"])
qed

lemma number_value_zeros: "number_value (replicate k (CHR ''0'') @ s) = number_value s"
proof -
  have "foldl (\<lambda>n c. 10 * n + (of_char c - 48 :: int)) 0 (replicate k (CHR ''0'')) = 0" by (induction k) simp_all
  then show ?thesis by (simp add: number_value_def)
qed

lemma length_decimal: "0 < k \<Longrightarrow> length (decimal n) \<le> k \<longleftrightarrow> n < 10 ^ k"
proof (induction n arbitrary: k rule: decimal.induct)
  case (1 n)
  show ?case
  proof (cases "n < 10")
    case True
    moreover have "(10::nat) ^ 1 \<le> 10 ^ k" using 1(2) by (intro power_increasing) simp_all
    ultimately show ?thesis using 1(2) by (subst decimal.simps) simp
  next
    case False
    then show ?thesis
    proof (cases "k = 1")
      case True
      with False show ?thesis by (subst decimal.simps) (simp add: decimal_digits)
    next
      case k: False
      then obtain j where j: "k = Suc j" "0 < j" using 1(2) by (cases k) auto
      then have "length (decimal (n div 10)) \<le> j \<longleftrightarrow> n div 10 < 10 ^ j" using 1(1) False by simp
      also have "\<dots> \<longleftrightarrow> n < 10 ^ k" by (simp add: j(1) div_less_iff_less_mult mult.commute)
      finally show ?thesis using False j(1) by (subst decimal.simps) simp
    qed
  qed
qed

end
