(* ===== verification/Builder_Laws.thy ===== *)
theory Builder_Laws
  imports Payload_Builders
begin

text \<open>
  What the builders of \<^verbatim>\<open>Payload_Builders\<close> produce: for every record type its byte layout and
  the exact condition under which the builder succeeds, and for the synchronisation
  commands that the raw builder produces exactly the payloads the validator accepts.
\<close>

subsection \<open>Text fields\<close>

definition ascii_fits :: "string \<Rightarrow> nat \<Rightarrow> bool" where
  "ascii_fits s n \<longleftrightarrow> length s \<le> n \<and> (\<forall>x\<in>set (bytes_of s). x \<le> 127)"

lemma fixed_loop:
  assumes "length bs \<le> sz" "n \<le> length bs"
  shows "for_res (\<lambda>i out. if bad (bs ! i) then Inl (e i) else Inr (out[i := bs ! i])) [0..<n] (replicate sz 0)
      = Inr out \<longleftrightarrow> (\<forall>i<n. \<not> bad (bs ! i)) \<and> out = zbuf sz (take n bs)"
  using assms(2)
proof (induction n arbitrary: out)
  case 0
  then show ?case by (auto simp: zbuf_init)
next
  case (Suc n)
  have "length (take n bs) = n" using Suc.prems by simp
  then have "(zbuf sz (take n bs))[n := bs ! n] = zbuf sz (take (Suc n) bs)"
    using assms Suc.prems by (simp add: zbuf_update take_Suc_conv_app_nth)
  with Suc show ?case
    by (auto simp: for_res_append res_bind_eq_Inr less_Suc_eq split: if_splits)
qed

lemma fixedASCII_iff: "fixedASCII s sz = Inr b \<longleftrightarrow> ascii_fits s sz \<and> b = zbuf sz (bytes_of s)"
proof (cases "length s \<le> sz")
  case True
  then show ?thesis
    using fixed_loop [of "bytes_of s" sz "length s" "\<lambda>x. 127 < x"
        "\<lambda>i. Errorf ''non-ascii byte at index %d'' [FNat i]" b]
    by (auto simp: fixedASCII_def ascii_fits_def all_set_conv_all_nth not_less)
qed (simp add: fixedASCII_def ascii_fits_def)

lemma fixedASCII_fails: "(\<exists>e. fixedASCII s sz = Inl e) \<longleftrightarrow> \<not> ascii_fits s sz"
  using fixedASCII_iff [of s sz] by (cases "fixedASCII s sz") auto

lemma fixedDigits_iff:
  "fixedDigits s sz = Inr b \<longleftrightarrow>
     length s = sz \<and> (\<forall>x\<in>set (bytes_of s). 48 \<le> x \<and> x \<le> 57) \<and> b = bytes_of s"
proof (cases "length s = sz")
  case True
  then show ?thesis
    using fixed_loop [of "bytes_of s" sz "length s" "\<lambda>x. x < 48 \<or> 57 < x"
        "\<lambda>i. Errorf ''non-digit byte at index %d'' [FNat i]" b]
    by (auto simp: fixedDigits_def all_set_conv_all_nth not_less zbuf_full)
qed (simp add: fixedDigits_def)

lemma length_text [len_simps]: "ascii_fits s n \<Longrightarrow> length (zbuf n (bytes_of s)) = n"
  by (simp add: ascii_fits_def len_simps)

lemma validated_iff: "validated cmd out = Inr b \<longleftrightarrow> ValidateServerCommandPayload cmd out = None \<and> b = out"
  by (auto simp: validated_def check_nil_eq_Inr)

subsection \<open>Record builders\<close>

fun encode_all :: "(nat \<Rightarrow> 'r \<Rightarrow> go_error + byte list) \<Rightarrow> nat \<Rightarrow> 'r list \<Rightarrow> go_error + byte list list" where
  "encode_all enc i [] = Inr []"
| "encode_all enc i (r # rs) =
     res_bind (enc i r) (\<lambda>b. res_bind (encode_all enc (i + 1) rs) (\<lambda>bs. Inr (b # bs)))"

lemma write_records_eq:
  assumes "\<And>i r b. enc i r = Inr b \<Longrightarrow> length b = sz"
    and "off = length pre" "n = off + length rs * sz"
  shows "write_records enc sz i off rs (zbuf n pre)
    = res_bind (encode_all enc i rs) (\<lambda>bs. Inr (pre @ concat bs))"
  using assms(2,3)
proof (induction rs arbitrary: i off pre)
  case Nil
  then show ?case by (simp add: zbuf_full)
next
  case (Cons r rs)
  show ?case
  proof (cases "enc i r")
    case (Inr b)
    have "length b = sz" using assms(1) Inr .
    then have "copy_slice off (off + sz) b (zbuf n pre) = zbuf n (pre @ b)"
      using Cons.prems by (simp add: zbuf_copy)
    moreover have "write_records enc sz (i + 1) (off + sz) rs (zbuf n (pre @ b))
        = res_bind (encode_all enc (i + 1) rs) (\<lambda>bs. Inr ((pre @ b) @ concat bs))"
      using Cons \<open>length b = sz\<close> by (intro Cons.IH) simp_all
    ultimately show ?thesis using Inr
      by (cases "encode_all enc (i + 1) rs") simp_all
  qed simp
qed

lemma encode_all_iff:
  "encode_all enc i rs = Inr bs \<longleftrightarrow>
     length bs = length rs \<and> (\<forall>k<length rs. enc (i + k) (rs ! k) = Inr (bs ! k))"
proof (induction rs arbitrary: i bs)
  case (Cons r rs)
  show ?case
  proof (cases bs)
    case Nil
    then show ?thesis by (auto simp: res_bind_eq_Inr)
  next
    case (Cons b bs')
    then show ?thesis
      using Cons.IH [of "i + 1" bs']
      by (auto simp: res_bind_eq_Inr less_Suc_eq_0_disj)
  qed
qed auto

lemma encode_all_length:
  "encode_all enc i rs = Inr bs \<Longrightarrow> (\<And>i r b. enc i r = Inr b \<Longrightarrow> length b = sz)
     \<Longrightarrow> length bs = length rs \<and> (\<forall>b\<in>set bs. length b = sz)"
  by (auto simp: encode_all_iff all_set_conv_all_nth)

lemma build_records_eq:
  assumes "\<And>i r b. enc i r = Inr b \<Longrightarrow> length b = sz" "maxCount \<le> 255"
  shows "build_records commandID msg maxCount sz enc ts recs =
     (if length recs < 1 \<or> length recs > maxCount then Inl (Errorf msg [FNat (length recs)])
      else res_bind (encode_all enc 0 recs) (\<lambda>bs. validated commandID (sync_payload ts bs)))"
proof -
  let ?n = "5 + length recs * sz"
  let ?pre = "le32 ts @ [word_of_nat (length recs)]"
  have buf: "(PutUint32 0 ts (replicate ?n 0))[4 := word_of_nat (length recs)] = zbuf ?n ?pre"
    unfolding zbuf_init by (simp add: buf_simps)
  have "write_records enc sz 0 5 recs (zbuf ?n ?pre)
      = res_bind (encode_all enc 0 recs) (\<lambda>bs. Inr (?pre @ concat bs))"
    using assms(1) by (intro write_records_eq) simp_all
  moreover have "length bs = length recs" if "encode_all enc 0 recs = Inr bs" for bs
    using that by (simp add: encode_all_iff)
  ultimately show ?thesis
    unfolding build_records_def Let_def buf
    by (cases "encode_all enc 0 recs") (auto simp: sync_payload_def)
qed

lemma raw_record_iff: "raw_record msg sz i r = Inr b \<longleftrightarrow> length r = sz \<and> b = r"
  by (auto simp: raw_record_def)

lemma encode_all_raw:
  "encode_all (raw_record msg sz) 0 rs = Inr bs \<longleftrightarrow> bs = rs \<and> (\<forall>r\<in>set rs. length r = sz)"
  by (auto simp: encode_all_iff raw_record_iff all_set_conv_all_nth intro: nth_equalityI)

lemma build_raw_iff:
  assumes "maxCount \<le> 255"
  shows "build_records commandID msg maxCount sz (raw_record msg' sz) ts recs = Inr p \<longleftrightarrow>
    1 \<le> length recs \<and> length recs \<le> maxCount \<and> (\<forall>r\<in>set recs. length r = sz)
    \<and> ValidateServerCommandPayload commandID p = None \<and> p = sync_payload ts recs"
  by (subst build_records_eq)
    (auto simp: raw_record_iff res_bind_eq_Inr encode_all_raw validated_iff assms not_less Suc_le_eq)

subsection \<open>Layout of the typed records\<close>

definition layout13 :: "Cmd13IDRecord \<Rightarrow> byte list" where
  "layout13 r = le16 (r13_SlotIndex r) @ zbuf 10 (bytes_of (r13_ID r)) @ [r13_Group r]
     @ le32 (r13_BanDate r) @ le16 (r13_LifetimeMinutes r) @ [r13_IDType r] @ r13_Reserve r"

lemma Cmd13IDRecord_Build_iff:
  assumes "length (r13_Reserve r) = 12"
  shows "Cmd13IDRecord_Build r = Inr b \<longleftrightarrow>
    r13_SlotIndex r \<noteq> 0 \<and> r13_SlotIndex r \<le> 50000 \<and> r13_Group r \<le> 64 \<and> r13_IDType r \<le> 7
    \<and> ascii_fits (r13_ID r) 10 \<and> b = layout13 r"
proof -
  have "length (bytes_of (r13_ID r)) \<le> 10" if "ascii_fits (r13_ID r) 10"
    using that by (simp add: ascii_fits_def)
  then show ?thesis
    unfolding Cmd13IDRecord_Build_def zbuf_init Let_def IsCmd13IDTypeValid_def
    by (auto simp: res_bind_eq_Inr fixedASCII_iff buf_simps len_simps assms layout13_def not_less
        simp del: add_2_eq_Suc')
qed

definition layout14 :: "Cmd14ScheduleRecord \<Rightarrow> byte list" where
  "layout14 r = [r14_Slot r, r14_StartHour r, r14_StartMinute r, r14_EndHour r, r14_EndMinute r]
     @ r14_Flags r @ r14_Scenes r @ [r14_HolidayLogic r] @ r14_Reserve r"

definition wf14 :: "Cmd14ScheduleRecord \<Rightarrow> bool" where
  "wf14 r \<longleftrightarrow> length (r14_Flags r) = 8 \<and> length (r14_Scenes r) = 8 \<and> length (r14_Reserve r) = 10"

definition layout15 :: "Cmd15GroupRecord \<Rightarrow> byte list" where
  "layout15 r = [r15_Slot r, r15_Schedule r] @ r15_Permissions r @ r15_Reserve r"

definition wf15 :: "Cmd15GroupRecord \<Rightarrow> bool" where
  "wf15 r \<longleftrightarrow> length (r15_Permissions r) = 8 \<and> length (r15_Reserve r) = 6"

lemma validate_one_record:
  assumes "length b = sz" "maxCount \<le> 255" "1 \<le> maxCount"
  shows "validate_records cmd maxCount sz check (copy_slice 5 (5 + sz) b ((replicate (5 + sz) 0)[4 := 1]))
    = check 0 b"
proof -
  have "(replicate (5 + sz) 0)[4 := 1 :: byte] = zbuf (5 + sz) (replicate 4 0 @ [1])"
    unfolding zbuf_init [of "5 + sz"] by (simp add: buf_simps)
  then have "copy_slice 5 (5 + sz) b ((replicate (5 + sz) 0)[4 := 1]) = sync_payload 0 [b]"
    using assms(1) by (simp add: buf_simps sync_payload_def le32_def eval_nat_numeral)
  then show ?thesis
    using validate_records_sync [of "[b]" maxCount sz cmd check 0] assms
    by (simp split: option.splits)
qed

lemma Cmd14ScheduleRecord_Build_iff:
  assumes "wf14 r"
  shows "Cmd14ScheduleRecord_Build r = Inr b \<longleftrightarrow> cmd14_record_ok (layout14 r) \<and> b = layout14 r"
proof -
  let ?o = "(replicate 32 0)[0 := r14_Slot r, 1 := r14_StartHour r, 2 := r14_StartMinute r,
      3 := r14_EndHour r, 4 := r14_EndMinute r]"
  let ?out = "copy_slice 22 32 (r14_Reserve r) ((copy_slice 13 21 (r14_Scenes r)
      (copy_slice 5 13 (r14_Flags r) ?o))[21 := r14_HolidayLogic r])"
  have out: "?out = layout14 r"
    using assms unfolding zbuf_init by (simp add: buf_simps wf14_def layout14_def)
  have len: "length (layout14 r) = 32" using assms by (simp add: wf14_def layout14_def)
  have raw: "copy_slice 0 32 (layout14 r) (replicate 32 0) = layout14 r"
    using copy_slice_full [of "layout14 r" "replicate 32 0"] len by simp
  have "Cmd14ScheduleRecord_Build r
      = check_nil (validate_cmd14 (copy_slice 5 (5 + 32) (layout14 r) ((replicate (5 + 32) 0)[4 := 1])))
          (Inr (layout14 r))"
    unfolding Cmd14ScheduleRecord_Build_def Let_def using out raw by simp
  also have "validate_cmd14 (copy_slice 5 (5 + 32) (layout14 r) ((replicate (5 + 32) 0)[4 := 1]))
      = validate_cmd14_record 0 (layout14 r)"
    unfolding validate_cmd14_def by (rule validate_one_record) (simp_all add: len)
  finally show ?thesis by (auto simp: check_nil_eq_Inr validate_cmd14_record_iff)
qed

lemma Cmd15GroupRecord_Build_iff:
  assumes "wf15 r"
  shows "Cmd15GroupRecord_Build r = Inr b \<longleftrightarrow> cmd15_record_ok (layout15 r) \<and> b = layout15 r"
proof -
  let ?out = "copy_slice 10 16 (r15_Reserve r) (copy_slice 2 10 (r15_Permissions r)
      ((replicate 16 0)[0 := r15_Slot r, 1 := r15_Schedule r]))"
  have out: "?out = layout15 r"
    using assms unfolding zbuf_init by (simp add: buf_simps wf15_def layout15_def)
  have len: "length (layout15 r) = 16" using assms by (simp add: wf15_def layout15_def)
  have "Cmd15GroupRecord_Build r
      = check_nil (validate_cmd15 (copy_slice 5 (5 + 16) (layout15 r) ((replicate (5 + 16) 0)[4 := 1])))
          (Inr (layout15 r))"
    unfolding Cmd15GroupRecord_Build_def Let_def using out by simp
  also have "validate_cmd15 (copy_slice 5 (5 + 16) (layout15 r) ((replicate (5 + 16) 0)[4 := 1]))
      = validate_cmd15_record 0 (layout15 r)"
    unfolding validate_cmd15_def by (rule validate_one_record) (simp_all add: len)
  finally show ?thesis by (auto simp: check_nil_eq_Inr validate_cmd15_record_iff)
qed

definition relay_layout :: "Cmd12RelaySettings \<Rightarrow> byte list" where
  "relay_layout relay = rel_Flags relay @ [rel_ImpulseSec relay, rel_PauseSec relay, rel_Repeats relay]"

lemma writeRelay_zbuf:
  assumes "length pre = base" "base + 11 \<le> n" "length (rel_Flags relay) = 8"
  shows "writeRelay base relay (zbuf n pre) = zbuf n (pre @ relay_layout relay)"
proof -
  have "map ((!) (rel_Flags relay)) [0..<8] = rel_Flags relay"
    using map_nth [of "rel_Flags relay"] assms(3) by simp
  then have "fold (\<lambda>i out. out[base + i := rel_Flags relay ! i]) [0..<8] (zbuf n pre)
      = zbuf n (pre @ rel_Flags relay)"
    using zbuf_fold [of pre base 8 n "(!) (rel_Flags relay)"] assms by simp
  then show ?thesis
    using assms unfolding writeRelay_def Let_def by (simp add: buf_simps relay_layout_def)
qed

definition settings_head :: "Cmd12SettingsRecord \<Rightarrow> byte list" where
  "settings_head r = le32 (s12_PINCode r) @ zbuf 32 (bytes_of (s12_Server1 r))
     @ zbuf 32 (bytes_of (s12_Server2 r)) @ zbuf 32 (bytes_of (s12_NTPServer r))
     @ zbuf 32 (bytes_of (s12_Operator r)) @ [s12_NetworkType r]
     @ zbuf 8 (bytes_of (s12_CountryCode r)) @ zbuf 16 (bytes_of (s12_SimPhone r))
     @ zbuf 8 (bytes_of (s12_USSD r)) @ [s12_AutoRebootHour r, boolToByte (s12_ExtendedDebug r),
         boolToByte (s12_UseVoLTE r), boolToByte (s12_Interface485Active r), boolToByte (s12_NTPEnabled r)]
     @ replicate 4 0 @ [s12_WiegandType r]"

definition settings_layout :: "Cmd12SettingsRecord \<Rightarrow> byte list" where
  "settings_layout r = (settings_head r @ concat (map (\<lambda>d. [per_Address d, per_Type d]) (s12_Peripherals r)))
     @ relay_layout (s12_Relay1 r) @ relay_layout (s12_Relay2 r)
     @ [s12_Input1Function r, s12_Input2Function r] @ s12_ReserveA r @ s12_ReserveB r"

definition wf12 :: "Cmd12SettingsRecord \<Rightarrow> bool" where
  "wf12 r \<longleftrightarrow> length (s12_Peripherals r) = 8 \<and> length (rel_Flags (s12_Relay1 r)) = 8
     \<and> length (rel_Flags (s12_Relay2 r)) = 8 \<and> length (s12_ReserveA r) = 292 \<and> length (s12_ReserveB r) = 101"

definition settings_text_ok :: "Cmd12SettingsRecord \<Rightarrow> bool" where
  "settings_text_ok r \<longleftrightarrow> ascii_fits (s12_Server1 r) 32 \<and> ascii_fits (s12_Server2 r) 32
     \<and> ascii_fits (s12_NTPServer r) 32 \<and> ascii_fits (s12_Operator r) 32 \<and> ascii_fits (s12_CountryCode r) 8
     \<and> ascii_fits (s12_SimPhone r) 16 \<and> ascii_fits (s12_USSD r) 8"

definition settings_ok :: "Cmd12SettingsRecord \<Rightarrow> bool" where
  "settings_ok r \<longleftrightarrow> s12_NetworkType r \<le> 4 \<and> s12_AutoRebootHour r \<le> 23
     \<and> (\<forall>x\<in>set (rel_Flags (s12_Relay1 r)). x \<le> 1) \<and> (\<forall>x\<in>set (rel_Flags (s12_Relay2 r)). x \<le> 1)
     \<and> settings_text_ok r"

lemma length_settings_head:
  "settings_text_ok r \<Longrightarrow> length (settings_head r) = 175"
  by (simp add: settings_head_def settings_text_ok_def len_simps)

lemma length_concat_pairs: "length (concat (map (\<lambda>d. [f d, g d]) xs)) = 2 * length xs"
  by (induction xs) auto

lemma length_settings_layout:
  "wf12 r \<Longrightarrow> settings_text_ok r \<Longrightarrow> length (settings_layout r) = 608"
  by (simp add: settings_layout_def wf12_def length_settings_head length_concat_pairs relay_layout_def)

lemma write_settings_head:
  assumes "settings_text_ok r"
  shows "(copy_slice 157 165 (zbuf 8 (bytes_of (s12_USSD r)))
     (copy_slice 141 157 (zbuf 16 (bytes_of (s12_SimPhone r)))
     (copy_slice 133 141 (zbuf 8 (bytes_of (s12_CountryCode r)))
     ((copy_slice 100 132 (zbuf 32 (bytes_of (s12_Operator r)))
     (copy_slice 68 100 (zbuf 32 (bytes_of (s12_NTPServer r)))
     (copy_slice 36 68 (zbuf 32 (bytes_of (s12_Server2 r)))
     (copy_slice 4 36 (zbuf 32 (bytes_of (s12_Server1 r)))
     (PutUint32 0 (s12_PINCode r) (replicate 608 0))))))[132 := s12_NetworkType r]))))
     [165 := s12_AutoRebootHour r, 166 := boolToByte (s12_ExtendedDebug r),
      167 := boolToByte (s12_UseVoLTE r), 168 := boolToByte (s12_Interface485Active r),
      169 := boolToByte (s12_NTPEnabled r), 174 := s12_WiegandType r]
   = zbuf 608 (settings_head r)"
  using assms unfolding settings_text_ok_def zbuf_init [of 608]
  by (simp add: zbuf_update zbuf_copy zbuf_Put length_text settings_head_def)

lemma write_settings_eq:
  assumes "wf12 r" "settings_text_ok r"
  shows "write_settings r (zbuf 32 (bytes_of (s12_Server1 r))) (zbuf 32 (bytes_of (s12_Server2 r)))
     (zbuf 32 (bytes_of (s12_NTPServer r))) (zbuf 32 (bytes_of (s12_Operator r)))
     (zbuf 8 (bytes_of (s12_CountryCode r))) (zbuf 16 (bytes_of (s12_SimPhone r)))
     (zbuf 8 (bytes_of (s12_USSD r))) (replicate 608 0) = settings_layout r"
proof -
  let ?per = "concat (map (\<lambda>d. [per_Address d, per_Type d]) (s12_Peripherals r))"
  define L where "L = settings_head r @ ?per"
  have h: "length (settings_head r) = 175" using assms(2) by (rule length_settings_head)
  have per: "fold (\<lambda>i out. out[175 + 2 * i := per_Address (s12_Peripherals r ! i),
        176 + 2 * i := per_Type (s12_Peripherals r ! i)]) [0..<8] (zbuf 608 (settings_head r))
      = zbuf 608 L"
  proof -
    have "map (\<lambda>i. [per_Address (s12_Peripherals r ! i), per_Type (s12_Peripherals r ! i)]) [0..<8]
        = map (\<lambda>d. [per_Address d, per_Type d]) (s12_Peripherals r)"
      using assms(1) by (intro nth_equalityI) (simp_all add: wf12_def)
    then show ?thesis using zbuf_fold2 [OF h, of 8 608] by (simp add: L_def)
  qed
  have lp: "length L = 191"
    using assms(1) h by (simp add: L_def wf12_def length_concat_pairs)
  show ?thesis
    using assms(1) lp unfolding write_settings_def Let_def
    by (simp add: write_settings_head [OF assms(2)] per writeRelay_zbuf wf12_def relay_layout_def
        zbuf_update zbuf_copy zbuf_full settings_layout_def flip: L_def)
qed

lemma validateRelayFlags_iff: "validateRelayFlags flags = None \<longleftrightarrow> (\<forall>x\<in>set flags. x \<le> 1)"
  by (auto simp: validateRelayFlags_def for_err_lt all_set_conv_all_nth not_less split: if_splits)

lemma Cmd12SettingsRecord_Build_iff:
  assumes "wf12 r"
  shows "Cmd12SettingsRecord_Build r = Inr b \<longleftrightarrow> settings_ok r \<and> b = settings_layout r"
proof -
  have opt: "(case x of None \<Rightarrow> y | Some e \<Rightarrow> Inl (w e)) = Inr b \<longleftrightarrow> x = None \<and> y = Inr b"
    for x :: "go_error option" and y :: "go_error + byte list" and w b by (cases x) auto
  have hour: "23 < s12_AutoRebootHour r \<longleftrightarrow> \<not> s12_AutoRebootHour r \<le> 23" by (simp add: not_le)
  have "Cmd12SettingsRecord_Build r = Inr b \<longleftrightarrow> settings_ok r \<and>
      b = write_settings r (zbuf 32 (bytes_of (s12_Server1 r))) (zbuf 32 (bytes_of (s12_Server2 r)))
     (zbuf 32 (bytes_of (s12_NTPServer r))) (zbuf 32 (bytes_of (s12_Operator r)))
     (zbuf 8 (bytes_of (s12_CountryCode r))) (zbuf 16 (bytes_of (s12_SimPhone r)))
     (zbuf 8 (bytes_of (s12_USSD r))) (replicate 608 0)"
    unfolding Cmd12SettingsRecord_Build_def settings_ok_def settings_text_ok_def
      IsCmd12NetworkTypeValid_def
    by (simp add: opt hour res_bind_eq_Inr fixedASCII_iff validateRelayFlags_iff eq_commute [of _ b])
  then show ?thesis
    using write_settings_eq [OF assms] by (auto simp: settings_ok_def)
qed

lemma settings_head_nth:
  assumes "settings_text_ok r"
  shows "settings_head r ! 132 = s12_NetworkType r" "settings_head r ! 165 = s12_AutoRebootHour r"
    "settings_head r ! 166 = boolToByte (s12_ExtendedDebug r)"
    "settings_head r ! 167 = boolToByte (s12_UseVoLTE r)"
    "settings_head r ! 168 = boolToByte (s12_Interface485Active r)"
    "settings_head r ! 169 = boolToByte (s12_NTPEnabled r)"
  using assms unfolding settings_head_def settings_text_ok_def
  by (simp_all add: nth_append length_text)

lemma nth_segment: "length pre = n \<Longrightarrow> i < length xs \<Longrightarrow> (pre @ xs @ ys) ! (n + i) = xs ! i"
  by (auto simp: nth_append)

lemma validate_settings_layout:
  assumes "wf12 r" "settings_ok r"
  shows "validate_cmd12_record (settings_layout r) = None"
proof -
  define L where "L = settings_head r @ concat (map (\<lambda>d. [per_Address d, per_Type d]) (s12_Peripherals r))"
  have tok: "settings_text_ok r" using assms(2) by (simp add: settings_ok_def)
  note h = length_settings_head [OF tok]
  have L: "length L = 191"
    using assms(1) h by (simp add: L_def wf12_def length_concat_pairs)
  have head: "settings_layout r ! i = settings_head r ! i" if "i < 175" for i
    using that h by (simp add: settings_layout_def nth_append)
  have r1: "settings_layout r ! (191 + i) = rel_Flags (s12_Relay1 r) ! i" if "i < 8" for i
    using that assms(1) nth_segment [OF L, of i "rel_Flags (s12_Relay1 r)"]
    by (simp add: settings_layout_def wf12_def relay_layout_def flip: L_def)
  have "length (L @ relay_layout (s12_Relay1 r)) = 202"
    using L assms(1) by (simp add: wf12_def relay_layout_def)
  then have r2: "settings_layout r ! (202 + i) = rel_Flags (s12_Relay2 r) ! i" if "i < 8" for i
    using that assms(1) nth_segment [of "L @ relay_layout (s12_Relay1 r)" 202 i "rel_Flags (s12_Relay2 r)"]
    by (simp add: settings_layout_def wf12_def relay_layout_def flip: L_def)
  have flags: "\<not> 1 < settings_layout r ! (191 + i)" "\<not> 1 < settings_layout r ! (202 + i)" if "i < 8" for i
    using that assms by (simp_all add: r1 r2 settings_ok_def wf12_def all_set_conv_all_nth not_less)
  have "\<not> 1 < boolToByte b" for b by (simp add: boolToByte_def)
  then show ?thesis
    using assms(2) unfolding validate_cmd12_record_def
    by (simp add: head settings_head_nth [OF tok] flags for_err_lt settings_ok_def
        IsCmd12NetworkTypeValid_def not_less)
qed

subsection \<open>Raw builders and the validator\<close>

lemma raw_complete:
  assumes "ValidateServerCommandPayload cmd = validate_records s maxCount sz check" "maxCount \<le> 255"
  shows "ValidateServerCommandPayload cmd p = None \<longleftrightarrow>
    (\<exists>ts recs. build_records cmd msg maxCount sz (raw_record msg' sz) ts recs = Inr p)"
  using assms(2) by (auto simp: build_raw_iff assms(1) validate_records_iff)

lemma encode_all_pure: "encode_all (\<lambda>i d. Inr (f d)) i ds = Inr (map f ds)"
  by (induction ds arbitrary: i) auto

lemma holiday_build_iff:
  "Cmd16SyncHolidayPayload_Build q = Inr p \<longleftrightarrow>
     1 \<le> length (c16_Days q) \<and> length (c16_Days q) \<le> 255
     \<and> p = sync_payload (c16_Timestamp q) (map le32 (c16_Days q))"
proof -
  have "validate_cmd16 (sync_payload ts (map le32 ds)) = None" if "1 \<le> length ds" "length ds \<le> 255" for ts ds
    using that unfolding validate_cmd16_def
    by (subst validate_records_sync) (auto simp: for_err_None)
  then show ?thesis
    unfolding Cmd16SyncHolidayPayload_Build_def
    by (subst build_records_eq)
      (auto simp: encode_all_pure validated_iff not_less Suc_le_eq)
qed

lemma days_of_records:
  "\<forall>r\<in>set recs. length r = 4 \<Longrightarrow> map le32 (map Uint32 recs) = recs"
  by (induction recs) (auto simp: le32_Uint32)

subsection \<open>Typed records and the validator\<close>

lemma encode_all_typed:
  assumes "\<And>i r b. r \<in> set recs \<Longrightarrow> enc i r = Inr b \<longleftrightarrow> ok r \<and> b = lay r"
  shows "encode_all enc i recs = Inr bs \<longleftrightarrow> (\<forall>r\<in>set recs. ok r) \<and> bs = map lay recs"
  using assms
proof (induction recs arbitrary: i bs)
  case (Cons r recs)
  have "enc i r = Inr b \<longleftrightarrow> ok r \<and> b = lay r" for b
    using Cons.prems by simp
  moreover have "encode_all enc (i + 1) recs = Inr bs' \<longleftrightarrow> (\<forall>r\<in>set recs. ok r) \<and> bs' = map lay recs" for bs'
    using Cons.prems by (intro Cons.IH) simp
  ultimately show ?case by (auto simp: res_bind_eq_Inr)
qed auto

lemma build_typed_iff:
  assumes len: "\<And>i r b. enc i r = Inr b \<Longrightarrow> length b = sz" and "maxCount \<le> 255"
    and enc: "\<And>i r b. r \<in> set recs \<Longrightarrow> enc i r = Inr b \<longleftrightarrow> ok r \<and> b = lay r"
    and val: "ValidateServerCommandPayload cmd = validate_records s maxCount sz check"
    and chk: "\<And>i r. r \<in> set recs \<Longrightarrow> ok r \<Longrightarrow> check i (lay r) = None \<longleftrightarrow> extra r"
  shows "build_records cmd msg maxCount sz enc ts recs = Inr p \<longleftrightarrow>
    1 \<le> length recs \<and> length recs \<le> maxCount \<and> (\<forall>r\<in>set recs. ok r \<and> extra r)
    \<and> p = sync_payload ts (map lay recs)"
proof -
  have "ValidateServerCommandPayload cmd (sync_payload ts (map lay recs)) = None \<longleftrightarrow> (\<forall>r\<in>set recs. extra r)"
    if "1 \<le> length recs" "length recs \<le> maxCount" "\<forall>r\<in>set recs. ok r"
  proof -
    have "length (lay r) = sz" if "r \<in> set recs" "ok r" for r
      using enc [OF that(1)] len that(2) by blast
    then have "validate_records s maxCount sz check (sync_payload ts (map lay recs))
        = for_err (\<lambda>i. check i (map lay recs ! i)) [0..<length (map lay recs)]"
      using that assms(2) by (intro validate_records_sync) auto
    with that(3) show ?thesis
      by (auto simp: val for_err_lt chk all_set_conv_all_nth)
  qed
  moreover have "build_records cmd msg maxCount sz enc ts recs =
     (if length recs < 1 \<or> length recs > maxCount then Inl (Errorf msg [FNat (length recs)])
      else res_bind (encode_all enc 0 recs) (\<lambda>bs. validated cmd (sync_payload ts bs)))"
    using len assms(2) by (rule build_records_eq)
  ultimately show ?thesis
    by (auto simp: res_bind_eq_Inr encode_all_typed [OF enc] validated_iff not_less Suc_le_eq)
qed

lemma padded_ascii_zeros: "padded_ascii (bs @ replicate n 0) \<longleftrightarrow> padded_ascii bs"
proof (induction bs)
  case Nil
  have "padded_ascii (replicate n 0)" "padded_ascii []"
    unfolding padded_ascii_def by (rule exI [of _ "[]"], auto)+
  then show ?case by simp
qed (auto simp: padded_ascii_Cons)

definition id_record_ok :: "Cmd13IDRecord \<Rightarrow> bool" where
  "id_record_ok r \<longleftrightarrow> r13_SlotIndex r \<noteq> 0 \<and> r13_SlotIndex r \<le> 50000 \<and> r13_Group r \<le> 64
     \<and> r13_IDType r \<le> 7 \<and> ascii_fits (r13_ID r) 10"

lemma cmd13_record_ok_layout:
  assumes "id_record_ok r"
  shows "cmd13_record_ok (layout13 r) \<longleftrightarrow> padded_ascii (bytes_of (r13_ID r))"
proof -
  have l: "length (zbuf 10 (bytes_of (r13_ID r))) = 10"
    using assms by (simp add: id_record_ok_def length_text)
  have "go_slice 0 2 (layout13 r) = le16 (r13_SlotIndex r)"
    "go_slice 2 12 (layout13 r) = zbuf 10 (bytes_of (r13_ID r))"
    using l by (simp_all add: layout13_def go_slice_def)
  moreover have "layout13 r ! 12 = r13_Group r" "layout13 r ! 19 = r13_IDType r"
    using l by (simp_all add: layout13_def nth_append)
  ultimately show ?thesis
    using assms by (simp add: cmd13_record_ok_def id_record_ok_def zbuf_def padded_ascii_zeros)
qed

definition schedule_ok :: "Cmd14ScheduleRecord \<Rightarrow> bool" where
  "schedule_ok r \<longleftrightarrow> r14_Slot r \<noteq> 0 \<and> r14_Slot r \<le> 64 \<and> r14_StartHour r \<le> 23 \<and> r14_EndHour r \<le> 23
     \<and> r14_StartMinute r \<le> 59 \<and> r14_EndMinute r \<le> 59 \<and> (\<forall>x\<in>set (r14_Flags r). x = 0 \<or> x = 1)
     \<and> (\<forall>x\<in>set (r14_Scenes r). x \<le> 64) \<and> r14_HolidayLogic r \<le> 3"

definition group_ok :: "Cmd15GroupRecord \<Rightarrow> bool" where
  "group_ok r \<longleftrightarrow> r15_Slot r \<noteq> 0 \<and> r15_Slot r \<le> 64 \<and> r15_Schedule r \<le> 64
     \<and> (\<forall>x\<in>set (r15_Permissions r). x = 0 \<or> x = 1)"

lemma cmd14_record_ok_layout:
  assumes "wf14 r"
  shows "cmd14_record_ok (layout14 r) \<longleftrightarrow> schedule_ok r"
proof -
  let ?h = "[r14_Slot r, r14_StartHour r, r14_StartMinute r, r14_EndHour r, r14_EndMinute r]"
  have fl: "layout14 r ! (5 + i) = r14_Flags r ! i" if "i < 8" for i
    using that assms nth_segment [of ?h 5 i "r14_Flags r"] by (simp add: layout14_def wf14_def)
  have sc: "layout14 r ! (13 + i) = r14_Scenes r ! i" if "i < 8" for i
    using that assms nth_segment [of "?h @ r14_Flags r" 13 i "r14_Scenes r"]
    by (simp add: layout14_def wf14_def)
  have "layout14 r ! 21 = r14_HolidayLogic r"
    using assms by (simp add: layout14_def wf14_def nth_append)
  moreover have "layout14 r ! 0 = r14_Slot r" "layout14 r ! 1 = r14_StartHour r"
    "layout14 r ! 2 = r14_StartMinute r" "layout14 r ! 3 = r14_EndHour r" "layout14 r ! 4 = r14_EndMinute r"
    by (simp_all add: layout14_def)
  ultimately show ?thesis
    using assms by (simp add: cmd14_record_ok_def schedule_ok_def fl sc isBoolByte_def wf14_def
        all_set_conv_all_nth cong: conj_cong)
qed

lemma cmd15_record_ok_layout:
  assumes "wf15 r"
  shows "cmd15_record_ok (layout15 r) \<longleftrightarrow> group_ok r"
proof -
  have "layout15 r ! (2 + i) = r15_Permissions r ! i" if "i < 8" for i
    using that assms nth_segment [of "[r15_Slot r, r15_Schedule r]" 2 i "r15_Permissions r"]
    by (simp add: layout15_def wf15_def)
  moreover have "layout15 r ! 0 = r15_Slot r" "layout15 r ! 1 = r15_Schedule r"
    by (simp_all add: layout15_def)
  ultimately show ?thesis
    using assms by (simp add: cmd15_record_ok_def group_ok_def isBoolByte_def wf15_def
        all_set_conv_all_nth del: add_2_eq_Suc)
qed

lemma length_record_builds:
  "Cmd13IDRecord_Build r13 = Inr b \<Longrightarrow> length b = 32"
  "Cmd14ScheduleRecord_Build r14 = Inr b \<Longrightarrow> length b = 32"
  "Cmd15GroupRecord_Build r15 = Inr b \<Longrightarrow> length b = 16"
  by (auto simp: Cmd13IDRecord_Build_def Cmd14ScheduleRecord_Build_def Cmd15GroupRecord_Build_def Let_def
      res_bind_eq_Inr check_nil_eq_Inr length_PutUint length_copy_slice split: if_splits)

subsection \<open>Text-carrying builders\<close>

lemma sms_build_iff:
  "Cmd11SendSMSPayload_Build sms = Inr out \<longleftrightarrow>
     length (c11_Phone10 sms) = 10 \<and> (\<forall>x\<in>set (bytes_of (c11_Phone10 sms)). 48 \<le> x \<and> x \<le> 57)
     \<and> ascii_fits (c11_Message sms) 50
     \<and> out = bytes_of (c11_Phone10 sms) @ zbuf 50 (bytes_of (c11_Message sms))"
proof -
  let ?m = "zbuf 50 (bytes_of (c11_Message sms))"
  have buf: "copy_slice 10 60 m (copy_slice 0 10 ph (replicate 60 0)) = ph @ m"
    if "length ph = 10" "length m = 50" for ph m :: "byte list"
    using that unfolding zbuf_init by (simp add: zbuf_copy zbuf_full)
  have val: "validate_cmd11 (ph @ m) = None"
    if "length ph = 10" "length m = 50" "\<forall>x\<in>set ph. 48 \<le> x \<and> x \<le> 57" for ph m
    using that by (auto simp: validate_cmd11_def Let_def go_slice_def for_err_lt all_set_conv_all_nth not_less
      split: if_splits)
  show ?thesis
    unfolding Cmd11SendSMSPayload_Build_def Let_def
    by (auto simp: res_bind_eq_Inr fixedDigits_iff fixedASCII_iff validated_iff buf val length_text)
qed

lemma bind_build_iff:
  "Cmd25BindingResponsePayload_Build bind = Inr out \<longleftrightarrow>
      (c25_ObjectNumber bind = 0 \<or> c25_ObjectNumberRaw bind = []) \<and> length (c25_ObjectNumberRaw bind) \<le> 8
      \<and> ascii_fits (c25_ObjectName bind) 128 \<and> ascii_fits (c25_ControllerName bind) 128
      \<and> ascii_fits (c25_AdminPhone bind) 16 \<and> c25_ErrorCode bind \<le> 3
      \<and> out = c25_ErrorCode bind # (if c25_ObjectNumberRaw bind = [] then le64 (c25_ObjectNumber bind)
                                  else zbuf 8 (c25_ObjectNumberRaw bind))
          @ zbuf 128 (bytes_of (c25_ObjectName bind)) @ zbuf 128 (bytes_of (c25_ControllerName bind))
          @ zbuf 16 (bytes_of (c25_AdminPhone bind))"
proof -
  let ?num = "if c25_ObjectNumberRaw bind = [] then le64 (c25_ObjectNumber bind)
      else zbuf 8 (c25_ObjectNumberRaw bind)"
  define F where "F = (if length (c25_ObjectNumberRaw bind) > 0
      then copy_slice 1 9 (c25_ObjectNumberRaw bind) ((replicate 281 0)[0 := c25_ErrorCode bind])
      else PutUint64 1 (c25_ObjectNumber bind) ((replicate 281 0)[0 := c25_ErrorCode bind]))"
  have num: "length ?num = 8" if "length (c25_ObjectNumberRaw bind) \<le> 8"
    using that by (simp add: length_zbuf)
  have "F = zbuf 281 (c25_ErrorCode bind # ?num)" if "length (c25_ObjectNumberRaw bind) \<le> 8"
    using that unfolding F_def zbuf_init
    by (simp add: zbuf_update zbuf_Put zbuf_copy_short) (simp add: zbuf_def flip: replicate_add)
  then have buf: "copy_slice 265 281 ph (copy_slice 137 265 ct (copy_slice 9 137 nm F))
      = c25_ErrorCode bind # ?num @ nm @ ct @ ph"
    if "length (c25_ObjectNumberRaw bind) \<le> 8" "length nm = 128" "length ct = 128" "length ph = 16" for nm ct ph
    using that num [OF that(1)] by (simp add: zbuf_copy zbuf_full)
  have val: "validate_cmd25 (c25_ErrorCode bind # ?num @ nm @ ct @ ph) = None \<longleftrightarrow> c25_ErrorCode bind \<le> 3"
    if "length (c25_ObjectNumberRaw bind) \<le> 8" "length nm = 128" "length ct = 128" "length ph = 16" for nm ct ph
    using that num [OF that(1)] by (auto simp: validate_cmd25_def not_less)
  show ?thesis
  proof (cases "length (c25_ObjectNumberRaw bind) \<le> 8")
    case True
    show ?thesis
      unfolding Cmd25BindingResponsePayload_Build_def Let_def F_def [symmetric]
      using True
      by (simp add: res_bind_eq_Inr fixedASCII_iff validated_iff buf [OF True] val [OF True] length_text
          not_less cong: conj_cong)
  qed (simp add: Cmd25BindingResponsePayload_Build_def)
qed

lemma custom_build_iff:
  "Cmd27CustomPayload_Build cust = Inr out \<longleftrightarrow>
     length (c27_Argument cust) \<le> 65535
     \<and> out = c27_CustomCommand cust # le16 (word_of_nat (length (c27_Argument cust))) @ c27_Argument cust"
proof -
  let ?n = "length (c27_Argument cust)"
  let ?out = "c27_CustomCommand cust # le16 (word_of_nat ?n) @ c27_Argument cust"
  have buf: "copy_slice 3 (3 + ?n) (c27_Argument cust)
      (PutUint16 1 (word_of_nat ?n) ((replicate (3 + ?n) 0)[0 := c27_CustomCommand cust])) = ?out"
    unfolding zbuf_init by (simp add: zbuf_update zbuf_Put zbuf_copy zbuf_full)
  have "go_slice 1 3 ?out = le16 (word_of_nat ?n)" by (simp add: go_slice_def)
  then have "validate_cmd27 ?out = None" if "?n \<le> 65535"
    using that by (simp add: validate_cmd27_def Let_def unat_of_nat)
  then show ?thesis
    using buf by (auto simp: Cmd27CustomPayload_Build_def Let_def validated_iff length_PutUint)
qed

subsection \<open>Properties\<close>

lemma settings_build_iff:
  assumes "wf12 (c12_Record p)"
  shows "Cmd12SettingsPayload_Build p = Inr out \<longleftrightarrow>
    settings_ok (c12_Record p) \<and> out = le32 (c12_Timestamp p) @ [1] @ settings_layout (c12_Record p)"
proof (cases "settings_ok (c12_Record p)")
  case True
  let ?rec = "settings_layout (c12_Record p)"
  let ?out = "le32 (c12_Timestamp p) @ [1] @ ?rec"
  have len: "length ?rec = 608"
    using assms True by (simp add: length_settings_layout settings_ok_def)
  have "copy_slice 5 613 ?rec ((PutUint32 0 (c12_Timestamp p) (replicate 613 0))[4 := 1]) = ?out"
    using len unfolding zbuf_init by (simp add: buf_simps)
  moreover have "validate_cmd12 ?out = None"
    using len validate_settings_layout [OF assms True]
    by (simp add: validate_cmd12_def Let_def nth_append go_slice_def)
  ultimately have "Cmd12SettingsPayload_Build p = Inr ?out"
    using assms True len
    by (simp add: Cmd12SettingsPayload_Build_def res_bind_eq_Inr Cmd12SettingsRecord_Build_iff
        validated_iff Let_def length_PutUint)
  with True show ?thesis by auto
next
  case False
  then show ?thesis
    using assms by (simp add: Cmd12SettingsPayload_Build_def res_bind_eq_Inr Cmd12SettingsRecord_Build_iff)
qed


definition sample_settings :: Cmd12SettingsRecord where
  "sample_settings = \<lparr>s12_PINCode = 1234, s12_Server1 = ''srv1'', s12_Server2 = ''srv2'', s12_NTPServer = ''ntp'',
     s12_Operator = ''op'', s12_NetworkType = 4, s12_CountryCode = ''+7'', s12_SimPhone = ''900'', s12_USSD = ''*100#'',
     s12_AutoRebootHour = 23, s12_ExtendedDebug = True, s12_UseVoLTE = False, s12_Interface485Active = True,
     s12_NTPEnabled = True, s12_WiegandType = 1,
     s12_Peripherals = replicate 8 \<lparr>per_Address = 1, per_Type = 2\<rparr>,
     s12_Relay1 = \<lparr>rel_Flags = replicate 8 1, rel_ImpulseSec = 1, rel_PauseSec = 2, rel_Repeats = 3\<rparr>,
     s12_Relay2 = \<lparr>rel_Flags = replicate 8 0, rel_ImpulseSec = 1, rel_PauseSec = 2, rel_Repeats = 3\<rparr>,
     s12_Input1Function = 1, s12_Input2Function = 2,
     s12_ReserveA = replicate 292 0, s12_ReserveB = replicate 101 0\<rparr>"

lemma sample_settings_ok: "wf12 sample_settings" "settings_ok sample_settings"
  by (simp_all add: sample_settings_def wf12_def settings_ok_def settings_text_ok_def ascii_fits_def
      bytes_of_def)


text \<open>
  (C27) The raw builders of the synchronisation commands are complete for the validator: a payload is
  accepted for command 13, 14 or 15 exactly when the raw builder of that command produces it
  from some timestamp and some records, and for command 16 exactly when the holiday builder
  produces it from some timestamp and some days.
\<close>

theorem raw_builders_complete:
  "(ValidateServerCommandPayload 13 p = None \<longleftrightarrow> (\<exists>ts recs. Cmd13SyncIDPayload_Build
        \<lparr>c13_Timestamp = ts, c13_Records = recs\<rparr> = Inr p))
   \<and> (ValidateServerCommandPayload 14 p = None \<longleftrightarrow> (\<exists>ts recs. Cmd14SyncSchedulePayload_Build
        \<lparr>c14_Timestamp = ts, c14_Records = recs\<rparr> = Inr p))
   \<and> (ValidateServerCommandPayload 15 p = None \<longleftrightarrow> (\<exists>ts recs. Cmd15SyncGroupPayload_Build
        \<lparr>c15_Timestamp = ts, c15_Records = recs\<rparr> = Inr p))
   \<and> (ValidateServerCommandPayload 16 p = None \<longleftrightarrow> (\<exists>ts days. Cmd16SyncHolidayPayload_Build
        \<lparr>c16_Timestamp = ts, c16_Days = days\<rparr> = Inr p))"
proof (intro conjI)
  show "ValidateServerCommandPayload 13 p = None \<longleftrightarrow> (\<exists>ts recs. Cmd13SyncIDPayload_Build
        \<lparr>c13_Timestamp = ts, c13_Records = recs\<rparr> = Inr p)"
    unfolding Cmd13SyncIDPayload_Build_def
    by (subst raw_complete) (simp_all add: validate_cmd13_def)
  show "ValidateServerCommandPayload 14 p = None \<longleftrightarrow> (\<exists>ts recs. Cmd14SyncSchedulePayload_Build
        \<lparr>c14_Timestamp = ts, c14_Records = recs\<rparr> = Inr p)"
    unfolding Cmd14SyncSchedulePayload_Build_def
    by (subst raw_complete) (simp_all add: validate_cmd14_def)
  show "ValidateServerCommandPayload 15 p = None \<longleftrightarrow> (\<exists>ts recs. Cmd15SyncGroupPayload_Build
        \<lparr>c15_Timestamp = ts, c15_Records = recs\<rparr> = Inr p)"
    unfolding Cmd15SyncGroupPayload_Build_def
    by (subst raw_complete) (simp_all add: validate_cmd15_def)
  show "ValidateServerCommandPayload 16 p = None \<longleftrightarrow> (\<exists>ts days. Cmd16SyncHolidayPayload_Build
        \<lparr>c16_Timestamp = ts, c16_Days = days\<rparr> = Inr p)"
    (is "_ \<longleftrightarrow> ?built")
  proof
    assume "ValidateServerCommandPayload 16 p = None"
    then obtain ts recs where "p = sync_payload ts recs" "1 \<le> length recs" "length recs \<le> 255"
        "\<forall>r\<in>set recs. length r = 4"
      by (auto simp: validate_cmd16_def validate_records_iff)
    then show ?built
      using holiday_build_iff [of "\<lparr>c16_Timestamp = ts, c16_Days = map Uint32 recs\<rparr>" p]
        days_of_records [of recs] by auto
  next
    assume ?built
    then show "ValidateServerCommandPayload 16 p = None"
      by (auto simp: holiday_build_iff validate_cmd16_def validate_records_sync for_err_None)
  qed
qed

lemma ids_build_iff:
  assumes "\<forall>r\<in>set recs. length (r13_Reserve r) = 12"
  shows "Cmd13SyncIDStructuredPayload_Build \<lparr>c13s_Timestamp = ts, c13s_Records = recs\<rparr> = Inr p \<longleftrightarrow>
    1 \<le> length recs \<and> length recs \<le> 250
    \<and> (\<forall>r\<in>set recs. id_record_ok r \<and> padded_ascii (bytes_of (r13_ID r)))
    \<and> p = sync_payload ts (map layout13 recs)"
  unfolding Cmd13SyncIDStructuredPayload_Build_def
    Cmd13SyncIDStructuredPayload.select_convs
proof (rule build_typed_iff)
  show "ValidateServerCommandPayload 13 = validate_records ''cmd 13'' 250 32 validate_cmd13_record"
    by (simp add: validate_cmd13_def)
  fix r i b
  show "validate_cmd13_record i (layout13 r) = None \<longleftrightarrow> padded_ascii (bytes_of (r13_ID r))"
    if "id_record_ok r"
    using that by (simp add: validate_cmd13_record_iff cmd13_record_ok_layout)
  assume "r \<in> set recs"
  then show "map_err (\<lambda>e. Errorf ''cmd 13: record %d: %w'' [FNat i, FErr e]) (Cmd13IDRecord_Build r) = Inr b
      \<longleftrightarrow> id_record_ok r \<and> b = layout13 r"
    using assms by (auto simp: Cmd13IDRecord_Build_iff id_record_ok_def)
qed (auto dest: length_record_builds)

lemma schedules_build_iff:
  assumes "\<forall>r\<in>set scheds. wf14 r"
  shows "Cmd14SyncScheduleStructuredPayload_Build \<lparr>c14s_Timestamp = ts, c14s_Records = scheds\<rparr> = Inr p \<longleftrightarrow>
      1 \<le> length scheds \<and> length scheds \<le> 64 \<and> (\<forall>r\<in>set scheds. schedule_ok r)
      \<and> p = sync_payload ts (map layout14 scheds)"
proof -
  have "Cmd14SyncScheduleStructuredPayload_Build \<lparr>c14s_Timestamp = ts, c14s_Records = scheds\<rparr> = Inr p \<longleftrightarrow>
      1 \<le> length scheds \<and> length scheds \<le> 64 \<and> (\<forall>r\<in>set scheds. schedule_ok r \<and> True)
      \<and> p = sync_payload ts (map layout14 scheds)"
    unfolding Cmd14SyncScheduleStructuredPayload_Build_def Cmd14SyncScheduleStructuredPayload.select_convs
    by (rule build_typed_iff [where s = "''cmd 14''" and check = validate_cmd14_record])
      (use assms in \<open>auto dest: length_record_builds simp: validate_cmd14_def
        Cmd14ScheduleRecord_Build_iff cmd14_record_ok_layout validate_cmd14_record_iff\<close>)
  then show ?thesis by simp
qed

lemma groups_build_iff:
  assumes "\<forall>r\<in>set groups. wf15 r"
  shows "Cmd15SyncGroupStructuredPayload_Build \<lparr>c15s_Timestamp = ts, c15s_Records = groups\<rparr> = Inr p \<longleftrightarrow>
      1 \<le> length groups \<and> length groups \<le> 64 \<and> (\<forall>r\<in>set groups. group_ok r)
      \<and> p = sync_payload ts (map layout15 groups)"
proof -
  have "Cmd15SyncGroupStructuredPayload_Build \<lparr>c15s_Timestamp = ts, c15s_Records = groups\<rparr> = Inr p \<longleftrightarrow>
      1 \<le> length groups \<and> length groups \<le> 64 \<and> (\<forall>r\<in>set groups. group_ok r \<and> True)
      \<and> p = sync_payload ts (map layout15 groups)"
    unfolding Cmd15SyncGroupStructuredPayload_Build_def Cmd15SyncGroupStructuredPayload.select_convs
    by (rule build_typed_iff [where s = "''cmd 15''" and check = validate_cmd15_record])
      (use assms in \<open>auto dest: length_record_builds simp: validate_cmd15_def
        Cmd15GroupRecord_Build_iff cmd15_record_ok_layout validate_cmd15_record_iff\<close>)
  then show ?thesis by simp
qed


definition sample_id_record :: Cmd13IDRecord where
  "sample_id_record = \<lparr>r13_SlotIndex = 50000, r13_ID = ''79001234'', r13_Group = 64, r13_BanDate = 1,
     r13_LifetimeMinutes = 2, r13_IDType = 7, r13_Reserve = replicate 12 0\<rparr>"

definition sample_schedule :: Cmd14ScheduleRecord where
  "sample_schedule = \<lparr>r14_Slot = 1, r14_StartHour = 8, r14_StartMinute = 0, r14_EndHour = 17, r14_EndMinute = 59,
     r14_Flags = replicate 8 1, r14_Scenes = replicate 8 64, r14_HolidayLogic = 3, r14_Reserve = replicate 10 0\<rparr>"

definition sample_group :: Cmd15GroupRecord where
  "sample_group = \<lparr>r15_Slot = 64, r15_Schedule = 1, r15_Permissions = replicate 8 1, r15_Reserve = replicate 6 0\<rparr>"


text \<open>
  The firmware start builder (19) succeeds exactly when firmware number, size and checksum are
  non-zero, the size is not among the last 1023 of the 32-bit range, and the block count is
  left at 0 or agrees with the size; the payload always carries the computed block count.
\<close>

lemma fw_start_build_iff:
  "Cmd19StartFWPayload_Build p = Inr out \<longleftrightarrow>
     c19_FirmwareNumber p \<noteq> 0 \<and> c19_FileSize p \<noteq> 0 \<and> c19_FileCRC p \<noteq> 0
     \<and> unat (c19_FileSize p) + 1023 < 2 ^ 32
     \<and> (c19_BlockCount p = 0 \<or> c19_BlockCount p = FWBlockCountForSize (c19_FileSize p))
     \<and> out = le16 (c19_FirmwareNumber p) @ le32 (c19_BuildTimestamp p) @ le32 (c19_FileSize p)
         @ le32 (c19_FileCRC p) @ le16 (FWBlockCountForSize (c19_FileSize p))"
proof -
  let ?out = "\<lambda>n. le16 (c19_FirmwareNumber p) @ le32 (c19_BuildTimestamp p) @ le32 (c19_FileSize p)
         @ le32 (c19_FileCRC p) @ le16 n"
  have buf: "PutUint16 14 n (PutUint32 10 (c19_FileCRC p) (PutUint32 6 (c19_FileSize p)
      (PutUint32 2 (c19_BuildTimestamp p) (PutUint16 0 (c19_FirmwareNumber p) (replicate 16 0))))) = ?out n" for n
    unfolding zbuf_init by (simp add: zbuf_Put zbuf_full)
  have "go_slice 0 2 (?out n) = le16 (c19_FirmwareNumber p)" "go_slice 6 10 (?out n) = le32 (c19_FileSize p)"
    "go_slice 10 14 (?out n) = le32 (c19_FileCRC p)" "go_slice 14 16 (?out n) = le16 n" for n
    by (simp_all add: go_slice_def)
  then have val: "validate_cmd19 (?out n) = None \<longleftrightarrow> c19_FirmwareNumber p \<noteq> 0 \<and> c19_FileSize p \<noteq> 0
      \<and> c19_FileCRC p \<noteq> 0 \<and> n \<noteq> 0 \<and> n = FWBlockCountForSize (c19_FileSize p)" for n
    by (simp add: validate_cmd19_def Let_def)
  show ?thesis
    unfolding Cmd19StartFWPayload_Build_def
    by (auto simp: Let_def buf validated_iff val FWBlockCount_zero_iff not_le)
qed

end
