(* ===== verification/Command_Builder.thy ===== *)
theory Command_Builder
  imports Go_Json Builder_Laws Frame_Codec
begin

text \<open>
  The command builder (\<^verbatim>\<open>internal/server/command_builder.go\<close>): a payload from JSON parameters, one case
  per command, with the anonymous request struct of each case as the list of its JSON fields. The
  raw parameters are \<open>None\<close> when the request has none. The table of form fields and the HTML page
  are not modelled.
\<close>

section \<open>Helpers\<close>

definition decodeBuilderParams :: "'r field list \<Rightarrow> 'r \<Rightarrow> json option \<Rightarrow> go_error + 'r" where
  "decodeBuilderParams fs zero raw =
     (let body = (case raw of None \<Rightarrow> JObject [] | Some JNull \<Rightarrow> JObject [] | Some j \<Rightarrow> j)
      in map_err (\<lambda>e. Errorf ''parameters: %w'' [FErr e]) (Unmarshal fs zero body))"

definition decodeHexString :: "string \<Rightarrow> go_error + byte list" where
  "decodeHexString s =
     (let trimmed = strings_Map (\<lambda>r. if r \<in> set [32, 10, 13, 9] then -1 else r) (TrimSpace s)
      in if trimmed = [] then Inr [] else DecodeString trimmed)"

text \<open>
  \<^verbatim>\<open>fmt.Sscanf(part, "%d", &value)\<close> for a \<^verbatim>\<open>uint32\<close>: the digits at the start; what follows them is
  ignored.
\<close>

definition Sscanf_uint32 :: "string \<Rightarrow> u32 option" where
  "Sscanf_uint32 part =
     (let ds = takeWhile (\<lambda>c. 48 \<le> (of_char c :: nat) \<and> (of_char c :: nat) \<le> 57) part
      in if ds = [] \<or> number_value ds \<ge> 2 ^ 32 then None else Some (word_of_int (number_value ds)))"

fun csv_values :: "string list \<Rightarrow> go_error + u32 list" where
  "csv_values [] = Inr []"
| "csv_values (part # parts) =
     (let part = TrimSpace part in
      if part = [] then csv_values parts
      else case Sscanf_uint32 part of
             None \<Rightarrow> Inl (Errorf ''invalid uint32 value %q'' [FQuoted part])
           | Some value \<Rightarrow> res_bind (csv_values parts) (\<lambda>out. Inr (value # out)))"

definition parseUint32CSV :: "string \<Rightarrow> go_error + u32 list" where
  "parseUint32CSV s = res_bind (csv_values (Split (TrimSpace s) (CHR '',''))) (\<lambda>out.
     if out = [] then Inl (Errorf ''days_csv must contain at least one unix day'' []) else Inr out)"

section \<open>Records in JSON\<close>

text \<open>The records have no JSON tags: the names of the members are those of the fields.\<close>

definition Cmd12Peripheral_fields :: "Cmd12Peripheral field list" where
  "Cmd12Peripheral_fields =
     [uint_field ''Address'' (\<lambda>v r. r\<lparr>per_Address := v\<rparr>), uint_field ''Type'' (\<lambda>v r. r\<lparr>per_Type := v\<rparr>)]"

definition Cmd12RelaySettings_fields :: "Cmd12RelaySettings field list" where
  "Cmd12RelaySettings_fields =
     [array_field ''Flags'' uint_value 0 rel_Flags (\<lambda>v r. r\<lparr>rel_Flags := v\<rparr>),
      uint_field ''ImpulseSec'' (\<lambda>v r. r\<lparr>rel_ImpulseSec := v\<rparr>),
      uint_field ''PauseSec'' (\<lambda>v r. r\<lparr>rel_PauseSec := v\<rparr>),
      uint_field ''Repeats'' (\<lambda>v r. r\<lparr>rel_Repeats := v\<rparr>)]"

definition zero_peripheral :: Cmd12Peripheral where
  "zero_peripheral = \<lparr>per_Address = 0, per_Type = 0\<rparr>"

definition zero_relay :: Cmd12RelaySettings where
  "zero_relay = \<lparr>rel_Flags = replicate 8 0, rel_ImpulseSec = 0, rel_PauseSec = 0, rel_Repeats = 0\<rparr>"

definition zero_settings :: Cmd12SettingsRecord where
  "zero_settings =
     \<lparr>s12_PINCode = 0, s12_Server1 = [], s12_Server2 = [], s12_NTPServer = [], s12_Operator = [], s12_NetworkType = 0,
      s12_CountryCode = [], s12_SimPhone = [], s12_USSD = [], s12_AutoRebootHour = 0, s12_ExtendedDebug = False,
      s12_UseVoLTE = False, s12_Interface485Active = False, s12_NTPEnabled = False, s12_WiegandType = 0,
      s12_Peripherals = replicate 8 zero_peripheral, s12_Relay1 = zero_relay, s12_Relay2 = zero_relay,
      s12_Input1Function = 0, s12_Input2Function = 0, s12_ReserveA = replicate 292 0, s12_ReserveB = replicate 101 0\<rparr>"

definition Cmd12SettingsRecord_fields :: "Cmd12SettingsRecord field list" where
  "Cmd12SettingsRecord_fields =
     [uint_field ''PINCode'' (\<lambda>v r. r\<lparr>s12_PINCode := v\<rparr>),
      string_field ''Server1'' (\<lambda>v r. r\<lparr>s12_Server1 := v\<rparr>),
      string_field ''Server2'' (\<lambda>v r. r\<lparr>s12_Server2 := v\<rparr>),
      string_field ''NTPServer'' (\<lambda>v r. r\<lparr>s12_NTPServer := v\<rparr>),
      string_field ''Operator'' (\<lambda>v r. r\<lparr>s12_Operator := v\<rparr>),
      uint_field ''NetworkType'' (\<lambda>v r. r\<lparr>s12_NetworkType := v\<rparr>),
      string_field ''CountryCode'' (\<lambda>v r. r\<lparr>s12_CountryCode := v\<rparr>),
      string_field ''SimPhone'' (\<lambda>v r. r\<lparr>s12_SimPhone := v\<rparr>),
      string_field ''USSD'' (\<lambda>v r. r\<lparr>s12_USSD := v\<rparr>),
      uint_field ''AutoRebootHour'' (\<lambda>v r. r\<lparr>s12_AutoRebootHour := v\<rparr>),
      bool_field ''ExtendedDebug'' (\<lambda>v r. r\<lparr>s12_ExtendedDebug := v\<rparr>),
      bool_field ''UseVoLTE'' (\<lambda>v r. r\<lparr>s12_UseVoLTE := v\<rparr>),
      bool_field ''Interface485Active'' (\<lambda>v r. r\<lparr>s12_Interface485Active := v\<rparr>),
      bool_field ''NTPEnabled'' (\<lambda>v r. r\<lparr>s12_NTPEnabled := v\<rparr>),
      uint_field ''WiegandType'' (\<lambda>v r. r\<lparr>s12_WiegandType := v\<rparr>),
      array_field ''Peripherals'' (\<lambda>j x. Unmarshal Cmd12Peripheral_fields x j) zero_peripheral s12_Peripherals
        (\<lambda>v r. r\<lparr>s12_Peripherals := v\<rparr>),
      struct_field ''Relay1'' Cmd12RelaySettings_fields s12_Relay1 (\<lambda>v r. r\<lparr>s12_Relay1 := v\<rparr>),
      struct_field ''Relay2'' Cmd12RelaySettings_fields s12_Relay2 (\<lambda>v r. r\<lparr>s12_Relay2 := v\<rparr>),
      uint_field ''Input1Function'' (\<lambda>v r. r\<lparr>s12_Input1Function := v\<rparr>),
      uint_field ''Input2Function'' (\<lambda>v r. r\<lparr>s12_Input2Function := v\<rparr>),
      array_field ''ReserveA'' uint_value 0 s12_ReserveA (\<lambda>v r. r\<lparr>s12_ReserveA := v\<rparr>),
      array_field ''ReserveB'' uint_value 0 s12_ReserveB (\<lambda>v r. r\<lparr>s12_ReserveB := v\<rparr>)]"

definition zero_id_record :: Cmd13IDRecord where
  "zero_id_record = \<lparr>r13_SlotIndex = 0, r13_ID = [], r13_Group = 0, r13_BanDate = 0, r13_LifetimeMinutes = 0,
     r13_IDType = 0, r13_Reserve = replicate 12 0\<rparr>"

definition Cmd13IDRecord_fields :: "Cmd13IDRecord field list" where
  "Cmd13IDRecord_fields =
     [uint_field ''SlotIndex'' (\<lambda>v r. r\<lparr>r13_SlotIndex := v\<rparr>), string_field ''ID'' (\<lambda>v r. r\<lparr>r13_ID := v\<rparr>),
      uint_field ''Group'' (\<lambda>v r. r\<lparr>r13_Group := v\<rparr>), uint_field ''BanDate'' (\<lambda>v r. r\<lparr>r13_BanDate := v\<rparr>),
      uint_field ''LifetimeMinutes'' (\<lambda>v r. r\<lparr>r13_LifetimeMinutes := v\<rparr>),
      uint_field ''IDType'' (\<lambda>v r. r\<lparr>r13_IDType := v\<rparr>),
      array_field ''Reserve'' uint_value 0 r13_Reserve (\<lambda>v r. r\<lparr>r13_Reserve := v\<rparr>)]"

definition zero_schedule :: Cmd14ScheduleRecord where
  "zero_schedule = \<lparr>r14_Slot = 0, r14_StartHour = 0, r14_StartMinute = 0, r14_EndHour = 0, r14_EndMinute = 0,
     r14_Flags = replicate 8 0, r14_Scenes = replicate 8 0, r14_HolidayLogic = 0, r14_Reserve = replicate 10 0\<rparr>"

definition Cmd14ScheduleRecord_fields :: "Cmd14ScheduleRecord field list" where
  "Cmd14ScheduleRecord_fields =
     [uint_field ''Slot'' (\<lambda>v r. r\<lparr>r14_Slot := v\<rparr>), uint_field ''StartHour'' (\<lambda>v r. r\<lparr>r14_StartHour := v\<rparr>),
      uint_field ''StartMinute'' (\<lambda>v r. r\<lparr>r14_StartMinute := v\<rparr>), uint_field ''EndHour'' (\<lambda>v r. r\<lparr>r14_EndHour := v\<rparr>),
      uint_field ''EndMinute'' (\<lambda>v r. r\<lparr>r14_EndMinute := v\<rparr>),
      array_field ''Flags'' uint_value 0 r14_Flags (\<lambda>v r. r\<lparr>r14_Flags := v\<rparr>),
      array_field ''Scenes'' uint_value 0 r14_Scenes (\<lambda>v r. r\<lparr>r14_Scenes := v\<rparr>),
      uint_field ''HolidayLogic'' (\<lambda>v r. r\<lparr>r14_HolidayLogic := v\<rparr>),
      array_field ''Reserve'' uint_value 0 r14_Reserve (\<lambda>v r. r\<lparr>r14_Reserve := v\<rparr>)]"

definition zero_group :: Cmd15GroupRecord where
  "zero_group = \<lparr>r15_Slot = 0, r15_Schedule = 0, r15_Permissions = replicate 8 0, r15_Reserve = replicate 6 0\<rparr>"

definition Cmd15GroupRecord_fields :: "Cmd15GroupRecord field list" where
  "Cmd15GroupRecord_fields =
     [uint_field ''Slot'' (\<lambda>v r. r\<lparr>r15_Slot := v\<rparr>), uint_field ''Schedule'' (\<lambda>v r. r\<lparr>r15_Schedule := v\<rparr>),
      array_field ''Permissions'' uint_value 0 r15_Permissions (\<lambda>v r. r\<lparr>r15_Permissions := v\<rparr>),
      array_field ''Reserve'' uint_value 0 r15_Reserve (\<lambda>v r. r\<lparr>r15_Reserve := v\<rparr>)]"

section \<open>Payloads\<close>

text \<open>One definition per case of \<^verbatim>\<open>buildCommandPayload\<close>.\<close>

definition build_reboot :: "json option \<Rightarrow> go_error + byte list" where
  "build_reboot raw = res_bind (decodeBuilderParams [uint_field ''timeout_sec'' (\<lambda>v r. r\<lparr>c2_TimeoutSec := v\<rparr>)] \<lparr>c2_TimeoutSec = 0\<rparr> raw)
     Cmd2RebootPayload_Build"

definition build_factory_reset :: "json option \<Rightarrow> go_error + byte list" where
  "build_factory_reset raw = res_bind (decodeBuilderParams [uint_field ''timeout_sec'' (\<lambda>v r. r\<lparr>c3_TimeoutSec := v\<rparr>)] \<lparr>c3_TimeoutSec = 0\<rparr> raw)
     Cmd3FactoryResetPayload_Build"

definition build_triggers :: "json option \<Rightarrow> go_error + byte list" where
  "build_triggers raw = res_bind (decodeBuilderParams
     [bool_field ''manual_unlock'' (\<lambda>v r. r\<lparr>tf_ManualUnlock := v\<rparr>),
      bool_field ''scenario_unlock'' (\<lambda>v r. r\<lparr>tf_ScenarioUnlock := v\<rparr>),
      bool_field ''auto_registration'' (\<lambda>v r. r\<lparr>tf_AutoRegistration := v\<rparr>),
      bool_field ''open_for_all'' (\<lambda>v r. r\<lparr>tf_OpenForAll := v\<rparr>),
      bool_field ''forward_sms'' (\<lambda>v r. r\<lparr>tf_ForwardSMS := v\<rparr>),
      bool_field ''notify_unknown_id_sms'' (\<lambda>v r. r\<lparr>tf_NotifyUnknownIDSMS := v\<rparr>),
      bool_field ''notify_low_balance_sms'' (\<lambda>v r. r\<lparr>tf_NotifyLowBalanceSMS := v\<rparr>),
      bool_field ''schedule_for_all_calls'' (\<lambda>v r. r\<lparr>tf_ScheduleForAllCalls := v\<rparr>)]
     \<lparr>tf_ManualUnlock = False, tf_ScenarioUnlock = False, tf_AutoRegistration = False, tf_OpenForAll = False,
      tf_ForwardSMS = False, tf_NotifyUnknownIDSMS = False, tf_NotifyLowBalanceSMS = False, tf_ScheduleForAllCalls = False\<rparr> raw)
     (\<lambda>flags. Cmd5TriggerStructuredPayload_Build \<lparr>c5_Flags = flags, c5_Reserve = replicate 8 0\<rparr>)"

definition build_capture_id :: "json option \<Rightarrow> go_error + byte list" where
  "build_capture_id raw = res_bind (decodeBuilderParams
     [uint_field ''capture_timeout'' (\<lambda>v r. r\<lparr>c6_CaptureTimeout := v\<rparr>),
      uint_field ''interface'' (\<lambda>v r. r\<lparr>c6_Interface := v\<rparr>),
      uint_field ''network_address'' (\<lambda>v r. r\<lparr>c6_NetworkAddress := v\<rparr>)]
     \<lparr>c6_CaptureTimeout = 0, c6_Interface = 0, c6_NetworkAddress = 0\<rparr> raw) Cmd6CaptureIDPayload_Build"

definition build_photo :: "json option \<Rightarrow> go_error + byte list" where
  "build_photo raw = res_bind (decodeBuilderParams [uint_field ''camera_address'' (\<lambda>v r. r\<lparr>c7_CameraAddress := v\<rparr>)]
     \<lparr>c7_CameraAddress = 0\<rparr> raw) Cmd7PhotoRequestPayload_Build"

definition build_outputs :: "json option \<Rightarrow> go_error + byte list" where
  "build_outputs raw = res_bind (decodeBuilderParams
     [uint_field ''source_id'' (\<lambda>v r. r\<lparr>c8_SourceID := v\<rparr>), uint_field ''output1'' (\<lambda>v r. r\<lparr>c8_Output1 := v\<rparr>),
      uint_field ''output2'' (\<lambda>v r. r\<lparr>c8_Output2 := v\<rparr>)]
     \<lparr>c8_SourceID = 0, c8_Output1 = 0, c8_Output2 = 0\<rparr> raw) Cmd8OutputControlPayload_Build"

definition build_sms :: "json option \<Rightarrow> go_error + byte list" where
  "build_sms raw = res_bind (decodeBuilderParams
     [string_field ''phone10'' (\<lambda>v r. r\<lparr>c11_Phone10 := v\<rparr>), string_field ''message'' (\<lambda>v r. r\<lparr>c11_Message := v\<rparr>)]
     \<lparr>c11_Phone10 = [], c11_Message = []\<rparr> raw)
     (\<lambda>req. Cmd11SendSMSPayload_Build (req\<lparr>c11_Phone10 := TrimSpace (c11_Phone10 req)\<rparr>))"

text \<open>The request of a synchronisation command: a timestamp and raw JSON, which is decoded in turn.\<close>

definition sync_request :: "string \<Rightarrow> json option \<Rightarrow> (json \<Rightarrow> go_error + 'r) \<Rightarrow> (u32 \<Rightarrow> 'r \<Rightarrow> go_error + byte list) \<Rightarrow> go_error + byte list" where
  "sync_request name raw dec build = res_bind (decodeBuilderParams
     [uint_field ''timestamp'' (\<lambda>v (_, j). (v, j)), raw_field name (\<lambda>j (t, _). (t, Some j))] (0, None) raw)
     (\<lambda>(timestamp, body). case body of
        None \<Rightarrow> Inl (Errorf (name @ '' is required'') [])
      | Some j \<Rightarrow> res_bind (map_err (\<lambda>e. Errorf (name @ '': %w'') [FErr e]) (dec j)) (build timestamp))"

definition build_settings :: "json option \<Rightarrow> go_error + byte list" where
  "build_settings raw = sync_request ''record_json'' raw (Unmarshal Cmd12SettingsRecord_fields zero_settings)
     (\<lambda>t record. Cmd12SettingsPayload_Build \<lparr>c12_Timestamp = t, c12_Record = record\<rparr>)"

definition build_ids :: "json option \<Rightarrow> go_error + byte list" where
  "build_ids raw = sync_request ''records_json'' raw (Unmarshal_slice Cmd13IDRecord_fields zero_id_record)
     (\<lambda>t records. Cmd13SyncIDStructuredPayload_Build \<lparr>c13s_Timestamp = t, c13s_Records = records\<rparr>)"

definition build_schedules :: "json option \<Rightarrow> go_error + byte list" where
  "build_schedules raw = sync_request ''records_json'' raw (Unmarshal_slice Cmd14ScheduleRecord_fields zero_schedule)
     (\<lambda>t records. Cmd14SyncScheduleStructuredPayload_Build \<lparr>c14s_Timestamp = t, c14s_Records = records\<rparr>)"

definition build_groups :: "json option \<Rightarrow> go_error + byte list" where
  "build_groups raw = sync_request ''records_json'' raw (Unmarshal_slice Cmd15GroupRecord_fields zero_group)
     (\<lambda>t records. Cmd15SyncGroupStructuredPayload_Build \<lparr>c15s_Timestamp = t, c15s_Records = records\<rparr>)"

definition build_holidays :: "json option \<Rightarrow> go_error + byte list" where
  "build_holidays raw = res_bind (decodeBuilderParams
     [uint_field ''timestamp'' (\<lambda>v (_, s). (v, s)), string_field ''days_csv'' (\<lambda>s (t, _). (t, s))] (0, []) raw)
     (\<lambda>(timestamp, daysCSV). res_bind (parseUint32CSV daysCSV)
        (\<lambda>days. Cmd16SyncHolidayPayload_Build \<lparr>c16_Timestamp = timestamp, c16_Days = days\<rparr>))"

definition build_crc_block :: "json option \<Rightarrow> go_error + byte list" where
  "build_crc_block raw = res_bind (decodeBuilderParams [uint_field ''block'' (\<lambda>v r. r\<lparr>c18_Block := v\<rparr>)] \<lparr>c18_Block = 0\<rparr> raw)
     Cmd18CRCBlockPayload_Build"

definition build_fw_start :: "json option \<Rightarrow> go_error + byte list" where
  "build_fw_start raw = res_bind (decodeBuilderParams
     [uint_field ''firmware_number'' (\<lambda>v r. r\<lparr>c19_FirmwareNumber := v\<rparr>),
      uint_field ''build_timestamp'' (\<lambda>v r. r\<lparr>c19_BuildTimestamp := v\<rparr>),
      uint_field ''file_size'' (\<lambda>v r. r\<lparr>c19_FileSize := v\<rparr>), uint_field ''file_crc'' (\<lambda>v r. r\<lparr>c19_FileCRC := v\<rparr>),
      uint_field ''block_count'' (\<lambda>v r. r\<lparr>c19_BlockCount := v\<rparr>)]
     \<lparr>c19_FirmwareNumber = 0, c19_BuildTimestamp = 0, c19_FileSize = 0, c19_FileCRC = 0, c19_BlockCount = 0\<rparr> raw)
     Cmd19StartFWPayload_Build"

definition build_fw_block :: "json option \<Rightarrow> go_error + byte list" where
  "build_fw_block raw = res_bind (decodeBuilderParams
     [uint_field ''block_number'' (\<lambda>v (_, s). (v, s)), string_field ''data_hex'' (\<lambda>s (n, _). (n, s))] (0, []) raw)
     (\<lambda>(blockNumber, dataHex).
        res_bind (map_err (\<lambda>e. Errorf ''data_hex: %w'' [FErr e]) (decodeHexString dataHex))
        (\<lambda>data. Cmd20FWBlockPayload_Build \<lparr>c20_BlockNumber = blockNumber, c20_Data = data\<rparr>))"

definition build_set_time :: "json option \<Rightarrow> go_error + byte list" where
  "build_set_time raw = res_bind (decodeBuilderParams [uint_field ''server_time'' (\<lambda>v r. r\<lparr>c23_ServerTime := v\<rparr>)]
     \<lparr>c23_ServerTime = 0\<rparr> raw) Cmd23SetTimePayload_Build"

text \<open>The request of the binding response has the raw object number as hexadecimal text.\<close>

definition build_binding :: "json option \<Rightarrow> go_error + byte list" where
  "build_binding raw = res_bind (decodeBuilderParams
     [uint_field ''error_code'' (\<lambda>v (r, h). (r\<lparr>c25_ErrorCode := v\<rparr>, h)),
      uint_field ''object_number'' (\<lambda>v (r, h). (r\<lparr>c25_ObjectNumber := v\<rparr>, h)),
      string_field ''object_number_raw_hex'' (\<lambda>v (r, h). (r, v)),
      string_field ''object_name'' (\<lambda>v (r, h). (r\<lparr>c25_ObjectName := v\<rparr>, h)),
      string_field ''controller_name'' (\<lambda>v (r, h). (r\<lparr>c25_ControllerName := v\<rparr>, h)),
      string_field ''admin_phone'' (\<lambda>v (r, h). (r\<lparr>c25_AdminPhone := v\<rparr>, h))]
     (\<lparr>c25_ErrorCode = 0, c25_ObjectNumber = 0, c25_ObjectNumberRaw = [], c25_ObjectName = [], c25_ControllerName = [],
       c25_AdminPhone = []\<rparr>, []) raw)
     (\<lambda>(req, rawHex).
        res_bind (map_err (\<lambda>e. Errorf ''object_number_raw_hex: %w'' [FErr e]) (decodeHexString rawHex))
        (\<lambda>rawNumber. Cmd25BindingResponsePayload_Build (req\<lparr>c25_ObjectNumberRaw := rawNumber\<rparr>)))"

definition build_custom :: "json option \<Rightarrow> go_error + byte list" where
  "build_custom raw = res_bind (decodeBuilderParams
     [uint_field ''custom_command'' (\<lambda>v (_, s). (v, s)), string_field ''argument_hex'' (\<lambda>s (n, _). (n, s))] (0, []) raw)
     (\<lambda>(customCommand, argumentHex).
        res_bind (map_err (\<lambda>e. Errorf ''argument_hex: %w'' [FErr e]) (decodeHexString argumentHex))
        (\<lambda>arg. Cmd27CustomPayload_Build \<lparr>c27_CustomCommand = customCommand, c27_Argument = arg\<rparr>))"

definition buildCommandPayload :: "u8 \<Rightarrow> json option \<Rightarrow> go_error + byte list" where
  "buildCommandPayload commandID raw =
     (if commandID = CmdReboot then build_reboot raw
      else if commandID = CmdFactoryReset then build_factory_reset raw
      else if commandID = CmdSetTriggers then build_triggers raw
      else if commandID = CmdCaptureID then build_capture_id raw
      else if commandID = CmdRequestPhoto then build_photo raw
      else if commandID = CmdControlOutputs then build_outputs raw
      else if commandID \<in> set [CmdRequestEvents, CmdRequestSMSIDs, CmdCRCAll, CmdPhotoUploadReq, CmdStatus2Req]
      then BuildEmptyPayload commandID
      else if commandID = CmdSendSMS then build_sms raw
      else if commandID = CmdSyncSettings then build_settings raw
      else if commandID = CmdSyncIDs then build_ids raw
      else if commandID = CmdSyncSchedules then build_schedules raw
      else if commandID = CmdSyncGroups then build_groups raw
      else if commandID = CmdSyncHolidays then build_holidays raw
      else if commandID = CmdCRCBlock then build_crc_block raw
      else if commandID = CmdFWStart then build_fw_start raw
      else if commandID = CmdFWBlock then build_fw_block raw
      else if commandID = CmdSetTime then build_set_time raw
      else if commandID = CmdBindingResponse then build_binding raw
      else if commandID = CmdCustom then build_custom raw
      else Inl (Errorf ''command %d is not supported by builder'' [FByte commandID]))"

section \<open>Names\<close>

definition commandName :: "u8 \<Rightarrow> string" where
  "commandName commandID = (case map_of
     [(CmdReboot, ''Reboot''), (CmdFactoryReset, ''Factory Reset''), (CmdSetTriggers, ''Set Triggers''),
      (CmdCaptureID, ''Capture ID''), (CmdRequestPhoto, ''Request Photo''), (CmdControlOutputs, ''Control Outputs''),
      (CmdRequestEvents, ''Request Events''), (CmdRequestSMSIDs, ''Request SMS IDs''), (CmdSendSMS, ''Send SMS''),
      (CmdSyncSettings, ''Sync Settings''), (CmdSyncIDs, ''Sync IDs''), (CmdSyncSchedules, ''Sync Schedules''),
      (CmdSyncGroups, ''Sync Groups''), (CmdSyncHolidays, ''Sync Holidays''), (CmdCRCAll, ''CRC All''),
      (CmdCRCBlock, ''CRC Block''), (CmdFWStart, ''FW Start''), (CmdFWBlock, ''FW Block''),
      (CmdPhotoUploadReq, ''Photo Upload Request''), (CmdStatus2Req, ''Status2 Request''), (CmdSetTime, ''Set Time''),
      (CmdBindingResponse, ''Binding Response''), (CmdCustom, ''Custom'')] commandID of
       Some name \<Rightarrow> name | None \<Rightarrow> ''Command '' @ fmt_d (uint commandID))"

section \<open>Forms\<close>

text \<open>
  The table of forms: per command its fields with their default values as JSON. The texts that
  describe a form and a field (\<^verbatim>\<open>Summary\<close>, and \<^verbatim>\<open>Help\<close> and \<^verbatim>\<open>Options\<close>, which the table never sets) are
  left out.
\<close>

record commandBuilderField =
  fld_Name :: string
  fld_Label :: string
  fld_Kind :: string
  fld_Required :: bool
  fld_Placeholder :: string
  fld_DefaultValue :: "json option"

record commandBuilderSpec =
  spec_CommandID :: u8
  spec_Name :: string
  spec_Fields :: "commandBuilderField list"

definition form_field :: "string \<Rightarrow> string \<Rightarrow> string \<Rightarrow> bool \<Rightarrow> string \<Rightarrow> json option \<Rightarrow> commandBuilderField" where
  "form_field name label kind required placeholder default_value =
     \<lparr>fld_Name = name, fld_Label = label, fld_Kind = kind, fld_Required = required, fld_Placeholder = placeholder,
      fld_DefaultValue = default_value\<rparr>"

definition num :: "int \<Rightarrow> json" where
  "num n = JNumber (fmt_d n)"

definition number_field :: "string \<Rightarrow> string \<Rightarrow> bool \<Rightarrow> int \<Rightarrow> commandBuilderField" where
  "number_field name label required n = form_field name label ''number'' required [] (Some (num n))"

definition checkbox_field :: "string \<Rightarrow> string \<Rightarrow> bool \<Rightarrow> commandBuilderField" where
  "checkbox_field name label b = form_field name label ''checkbox'' False [] (Some (JBool b))"

definition settings_default :: json where
  "settings_default = JObject
     [(''PINCode'', num 1234), (''Server1'', JString ''srv1.local''), (''Server2'', JString ''srv2.local''),
      (''NTPServer'', JString ''pool.ntp.org''), (''Operator'', JString ''carrier''), (''NetworkType'', num 2),
      (''CountryCode'', JString ''250''), (''SimPhone'', JString ''79990000000''), (''USSD'', JString ''*100#''),
      (''AutoRebootHour'', num 0), (''ExtendedDebug'', JBool False), (''UseVoLTE'', JBool False),
      (''Interface485Active'', JBool False), (''NTPEnabled'', JBool True), (''WiegandType'', num 0)]"

definition ids_default :: json where
  "ids_default = JArray [JObject [(''SlotIndex'', num 1), (''ID'', JString ''123456''), (''Group'', num 1), (''BanDate'', num 0),
     (''LifetimeMinutes'', num 0), (''IDType'', num 0)]]"

definition schedules_default :: json where
  "schedules_default = JArray [JObject [(''Slot'', num 1), (''StartHour'', num 9), (''StartMinute'', num 0),
     (''EndHour'', num 18), (''EndMinute'', num 0), (''HolidayLogic'', num 0)]]"

definition groups_default :: json where
  "groups_default = JArray [JObject [(''Slot'', num 1), (''Schedule'', num 1)]]"

definition control_specs :: "(u8 \<times> commandBuilderField list) list" where
  "control_specs =
     [(CmdReboot, [number_field ''timeout_sec'' ''Timeout, sec'' True 3]),
      (CmdFactoryReset, [number_field ''timeout_sec'' ''Timeout, sec'' True 5]),
      (CmdSetTriggers,
         [checkbox_field ''manual_unlock'' ''Manual Unlock'' False,
          checkbox_field ''scenario_unlock'' ''Scenario Unlock'' False,
          checkbox_field ''auto_registration'' ''Auto Registration'' True,
          checkbox_field ''open_for_all'' ''Open For All'' False,
          checkbox_field ''forward_sms'' ''Forward SMS'' False,
          checkbox_field ''notify_unknown_id_sms'' ''Notify Unknown ID SMS'' False,
          checkbox_field ''notify_low_balance_sms'' ''Notify Low Balance SMS'' False,
          checkbox_field ''schedule_for_all_calls'' ''Schedule For All Calls'' False]),
      (CmdCaptureID,
         [number_field ''capture_timeout'' ''Capture Timeout'' True 15, number_field ''interface'' ''Interface'' True 1,
          number_field ''network_address'' ''Network Address'' True 1]),
      (CmdRequestPhoto, [number_field ''camera_address'' ''Camera Address'' True 1]),
      (CmdControlOutputs,
         [number_field ''source_id'' ''Source ID'' True 1, number_field ''output1'' ''Output 1'' True 0,
          number_field ''output2'' ''Output 2'' True 0]),
      (CmdRequestEvents, []), (CmdRequestSMSIDs, []),
      (CmdSendSMS,
         [form_field ''phone10'' ''Phone 10 digits'' ''text'' True ''9991234567'' None,
          form_field ''message'' ''Message'' ''textarea'' True ''hello'' None])]"

definition sync_specs :: "u32 \<Rightarrow> (u8 \<times> commandBuilderField list) list" where
  "sync_specs now = (let timestamp = number_field ''timestamp'' ''Timestamp'' True (uint now) in
     [(CmdSyncSettings, [timestamp, form_field ''record_json'' ''Record JSON'' ''json'' True [] (Some settings_default)]),
      (CmdSyncIDs, [timestamp, form_field ''records_json'' ''Records JSON'' ''json'' True [] (Some ids_default)]),
      (CmdSyncSchedules, [timestamp, form_field ''records_json'' ''Records JSON'' ''json'' True [] (Some schedules_default)]),
      (CmdSyncGroups, [timestamp, form_field ''records_json'' ''Records JSON'' ''json'' True [] (Some groups_default)]),
      (CmdSyncHolidays, [timestamp, form_field ''days_csv'' ''Days CSV'' ''text'' True ''1711929600,1712016000'' None])])"

definition service_specs :: "u32 \<Rightarrow> (u8 \<times> commandBuilderField list) list" where
  "service_specs now =
     [(CmdCRCAll, []),
      (CmdCRCBlock, [number_field ''block'' ''Block'' True 1]),
      (CmdFWStart,
         [number_field ''firmware_number'' ''Firmware Number'' True 1,
          number_field ''build_timestamp'' ''Build Timestamp'' True (uint now),
          number_field ''file_size'' ''File Size'' True 2048, number_field ''file_crc'' ''File CRC'' True 305419896,
          number_field ''block_count'' ''Block Count (0=auto)'' False 0]),
      (CmdFWBlock,
         [number_field ''block_number'' ''Block Number'' True 1,
          form_field ''data_hex'' ''Data Hex'' ''textarea'' True (concat (replicate 16 ''AA'') @ ''...'') None]),
      (CmdPhotoUploadReq, []), (CmdStatus2Req, []),
      (CmdSetTime, [number_field ''server_time'' ''Server Time'' True (uint now)]),
      (CmdBindingResponse,
         [number_field ''error_code'' ''Error Code'' True 0, number_field ''object_number'' ''Object Number'' False 1,
          form_field ''object_number_raw_hex'' ''Object Number Raw Hex'' ''text'' False ''01020304'' None,
          form_field ''object_name'' ''Object Name'' ''text'' False [] (Some (JString ''Gate A'')),
          form_field ''controller_name'' ''Controller Name'' ''text'' False [] (Some (JString ''Controller A'')),
          form_field ''admin_phone'' ''Admin Phone'' ''text'' False [] (Some (JString ''79990000000''))]),
      (CmdCustom,
         [number_field ''custom_command'' ''Custom Command'' True 1,
          form_field ''argument_hex'' ''Argument Hex'' ''textarea'' False ''01020304'' None])]"

definition commandBuilderSpecs :: "time \<Rightarrow> commandBuilderSpec list" where
  "commandBuilderSpecs t = (let now = word_of_int (t div second) in
     map (\<lambda>(i, fs). \<lparr>spec_CommandID = i, spec_Name = commandName i, spec_Fields = fs\<rparr>)
       (control_specs @ sync_specs now @ service_specs now))"

text \<open>
  A form as the page submits it untouched: each field has its default value; a required field
  without one has its placeholder.
\<close>

definition form_values :: "commandBuilderSpec \<Rightarrow> json" where
  "form_values spec = JObject (List.map_filter (\<lambda>f. case fld_DefaultValue f of
     Some v \<Rightarrow> Some (fld_Name f, v)
   | None \<Rightarrow> if fld_Required f then Some (fld_Name f, JString (fld_Placeholder f)) else None) (spec_Fields spec))"

section \<open>What is built is valid\<close>

text \<open>Every builder of the protocol ends with the validation of its command.\<close>

definition ends_valid :: "u8 \<Rightarrow> go_error + byte list \<Rightarrow> bool" where
  "ends_valid c r \<longleftrightarrow> (\<forall>b. r = Inr b \<longrightarrow> ValidateServerCommandPayload c b = None)"

lemma ends_valid_intros:
  "ends_valid c (validated c out)" "ends_valid c (Inl e)"
  "(\<And>x. ends_valid c (f x)) \<Longrightarrow> ends_valid c (res_bind r f)"
  "ends_valid c a \<Longrightarrow> ends_valid c b \<Longrightarrow> ends_valid c (if P then a else b)"
  "(\<And>x y. ends_valid c (g x y)) \<Longrightarrow> ends_valid c (case p of (x, y) \<Rightarrow> g x y)"
  "ends_valid c a \<Longrightarrow> (\<And>j. ends_valid c (h j)) \<Longrightarrow> ends_valid c (case opt of None \<Rightarrow> a | Some j \<Rightarrow> h j)"
  "ends_valid c (check_nil (ValidateServerCommandPayload c out) (Inr out))"
  by (auto simp: ends_valid_def validated_iff res_bind_eq_Inr check_nil_eq_Inr split: prod.split option.split)

lemma builds_valid:
  "ends_valid 2 (Cmd2RebootPayload_Build p2)" "ends_valid 3 (Cmd3FactoryResetPayload_Build p3)"
  "ends_valid 5 (Cmd5TriggerStructuredPayload_Build p5)" "ends_valid 6 (Cmd6CaptureIDPayload_Build p6)"
  "ends_valid 7 (Cmd7PhotoRequestPayload_Build p7)" "ends_valid 8 (Cmd8OutputControlPayload_Build p8)"
  "ends_valid 11 (Cmd11SendSMSPayload_Build p11)" "ends_valid 12 (Cmd12SettingsPayload_Build p12)"
  "ends_valid 13 (Cmd13SyncIDStructuredPayload_Build p13)" "ends_valid 14 (Cmd14SyncScheduleStructuredPayload_Build p14)"
  "ends_valid 15 (Cmd15SyncGroupStructuredPayload_Build p15)" "ends_valid 16 (Cmd16SyncHolidayPayload_Build p16)"
  "ends_valid 18 (Cmd18CRCBlockPayload_Build p18)" "ends_valid 19 (Cmd19StartFWPayload_Build p19)"
  "ends_valid 20 (Cmd20FWBlockPayload_Build p20)" "ends_valid 23 (Cmd23SetTimePayload_Build p23)"
  "ends_valid 25 (Cmd25BindingResponsePayload_Build p25)" "ends_valid 27 (Cmd27CustomPayload_Build p27)"
  "ends_valid c (BuildEmptyPayload c)"
  unfolding Cmd2RebootPayload_Build_def Cmd3FactoryResetPayload_Build_def Cmd5TriggerStructuredPayload_Build_def
    Cmd6CaptureIDPayload_Build_def Cmd7PhotoRequestPayload_Build_def Cmd8OutputControlPayload_Build_def
    Cmd11SendSMSPayload_Build_def Cmd12SettingsPayload_Build_def Cmd13SyncIDStructuredPayload_Build_def
    Cmd14SyncScheduleStructuredPayload_Build_def Cmd15SyncGroupStructuredPayload_Build_def
    Cmd16SyncHolidayPayload_Build_def Cmd18CRCBlockPayload_Build_def Cmd19StartFWPayload_Build_def
    Cmd20FWBlockPayload_Build_def Cmd23SetTimePayload_Build_def Cmd25BindingResponsePayload_Build_def
    Cmd27CustomPayload_Build_def BuildEmptyPayload_def build_records_def Let_def
  by (intro ends_valid_intros)+

lemmas build_case_defs = build_reboot_def build_factory_reset_def build_triggers_def build_capture_id_def build_photo_def
  build_outputs_def build_sms_def sync_request_def build_settings_def build_ids_def build_schedules_def build_groups_def
  build_holidays_def build_crc_block_def build_fw_start_def build_fw_block_def build_set_time_def build_binding_def
  build_custom_def

lemma build_cases_valid:
  "ends_valid 2 (build_reboot raw)" "ends_valid 3 (build_factory_reset raw)" "ends_valid 5 (build_triggers raw)"
  "ends_valid 6 (build_capture_id raw)" "ends_valid 7 (build_photo raw)" "ends_valid 8 (build_outputs raw)"
  "ends_valid 11 (build_sms raw)" "ends_valid 12 (build_settings raw)" "ends_valid 13 (build_ids raw)"
  "ends_valid 14 (build_schedules raw)" "ends_valid 15 (build_groups raw)" "ends_valid 16 (build_holidays raw)"
  "ends_valid 18 (build_crc_block raw)" "ends_valid 19 (build_fw_start raw)" "ends_valid 20 (build_fw_block raw)"
  "ends_valid 23 (build_set_time raw)" "ends_valid 25 (build_binding raw)" "ends_valid 27 (build_custom raw)"
  unfolding build_case_defs by (intro ends_valid_intros builds_valid)+

lemma buildCommandPayload_valid: "ends_valid c (buildCommandPayload c raw)"
  unfolding buildCommandPayload_def by (auto intro: build_cases_valid builds_valid ends_valid_intros)

end
