(* ===== verification/Http_Api.thy ===== *)
theory Http_Api
  imports Command_Builder Connection_Guard Delivery
begin

text \<open>
  The HTTP interface of the server (\<^verbatim>\<open>internal/server/observability.go\<close> and the handlers of
  \<^verbatim>\<open>command_builder.go\<close>). A request has its method, clean path, query and header values, and the first
  JSON value of its body, \<open>None\<close> when the body does not start with one. A response has its status,
  the content type set by the handler (empty if none is) and its body: a text, the lines of the
  metrics, one of the fixed HTML pages, or the value that is encoded as JSON. Numbers of seconds,
  floating-point in the code, are kept in nanoseconds.
\<close>

section \<open>Requests and responses\<close>

record request =
  rq_Method :: string
  rq_Path :: string
  rq_Query :: "(string, string) gomap"
  rq_Header :: "(string, string) gomap"
  rq_Body :: "json option"

definition Get :: "(string, string) gomap \<Rightarrow> string \<Rightarrow> string" where
  "Get m key = (case map_of m key of None \<Rightarrow> [] | Some v \<Rightarrow> v)"

datatype metric_line =
    Line string
  | Seconds string duration

datatype page = DashboardPage | RawMessagesPage | LogsPage | CommandBuilderPage

record dashboard_summary =
  ds_ActiveConnections :: int
  ds_KnownSessions :: int
  ds_OnlineSessions :: int
  ds_QueueDepthSum :: int
  ds_QueueDepthMax :: int
  ds_InFlightSum :: int
  ds_InFlightMax :: int
  ds_IPViolations :: u64
  ds_IPBlockedRejects :: u64
  ds_IPPerIPRejects :: u64
  ds_ShutdownDrainLast :: duration
  ds_ShutdownDrainTimeouts :: u64
  ds_AckAccepted :: u64
  ds_AckRetrying :: u64
  ds_AckFailed :: u64
  ds_AckExpired :: u64
  ds_AckDelivered :: u64
  ds_TelemetryFramesObserved :: u64
  ds_BuildVersion :: string
  ds_BuildCommit :: string
  ds_BuildTime :: string

record commandBuildResponse =
  cbr_CommandID :: u8
  cbr_CommandName :: string
  cbr_PayloadHex :: string
  cbr_PayloadLen :: int
  cbr_FrameHex :: string
  cbr_FrameLen :: int

text \<open>The JSON bodies, with the members of each map as arguments.\<close>

datatype body =
    PlainText string
  | Page page
  | Metrics "metric_line list"
  | DashboardBody dashboard_summary "ControllerSessionStat list" "DebugEvent list"
  | ConnectionsBody int "ControllerSessionStat list"
  | EventsBody int "DebugEvent list"
  | RawMessagesBody int "RawDebugMessage list"
  | QueuesBody int "ControllerQueueStat list"
  | SchemaBody "commandBuilderSpec list"
  | BuiltBody commandBuildResponse
  | QueuedBody string u8 string string

record response =
  rs_Status :: int
  rs_ContentType :: string
  rs_Body :: body

definition newline :: string where
  "newline = [CHR 0x0A]"

definition http_Error :: "string \<Rightarrow> int \<Rightarrow> response" where
  "http_Error msg code = \<lparr>rs_Status = code, rs_ContentType = ''text/plain; charset=utf-8'', rs_Body = PlainText (msg @ newline)\<rparr>"

definition NotFound :: response where
  "NotFound = http_Error ''404 page not found'' 404"

definition html_page :: "page \<Rightarrow> response" where
  "html_page p = \<lparr>rs_Status = 200, rs_ContentType = ''text/html; charset=utf-8'', rs_Body = Page p\<rparr>"

definition writeJSON :: "int \<Rightarrow> body \<Rightarrow> response" where
  "writeJSON status v = \<lparr>rs_Status = status, rs_ContentType = ''application/json'', rs_Body = v\<rparr>"

section \<open>Health\<close>

definition indexHandler :: "request \<Rightarrow> response" where
  "indexHandler r = (if rq_Path r \<noteq> ''/'' then NotFound else html_page DashboardPage)"

definition healthzHandler :: response where
  "healthzHandler = \<lparr>rs_Status = 200, rs_ContentType = [], rs_Body = PlainText (''ok'' @ newline)\<rparr>"

definition readyzHandler :: "'s Server \<Rightarrow> response" where
  "readyzHandler sv =
     (if \<not> sv_ready sv \<or> sv_shuttingDown sv
      then \<lparr>rs_Status = 503, rs_ContentType = [], rs_Body = PlainText (''not ready'' @ newline)\<rparr>
      else \<lparr>rs_Status = 200, rs_ContentType = [], rs_Body = PlainText (''ok'' @ newline)\<rparr>)"

section \<open>Metrics\<close>

text \<open>The labels of a counter, read back from its key.\<close>

definition parse_labels :: "(string, string) gomap \<Rightarrow> string \<Rightarrow> (string, string) gomap" where
  "parse_labels out key = foldl (\<lambda>out p. case SplitN2 p (CHR ''='') of [k, v] \<Rightarrow> AList.update k v out | _ \<Rightarrow> out)
     out (Split key (CHR '',''))"

definition parseOverflowKey :: "string \<Rightarrow> (string, string) gomap" where
  "parseOverflowKey key = parse_labels [(''limit'', []), (''policy'', []), (''action'', [])] key"

definition parseAckTerminalReasonKey :: "string \<Rightarrow> (string, string) gomap" where
  "parseAckTerminalReasonKey key = parse_labels [(''status'', []), (''reason'', [])] key"

definition parseTelemetryKey :: "string \<Rightarrow> (string, string) gomap" where
  "parseTelemetryKey key = parse_labels [(''command_id'', []), (''trace_source'', [])] key"

text \<open>A sample \<^verbatim>\<open>name{l1=%q,...} %d\<close> and the two comment lines of a family.\<close>

definition labels_text :: "unicode \<Rightarrow> (string \<times> string) list \<Rightarrow> string" where
  "labels_text u ls = (case map (\<lambda>(l, v). l @ ''='' @ Quote u v) ls of
     [] \<Rightarrow> [] | x # xs \<Rightarrow> ''{'' @ foldl (\<lambda>s t. s @ '','' @ t) x xs @ ''}'')"

definition sample :: "unicode \<Rightarrow> string \<Rightarrow> (string \<times> string) list \<Rightarrow> int \<Rightarrow> metric_line" where
  "sample u name ls n = Line (name @ labels_text u ls @ '' '' @ fmt_d n @ newline)"

definition family :: "string \<Rightarrow> string \<Rightarrow> string \<Rightarrow> metric_line list" where
  "family name help typ = [Line (''# HELP '' @ name @ '' '' @ help @ newline), Line (''# TYPE '' @ name @ '' '' @ typ @ newline)]"

definition gauge :: "unicode \<Rightarrow> string \<Rightarrow> string \<Rightarrow> int \<Rightarrow> metric_line list" where
  "gauge u name help n = family name help ''gauge'' @ [sample u name [] n]"

text \<open>The samples of a map of counters, in the order of the sorted keys.\<close>

definition counter_samples :: "unicode \<Rightarrow> string \<Rightarrow> (string \<Rightarrow> (string \<times> string) list) \<Rightarrow> (string, u64) gomap
    \<Rightarrow> metric_line list" where
  "counter_samples u name labels m =
     map (\<lambda>k. sample u name (labels k) (case map_of m k of None \<Rightarrow> 0 | Some n \<Rightarrow> uint n)) (sort (map fst m))"

definition picked :: "string list \<Rightarrow> (string, string) gomap \<Rightarrow> (string \<times> string) list" where
  "picked ls m = map (\<lambda>l. (l, Get m l)) ls"

definition bound_texts :: "string list" where
  "bound_texts = [''0.1'', ''0.5'', ''1'', ''2'', ''5'', ''10'', ''30'', ''60'']"

fun cumulative :: "u64 \<Rightarrow> u64 list \<Rightarrow> u64 list" where
  "cumulative acc [] = []"
| "cumulative acc (n # ns) = (acc + n) # cumulative (acc + n) ns"

definition latency_histogram :: "'s Server \<Rightarrow> (string \<times> u64) list" where
  "latency_histogram sv = zip bound_texts (cumulative 0 (sv_ackLatencyBucketCounts sv)) @ [(''+Inf'', sv_ackLatencyCount sv)]"

definition session_metrics :: "'s Server \<Rightarrow> metric_line list" where
  "session_metrics sv = (let u = sv_unicode sv; stats = SnapshotStats (sv_sessions sv) in
     gauge u ''tcpadapter_active_connections'' ''Active TCP connections'' (sv_active sv)
     @ gauge u ''tcpadapter_sessions_total'' ''Known controller sessions'' (st_SessionCount stats)
     @ gauge u ''tcpadapter_online_sessions_total'' ''Connected controller sessions'' (st_OnlineSessionCount stats)
     @ gauge u ''tcpadapter_queue_depth_sum'' ''Total commands queued across all controllers'' (st_QueueDepthSum stats)
     @ gauge u ''tcpadapter_queue_depth_max'' ''Max queue depth among controllers'' (st_QueueDepthMax stats)
     @ gauge u ''tcpadapter_queue_bytes_sum'' ''Total estimated queue bytes across all controllers'' (st_QueueBytesSum stats)
     @ gauge u ''tcpadapter_queue_bytes_max'' ''Max estimated queue bytes among controllers'' (st_QueueBytesMax stats)
     @ gauge u ''tcpadapter_inflight_sum'' ''Total in-flight commands across all controllers'' (st_InFlightCountSum stats)
     @ gauge u ''tcpadapter_inflight_max'' ''Max in-flight commands among controllers'' (st_InFlightCountMax stats))"

definition ack_metrics :: "'s Server \<Rightarrow> metric_line list" where
  "ack_metrics sv = (let u = sv_unicode sv in
     family ''tcpadapter_ack_total'' ''ACK outcomes by status'' ''counter''
     @ counter_samples u ''tcpadapter_ack_total'' (\<lambda>k. [(''status'', k)]) (sv_ackStats sv)
     @ family ''tcpadapter_ack_terminal_total'' ''Terminal ACK outcomes by status and normalized reason'' ''counter''
     @ counter_samples u ''tcpadapter_ack_terminal_total''
         (\<lambda>k. picked [''status'', ''reason''] (parseAckTerminalReasonKey k)) (sv_ackTerminalReasonStats sv)
     @ family ''tcpadapter_ack_latency_seconds'' ''End-to-end latency from command enqueue to terminal ack'' ''histogram''
     @ map (\<lambda>(le, n). sample u ''tcpadapter_ack_latency_seconds_bucket'' [(''le'', le)] (uint n)) (latency_histogram sv)
     @ [Seconds ''tcpadapter_ack_latency_seconds_sum'' (sv_ackLatencySum sv),
        sample u ''tcpadapter_ack_latency_seconds_count'' [] (uint (sv_ackLatencyCount sv))])"

definition stat_metrics :: "'s Server \<Rightarrow> metric_line list" where
  "stat_metrics sv = (let u = sv_unicode sv in
     family ''tcpadapter_telemetry_total'' ''Incoming telemetry frames by command and trace source'' ''counter''
     @ counter_samples u ''tcpadapter_telemetry_total''
         (\<lambda>k. picked [''command_id'', ''trace_source''] (parseTelemetryKey k)) (sv_telemetryStats sv)
     @ family ''tcpadapter_queue_overflow_total'' ''Queue overflow events by limit and policy'' ''counter''
     @ counter_samples u ''tcpadapter_queue_overflow_total''
         (\<lambda>k. picked [''limit'', ''policy'', ''action''] (parseOverflowKey k)) (sv_ovfStats sv))"

definition guard_metrics :: "'s Server \<Rightarrow> metric_line list" where
  "guard_metrics sv = (let u = sv_unicode sv in
     family ''tcpadapter_ip_violations_total'' ''Protocol violations tracked per source IP'' ''counter''
     @ [sample u ''tcpadapter_ip_violations_total'' [] (uint (sv_ipViolationTotal sv))]
     @ family ''tcpadapter_ip_rejected_total'' ''Rejected connections by IP protection reason'' ''counter''
     @ [sample u ''tcpadapter_ip_rejected_total'' [(''reason'', ''per_ip_limit'')] (uint (sv_ipPerIPRejectTotal sv)),
        sample u ''tcpadapter_ip_rejected_total'' [(''reason'', ''blocked'')] (uint (sv_ipBlockedRejectTotal sv))]
     @ family ''tcpadapter_ip_blocks_applied_total'' ''Temporary IP blocks applied after violations'' ''counter''
     @ [sample u ''tcpadapter_ip_blocks_applied_total'' [] (uint (sv_ipBlockAppliedTotal sv))])"

definition shutdown_metrics :: "'s Server \<Rightarrow> metric_line list" where
  "shutdown_metrics sv = (let u = sv_unicode sv in
     family ''tcpadapter_shutdown_drain_seconds'' ''Time spent draining connections during shutdown'' ''summary''
     @ [Seconds ''tcpadapter_shutdown_drain_seconds_sum'' (sv_shutdownDrainSum sv),
        sample u ''tcpadapter_shutdown_drain_seconds_count'' [] (uint (sv_shutdownDrainCount sv))]
     @ family ''tcpadapter_shutdown_drain_last_seconds'' ''Last observed shutdown drain duration'' ''gauge''
     @ [Seconds ''tcpadapter_shutdown_drain_last_seconds'' (sv_shutdownDrainLast sv)]
     @ family ''tcpadapter_shutdown_drain_timeouts_total'' ''Number of shutdown drains that hit timeout'' ''counter''
     @ [sample u ''tcpadapter_shutdown_drain_timeouts_total'' [] (uint (sv_shutdownDrainTimeouts sv))])"

definition metricsHandler :: "'s Server \<Rightarrow> response" where
  "metricsHandler sv = \<lparr>rs_Status = 200, rs_ContentType = ''text/plain; version=0.0.4'',
     rs_Body = Metrics (session_metrics sv @ ack_metrics sv @ stat_metrics sv @ guard_metrics sv @ shutdown_metrics sv)\<rparr>"

section \<open>Debug views\<close>

text \<open>\<^verbatim>\<open>internal/buildinfo\<close>.\<close>

definition Version :: string where "Version = ''dev''"

definition Commit :: string where "Commit = ''unknown''"

definition BuildTime :: string where "BuildTime = ''unknown''"

definition dashboardSummary :: "'s Server \<Rightarrow> dashboard_summary" where
  "dashboardSummary sv = (let stats = SnapshotStats (sv_sessions sv); acks = sv_ackStats sv in
     \<lparr>ds_ActiveConnections = sv_active sv, ds_KnownSessions = st_SessionCount stats,
      ds_OnlineSessions = st_OnlineSessionCount stats, ds_QueueDepthSum = st_QueueDepthSum stats,
      ds_QueueDepthMax = st_QueueDepthMax stats, ds_InFlightSum = st_InFlightCountSum stats,
      ds_InFlightMax = st_InFlightCountMax stats, ds_IPViolations = sv_ipViolationTotal sv,
      ds_IPBlockedRejects = sv_ipBlockedRejectTotal sv, ds_IPPerIPRejects = sv_ipPerIPRejectTotal sv,
      ds_ShutdownDrainLast = sv_shutdownDrainLast sv, ds_ShutdownDrainTimeouts = sv_shutdownDrainTimeouts sv,
      ds_AckAccepted = stat acks ''accepted'', ds_AckRetrying = stat acks ''retrying'', ds_AckFailed = stat acks ''failed'',
      ds_AckExpired = stat acks ''expired'', ds_AckDelivered = stat acks ''delivered'',
      ds_TelemetryFramesObserved = foldl (+) 0 (map snd (sv_telemetryStats sv)),
      ds_BuildVersion = Version, ds_BuildCommit = Commit, ds_BuildTime = BuildTime\<rparr>)"

definition parseDebugLimit :: "request \<Rightarrow> int \<Rightarrow> int \<Rightarrow> int" where
  "parseDebugLimit r fallback maximum =
     (let limit = fallback;
          raw = Get (rq_Query r) ''limit'';
          limit = (if raw \<noteq> [] then (case Atoi raw of Some v \<Rightarrow> if v > 0 then v else limit | None \<Rightarrow> limit) else limit)
      in if maximum > 0 \<and> limit > maximum then maximum else limit)"

definition debugDashboardHandler :: "request \<Rightarrow> 's Server \<Rightarrow> response" where
  "debugDashboardHandler r sv =
     (if \<not> cfg_DebugLogs (sv_cfg sv) then NotFound
      else writeJSON 200 (DashboardBody (dashboardSummary sv) (SessionStats (parseDebugLimit r 50 200) (sv_sessions sv))
             (debugEventsSnapshot (parseDebugLimit r 60 200) sv)))"

definition debugConnectionsHandler :: "request \<Rightarrow> 's Server \<Rightarrow> response" where
  "debugConnectionsHandler r sv =
     (if \<not> cfg_DebugLogs (sv_cfg sv) then NotFound
      else let items = SessionStats (parseDebugLimit r 100 500) (sv_sessions sv)
           in writeJSON 200 (ConnectionsBody (int (length items)) items))"

definition debugEventsHandler :: "request \<Rightarrow> 's Server \<Rightarrow> response" where
  "debugEventsHandler r sv =
     (if \<not> cfg_DebugLogs (sv_cfg sv) then NotFound
      else let items = debugEventsSnapshot (parseDebugLimit r 100 250) sv
           in writeJSON 200 (EventsBody (int (length items)) items))"

definition debugRawMessagesHandler :: "request \<Rightarrow> 's Server \<Rightarrow> response" where
  "debugRawMessagesHandler r sv =
     (if \<not> cfg_DebugLogs (sv_cfg sv) then NotFound
      else let items = rawMessagesSnapshot (parseDebugLimit r 100 250) sv
           in writeJSON 200 (RawMessagesBody (int (length items)) items))"

definition debugRawHandler :: "'s Server \<Rightarrow> response" where
  "debugRawHandler sv = (if \<not> cfg_DebugLogs (sv_cfg sv) then NotFound else html_page RawMessagesPage)"

definition debugLogsHandler :: "'s Server \<Rightarrow> response" where
  "debugLogsHandler sv = (if \<not> cfg_DebugLogs (sv_cfg sv) then NotFound else html_page LogsPage)"

definition debugQueuesHandler :: "request \<Rightarrow> 's Server \<Rightarrow> response" where
  "debugQueuesHandler r sv =
     (if \<not> cfg_DebugLogs (sv_cfg sv) then NotFound
      else let limit = 20;
               raw = Get (rq_Query r) ''limit'';
               limit = (if raw \<noteq> []
                        then (case Atoi raw of
                                Some v \<Rightarrow> if v > 0 then (if v > 200 then 200 else v) else limit
                              | None \<Rightarrow> limit)
                        else limit);
               stats = TopQueueStats limit (sv_sessions sv)
           in writeJSON 200 (QueuesBody (int (length stats)) stats))"

section \<open>Enqueueing by HTTP\<close>

record debugEnqueueRequest =
  er_ControllerID :: string
  er_CommandID :: u8
  er_TTLSeconds :: int
  er_PayloadHex :: string
  er_MessageID :: string
  er_TraceID :: string
  er_DedupKey :: string

definition zero_enqueue_request :: debugEnqueueRequest where
  "zero_enqueue_request = \<lparr>er_ControllerID = [], er_CommandID = 0, er_TTLSeconds = 0, er_PayloadHex = [], er_MessageID = [],
     er_TraceID = [], er_DedupKey = []\<rparr>"

definition debugEnqueueRequest_fields :: "debugEnqueueRequest field list" where
  "debugEnqueueRequest_fields =
     [string_field ''controller_id'' (\<lambda>v r. r\<lparr>er_ControllerID := v\<rparr>), uint_field ''command_id'' (\<lambda>v r. r\<lparr>er_CommandID := v\<rparr>),
      int_field ''ttl_seconds'' (\<lambda>v r. r\<lparr>er_TTLSeconds := v\<rparr>), string_field ''payload_hex'' (\<lambda>v r. r\<lparr>er_PayloadHex := v\<rparr>),
      string_field ''message_id'' (\<lambda>v r. r\<lparr>er_MessageID := v\<rparr>), string_field ''trace_id'' (\<lambda>v r. r\<lparr>er_TraceID := v\<rparr>),
      string_field ''dedup_key'' (\<lambda>v r. r\<lparr>er_DedupKey := v\<rparr>)]"

text \<open>\<^verbatim>\<open>json.NewDecoder(r.Body).Decode(&req)\<close>.\<close>

definition decode_body :: "'r field list \<Rightarrow> 'r \<Rightarrow> request \<Rightarrow> 'r option" where
  "decode_body fs zero r = (case rq_Body r of
     None \<Rightarrow> None | Some j \<Rightarrow> (case Unmarshal fs zero j of Inl _ \<Rightarrow> None | Inr req \<Rightarrow> Some req))"

text \<open>The checks of the request, which give the payload or the response of their failure.\<close>

definition check_enqueue :: "unicode \<Rightarrow> debugEnqueueRequest \<Rightarrow> response + byte list" where
  "check_enqueue u req =
     (if er_ControllerID req = [] then Inl (http_Error ''controller_id is required'' 400)
      else if er_CommandID req = 0 then Inl (http_Error ''command_id is required'' 400)
      else case (if TrimSpace (er_PayloadHex req) \<noteq> [] then DecodeString (TrimSpace (er_PayloadHex req)) else Inr []) of
             Inl _ \<Rightarrow> Inl (http_Error ''payload_hex must be valid hex string'' 400)
           | Inr payload \<Rightarrow>
               (case ValidateServerCommandPayload (er_CommandID req) payload of
                  Some err \<Rightarrow> Inl (http_Error (''invalid payload for command: '' @ error_text u err) 400)
                | None \<Rightarrow> if er_TTLSeconds req < 0 then Inl (http_Error ''ttl_seconds must be >= 0'' 400)
                          else Inr payload))"

text \<open>A given text, or a prefix with the time in nanoseconds.\<close>

definition id_or_fresh :: "string \<Rightarrow> string \<Rightarrow> 's Server \<Rightarrow> string \<times> 's Server" where
  "id_or_fresh given prefix sv =
     (if given = [] then let (now, sv) = Now sv in (prefix @ fmt_d now, sv) else (given, sv))"

definition debugEnqueueHandler :: "'s Store \<Rightarrow> request \<Rightarrow> 's Server \<Rightarrow> response \<times> 's Server" where
  "debugEnqueueHandler ops r sv =
     (if \<not> cfg_DebugLogs (sv_cfg sv) then (NotFound, sv)
      else if rq_Method r \<noteq> ''POST'' then (http_Error ''method not allowed'' 405, sv)
      else case decode_body debugEnqueueRequest_fields zero_enqueue_request r of
             None \<Rightarrow> (http_Error ''invalid json body'' 400, sv)
           | Some req \<Rightarrow>
               let req = req\<lparr>er_ControllerID := TrimSpace (er_ControllerID req)\<rparr>
               in case check_enqueue (sv_unicode sv) req of
                    Inl response \<Rightarrow> (response, sv)
                  | Inr payload \<Rightarrow>
                      let ttl = i64 (er_TTLSeconds req * second);
                          (messageID, sv) = id_or_fresh (TrimSpace (er_MessageID req)) ''debug-'' sv;
                          traceID = TrimSpace (er_TraceID req);
                          traceID = (if traceID = [] then TrimSpace (Get (rq_Header r) ''X-Request-ID'') else traceID);
                          (traceID, sv) = id_or_fresh traceID ''trace-'' sv;
                          (now, sv) = Now sv;
                          cmd = \<lparr>cmd_MessageID = messageID, cmd_TraceID = traceID, cmd_DedupKey = TrimSpace (er_DedupKey req),
                                 cmd_CommandID = er_CommandID req, cmd_TTL = ttl, cmd_CreatedAt = now, cmd_Payload = payload,
                                 cmd_Priority = [], cmd_Attempts = 0, cmd_RetrySeq = 0\<rparr>;
                          (err, sv) = EnqueueCommand ops (er_ControllerID req) cmd sv
                      in case err of
                           Some e \<Rightarrow> (http_Error (''enqueue failed: '' @ error_text (sv_unicode sv) e) 400, sv)
                         | None \<Rightarrow> (writeJSON 202 (QueuedBody (er_ControllerID req) (er_CommandID req) messageID traceID), sv))"

section \<open>The command builder by HTTP\<close>

definition debugCommandBuilderHandler :: "request \<Rightarrow> 's Server \<Rightarrow> response" where
  "debugCommandBuilderHandler r sv =
     (if \<not> cfg_DebugLogs (sv_cfg sv) then NotFound
      else if rq_Method r \<noteq> ''GET'' then http_Error ''method not allowed'' 405
      else html_page CommandBuilderPage)"

definition debugCommandSchemaHandler :: "request \<Rightarrow> 's Server \<Rightarrow> response \<times> 's Server" where
  "debugCommandSchemaHandler r sv =
     (if \<not> cfg_DebugLogs (sv_cfg sv) then (NotFound, sv)
      else if rq_Method r \<noteq> ''GET'' then (http_Error ''method not allowed'' 405, sv)
      else let (now, sv) = Now sv in (writeJSON 200 (SchemaBody (commandBuilderSpecs now)), sv))"

record debugBuildCommandRequest =
  br_CommandID :: u8
  br_Parameters :: "json option"

definition debugBuildCommandRequest_fields :: "debugBuildCommandRequest field list" where
  "debugBuildCommandRequest_fields =
     [uint_field ''command_id'' (\<lambda>v r. r\<lparr>br_CommandID := v\<rparr>), raw_field ''parameters'' (\<lambda>j r. r\<lparr>br_Parameters := Some j\<rparr>)]"

definition debugBuildCommandHandler :: "request \<Rightarrow> 's Server \<Rightarrow> response" where
  "debugBuildCommandHandler r sv =
     (if \<not> cfg_DebugLogs (sv_cfg sv) then NotFound
      else if rq_Method r \<noteq> ''POST'' then http_Error ''method not allowed'' 405
      else case decode_body debugBuildCommandRequest_fields \<lparr>br_CommandID = 0, br_Parameters = None\<rparr> r of
             None \<Rightarrow> http_Error ''invalid json body'' 400
           | Some req \<Rightarrow>
               if br_CommandID req = 0 then http_Error ''command_id is required'' 400
               else case buildCommandPayload (br_CommandID req) (br_Parameters req) of
                      Inl err \<Rightarrow> http_Error (''build failed: '' @ error_text (sv_unicode sv) err) 400
                    | Inr payload \<Rightarrow>
                        (case EncodeFrame \<lparr>f_TTL = 255, f_Seq = 1, f_Payload = br_CommandID req # payload, f_Mode = FrameModeAuto\<rparr> of
                           Inl err \<Rightarrow> http_Error (''frame preview failed: '' @ error_text (sv_unicode sv) err) 400
                         | Inr frameBytes \<Rightarrow> writeJSON 200 (BuiltBody
                             \<lparr>cbr_CommandID = br_CommandID req, cbr_CommandName = commandName (br_CommandID req),
                              cbr_PayloadHex = map ascii_upper (EncodeToString payload), cbr_PayloadLen = int (length payload),
                              cbr_FrameHex = map ascii_upper (EncodeToString frameBytes), cbr_FrameLen = int (length frameBytes)\<rparr>)))"

section \<open>The routes\<close>

text \<open>
  The routes of \<^verbatim>\<open>startObservability\<close>: a path that is no other route falls to \<^verbatim>\<open>/\<close>. There is no
  interface without \<^verbatim>\<open>MetricsAddr\<close>.
\<close>

definition serve_http :: "'s Store \<Rightarrow> request \<Rightarrow> 's Server \<Rightarrow> response \<times> 's Server" where
  "serve_http ops r sv =
     (let path = rq_Path r in
      if path = ''/healthz'' then (healthzHandler, sv)
      else if path = ''/readyz'' then (readyzHandler sv, sv)
      else if path = ''/metrics'' then (metricsHandler sv, sv)
      else if path = ''/debug/dashboard'' then (debugDashboardHandler r sv, sv)
      else if path = ''/debug/connections'' then (debugConnectionsHandler r sv, sv)
      else if path = ''/debug/events'' then (debugEventsHandler r sv, sv)
      else if path = ''/debug/raw'' then (debugRawHandler sv, sv)
      else if path = ''/debug/raw-messages'' then (debugRawMessagesHandler r sv, sv)
      else if path = ''/debug/logs'' then (debugLogsHandler sv, sv)
      else if path = ''/debug/command-builder'' then (debugCommandBuilderHandler r sv, sv)
      else if path = ''/debug/command-schema'' then debugCommandSchemaHandler r sv
      else if path = ''/debug/build-command'' then (debugBuildCommandHandler r sv, sv)
      else if path = ''/debug/queues'' then (debugQueuesHandler r sv, sv)
      else if path = ''/debug/enqueue'' then debugEnqueueHandler ops r sv
      else (indexHandler r, sv))"

definition startObservability :: "'s Store \<Rightarrow> 's Server \<Rightarrow> (request \<Rightarrow> 's Server \<Rightarrow> response \<times> 's Server) option" where
  "startObservability ops sv = (if cfg_MetricsAddr (sv_cfg sv) = [] then None else Some (serve_http ops))"

end
