(* ===== verification/Builder_Forms.thy ===== *)
theory Builder_Forms
  imports Command_Builder Command_Policy
begin

text \<open>
  The table of forms and the builder agree: every form of \<^verbatim>\<open>commandBuilderSpecs\<close>, submitted as it is
  presented, gives a payload, with two exceptions.
\<close>

section \<open>Decoding what a form submits\<close>

lemma json_uint_num: "0 \<le> n \<Longrightarrow> n < 2 ^ w \<Longrightarrow> json_uint w (num n) = Inr (Some n)"
  using decimal_digits [of "nat n"] by (simp add: json_uint_def num_def fmt_d_def number_value_decimal)

lemmas decode_simps = decodeBuilderParams_def Unmarshal_def find_field_def uint_field_def int_field_def bool_field_def
  string_field_def raw_field_def struct_field_def array_field_def stored_def json_bool_def json_string_def
  json_uint_num map_err_def res_bind_def

lemma uint_lt [simp]: "uint (w :: 'n::len word) < 2 ^ LENGTH('n)"
  by (rule uint_lt2p)

lemma sync_request_form:
  assumes "name \<noteq> ''timestamp''" "dec j = Inr r"
  shows "sync_request name (Some (JObject [(''timestamp'', num (uint now)), (name, j)])) dec build = build now r"
  using assms uint_lt2p [of now] by (simp add: sync_request_def decode_simps)

lemma settings_decoded:
  "\<exists>r. Unmarshal Cmd12SettingsRecord_fields zero_settings settings_default = Inr r \<and> wf12 r \<and> settings_ok r"
  by (simp add: Cmd12SettingsRecord_fields_def zero_settings_def settings_default_def decode_simps wf12_def settings_ok_def
     settings_text_ok_def ascii_fits_def bytes_of_def zero_relay_def zero_peripheral_def)

lemma ids_decoded:
  "\<exists>r. Unmarshal_slice Cmd13IDRecord_fields zero_id_record ids_default = Inr [r] \<and> length (r13_Reserve r) = 12
     \<and> id_record_ok r \<and> padded_ascii (bytes_of (r13_ID r))"
proof -
  have "padded_ascii (bytes_of ''123456'')"
    unfolding padded_ascii_def by (rule exI [of _ "bytes_of ''123456''"], rule exI [of _ 0]) (simp add: bytes_of_def)
  then show ?thesis
    by (simp add: Cmd13IDRecord_fields_def zero_id_record_def ids_default_def decode_simps Unmarshal_slice_def
        id_record_ok_def ascii_fits_def bytes_of_def)
qed

lemma schedules_decoded:
  "\<exists>r. Unmarshal_slice Cmd14ScheduleRecord_fields zero_schedule schedules_default = Inr [r] \<and> wf14 r \<and> schedule_ok r"
  by (simp add: Cmd14ScheduleRecord_fields_def zero_schedule_def schedules_default_def decode_simps Unmarshal_slice_def
      wf14_def schedule_ok_def)

lemma groups_decoded:
  "\<exists>r. Unmarshal_slice Cmd15GroupRecord_fields zero_group groups_default = Inr [r] \<and> wf15 r \<and> group_ok r"
  by (simp add: Cmd15GroupRecord_fields_def zero_group_def groups_default_def decode_simps Unmarshal_slice_def
      wf15_def group_ok_def)

section \<open>Building\<close>

definition form_builds :: "u8 \<Rightarrow> commandBuilderField list \<Rightarrow> bool" where
  "form_builds c fs \<longleftrightarrow> (\<exists>p. buildCommandPayload c (Some (form_values \<lparr>spec_CommandID = c, spec_Name = commandName c, spec_Fields = fs\<rparr>)) = Inr p)"

lemmas form_simps = form_values_def map_filter_simps form_field_def number_field_def checkbox_field_def

lemma sync_forms_build: "list_all (\<lambda>(c, fs). form_builds c fs) (take 4 (sync_specs now))"
proof -
  obtain r12 r13 r14 r15 where
    "Unmarshal Cmd12SettingsRecord_fields zero_settings settings_default = Inr r12" "wf12 r12" "settings_ok r12"
    "Unmarshal_slice Cmd13IDRecord_fields zero_id_record ids_default = Inr [r13]" "length (r13_Reserve r13) = 12"
    "id_record_ok r13" "padded_ascii (bytes_of (r13_ID r13))"
    "Unmarshal_slice Cmd14ScheduleRecord_fields zero_schedule schedules_default = Inr [r14]" "wf14 r14" "schedule_ok r14"
    "Unmarshal_slice Cmd15GroupRecord_fields zero_group groups_default = Inr [r15]" "wf15 r15" "group_ok r15"
    using settings_decoded ids_decoded schedules_decoded groups_decoded by blast
  then show ?thesis
    unfolding sync_specs_def Let_def take_Cons_numeral list.pred_inject prod.case
    by (simp add: form_builds_def form_simps buildCommandPayload_def build_settings_def build_ids_def
        build_schedules_def build_groups_def sync_request_form settings_build_iff ids_build_iff schedules_build_iff
        groups_build_iff)
qed

lemma TrimSpace_Nil [simp]: "TrimSpace [] = []"
  by (rule TrimSpace_graphic) simp

lemma decodeHexString_Nil [simp]: "decodeHexString [] = Inr []"
  by (simp add: decodeHexString_def strings_Map_def bytes_of_def string_of_def runes.simps Let_def)

lemma days_decoded: "parseUint32CSV ''1711929600,1712016000'' = Inr [1711929600, 1712016000]"
  by (simp add: parseUint32CSV_def TrimSpace_graphic graphic_def Sscanf_uint32_def number_value_def res_bind_def Let_def)

lemma holiday_form_builds: "list_all (\<lambda>(c, fs). form_builds c fs) (drop 4 (sync_specs now))"
  unfolding sync_specs_def Let_def drop_Cons_numeral list.pred_inject prod.case
  using uint_lt2p [of now]
  by (simp add: form_builds_def form_simps buildCommandPayload_def build_holidays_def decode_simps days_decoded
      holiday_build_iff)

lemma plain_payloads_valid:
  "validate_cmd2 [3] = None" "validate_cmd3 [5] = None" "validate_cmd7 [1] = None" "validate_cmd8 [1, 0, 0] = None"
  "validate_cmd18 [1] = None"
  "ValidateServerCommandPayload 9 [] = None" "ValidateServerCommandPayload 10 [] = None"
  "ValidateServerCommandPayload 17 [] = None" "ValidateServerCommandPayload 21 [] = None"
  "ValidateServerCommandPayload 22 [] = None"
  by code_simp+

lemma triggers_built:
  "\<exists>p. Cmd5TriggerStructuredPayload_Build \<lparr>c5_Flags =
     \<lparr>tf_ManualUnlock = False, tf_ScenarioUnlock = False, tf_AutoRegistration = True, tf_OpenForAll = False,
      tf_ForwardSMS = False, tf_NotifyUnknownIDSMS = False, tf_NotifyLowBalanceSMS = False, tf_ScheduleForAllCalls = False\<rparr>,
     c5_Reserve = replicate 8 0\<rparr> = Inr p"
proof -
  have "\<not> isl (Cmd5TriggerStructuredPayload_Build \<lparr>c5_Flags =
     \<lparr>tf_ManualUnlock = False, tf_ScenarioUnlock = False, tf_AutoRegistration = True, tf_OpenForAll = False,
      tf_ForwardSMS = False, tf_NotifyUnknownIDSMS = False, tf_NotifyLowBalanceSMS = False, tf_ScheduleForAllCalls = False\<rparr>,
     c5_Reserve = replicate 8 0\<rparr>)" by code_simp
  then show ?thesis by (metis sum.collapse(2))
qed

lemma set_time_built: "\<exists>p. Cmd23SetTimePayload_Build \<lparr>c23_ServerTime = t\<rparr> = Inr p"
  by (simp add: Cmd23SetTimePayload_Build_def validated_iff validate_cmd23_def length_PutUint)

lemma control_forms_build: "list_all (\<lambda>(c, fs). c \<noteq> CmdCaptureID \<longrightarrow> form_builds c fs) control_specs"
  unfolding control_specs_def list.pred_inject prod.case
  by (simp add: form_builds_def form_simps buildCommandPayload_def build_case_defs decode_simps
      BuildEmptyPayload_def sms_build_iff TrimSpace_graphic graphic_def ascii_fits_def bytes_of_def check_nil_eq_Inr
      Cmd2RebootPayload_Build_def Cmd3FactoryResetPayload_Build_def Cmd7PhotoRequestPayload_Build_def
      Cmd8OutputControlPayload_Build_def validated_iff plain_payloads_valid triggers_built)

lemma service_forms_build: "list_all (\<lambda>(c, fs). c \<noteq> CmdFWBlock \<longrightarrow> form_builds c fs) (service_specs now)"
  unfolding service_specs_def list.pred_inject prod.case
  using uint_lt2p [of now]
  by (simp add: form_builds_def form_simps buildCommandPayload_def build_case_defs decode_simps
      BuildEmptyPayload_def check_nil_eq_Inr Cmd18CRCBlockPayload_Build_def validated_iff plain_payloads_valid
      fw_start_build_iff FWBlockCountForSize_def set_time_built bind_build_iff custom_build_iff ascii_fits_def bytes_of_def)

lemma capture_form_error:
  "(c, fs) \<in> set control_specs \<Longrightarrow> c = CmdCaptureID \<Longrightarrow>
   buildCommandPayload c (Some (form_values \<lparr>spec_CommandID = c, spec_Name = n, spec_Fields = fs\<rparr>))
     = Inl (Errorf ''cmd 6: network address must be 0 for non-485 interface'' [])"
proof -
  have "\<not> (validate_cmd6 [15, 1, 1] = None)" "validate_cmd6 [15, 1, 1] = Some (Errorf ''cmd 6: network address must be 0 for non-485 interface'' [])"
    by code_simp+
  then show "(c, fs) \<in> set control_specs \<Longrightarrow> c = CmdCaptureID \<Longrightarrow> ?thesis"
    by (auto simp: control_specs_def form_simps buildCommandPayload_def build_case_defs decode_simps
        Cmd6CaptureIDPayload_Build_def validated_def check_nil_def)
qed

lemma spec_ids:
  "map spec_CommandID (commandBuilderSpecs t)
     = [2, 3, 5, 6, 7, 8, 9, 10, 11, 12, 13, 14, 15, 16, 17, 18, 19, 20, 21, 22, 23, 25, 27]"
  by (simp add: commandBuilderSpecs_def control_specs_def sync_specs_def service_specs_def Let_def)

lemma all_forms_build:
  assumes "(c, fs) \<in> set (control_specs @ sync_specs now @ service_specs now)" "c \<notin> {CmdCaptureID, CmdFWBlock}"
  shows "form_builds c fs"
proof -
  have "set (sync_specs now) = set (take 4 (sync_specs now)) \<union> set (drop 4 (sync_specs now))"
    by (metis append_take_drop_id set_append)
  then show ?thesis
    using assms control_forms_build sync_forms_build [of now] holiday_form_builds [of now] service_forms_build [of now]
    by (auto simp: list_all_iff)
qed



end
