(* ===== verification/Http_Laws.thy ===== *)
theory Http_Laws
  imports Http_Api Builder_Forms Manager_Laws
begin

text \<open>
  The handlers of the HTTP interface work together with the command builder, the frame codec and
  the session manager.
\<close>

section \<open>A built command can be enqueued\<close>

lemma built_body:
  assumes "rs_Body (debugBuildCommandHandler r sv) = BuiltBody built"
  obtains payload wire where
    "ValidateServerCommandPayload (cbr_CommandID built) payload = None" "cbr_CommandID built \<noteq> 0"
    "EncodeFrame \<lparr>f_TTL = 255, f_Seq = 1, f_Payload = cbr_CommandID built # payload, f_Mode = FrameModeAuto\<rparr> = Inr wire"
    "cbr_PayloadHex built = map ascii_upper (EncodeToString payload)" "cbr_FrameHex built = map ascii_upper (EncodeToString wire)"
proof -
  note h = assms [unfolded debugBuildCommandHandler_def NotFound_def http_Error_def writeJSON_def]
  let ?dec = "decode_body debugBuildCommandRequest_fields \<lparr>br_CommandID = 0, br_Parameters = None\<rparr> r"
  have d: "cfg_DebugLogs (sv_cfg sv)" "rq_Method r = ''POST''" using h by (auto split: if_splits)
  obtain req where q: "?dec = Some req" using h by (cases ?dec) (auto simp: d)
  let ?frame = "\<lambda>payload. \<lparr>f_TTL = 255, f_Seq = 1, f_Payload = br_CommandID req # payload, f_Mode = FrameModeAuto\<rparr>"
  have c: "br_CommandID req \<noteq> 0" using h by (auto simp: d q split: if_splits)
  obtain payload where p: "buildCommandPayload (br_CommandID req) (br_Parameters req) = Inr payload"
    using h by (cases "buildCommandPayload (br_CommandID req) (br_Parameters req)") (auto simp: d q c)
  obtain wire where w: "EncodeFrame (?frame payload) = Inr wire"
    using h by (cases "EncodeFrame (?frame payload)") (auto simp: d q c p)
  from h have "built = \<lparr>cbr_CommandID = br_CommandID req, cbr_CommandName = commandName (br_CommandID req),
      cbr_PayloadHex = map ascii_upper (EncodeToString payload), cbr_PayloadLen = int (length payload),
      cbr_FrameHex = map ascii_upper (EncodeToString wire), cbr_FrameLen = int (length wire)\<rparr>"
    by (simp add: d q c p w)
  with c p w show thesis
    using that [of payload wire] buildCommandPayload_valid [of "br_CommandID req" "br_Parameters req"]
    by (simp add: ends_valid_def)
qed

lemma check_enqueue_built:
  assumes "er_ControllerID req \<noteq> []" "er_CommandID req = c" "c \<noteq> 0" "0 \<le> er_TTLSeconds req"
    and "er_PayloadHex req = map ascii_upper (EncodeToString payload)" "ValidateServerCommandPayload c payload = None"
  shows "check_enqueue u req = Inr payload"
proof -
  let ?h = "map ascii_upper (EncodeToString payload)"
  have t: "TrimSpace ?h = ?h" using upper_hex(2) [of payload] by (rule TrimSpace_graphic)
  have "payload = []" if "?h = []" using upper_hex(1) [of payload] that by (simp del: map_is_Nil_conv)
  then have "(if TrimSpace ?h \<noteq> [] then DecodeString (TrimSpace ?h) else Inr []) = Inr payload"
    unfolding t using upper_hex(1) [of payload] by auto
  with assms show ?thesis by (auto simp: check_enqueue_def split: if_splits)
qed

lemma recordOverflowMetric_sessions [simp]: "sv_sessions (fold recordOverflowMetric ev sv) = sv_sessions sv"
  by (induction ev arbitrary: sv) (simp_all add: recordOverflowMetric_def)

lemma EnqueueCommand_accepted:
  assumes "wf_manager (sv_sessions sv)" "EnqueueCommand ops k cmd sv = (None, sv')"
  shows "\<exists>s c. map_of (m_sessions (sv_sessions sv')) k = Some s \<and> c \<in> set (Queue_Snapshot (ses_Queue s))
    \<and> cmd_CommandID c = cmd_CommandID cmd \<and> cmd_Payload c = cmd_Payload cmd"
proof -
  obtain c t0 t1 t2 ev m where "EnqueueWithEvents ops t0 t1 t2 k c (sv_sessions sv) = (None, ev, m)"
      "sv_sessions sv' = m" "cmd_CommandID c = cmd_CommandID cmd" "cmd_Payload c = cmd_Payload cmd"
    using assms(2)
    by (auto simp: EnqueueCommand_def Let_def normalizeCommandPriority_def Now_def split: if_splits option.splits prod.splits)
  with enqueue_accepted [OF assms(1)] show ?thesis by blast
qed

lemma id_or_fresh_sessions [simp]: "sv_sessions (snd (id_or_fresh given prefix sv)) = sv_sessions sv"
  by (simp add: id_or_fresh_def Now_def)

text \<open>What the handler does with a request that passes its checks.\<close>

lemma debugEnqueue_checked:
  assumes "cfg_DebugLogs (sv_cfg sv)" "rq_Method r = ''POST''"
    and "decode_body debugEnqueueRequest_fields zero_enqueue_request r = Some req"
    and "check_enqueue (sv_unicode sv) (req\<lparr>er_ControllerID := TrimSpace (er_ControllerID req)\<rparr>) = Inr payload"
    and "debugEnqueueHandler ops r sv = (resp, sv')"
  obtains cmd sv1 err where "sv_sessions sv1 = sv_sessions sv" "cmd_CommandID cmd = er_CommandID req" "cmd_Payload cmd = payload"
    "EnqueueCommand ops (TrimSpace (er_ControllerID req)) cmd sv1 = (err, sv')"
    "case err of None \<Rightarrow> rs_Status resp = 202
       | Some e \<Rightarrow> resp = http_Error (''enqueue failed: '' @ error_text (sv_unicode sv') e) 400"
proof -
  let ?tr = "TrimSpace (er_TraceID req)"
  obtain mid sv1 where m: "id_or_fresh (TrimSpace (er_MessageID req)) ''debug-'' sv = (mid, sv1)" by (rule prod.exhaust)
  obtain tid sv2 where t: "id_or_fresh (if ?tr = [] then TrimSpace (Get (rq_Header r) ''X-Request-ID'') else ?tr) ''trace-'' sv1
      = (tid, sv2)" by (rule prod.exhaust)
  obtain now sv3 where n: "Now sv2 = (now, sv3)" by (rule prod.exhaust)
  let ?cmd = "\<lparr>cmd_MessageID = mid, cmd_TraceID = tid, cmd_DedupKey = TrimSpace (er_DedupKey req),
      cmd_CommandID = er_CommandID req, cmd_TTL = i64 (er_TTLSeconds req * second), cmd_CreatedAt = now, cmd_Payload = payload,
      cmd_Priority = [], cmd_Attempts = 0, cmd_RetrySeq = 0\<rparr>"
  obtain err sv4 where e: "EnqueueCommand ops (TrimSpace (er_ControllerID req)) ?cmd sv3 = (err, sv4)" by (rule prod.exhaust)
  have "sv_sessions sv3 = sv_sessions sv2" using n by (auto simp: Now_def)
  also have "\<dots> = sv_sessions sv1" using id_or_fresh_sessions [where sv = sv1] t by (metis snd_conv)
  also have "\<dots> = sv_sessions sv" using id_or_fresh_sessions [where sv = sv] m by (metis snd_conv)
  finally have s: "sv_sessions sv3 = sv_sessions sv" .
  have r: "sv' = sv4 \<and> (case err of None \<Rightarrow> rs_Status resp = 202
       | Some e \<Rightarrow> resp = http_Error (''enqueue failed: '' @ error_text (sv_unicode sv') e) 400)"
    using assms(5)
    by (auto simp: debugEnqueueHandler_def assms(1-4) Let_def m t n e writeJSON_def split: option.splits)
  show thesis by (rule that [of sv3 ?cmd err]) (use s r [THEN conjunct1] r [THEN conjunct2] e in simp_all)
qed

text \<open>
  (C28) What the build page returns can be posted back: when a build request is answered with a
  built command, the payload behind its hexadecimal text is valid for the command, the
  preview of the frame is read back as that command, and an enqueue request with
  this text is never refused by the checks of the handler. It is answered with 202, and then a command with exactly
  that payload is in the queue of the controller, or with the error of the session manager.
\<close>

theorem built_command_enqueues:
  assumes "rs_Body (debugBuildCommandHandler r1 sv1) = BuiltBody built"
    and "cfg_DebugLogs (sv_cfg sv)" "rq_Method r = ''POST''" "mgr_reach ops (sv_sessions sv)"
    and "decode_body debugEnqueueRequest_fields zero_enqueue_request r = Some req"
    and "er_CommandID req = cbr_CommandID built" "er_PayloadHex req = cbr_PayloadHex built"
    and "TrimSpace (er_ControllerID req) \<noteq> []" "0 \<le> er_TTLSeconds req"
    and "debugEnqueueHandler ops r sv = (resp, sv')"
  shows "\<exists>payload wire. ValidateServerCommandPayload (cbr_CommandID built) payload = None
    \<and> DecodeString (cbr_PayloadHex built) = Inr payload \<and> DecodeString (cbr_FrameHex built) = Inr wire
    \<and> ReadFrameWithMode \<lparr>rd_buf = wire, rd_err = io_EOF\<rparr> FrameModeSequenced
        = (Inr \<lparr>f_TTL = 255, f_Seq = 1, f_Payload = cbr_CommandID built # payload, f_Mode = FrameModeSequenced\<rparr>,
           \<lparr>rd_buf = [], rd_err = io_EOF\<rparr>)
    \<and> (rs_Status resp = 202 \<and> (\<exists>s c. map_of (m_sessions (sv_sessions sv')) (TrimSpace (er_ControllerID req)) = Some s
          \<and> c \<in> set (Queue_Snapshot (ses_Queue s)) \<and> cmd_CommandID c = cbr_CommandID built \<and> cmd_Payload c = payload)
      \<or> (\<exists>e. resp = http_Error (''enqueue failed: '' @ error_text (sv_unicode sv') e) 400))"
proof -
  obtain payload wire where p: "ValidateServerCommandPayload (cbr_CommandID built) payload = None" "cbr_CommandID built \<noteq> 0"
      and w: "EncodeFrame \<lparr>f_TTL = 255, f_Seq = 1, f_Payload = cbr_CommandID built # payload, f_Mode = FrameModeAuto\<rparr> = Inr wire"
      and h: "cbr_PayloadHex built = map ascii_upper (EncodeToString payload)" "cbr_FrameHex built = map ascii_upper (EncodeToString wire)"
    by (rule built_body [OF assms(1)])
  have "check_enqueue (sv_unicode sv) (req\<lparr>er_ControllerID := TrimSpace (er_ControllerID req)\<rparr>) = Inr payload"
    by (rule check_enqueue_built [where c = "cbr_CommandID built"]) (use assms(6-9) p h in simp_all)
  from debugEnqueue_checked [OF assms(2,3,5) this assms(10)] obtain cmd sv1 err
    where s: "sv_sessions sv1 = sv_sessions sv" "cmd_CommandID cmd = er_CommandID req" "cmd_Payload cmd = payload"
    and e: "EnqueueCommand ops (TrimSpace (er_ControllerID req)) cmd sv1 = (err, sv')"
      "case err of None \<Rightarrow> rs_Status resp = 202
       | Some e \<Rightarrow> resp = http_Error (''enqueue failed: '' @ error_text (sv_unicode sv') e) 400" by blast
  have "rs_Status resp = 202 \<and> (\<exists>s c. map_of (m_sessions (sv_sessions sv')) (TrimSpace (er_ControllerID req)) = Some s
          \<and> c \<in> set (Queue_Snapshot (ses_Queue s)) \<and> cmd_CommandID c = cbr_CommandID built \<and> cmd_Payload c = payload)"
    if "err = None"
    using EnqueueCommand_accepted [of sv1 ops "TrimSpace (er_ControllerID req)" cmd sv'] wf_reach [OF assms(4)] s e that assms(6)
    by simp
  moreover have "ReadFrameWithMode \<lparr>rd_buf = wire, rd_err = io_EOF\<rparr> FrameModeSequenced
        = (Inr \<lparr>f_TTL = 255, f_Seq = 1, f_Payload = cbr_CommandID built # payload, f_Mode = FrameModeSequenced\<rparr>,
           \<lparr>rd_buf = [], rd_err = io_EOF\<rparr>)"
    using read_encoded [OF w, of "\<lparr>rd_buf = wire, rd_err = io_EOF\<rparr>" "[]" FrameModeSequenced]
    by (simp add: frame_of_data_encoded wire_frame_def)
  moreover have "err = None \<or> (\<exists>e. resp = http_Error (''enqueue failed: '' @ error_text (sv_unicode sv') e) 400)"
    using e(2) by (cases err) auto
  ultimately show ?thesis using p(1) upper_hex(1) unfolding h by blast
qed

definition debug_server :: "snapshots Server" where
  "debug_server = New (sample_config\<lparr>cfg_DebugLogs := True\<rparr>) (NewManager 4 2 0 ''drop_oldest'' NewInMemoryStore)
     (\<lambda>_. 7) (\<lambda>_. None) ascii_tables"

definition post :: "(string \<times> json) list \<Rightarrow> request" where
  "post members = \<lparr>rq_Method = ''POST'', rq_Path = [], rq_Query = [], rq_Header = [], rq_Body = Some (JObject members)\<rparr>"

lemma reboot_built:
  "rs_Body (debugBuildCommandHandler (post [(''command_id'', num 2), (''parameters'', JObject [(''timeout_sec'', num 3)])]) debug_server)
     = BuiltBody \<lparr>cbr_CommandID = 2, cbr_CommandName = ''Reboot'', cbr_PayloadHex = ''03'', cbr_PayloadLen = 1,
         cbr_FrameHex = map ascii_upper (EncodeToString (frame_wire [255, 1, 2, 3])), cbr_FrameLen = 12\<rparr>"
proof -
  have "map ascii_upper (EncodeToString [3]) = ''03''" by code_simp
  then show ?thesis
    by (simp add: debugBuildCommandHandler_def debug_server_def New_def post_def decode_body_def debugBuildCommandRequest_fields_def
        decode_simps buildCommandPayload_def build_reboot_def Cmd2RebootPayload_Build_def validated_def check_nil_def
        plain_payloads_valid EncodeFrame_eq frame_data_def writeJSON_def commandName_def len_simps)
qed

theorem built_command_enqueues_witness:
  "\<exists>resp sv'. debugEnqueueHandler InMemoryStore
      (post [(''controller_id'', JString ''c1''), (''command_id'', num 2), (''payload_hex'', JString ''03'')]) debug_server = (resp, sv')
    \<and> (rs_Status resp = 202 \<or> (\<exists>e. resp = http_Error (''enqueue failed: '' @ error_text (sv_unicode sv') e) 400))"
proof -
  let ?r = "post [(''controller_id'', JString ''c1''), (''command_id'', num 2), (''payload_hex'', JString ''03'')]"
  let ?req = "zero_enqueue_request\<lparr>er_ControllerID := ''c1'', er_CommandID := 2, er_PayloadHex := ''03''\<rparr>"
  obtain resp sv' where h: "debugEnqueueHandler InMemoryStore ?r debug_server = (resp, sv')" by (rule prod.exhaust)
  have req: "decode_body debugEnqueueRequest_fields zero_enqueue_request ?r = Some ?req"
    by (simp add: post_def decode_body_def debugEnqueueRequest_fields_def decode_simps zero_enqueue_request_def)
  have sv: "cfg_DebugLogs (sv_cfg debug_server)" "mgr_reach InMemoryStore (sv_sessions debug_server)"
    by (simp_all add: debug_server_def New_def mgr_reach.init)
  have m: "rq_Method ?r = ''POST''" by (simp add: post_def)
  have t: "TrimSpace (er_ControllerID ?req) \<noteq> []" by (simp add: TrimSpace_graphic graphic_def)
  have ttl: "0 \<le> er_TTLSeconds ?req" by (simp add: zero_enqueue_request_def)
  show ?thesis
    using built_command_enqueues [OF reboot_built sv(1) m sv(2) req _ _ t ttl h] h by auto
qed

end
