(* ===== verification/Controller_Sim.thy ===== *)
theory Controller_Sim
  imports Complex_Main Frame_Codec Go_Text Payload_Builders
begin

text \<open>
  The simulator of controllers (\<^verbatim>\<open>cmd/controller-sim/main.go\<close>): its configuration from flags and
  profiles, the messages it builds, its answers to commands, and a connection as a sequence of
  turns of its two goroutines.

  What a simulated controller does to the world is the record \<open>sim_io\<close>: the random numbers it
  draws, the clock, the results of its writes, the frames it wrote and how long it slept. A
  \<^verbatim>\<open>float64\<close> is a rational number; the constants are the numbers that the literals stand for.
  Writes are one frame each, under the mutex of the connection.
\<close>

section \<open>Configuration\<close>

record simConfig =
  sc_profileName :: string
  sc_ackDelay :: duration
  sc_ackErrorRate :: rat
  sc_ackDropRate :: rat
  sc_burstSize :: int
  sc_burstSpacing :: duration
  sc_statusInterval :: duration
  sc_bufferFree :: u16
  sc_reconnectMin :: duration
  sc_reconnectMax :: duration
  sc_postCommandCoolDown :: duration
  sc_frameMode :: FrameMode

definition zero_simConfig :: simConfig where
  "zero_simConfig = \<lparr>sc_profileName = [], sc_ackDelay = 0, sc_ackErrorRate = 0, sc_ackDropRate = 0, sc_burstSize = 0,
     sc_burstSpacing = 0, sc_statusInterval = 0, sc_bufferFree = 0, sc_reconnectMin = 0, sc_reconnectMax = 0,
     sc_postCommandCoolDown = 0, sc_frameMode = FrameModeAuto\<rparr>"

definition millisecond :: duration where
  "millisecond = 1000000"

definition clamp01 :: "rat \<Rightarrow> rat" where
  "clamp01 v = (if v < 0 then 0 else if v > 1 then 1 else v)"

definition maxFloat :: "rat \<Rightarrow> rat \<Rightarrow> rat" where
  "maxFloat a b = (if a > b then a else b)"

definition maxInt :: "int \<Rightarrow> int \<Rightarrow> int" where
  "maxInt a b = (if a > b then a else b)"

definition maxDuration :: "duration \<Rightarrow> duration \<Rightarrow> duration" where
  "maxDuration a b = (if a > b then a else b)"

text \<open>The values of the literals \<^verbatim>\<open>0.15\<close> and \<^verbatim>\<open>0.20\<close> as \<^verbatim>\<open>float64\<close>.\<close>

definition float_0_15 :: rat where
  "float_0_15 = 5404319552844595 / 36028797018963968"

definition float_0_20 :: rat where
  "float_0_20 = 3602879701896397 / 18014398509481984"

definition applyProfile :: "simConfig \<Rightarrow> string \<Rightarrow> go_error + simConfig" where
  "applyProfile base profileName =
     (let cfg = base\<lparr>sc_profileName := TrimSpace profileName\<rparr>; name = sc_profileName cfg in
      if name = [] \<or> name = ''healthy''
      then let cfg = (if sc_statusInterval cfg \<le> 0 then cfg\<lparr>sc_statusInterval := 5 * second\<rparr> else cfg);
               cfg = (if sc_bufferFree cfg = 0 then cfg\<lparr>sc_bufferFree := 1500\<rparr> else cfg);
               cfg = (if sc_burstSize cfg \<le> 0 then cfg\<lparr>sc_burstSize := 1\<rparr> else cfg)
           in Inr cfg
      else if name = ''slow''
      then Inr (cfg\<lparr>sc_ackDelay := i64 (sc_ackDelay cfg + 1500 * millisecond),
                    sc_statusInterval := maxDuration (sc_statusInterval cfg) (8 * second), sc_bufferFree := 1200\<rparr>)
      else if name = ''flaky''
      then Inr (cfg\<lparr>sc_ackDelay := i64 (sc_ackDelay cfg + 400 * millisecond),
                    sc_ackErrorRate := clamp01 (maxFloat (sc_ackErrorRate cfg) float_0_15),
                    sc_ackDropRate := clamp01 (maxFloat (sc_ackDropRate cfg) float_0_20), sc_bufferFree := 900\<rparr>)
      else if name = ''bursty''
      then let cfg = cfg\<lparr>sc_burstSize := maxInt (sc_burstSize cfg) 4\<rparr>;
               cfg = (if sc_burstSpacing cfg \<le> 0 \<or> sc_burstSpacing cfg > 25 * millisecond
                      then cfg\<lparr>sc_burstSpacing := 25 * millisecond\<rparr> else cfg);
               cfg = (if sc_statusInterval cfg \<le> 0 \<or> sc_statusInterval cfg > 2 * second
                      then cfg\<lparr>sc_statusInterval := 2 * second\<rparr> else cfg)
           in Inr (cfg\<lparr>sc_bufferFree := 1400\<rparr>)
      else if name = ''starved''
      then Inr (cfg\<lparr>sc_ackDelay := i64 (sc_ackDelay cfg + 250 * millisecond), sc_bufferFree := 96,
                    sc_statusInterval := maxDuration (sc_statusInterval cfg) (6 * second)\<rparr>)
      else Inl (Errorf ''unknown profile %q'' [FQuoted profileName]))"

fun profile_names :: "string list \<Rightarrow> string list \<Rightarrow> go_error + string list" where
  "profile_names [] out = Inr out"
| "profile_names (part # parts) out =
     (let name = TrimSpace part in
      if name = [] then profile_names parts out
      else case applyProfile zero_simConfig name of
             Inl err \<Rightarrow> Inl err
           | Inr _ \<Rightarrow> profile_names parts (out @ [name]))"

definition resolveProfileCycle :: "string \<Rightarrow> string \<Rightarrow> go_error + string list" where
  "resolveProfileCycle primary mix =
     (if TrimSpace mix = []
      then res_bind (applyProfile zero_simConfig primary) (\<lambda>_. Inr [TrimSpace primary])
      else res_bind (profile_names (Split mix (CHR '','')) []) (\<lambda>out.
             if out = [] then Inl (Errorf ''profile-mix must contain at least one valid profile'' []) else Inr out))"

definition parseFrameMode :: "unicode \<Rightarrow> string \<Rightarrow> go_error + FrameMode" where
  "parseFrameMode u name =
     (let mode = TrimSpace (ToLower u name) in
      if mode = [] \<or> mode = ''compact'' then Inr FrameModeCompact
      else if mode = ''sequenced'' then Inr FrameModeSequenced
      else Inl (Errorf ''unknown frame mode %q'' [FQuoted name]))"

text \<open>The flags, and what \<^verbatim>\<open>main\<close> starts: a controller per client, or the message it ends with.\<close>

record sim_flags =
  fl_clients :: int
  fl_interval :: duration
  fl_baseIMEI :: int
  fl_ackDelay :: duration
  fl_ackErrorRate :: rat
  fl_ackDropRate :: rat
  fl_burstSize :: int
  fl_burstSpacing :: duration
  fl_profile :: string
  fl_profileMix :: string
  fl_frameModeName :: string

text \<open>\<^verbatim>\<open>%015d\<close>: the sign counts for the width.\<close>

definition fmt_015d :: "int \<Rightarrow> string" where
  "fmt_015d n = (if n < 0 then CHR ''-'' # replicate (14 - length (decimal (nat (- n)))) (CHR ''0'') @ decimal (nat (- n))
     else replicate (15 - length (decimal (nat n))) (CHR ''0'') @ decimal (nat n))"

definition base_config :: "sim_flags \<Rightarrow> FrameMode \<Rightarrow> simConfig" where
  "base_config fl mode =
     \<lparr>sc_profileName = fl_profile fl, sc_ackDelay = fl_ackDelay fl, sc_ackErrorRate = fl_ackErrorRate fl,
      sc_ackDropRate = fl_ackDropRate fl, sc_burstSize = fl_burstSize fl, sc_burstSpacing = fl_burstSpacing fl,
      sc_statusInterval = fl_interval fl, sc_bufferFree = 1500, sc_reconnectMin = 500 * millisecond,
      sc_reconnectMax = 1500 * millisecond, sc_postCommandCoolDown = 250 * millisecond, sc_frameMode = mode\<rparr>"

fun start_clients :: "sim_flags \<Rightarrow> simConfig \<Rightarrow> string list \<Rightarrow> nat list \<Rightarrow> go_error + (string \<times> simConfig) list" where
  "start_clients fl base profiles [] = Inr []"
| "start_clients fl base profiles (i # is) =
     res_bind (applyProfile base (profiles ! (i mod length profiles))) (\<lambda>cfg.
     res_bind (start_clients fl base profiles is) (\<lambda>cs. Inr ((fmt_015d (i64 (fl_baseIMEI fl + int i)), cfg) # cs)))"

definition sim_main :: "unicode \<Rightarrow> sim_flags \<Rightarrow> go_error + (string \<times> simConfig) list" where
  "sim_main u fl =
     (if fl_clients fl \<le> 0 then Inl (ErrorsNew ''clients must be > 0'')
      else if fl_ackErrorRate fl < 0 \<or> fl_ackErrorRate fl > 1 then Inl (ErrorsNew ''ack-error-rate must be within [0..1]'')
      else if fl_ackDropRate fl < 0 \<or> fl_ackDropRate fl > 1 then Inl (ErrorsNew ''ack-drop-rate must be within [0..1]'')
      else if fl_burstSize fl \<le> 0 then Inl (ErrorsNew ''status-burst-size must be > 0'')
      else res_bind (resolveProfileCycle (fl_profile fl) (fl_profileMix fl)) (\<lambda>profiles.
           res_bind (parseFrameMode u (fl_frameModeName fl)) (\<lambda>mode.
             start_clients fl (base_config fl mode) profiles [0..<nat (fl_clients fl)])))"

section \<open>Effects\<close>

record sim_io =
  io_floats :: "nat \<Rightarrow> rat"
  io_nfloats :: nat
  io_clock :: "nat \<Rightarrow> time"
  io_ticks :: nat
  io_writes :: "nat \<Rightarrow> go_error option"
  io_nwrites :: nat
  io_wire :: "byte list list"
  io_slept :: "duration list"

definition rand_Float64 :: "sim_io \<Rightarrow> rat \<times> sim_io" where
  "rand_Float64 io = (io_floats io (io_nfloats io), io\<lparr>io_nfloats := io_nfloats io + 1\<rparr>)"

definition time_Now :: "sim_io \<Rightarrow> time \<times> sim_io" where
  "time_Now io = (io_clock io (io_ticks io), io\<lparr>io_ticks := io_ticks io + 1\<rparr>)"

definition Sleep :: "duration \<Rightarrow> sim_io \<Rightarrow> sim_io" where
  "Sleep d io = io\<lparr>io_slept := io_slept io @ [d]\<rparr>"

definition writeFrame :: "FrameMode \<Rightarrow> byte list \<Rightarrow> sim_io \<Rightarrow> go_error option \<times> sim_io" where
  "writeFrame mode payload io = (case EncodeFrame \<lparr>f_TTL = 255, f_Seq = 1, f_Payload = payload, f_Mode = mode\<rparr> of
     Inl err \<Rightarrow> (Some err, io)
   | Inr wire \<Rightarrow>
       let io = snd (time_Now io); res = io_writes io (io_nwrites io); io = io\<lparr>io_nwrites := io_nwrites io + 1\<rparr>
       in (res, if res = None then io\<lparr>io_wire := io_wire io @ [wire]\<rparr> else io))"

section \<open>Messages\<close>

definition buildRegistrationPayload :: "string \<Rightarrow> byte list" where
  "buildRegistrationPayload imei =
     (let b = [1];
          imeiBytes = bytes_of imei;
          imeiBytes = (if length imeiBytes > 15 then take 15 imeiBytes else imeiBytes);
          pad = replicate 15 0;
          pad = copy_slice 0 (length pad) imeiBytes pad
      in b @ pad @ [1] @ [1])"

definition buildStatus1Payload :: "u16 \<Rightarrow> u16 \<Rightarrow> sim_io \<Rightarrow> byte list \<times> sim_io" where
  "buildStatus1Payload bufferFree flags io =
     (let (now, io) = time_Now io;
          b = (replicate 9 0)[0 := 2];
          b = PutUint32 1 (word_of_int (now div second)) b;
          b = PutUint16 5 flags b;
          b = PutUint16 7 bufferFree b
      in (b, io))"

definition buildAck11Payload :: "u8 \<Rightarrow> u8 \<Rightarrow> u16 \<Rightarrow> sim_io \<Rightarrow> byte list \<times> sim_io" where
  "buildAck11Payload seq code bufferFree io =
     (let (now, io) = time_Now io;
          b = (replicate 9 0)[0 := 11, 1 := seq, 2 := code];
          b = PutUint32 3 (word_of_int (now div second)) b;
          b = PutUint16 7 bufferFree b
      in (b, io))"

section \<open>Answers to commands\<close>

record controllerState =
  ct_bufferFree :: u16
  ct_triggers :: Cmd5TriggerFlags

definition zero_triggers :: Cmd5TriggerFlags where
  "zero_triggers = \<lparr>tf_ManualUnlock = False, tf_ScenarioUnlock = False, tf_AutoRegistration = False, tf_OpenForAll = False,
     tf_ForwardSMS = False, tf_NotifyUnknownIDSMS = False, tf_NotifyLowBalanceSMS = False, tf_ScheduleForAllCalls = False\<rparr>"

definition newControllerState :: "u16 \<Rightarrow> controllerState" where
  "newControllerState bufferFree = \<lparr>ct_bufferFree = bufferFree, ct_triggers = zero_triggers\<rparr>"

definition controllerState_reset :: "controllerState \<Rightarrow> controllerState" where
  "controllerState_reset st = st\<lparr>ct_triggers := zero_triggers\<rparr>"

definition applyTriggerPayload :: "byte list \<Rightarrow> controllerState \<Rightarrow> go_error option \<times> controllerState" where
  "applyTriggerPayload payload st = (case ValidateServerCommandPayload CmdSetTriggers payload of
     Some err \<Rightarrow> (Some err, st)
   | None \<Rightarrow> (None, st\<lparr>ct_triggers :=
       \<lparr>tf_ManualUnlock = (payload ! 0 = 1), tf_ScenarioUnlock = (payload ! 1 = 1), tf_AutoRegistration = (payload ! 2 = 1),
        tf_OpenForAll = (payload ! 3 = 1), tf_ForwardSMS = (payload ! 4 = 1), tf_NotifyUnknownIDSMS = (payload ! 5 = 1),
        tf_NotifyLowBalanceSMS = (payload ! 6 = 1), tf_ScheduleForAllCalls = (payload ! 7 = 1)\<rparr>\<rparr>))"

definition chooseTerminalAckCode :: "simConfig \<Rightarrow> sim_io \<Rightarrow> u8 \<times> sim_io" where
  "chooseTerminalAckCode cfg io =
     (let (r, io) = rand_Float64 io in (if r < sc_ackErrorRate cfg then AckCodeExecError else AckCodeOK, io))"

definition sendCommandAck :: "u8 \<Rightarrow> u8 \<Rightarrow> u16 \<Rightarrow> simConfig \<Rightarrow> sim_io \<Rightarrow> go_error option \<times> sim_io" where
  "sendCommandAck seq code bufferFree cfg io =
     (let (dropped, io) = (if code \<noteq> AckCodeStarted
                           then let (r, io) = rand_Float64 io in (r < sc_ackDropRate cfg, io) else (False, io))
      in if dropped then (None, io)
         else let io = (if sc_ackDelay cfg > 0 then Sleep (sc_ackDelay cfg) io else io);
                  (payload, io) = buildAck11Payload seq code bufferFree io
              in writeFrame (sc_frameMode cfg) payload io)"

definition commandDelay :: "u8 \<Rightarrow> simConfig \<Rightarrow> duration" where
  "commandDelay timeout cfg =
     (if timeout = 0 then (if sc_ackDelay cfg > 0 then sc_ackDelay cfg else 250 * millisecond) else uint timeout * second)"

text \<open>The acknowledgement with a code drawn at random.\<close>

definition send_terminal_ack :: "u8 \<Rightarrow> controllerState \<Rightarrow> simConfig \<Rightarrow> sim_io \<Rightarrow> go_error option \<times> sim_io" where
  "send_terminal_ack seq st cfg io =
     (let (code, io) = chooseTerminalAckCode cfg io in sendCommandAck seq code (ct_bufferFree st) cfg io)"

text \<open>The cases of a reboot and of a factory reset, up to what is done to the state at the end.\<close>

definition restart_command :: "(controllerState \<Rightarrow> controllerState) \<Rightarrow> u8 \<Rightarrow> byte list \<Rightarrow> controllerState \<Rightarrow> simConfig \<Rightarrow> sim_io
    \<Rightarrow> (bool \<times> go_error option) \<times> controllerState \<times> sim_io" where
  "restart_command upd seq payload st cfg io =
     (let timeout = (if length payload > 0 then payload ! 0 else 0) in
      case sendCommandAck seq AckCodeStarted (ct_bufferFree st) cfg io of
        (Some err, io) \<Rightarrow> ((False, Some err), st, io)
      | (None, io) \<Rightarrow>
          (case send_terminal_ack seq st cfg (Sleep (commandDelay timeout cfg) io) of
             (Some err, io) \<Rightarrow> ((False, Some err), st, io)
           | (None, io) \<Rightarrow> ((True, None), upd st, Sleep (sc_postCommandCoolDown cfg) io)))"

definition handleServerCommand :: "Frame \<Rightarrow> controllerState \<Rightarrow> simConfig \<Rightarrow> sim_io
    \<Rightarrow> (bool \<times> go_error option) \<times> controllerState \<times> sim_io" where
  "handleServerCommand frame st cfg io =
     (let cmdID = f_Payload frame ! 0; payload = drop 1 (f_Payload frame) in
      if cmdID = CmdReboot then restart_command id (f_Seq frame) payload st cfg io
      else if cmdID = CmdFactoryReset then restart_command controllerState_reset (f_Seq frame) payload st cfg io
      else if cmdID = CmdSetTriggers
      then (case applyTriggerPayload payload st of
              (Some err, st) \<Rightarrow> ((False, Some err), st, io)
            | (None, st) \<Rightarrow> let (err, io) = send_terminal_ack (f_Seq frame) st cfg io in ((False, err), st, io))
      else let (err, io) = send_terminal_ack (f_Seq frame) st cfg io in ((False, err), st, io))"

section \<open>A connection\<close>

definition errSimulatedReconnect :: go_error where
  "errSimulatedReconnect = ErrorsNew ''simulated reconnect''"

text \<open>One round of the goroutine that reads: the error that ends it, if any.\<close>

definition read_turn :: "simConfig \<Rightarrow> reader \<Rightarrow> controllerState \<Rightarrow> sim_io \<Rightarrow> go_error option \<times> reader \<times> controllerState \<times> sim_io" where
  "read_turn cfg rd st io = (case ReadFrameWithMode rd FrameModeAuto of
     (Inl err, rd) \<Rightarrow> (Some err, rd, st, io)
   | (Inr frame, rd) \<Rightarrow>
       let (cmdID, ok) = CommandID frame in
       if \<not> ok then (None, rd, st, io)
       else if cmdID = CmdControllerAck \<or> cmdID = CmdRegistrationAck then (None, rd, st, io)
       else let ((disconnect, err), st, io) = handleServerCommand frame st cfg io
            in case err of
                 Some e \<Rightarrow> (Some e, rd, st, io)
               | None \<Rightarrow> (if disconnect then Some errSimulatedReconnect else None, rd, st, io))"

text \<open>A tick of the status timer: a burst of status messages; \<open>n\<close> of them are left.\<close>

fun status_burst :: "nat \<Rightarrow> simConfig \<Rightarrow> controllerState \<Rightarrow> sim_io \<Rightarrow> go_error option \<times> sim_io" where
  "status_burst 0 cfg st io = (None, io)"
| "status_burst (Suc n) cfg st io =
     (let (payload, io) = buildStatus1Payload (ct_bufferFree st) 0 io in
      case writeFrame (sc_frameMode cfg) payload io of
        (Some err, io) \<Rightarrow> (Some err, io)
      | (None, io) \<Rightarrow>
          status_burst n cfg st (if n > 0 \<and> sc_burstSpacing cfg > 0 then Sleep (sc_burstSpacing cfg) io else io))"

text \<open>
  A connection is driven by the order in which the two goroutines act; it is over with the first
  error, or when the simulator is told to stop. \<open>None\<close> means that it is still open.
\<close>

datatype sim_event = ReadTurn | StatusTick | Stop

fun serve_events :: "simConfig \<Rightarrow> sim_event list \<Rightarrow> reader \<Rightarrow> controllerState \<Rightarrow> sim_io
    \<Rightarrow> go_error option option \<times> controllerState \<times> sim_io" where
  "serve_events cfg [] rd st io = (None, st, io)"
| "serve_events cfg (Stop # evs) rd st io = (Some None, st, io)"
| "serve_events cfg (ReadTurn # evs) rd st io = (case read_turn cfg rd st io of
     (Some err, rd, st, io) \<Rightarrow> (Some (Some err), st, io)
   | (None, rd, st, io) \<Rightarrow> serve_events cfg evs rd st io)"
| "serve_events cfg (StatusTick # evs) rd st io = (case status_burst (nat (sc_burstSize cfg)) cfg st io of
     (Some err, io) \<Rightarrow> (Some (Some err), st, io)
   | (None, io) \<Rightarrow> serve_events cfg evs rd st io)"

text \<open>\<^verbatim>\<open>time.NewTicker\<close> panics for an interval that is not positive; a panic ends the program.\<close>

definition panic_NewTicker :: go_error where
  "panic_NewTicker = ErrorsNew ''non-positive interval for NewTicker''"

definition serveConn :: "simConfig \<Rightarrow> string \<Rightarrow> sim_event list \<Rightarrow> reader \<Rightarrow> controllerState \<Rightarrow> sim_io
    \<Rightarrow> go_error option option \<times> controllerState \<times> sim_io" where
  "serveConn cfg imei evs rd st io = (case writeFrame (sc_frameMode cfg) (buildRegistrationPayload imei) io of
     (Some err, io) \<Rightarrow> (Some (Some err), st, io)
   | (None, io) \<Rightarrow>
       if sc_statusInterval cfg \<le> 0 then (Some (Some panic_NewTicker), st, io) else serve_events cfg evs rd st io)"

text \<open>\<^verbatim>\<open>randomJitter\<close>, with the result of \<^verbatim>\<open>rand.Int63n\<close> as an argument.\<close>

definition randomJitter :: "(int \<Rightarrow> int) \<Rightarrow> duration \<Rightarrow> duration \<Rightarrow> duration" where
  "randomJitter Int63n lo hi = (if lo \<le> 0 \<and> hi \<le> 0 then 0 else if hi \<le> lo then lo else i64 (lo + Int63n (hi - lo)))"

text \<open>
  The loop of a controller over its attempts to connect: an attempt fails, or gives a connection with
  its events and input. The state of the controller survives its connections.
\<close>

datatype attempt = DialError | Dialled "sim_event list" reader

fun controller_loop :: "(int \<Rightarrow> int) \<Rightarrow> simConfig \<Rightarrow> string \<Rightarrow> attempt list \<Rightarrow> controllerState \<Rightarrow> sim_io \<Rightarrow> controllerState \<times> sim_io" where
  "controller_loop Int63n cfg imei [] st io = (st, io)"
| "controller_loop Int63n cfg imei (DialError # as) st io = controller_loop Int63n cfg imei as st (Sleep (2 * second) io)"
| "controller_loop Int63n cfg imei (Dialled evs rd # as) st io =
     (let (err, st, io) = serveConn cfg imei evs rd st io
      in if err = Some (Some panic_NewTicker) then (st, io)
         else controller_loop Int63n cfg imei as st (Sleep (randomJitter Int63n (sc_reconnectMin cfg) (sc_reconnectMax cfg)) io))"

definition runController :: "(int \<Rightarrow> int) \<Rightarrow> simConfig \<Rightarrow> string \<Rightarrow> attempt list \<Rightarrow> sim_io \<Rightarrow> controllerState \<times> sim_io" where
  "runController Int63n cfg imei as io = controller_loop Int63n cfg imei as (newControllerState (sc_bufferFree cfg)) io"

end
