(* ===== verification/Sim_Laws.thy ===== *)
theory Sim_Laws
  imports Controller_Sim Go_Json
begin

text \<open>
  The simulator against the protocol of the server: what it sends is understood by the parsers of
  the server, and how it understands what the server sends.
\<close>

section \<open>Messages\<close>

lemma registration_payload:
  assumes "length imei \<le> 15"
  shows "buildRegistrationPayload imei = 1 # bytes_of imei @ replicate (15 - length imei) 0 @ [1, 1]"
proof -
  have "copy_slice 0 15 (bytes_of imei) (replicate 15 0) = bytes_of imei @ replicate (15 - length imei) 0"
    using assms by (simp add: copy_slice_def)
  then show ?thesis using assms by (simp add: buildRegistrationPayload_def)
qed

lemma registration_understood:
  "imei \<noteq> [] \<Longrightarrow> length imei \<le> 15 \<Longrightarrow> isDigitsOnly imei \<Longrightarrow>
   ParseRegistrationPayload (buildRegistrationPayload imei) = Inr \<lparr>reg_IMEI = imei, reg_ProtocolVersion = 1, reg_HWVersion = 1\<rparr>"
  using ParseRegistration_encoded [of imei 1 1 "[]"] by (simp add: registration_payload)

lemma ack_payload:
  "fst (buildAck11Payload seq code bf io) = 11 # seq # code # le32 (word_of_int (fst (time_Now io) div second)) @ le16 bf"
proof -
  have "PutUint16 7 bf (PutUint32 3 t ((replicate 9 0)[0 := 11, 1 := seq, 2 := code])) = 11 # seq # code # le32 t @ le16 bf" for t
    unfolding zbuf_init by (simp add: buf_simps)
  then show ?thesis by (simp add: buildAck11Payload_def split_beta Let_def)
qed

lemma status_payload:
  "fst (buildStatus1Payload bf fl io) = 2 # le32 (word_of_int (fst (time_Now io) div second)) @ le16 fl @ le16 bf"
proof -
  have "PutUint16 7 bf (PutUint16 5 fl (PutUint32 1 t ((replicate 9 0)[0 := 2]))) = 2 # le32 t @ le16 fl @ le16 bf" for t
    unfolding zbuf_init by (simp add: buf_simps)
  then show ?thesis by (simp add: buildStatus1Payload_def split_beta Let_def)
qed

lemma ack_understood:
  "ParseAck11Payload (fst (buildAck11Payload seq code bf io))
     = Inr \<lparr>a11_CommandSeq = seq, a11_ExecutionCode = code, a11_ControllerTime = word_of_int (fst (time_Now io) div second),
            a11_BufferFreeBytes = bf\<rparr>"
  by (simp add: ack_payload ParseAck11Payload_def go_slice_def len_simps)

lemma status_understood:
  "ParseStatus1Payload (fst (buildStatus1Payload bf fl io))
     = Inr \<lparr>st1_ControllerTime = word_of_int (fst (time_Now io) div second), st1_Flags = fl, st1_BufferFree = bf\<rparr>"
  by (simp add: status_payload ParseStatus1Payload_def go_slice_def len_simps)

section \<open>The fleet\<close>

lemma digits_only: "list_all (\<lambda>c. 48 \<le> (of_char c :: nat) \<and> (of_char c :: nat) \<le> 57) s \<Longrightarrow> isDigitsOnly s"
  by (auto simp: isDigitsOnly_bytes list_all_iff bytes_of_def unat_of_nat)

lemma imei_text:
  assumes "0 \<le> n" "n < 10 ^ 15"
  shows "length (fmt_015d n) = 15" "isDigitsOnly (fmt_015d n)" "number_value (fmt_015d n) = n"
proof -
  have "nat n < 10 ^ 15" using assms by simp
  then have "length (decimal (nat n)) \<le> 15" using length_decimal [of 15 "nat n"] by simp
  then show "length (fmt_015d n) = 15" using assms by (simp add: fmt_015d_def)
  show "isDigitsOnly (fmt_015d n)"
    using assms decimal_digits [of "nat n"] by (intro digits_only) (auto simp: fmt_015d_def list_all_iff)
  show "number_value (fmt_015d n) = n"
    using assms by (simp add: fmt_015d_def number_value_zeros number_value_decimal)
qed

text \<open>What a profile keeps of a configuration, and the ranges it ends up in.\<close>

definition config_ok :: "simConfig \<Rightarrow> bool" where
  "config_ok cfg \<longleftrightarrow> 0 \<le> sc_ackErrorRate cfg \<and> sc_ackErrorRate cfg \<le> 1 \<and> 0 \<le> sc_ackDropRate cfg \<and> sc_ackDropRate cfg \<le> 1
     \<and> 0 < sc_burstSize cfg \<and> sc_bufferFree cfg \<noteq> 0"

lemma applyProfile_ok:
  assumes "applyProfile base name = Inr cfg" "config_ok base"
  shows "config_ok cfg \<and> sc_frameMode cfg = sc_frameMode base
    \<and> (0 < sc_statusInterval base \<or> sc_profileName cfg \<noteq> ''flaky'' \<longrightarrow> 0 < sc_statusInterval cfg)"
proof -
  have "0 \<le> clamp01 v" "clamp01 v \<le> 1" for v by (simp_all add: clamp01_def)
  with assms show ?thesis
    by (auto simp: applyProfile_def config_ok_def maxDuration_def maxInt_def second_def Let_def split: if_splits)
qed

lemma start_clients_result:
  assumes "start_clients fl base profiles is = Inr cs"
  shows "map fst cs = map (\<lambda>i. fmt_015d (i64 (fl_baseIMEI fl + int i))) is"
    "\<forall>c\<in>set cs. \<exists>name. applyProfile base name = Inr (snd c)"
  using assms by (induction "is" arbitrary: cs) (auto simp: res_bind_eq_Inr intro: exI, fastforce+)

lemma registration_frame_read:
  assumes "imei \<noteq> []" "length imei \<le> 15" "isDigitsOnly imei" "mode \<noteq> FrameModeAuto"
    and "writeFrame mode (buildRegistrationPayload imei) io = (None, io')"
  shows "\<exists>w f. io_wire io' = io_wire io @ [w]
    \<and> ReadFrameWithMode \<lparr>rd_buf = w, rd_err = io_EOF\<rparr> FrameModeAuto = (Inr f, \<lparr>rd_buf = [], rd_err = io_EOF\<rparr>)
    \<and> f_Payload f = buildRegistrationPayload imei \<and> f_Mode f = mode"
proof -
  let ?f = "\<lparr>f_TTL = 255, f_Seq = 1, f_Payload = buildRegistrationPayload imei, f_Mode = mode\<rparr>"
  obtain w where w: "EncodeFrame ?f = Inr w" "io_wire io' = io_wire io @ [w]"
    using assms(5) by (auto simp: writeFrame_def Let_def time_Now_def split: sum.splits if_splits)
  have "ReadFrameWithMode \<lparr>rd_buf = w, rd_err = io_EOF\<rparr> FrameModeAuto
      = (readAutoFrame (frame_data ?f), \<lparr>rd_buf = [], rd_err = io_EOF\<rparr>)"
    using read_encoded [OF w(1), of "\<lparr>rd_buf = w, rd_err = io_EOF\<rparr>" "[]" FrameModeAuto] by (simp add: frame_of_data_def)
  also have "readAutoFrame (frame_data ?f) = Inr (wire_frame ?f)"
    by (rule readAutoFrame_registration) (use assms in \<open>simp add: registration_understood\<close>)
  finally show ?thesis using w(2) assms(4) by (cases mode) (auto simp: wire_frame_def)
qed


definition sample_flags :: sim_flags where
  "sample_flags = \<lparr>fl_clients = 2, fl_interval = 0, fl_baseIMEI = 860000000000000, fl_ackDelay = 0, fl_ackErrorRate = 0,
     fl_ackDropRate = 0, fl_burstSize = 1, fl_burstSpacing = 0, fl_profile = ''healthy'', fl_profileMix = [],
     fl_frameModeName = ''Compact''\<rparr>"


section \<open>Reading what the server sends\<close>

lemma auto_sequenced:
  assumes "f_Mode f = FrameModeSequenced" "f_Payload f = c # p" "isKnownCommandID c" "c \<noteq> 1"
  shows "readAutoFrame (frame_data f) = Inr (if isKnownCommandID (f_Seq f)
      then \<lparr>f_TTL = f_TTL f, f_Seq = 0, f_Payload = f_Seq f # c # p, f_Mode = FrameModeCompact\<rparr> else f)"
proof -
  have c: "unat c < 48" using assms(3) by (auto simp: isKnownCommandID_def)
  have "isl (ParseRegistrationPayload (f_Seq f # c # p))"
  proof (rule ccontr)
    assume "\<not> isl (ParseRegistrationPayload (f_Seq f # c # p))"
    then obtain r where "ParseRegistrationPayload (f_Seq f # c # p) = Inr r" by (metis isl_def sum.exhaust)
    from ParseRegistration_first_digit [OF this] c show False by simp
  qed
  moreover have "isl (ParseRegistrationPayload (c # p))" using assms(4) by (simp add: ParseRegistrationPayload_def)
  ultimately show ?thesis
    using assms(1-3) by (cases f) (simp add: readAutoFrame_def frame_data_def compact_frame_def sequenced_frame_def CommandID_def Let_def)
qed

text \<open>
  (C31) How the simulator, which reads in the automatic mode, reads a command the server sent in the
  sequenced mode. If the sequence number is not itself the number of a known command the frame is read as
  sent. Otherwise it is taken for a compact frame: the simulator sees the command whose number
  is the sequence number, the real command as the first byte of its payload, and sequence number 0.
\<close>

theorem sim_reads_command:
  assumes "EncodeFrame f = Inr w" "rd_buf r = w @ rest" "f_Mode f = FrameModeSequenced"
    and "f_Payload f = c # p" "isKnownCommandID c" "c \<noteq> CmdRegistrationAck"
  shows "ReadFrameWithMode r FrameModeAuto = (Inr (if isKnownCommandID (f_Seq f)
      then \<lparr>f_TTL = f_TTL f, f_Seq = 0, f_Payload = f_Seq f # c # p, f_Mode = FrameModeCompact\<rparr> else f), r\<lparr>rd_buf := rest\<rparr>)"
  using read_encoded [OF assms(1,2)] auto_sequenced [OF assms(3-6)] by (simp add: frame_of_data_def)

text \<open>The status request with sequence number 2 is taken for a reboot.\<close>

theorem sim_reads_command_witness:
  "ReadFrameWithMode \<lparr>rd_buf = frame_wire [255, 2, 22], rd_err = io_EOF\<rparr> FrameModeAuto
     = (Inr \<lparr>f_TTL = 255, f_Seq = 0, f_Payload = [CmdReboot, CmdStatus2Req], f_Mode = FrameModeCompact\<rparr>,
        \<lparr>rd_buf = [], rd_err = io_EOF\<rparr>)"
proof -
  let ?f = "\<lparr>f_TTL = 255, f_Seq = 2, f_Payload = [22], f_Mode = FrameModeSequenced\<rparr>"
  have "EncodeFrame ?f = Inr (frame_wire [255, 2, 22])" by (simp add: EncodeFrame_eq frame_data_def)
  from sim_reads_command [OF this, of "\<lparr>rd_buf = frame_wire [255, 2, 22], rd_err = io_EOF\<rparr>" "[]" 22 "[]"]
  show ?thesis by (simp add: isKnownCommandID_def)
qed

section \<open>Answering\<close>

text \<open>No acknowledgement is dropped and no write fails.\<close>

definition quiet :: "simConfig \<Rightarrow> sim_io \<Rightarrow> bool" where
  "quiet cfg io \<longleftrightarrow> (\<forall>n. sc_ackDropRate cfg \<le> io_floats io n) \<and> (\<forall>n. io_writes io n = None)"

text \<open>The frame of an acknowledgement, as a reader in the mode of the controller gets it.\<close>

definition is_ack :: "FrameMode \<Rightarrow> u8 \<Rightarrow> u8 set \<Rightarrow> u16 \<Rightarrow> byte list \<Rightarrow> bool" where
  "is_ack mode seq codes bf w \<longleftrightarrow> (\<exists>g a. ReadFrameWithMode \<lparr>rd_buf = w, rd_err = io_EOF\<rparr> mode = (Inr g, \<lparr>rd_buf = [], rd_err = io_EOF\<rparr>)
     \<and> ParseAck11Payload (f_Payload g) = Inr a \<and> a11_CommandSeq a = seq \<and> a11_ExecutionCode a \<in> codes \<and> a11_BufferFreeBytes a = bf)"

lemma ack_frame_read:
  assumes "mode \<noteq> FrameModeAuto"
  shows "EncodeFrame \<lparr>f_TTL = 255, f_Seq = 1, f_Payload = fst (buildAck11Payload seq code bf io), f_Mode = mode\<rparr> = Inr w
    \<Longrightarrow> is_ack mode seq {code} bf w"
  unfolding is_ack_def
  using assms ack_understood [of seq code bf io]
    read_encoded [of "\<lparr>f_TTL = 255, f_Seq = 1, f_Payload = fst (buildAck11Payload seq code bf io), f_Mode = mode\<rparr>" w
      "\<lparr>rd_buf = w, rd_err = io_EOF\<rparr>" "[]" mode]
  by (cases mode) (auto simp: frame_of_data_encoded wire_frame_def ack_payload)

lemma sendCommandAck_sent:
  assumes "quiet cfg io" "sc_frameMode cfg \<noteq> FrameModeAuto"
  shows "\<exists>io' w. sendCommandAck seq code bf cfg io = (None, io') \<and> io_wire io' = io_wire io @ [w] \<and> quiet cfg io'
    \<and> is_ack (sc_frameMode cfg) seq {code} bf w"
proof -
  define io1 where "io1 = (if code \<noteq> AckCodeStarted then snd (rand_Float64 io) else io)"
  define io2 where "io2 = (if sc_ackDelay cfg > 0 then Sleep (sc_ackDelay cfg) io1 else io1)"
  define io3 where "io3 = snd (buildAck11Payload seq code bf io2)"
  let ?f = "\<lparr>f_TTL = 255, f_Seq = 1, f_Payload = fst (buildAck11Payload seq code bf io2), f_Mode = sc_frameMode cfg\<rparr>"
  have q: "quiet cfg io3" "io_wire io3 = io_wire io"
    using assms(1) by (auto simp: quiet_def io1_def io2_def io3_def rand_Float64_def Sleep_def buildAck11Payload_def time_Now_def)
  have d: "\<not> io_floats io (io_nfloats io) < sc_ackDropRate cfg" using assms(1) by (simp add: quiet_def not_less)
  have "sendCommandAck seq code bf cfg io = writeFrame (sc_frameMode cfg) (fst (buildAck11Payload seq code bf io2)) io3"
    using d by (simp add: sendCommandAck_def io1_def io2_def io3_def rand_Float64_def split_beta Let_def)
  moreover have w: "EncodeFrame ?f = Inr (frame_wire (frame_data ?f))" by (simp add: EncodeFrame_ok ack_payload len_simps)
  ultimately show ?thesis
    using q ack_frame_read [OF assms(2) w] by (auto simp: writeFrame_def Let_def time_Now_def quiet_def)
qed

lemma send_terminal_ack_sent:
  assumes "quiet cfg io" "sc_frameMode cfg \<noteq> FrameModeAuto"
  shows "\<exists>io' w. send_terminal_ack seq st cfg io = (None, io') \<and> io_wire io' = io_wire io @ [w] \<and> quiet cfg io'
    \<and> is_ack (sc_frameMode cfg) seq {AckCodeOK, AckCodeExecError} (ct_bufferFree st) w"
proof -
  obtain code io1 where c: "chooseTerminalAckCode cfg io = (code, io1)" by (rule prod.exhaust)
  then have code: "code \<in> {AckCodeOK, AckCodeExecError}" "io_wire io1 = io_wire io" "quiet cfg io1"
    using assms(1) by (auto simp: chooseTerminalAckCode_def rand_Float64_def quiet_def)
  from sendCommandAck_sent [OF code(3) assms(2), of seq code "ct_bufferFree st"] c code show ?thesis
    unfolding send_terminal_ack_def is_ack_def by auto
qed

lemma restart_command_answered:
  assumes "quiet cfg io" "sc_frameMode cfg \<noteq> FrameModeAuto"
  shows "\<exists>io' ws w. restart_command upd seq payload st cfg io = ((True, None), upd st, io') \<and> io_wire io' = io_wire io @ ws @ [w]
    \<and> is_ack (sc_frameMode cfg) seq {AckCodeOK, AckCodeExecError} (ct_bufferFree st) w"
proof -
  obtain io1 w1 where a: "sendCommandAck seq AckCodeStarted (ct_bufferFree st) cfg io = (None, io1)"
      "io_wire io1 = io_wire io @ [w1]" "quiet cfg io1"
    using sendCommandAck_sent [OF assms, of seq AckCodeStarted "ct_bufferFree st"] by blast
  let ?io = "Sleep (commandDelay (if length payload > 0 then payload ! 0 else 0) cfg) io1"
  have "quiet cfg ?io" "io_wire ?io = io_wire io1" using a(3) by (simp_all add: quiet_def Sleep_def)
  then obtain io2 w2 where b: "send_terminal_ack seq st cfg ?io = (None, io2)" "io_wire io2 = io_wire io1 @ [w2]"
      "is_ack (sc_frameMode cfg) seq {AckCodeOK, AckCodeExecError} (ct_bufferFree st) w2"
    using send_terminal_ack_sent [OF _ assms(2), of ?io seq st] by metis
  have "restart_command upd seq payload st cfg io = ((True, None), upd st, Sleep (sc_postCommandCoolDown cfg) io2)"
    using a(1) b(1) by (simp add: restart_command_def Let_def)
  moreover have "io_wire (Sleep (sc_postCommandCoolDown cfg) io2) = io_wire io @ [w1] @ [w2]"
    using a(2) b(2) by (simp add: Sleep_def)
  ultimately show ?thesis using b(3) by blast
qed

text \<open>
  (C30) A command that the simulator reads as sent is answered: unless a write fails or the acknowledgement is
  dropped by the configured rate, the last frame it writes is read by the server, in the mode of the connection, as
  the acknowledgement of the sequence number of the command with a final code and the free
  buffer of the controller. The connection stays open, or is left for the simulated restart.
\<close>

theorem sim_answers_command:
  assumes "EncodeFrame f = Inr w" "rd_buf r = w @ rest" "f_Mode f = FrameModeSequenced" "f_Payload f = c # p"
    and "isKnownCommandID c" "c \<noteq> CmdRegistrationAck" "c \<noteq> CmdControllerAck" "\<not> isKnownCommandID (f_Seq f)"
    and "c = CmdSetTriggers \<longrightarrow> ValidateServerCommandPayload c p = None"
    and "quiet cfg io" "sc_frameMode cfg \<noteq> FrameModeAuto"
  shows "\<exists>err st' io' ws wire. read_turn cfg r st io = (err, r\<lparr>rd_buf := rest\<rparr>, st', io') \<and> io_wire io' = io_wire io @ ws @ [wire]
    \<and> is_ack (sc_frameMode cfg) (f_Seq f) {AckCodeOK, AckCodeExecError} (ct_bufferFree st) wire
    \<and> err = (if c \<in> {CmdReboot, CmdFactoryReset} then Some errSimulatedReconnect else None)"
proof -
  have rd: "ReadFrameWithMode r FrameModeAuto = (Inr f, r\<lparr>rd_buf := rest\<rparr>)"
    using read_encoded [OF assms(1,2)] auto_sequenced [OF assms(3-6)] assms(8) by (simp add: frame_of_data_def)
  have turn: "read_turn cfg r st io = (let ((disconnect, err), st, io) = handleServerCommand f st cfg io
      in (case err of Some e \<Rightarrow> Some e | None \<Rightarrow> if disconnect then Some errSimulatedReconnect else None, r\<lparr>rd_buf := rest\<rparr>, st, io))"
    using assms(6,7) by (simp add: read_turn_def rd CommandID_def assms(4) split_beta Let_def split: option.split)
  have ack: "\<exists>io' w. send_terminal_ack (f_Seq f) st' cfg io = (None, io') \<and> io_wire io' = io_wire io @ [w]
    \<and> is_ack (sc_frameMode cfg) (f_Seq f) {AckCodeOK, AckCodeExecError} (ct_bufferFree st') w" for st'
    using send_terminal_ack_sent [OF assms(10,11)] by blast
  consider "c = CmdReboot" | "c = CmdFactoryReset" | "c = CmdSetTriggers" | "c \<notin> {CmdReboot, CmdFactoryReset, CmdSetTriggers}" by blast
  then show ?thesis
  proof cases
    case 1
    from restart_command_answered [OF assms(10,11), of id "f_Seq f" p st]
    show ?thesis by (auto simp: turn handleServerCommand_def assms(4) 1)
  next
    case 2
    from restart_command_answered [OF assms(10,11), of controllerState_reset "f_Seq f" p st]
    show ?thesis by (auto simp: turn handleServerCommand_def assms(4) 2)
  next
    case 3
    obtain st' where t: "applyTriggerPayload p st = (None, st')" "ct_bufferFree st' = ct_bufferFree st"
      using assms(9) 3 by (simp add: applyTriggerPayload_def)
    from ack [of st'] show ?thesis by (auto simp: turn handleServerCommand_def assms(4) 3 t)
  next
    case 4
    from ack [of st] show ?thesis using 4 by (auto simp: turn handleServerCommand_def assms(4))
  qed
qed

definition sample_io :: sim_io where
  "sample_io = \<lparr>io_floats = (\<lambda>_. 0), io_nfloats = 0, io_clock = (\<lambda>_. 0), io_ticks = 0, io_writes = (\<lambda>_. None), io_nwrites = 0,
     io_wire = [], io_slept = []\<rparr>"

theorem sim_answers_command_witness:
  "\<exists>st' io' ws wire. read_turn (zero_simConfig\<lparr>sc_frameMode := FrameModeSequenced\<rparr>)
      \<lparr>rd_buf = frame_wire [255, 200, 22], rd_err = io_EOF\<rparr> (newControllerState 96) sample_io
      = (None, \<lparr>rd_buf = [], rd_err = io_EOF\<rparr>, st', io')
    \<and> io_wire io' = ws @ [wire] \<and> is_ack FrameModeSequenced 200 {AckCodeOK, AckCodeExecError} 96 wire"
proof -
  let ?f = "\<lparr>f_TTL = 255, f_Seq = 200, f_Payload = [22], f_Mode = FrameModeSequenced\<rparr>"
  let ?rd = "\<lparr>rd_buf = frame_wire [255, 200, 22], rd_err = io_EOF\<rparr>"
  have w: "EncodeFrame ?f = Inr (frame_wire [255, 200, 22])" by (simp add: EncodeFrame_eq frame_data_def)
  have q: "quiet (zero_simConfig\<lparr>sc_frameMode := FrameModeSequenced\<rparr>) sample_io"
    by (simp add: quiet_def zero_simConfig_def sample_io_def)
  from sim_answers_command [OF w, of ?rd "[]" 22 "[]" "zero_simConfig\<lparr>sc_frameMode := FrameModeSequenced\<rparr>" sample_io "newControllerState 96"] q
  show ?thesis by (auto simp: isKnownCommandID_def newControllerState_def sample_io_def)
qed

end
