(* ===== verification/Postgres_Store.thy ===== *)
theory Postgres_Store
  imports Session_Store
begin

text \<open>
  The store in PostgreSQL (\<^verbatim>\<open>internal/store/postgres_store.go\<close>). The database and its driver are not
  part of the program: they are a record \<open>sql_db\<close> of the calls of \<^verbatim>\<open>database/sql\<close> the store makes, on a
  state of any type, with the three statements of the store as a datatype. What the store relies on is
  \<open>postgres_ok\<close>: the documented effect of a statement that succeeded, on the table of rows. Nothing is assumed about a
  statement that failed, since a lost answer says nothing of its effect. A column of type \<^verbatim>\<open>JSONB\<close> is
  empty, does not decode, or holds a list.
\<close>

section \<open>The database\<close>

datatype 'a jsonb = JsonEmpty | JsonBad go_error | JsonList "'a list"

record session_row =
  row_controller_id :: string
  row_last_seen :: time
  row_buffer_free :: int
  row_fw_mode :: bool
  row_sync_mode :: bool
  row_pending :: "Command jsonb"
  row_inflight :: "InFlightSnapshot jsonb"
  row_next_seq :: int

datatype sql_exec =
    InitSchema
  | UpsertSession session_row
  | DeleteSessionRow string

text \<open>
  A query gives the results of scanning its rows one after the other and the error at their end.
\<close>

record 'd sql_db =
  db_Open :: "string \<Rightarrow> go_error + 'd"
  db_Ping :: "'d \<Rightarrow> go_error option \<times> 'd"
  db_Exec :: "sql_exec \<Rightarrow> 'd \<Rightarrow> go_error option \<times> 'd"
  db_QueryAll :: "'d \<Rightarrow> (go_error + (go_error + session_row) list \<times> go_error option) \<times> 'd"
  db_Close :: "'d \<Rightarrow> go_error option \<times> 'd"

section \<open>The store\<close>

definition NewPostgresStore :: "'d sql_db \<Rightarrow> string \<Rightarrow> go_error + 'd" where
  "NewPostgresStore db dsn = (case db_Open db dsn of
     Inl err \<Rightarrow> Inl (Errorf ''open postgres: %w'' [FErr err])
   | Inr d \<Rightarrow> (case db_Ping db d of
       (Some err, d) \<Rightarrow> Inl (Errorf ''ping postgres: %w'' [FErr err])
     | (None, d) \<Rightarrow> (case db_Exec db InitSchema d of
         (Some err, d) \<Rightarrow> Inl (Errorf ''init postgres schema: %w'' [FErr err])
       | (None, d) \<Rightarrow> Inr d)))"

text \<open>
  \<^verbatim>\<open>json.Marshal\<close> of the two lists of a snapshot: a time outside the years 0 to 9999 is an error, and the
  invalid bytes of a string become U+FFFD, which is how the column decodes again.
\<close>

definition json_text :: "string \<Rightarrow> string" where
  "json_text s = string_of (concat (map (\<lambda>(r, w). EncodeRune r) (runes (bytes_of s))))"

definition json_Command :: "Command \<Rightarrow> Command" where
  "json_Command c = c\<lparr>cmd_MessageID := json_text (cmd_MessageID c), cmd_TraceID := json_text (cmd_TraceID c),
     cmd_DedupKey := json_text (cmd_DedupKey c), cmd_Priority := json_text (cmd_Priority c)\<rparr>"

definition json_InFlight :: "InFlightSnapshot \<Rightarrow> InFlightSnapshot" where
  "json_InFlight e = e\<lparr>ifs_Command := json_Command (ifs_Command e)\<rparr>"

definition json_time :: "time \<Rightarrow> go_error option" where
  "json_time t = (if - 62167219200 * 1000000000 \<le> t \<and> t < 253402300800 * 1000000000 then None
     else Some (Errorf ''json: error calling MarshalJSON for type %s: %w''
            [FStr ''time.Time'', FErr (ErrorsNew ''Time.MarshalJSON: year outside of range [0,9999]'')]))"

definition marshal_pending :: "Command list \<Rightarrow> go_error + Command jsonb" where
  "marshal_pending cs = (case for_err (\<lambda>c. json_time (cmd_CreatedAt c)) cs of
     Some err \<Rightarrow> Inl err | None \<Rightarrow> Inr (JsonList (map json_Command cs)))"

definition marshal_inflight :: "InFlightSnapshot list \<Rightarrow> go_error + InFlightSnapshot jsonb" where
  "marshal_inflight es = (case for_err (\<lambda>e. case json_time (cmd_CreatedAt (ifs_Command e)) of
       Some err \<Rightarrow> Some err | None \<Rightarrow> json_time (ifs_SentAt e)) es of
     Some err \<Rightarrow> Inl err | None \<Rightarrow> Inr (JsonList (map json_InFlight es)))"

text \<open>The arguments of the statement that saves a session.\<close>

definition session_row_of :: "SessionSnapshot \<Rightarrow> go_error + session_row" where
  "session_row_of snapshot =
     (case marshal_pending (sn_Pending snapshot) of
        Inl err \<Rightarrow> Inl (Errorf ''marshal pending: %w'' [FErr err])
      | Inr pending \<Rightarrow> (case marshal_inflight (sn_InFlight snapshot) of
          Inl err \<Rightarrow> Inl (Errorf ''marshal inflight: %w'' [FErr err])
        | Inr inFlight \<Rightarrow> Inr
           \<lparr>row_controller_id = sn_ControllerID snapshot, row_last_seen = sn_LastSeen snapshot,
            row_buffer_free = sn_BufferFree snapshot, row_fw_mode = sn_FWMode snapshot,
            row_sync_mode = sn_SyncMode snapshot, row_pending = pending, row_inflight = inFlight,
            row_next_seq = uint (sn_NextSeq snapshot)\<rparr>))"

definition PostgresStore_SaveSession :: "'d sql_db \<Rightarrow> SessionSnapshot \<Rightarrow> 'd \<Rightarrow> go_error option \<times> 'd" where
  "PostgresStore_SaveSession db snapshot d = (case session_row_of snapshot of
     Inl err \<Rightarrow> (Some err, d)
   | Inr row \<Rightarrow> (case db_Exec db (UpsertSession row) d of
       (Some err, d) \<Rightarrow> (Some (Errorf ''save session: %w'' [FErr err]), d)
     | (None, d) \<Rightarrow> (None, d)))"

definition PostgresStore_DeleteSession :: "'d sql_db \<Rightarrow> string \<Rightarrow> 'd \<Rightarrow> go_error option \<times> 'd" where
  "PostgresStore_DeleteSession db controllerID d = (case db_Exec db (DeleteSessionRow controllerID) d of
     (Some err, d) \<Rightarrow> (Some (Errorf ''delete session: %w'' [FErr err]), d)
   | (None, d) \<Rightarrow> (None, d))"

text \<open>A scanned row as a snapshot.\<close>

definition json_column :: "string \<Rightarrow> 'a jsonb \<Rightarrow> go_error + 'a list" where
  "json_column what j = (case j of
     JsonEmpty \<Rightarrow> Inr [] | JsonBad err \<Rightarrow> Inl (Errorf (''unmarshal '' @ what @ '': %w'') [FErr err]) | JsonList xs \<Rightarrow> Inr xs)"

definition snapshot_of_row :: "session_row \<Rightarrow> go_error + SessionSnapshot" where
  "snapshot_of_row row =
     res_bind (json_column ''pending'' (row_pending row)) (\<lambda>pending.
     res_bind (json_column ''inflight'' (row_inflight row)) (\<lambda>inFlight.
       if row_next_seq row < 0 \<or> row_next_seq row > 255
       then Inl (Errorf ''invalid next_seq for %s: %d'' [FStr (row_controller_id row), FInt (row_next_seq row)])
       else Inr \<lparr>sn_ControllerID = row_controller_id row, sn_LastSeen = row_last_seen row,
                 sn_BufferFree = row_buffer_free row, sn_FWMode = row_fw_mode row, sn_SyncMode = row_sync_mode row,
                 sn_Pending = pending, sn_InFlight = inFlight, sn_NextSeq = word_of_int (row_next_seq row)\<rparr>))"

fun scan_rows :: "(go_error + session_row) list \<Rightarrow> go_error + SessionSnapshot list" where
  "scan_rows [] = Inr []"
| "scan_rows (r # rs) = (case r of
     Inl err \<Rightarrow> Inl (Errorf ''scan session: %w'' [FErr err])
   | Inr row \<Rightarrow> res_bind (snapshot_of_row row) (\<lambda>snap. res_bind (scan_rows rs) (\<lambda>out. Inr (snap # out))))"

definition PostgresStore_ListSessions :: "'d sql_db \<Rightarrow> 'd \<Rightarrow> (go_error + SessionSnapshot list) \<times> 'd" where
  "PostgresStore_ListSessions db d = (case db_QueryAll db d of
     (Inl err, d) \<Rightarrow> (Inl (Errorf ''list sessions query: %w'' [FErr err]), d)
   | (Inr (rows, rowsErr), d) \<Rightarrow>
       (res_bind (scan_rows rows) (\<lambda>out.
          case rowsErr of Some err \<Rightarrow> Inl (Errorf ''list sessions rows: %w'' [FErr err]) | None \<Rightarrow> Inr out), d))"

definition PostgresStore_Close :: "'d sql_db \<Rightarrow> 'd \<Rightarrow> go_error option \<times> 'd" where
  "PostgresStore_Close db d = db_Close db d"

definition PostgresStore :: "'d sql_db \<Rightarrow> 'd Store" where
  "PostgresStore db = \<lparr>SaveSession = PostgresStore_SaveSession db, DeleteSession = PostgresStore_DeleteSession db,
     ListSessions = PostgresStore_ListSessions db\<rparr>"

section \<open>What the store promises\<close>

text \<open>
  The effect of statements that succeed. A time is stored in the precision of the column, by \<open>stamp\<close>.
\<close>

definition stored_row :: "(time \<Rightarrow> time) \<Rightarrow> session_row \<Rightarrow> session_row" where
  "stored_row stamp row = row\<lparr>row_last_seen := stamp (row_last_seen row)\<rparr>"

definition postgres_ok :: "'d sql_db \<Rightarrow> ('d \<Rightarrow> string \<rightharpoonup> session_row) \<Rightarrow> (time \<Rightarrow> time) \<Rightarrow> bool" where
  "postgres_ok db table stamp \<longleftrightarrow>
     (\<forall>row d d'. db_Exec db (UpsertSession row) d = (None, d') \<longrightarrow>
        table d' = (table d)(row_controller_id row \<mapsto> stored_row stamp row))
   \<and> (\<forall>k d d'. db_Exec db (DeleteSessionRow k) d = (None, d') \<longrightarrow> table d' = (table d)(k := None))
   \<and> (\<forall>d rows d'. db_QueryAll db d = (Inr (map Inr rows, None), d') \<longrightarrow>
        table d' = table d \<and> distinct (map row_controller_id rows)
        \<and> map_of (map (\<lambda>r. (row_controller_id r, r)) rows) = table d)"

text \<open>The sessions a table of rows stands for.\<close>

definition row_view :: "(string \<rightharpoonup> session_row) \<Rightarrow> string \<rightharpoonup> SessionSnapshot" where
  "row_view t k = (case t k of None \<Rightarrow> None | Some row \<Rightarrow> (case snapshot_of_row row of Inl _ \<Rightarrow> None | Inr snap \<Rightarrow> Some snap))"

text \<open>The form in which a snapshot comes back: its time in the precision of the column, its texts as JSON keeps them.\<close>

definition kept_snapshot :: "(time \<Rightarrow> time) \<Rightarrow> SessionSnapshot \<Rightarrow> SessionSnapshot" where
  "kept_snapshot stamp snap = snap\<lparr>sn_LastSeen := stamp (sn_LastSeen snap),
     sn_Pending := map json_Command (sn_Pending snap), sn_InFlight := map json_InFlight (sn_InFlight snap)\<rparr>"

lemma snapshot_of_stored:
  assumes "session_row_of snap = Inr row"
  shows "snapshot_of_row (stored_row stamp row) = Inr (kept_snapshot stamp snap)"
    "row_controller_id row = sn_ControllerID snap"
proof -
  have "uint (sn_NextSeq snap) \<le> 255" using uint_lt2p [of "sn_NextSeq snap"] by simp
  then show "snapshot_of_row (stored_row stamp row) = Inr (kept_snapshot stamp snap)"
    "row_controller_id row = sn_ControllerID snap"
    using assms
    by (auto simp: snapshot_of_row_def stored_row_def session_row_of_def json_column_def res_bind_def kept_snapshot_def
        marshal_pending_def marshal_inflight_def split: option.splits)
qed

lemma snapshot_of_row_id: "snapshot_of_row row = Inr snap \<Longrightarrow> sn_ControllerID snap = row_controller_id row"
  by (auto simp: snapshot_of_row_def res_bind_eq_Inr split: if_splits)

text \<open>A list that was scanned without an error has a snapshot for each row.\<close>

lemma scan_rows_ok:
  assumes "scan_rows rs = Inr out"
  obtains rows where "rs = map Inr rows" "map snapshot_of_row rows = map Inr out"
proof -
  have "\<exists>rows. rs = map Inr rows \<and> map snapshot_of_row rows = map Inr out"
    using assms
  proof (induction rs arbitrary: out)
    case (Cons r rs)
    then obtain row snap out' where "r = Inr row" "snapshot_of_row row = Inr snap" "scan_rows rs = Inr out'" "out = snap # out'"
      by (auto simp: res_bind_eq_Inr split: sum.splits)
    moreover obtain rows where "rs = map Inr rows" "map snapshot_of_row rows = map Inr out'"
      using Cons.IH [OF \<open>scan_rows rs = Inr out'\<close>] by blast
    ultimately have "r # rs = map Inr (row # rows) \<and> map snapshot_of_row (row # rows) = map Inr out" by simp
    then show ?case by (rule exI [of _ "row # rows"])
  qed simp
  then show thesis using that by blast
qed

lemma row_view_list:
  assumes "map snapshot_of_row rows = map Inr out"
  shows "map sn_ControllerID out = map row_controller_id rows"
    "row_view (map_of (map (\<lambda>r. (row_controller_id r, r)) rows)) = map_of (map (\<lambda>s. (sn_ControllerID s, s)) out)"
proof -
  have "map sn_ControllerID out = map row_controller_id rows
    \<and> row_view (map_of (map (\<lambda>r. (row_controller_id r, r)) rows)) = map_of (map (\<lambda>s. (sn_ControllerID s, s)) out)"
    using assms
  proof (induction rows arbitrary: out)
    case Nil
    then show ?case by (simp add: row_view_def fun_eq_iff)
  next
    case (Cons row rows)
    then obtain snap out' where "out = snap # out'" "snapshot_of_row row = Inr snap" "map snapshot_of_row rows = map Inr out'"
      by auto
    then show ?case using Cons.IH [of out'] snapshot_of_row_id [of row snap] by (auto simp: row_view_def fun_eq_iff)
  qed
  then show "map sn_ControllerID out = map row_controller_id rows"
    "row_view (map_of (map (\<lambda>r. (row_controller_id r, r)) rows)) = map_of (map (\<lambda>s. (sn_ControllerID s, s)) out)" by simp_all
qed

text \<open>
  A run of saves (\<open>Inl\<close>) and deletions (\<open>Inr\<close>) up to the first error, on the database and on the sessions it
  stands for.
\<close>

fun store_run :: "'d sql_db \<Rightarrow> (SessionSnapshot + string) list \<Rightarrow> 'd \<Rightarrow> go_error option \<times> 'd" where
  "store_run db [] d = (None, d)"
| "store_run db (op # ops) d =
     (case (case op of Inl snap \<Rightarrow> SaveSession (PostgresStore db) snap d | Inr k \<Rightarrow> DeleteSession (PostgresStore db) k d) of
        (Some err, d) \<Rightarrow> (Some err, d) | (None, d) \<Rightarrow> store_run db ops d)"

fun kept_run :: "(time \<Rightarrow> time) \<Rightarrow> (SessionSnapshot + string) list \<Rightarrow> (string \<rightharpoonup> SessionSnapshot) \<Rightarrow> string \<rightharpoonup> SessionSnapshot" where
  "kept_run stamp [] m = m"
| "kept_run stamp (Inl snap # ops) m = kept_run stamp ops (m(sn_ControllerID snap \<mapsto> kept_snapshot stamp snap))"
| "kept_run stamp (Inr k # ops) m = kept_run stamp ops (m(k := None))"

lemma save_row_view:
  assumes "postgres_ok db table stamp" "SaveSession (PostgresStore db) snap d = (None, d')"
  shows "row_view (table d') = (row_view (table d))(sn_ControllerID snap \<mapsto> kept_snapshot stamp snap)"
proof -
  obtain row where row: "session_row_of snap = Inr row" and x: "db_Exec db (UpsertSession row) d = (None, d')"
    using assms(2) by (auto simp: PostgresStore_def PostgresStore_SaveSession_def split: sum.splits prod.splits option.splits)
  have "table d' = (table d)(row_controller_id row \<mapsto> stored_row stamp row)"
    using assms(1) x by (simp add: postgres_ok_def)
  then show ?thesis using snapshot_of_stored [OF row] by (simp add: row_view_def fun_eq_iff)
qed

lemma delete_row_view:
  assumes "postgres_ok db table stamp" "DeleteSession (PostgresStore db) k d = (None, d')"
  shows "row_view (table d') = (row_view (table d))(k := None)"
proof -
  have "db_Exec db (DeleteSessionRow k) d = (None, d')"
    using assms(2) by (auto simp: PostgresStore_def PostgresStore_DeleteSession_def split: prod.splits option.splits)
  then have "table d' = (table d)(k := None)" using assms(1) by (simp add: postgres_ok_def)
  then show ?thesis by (simp add: row_view_def fun_eq_iff)
qed

lemma store_run_view:
  assumes "postgres_ok db table stamp" "store_run db ops d = (None, d')"
  shows "row_view (table d') = kept_run stamp ops (row_view (table d))"
  using assms(2)
proof (induction ops arbitrary: d)
  case (Cons op ops)
  show ?case
  proof (cases op)
    case (Inl snap)
    obtain d1 where d1: "SaveSession (PostgresStore db) snap d = (None, d1)" "store_run db ops d1 = (None, d')"
      using Cons.prems Inl by (auto split: prod.splits option.splits)
    show ?thesis
      unfolding Inl kept_run.simps save_row_view [OF assms(1) d1(1), symmetric] by (rule Cons.IH [OF d1(2)])
  next
    case (Inr k)
    obtain d1 where d1: "DeleteSession (PostgresStore db) k d = (None, d1)" "store_run db ops d1 = (None, d')"
      using Cons.prems Inr by (auto split: prod.splits option.splits)
    show ?thesis
      unfolding Inr kept_run.simps delete_row_view [OF assms(1) d1(1), symmetric] by (rule Cons.IH [OF d1(2)])
  qed
qed simp

text \<open>
  (C22) The PostgreSQL store keeps what it acknowledged. For a database in which statements that succeed
  have their documented effect, after any sequence of saves and deletions that all returned no error, a list that
  returns no error has one snapshot per controller, and these are exactly the ones that the sequence leaves when it is
  run on a map: the last saved snapshot of each controller, with every field, queued command, in-flight command and the
  next sequence number, the time of the last frame in the precision of the column, and texts as JSON keeps them.
\<close>

theorem postgres_keeps_sessions:
  assumes "postgres_ok db table stamp"
    and "store_run db ops d = (None, d1)"
    and "ListSessions (PostgresStore db) d1 = (Inr out, d2)"
  shows "distinct (map sn_ControllerID out)
    \<and> map_of (map (\<lambda>s. (sn_ControllerID s, s)) out) = kept_run stamp ops (row_view (table d))
    \<and> table d2 = table d1"
proof -
  obtain rs where q: "db_QueryAll db d1 = (Inr (rs, None), d2)" "scan_rows rs = Inr out"
    using assms(3) by (auto simp: PostgresStore_def PostgresStore_ListSessions_def res_bind_eq_Inr
        split: prod.splits sum.splits option.splits)
  obtain rows where rows: "rs = map Inr rows" "map snapshot_of_row rows = map Inr out"
    using scan_rows_ok [OF q(2)] .
  have "table d2 = table d1 \<and> distinct (map row_controller_id rows)
      \<and> map_of (map (\<lambda>r. (row_controller_id r, r)) rows) = table d1"
    using assms(1) q(1) rows(1) by (simp add: postgres_ok_def)
  then show ?thesis
    using row_view_list [OF rows(2)] store_run_view [OF assms(1,2)] by metis
qed

text \<open>A database with one table, its times in microseconds, that refuses a query when a key is not unique.\<close>

definition micros :: "time \<Rightarrow> time" where
  "micros t = t - t mod 1000"

definition table_rows :: "session_row list \<Rightarrow> string \<rightharpoonup> session_row" where
  "table_rows d = map_of (map (\<lambda>r. (row_controller_id r, r)) d)"

definition table_db :: "session_row list sql_db" where
  "table_db = \<lparr>db_Open = (\<lambda>dsn. Inr []), db_Ping = (\<lambda>d. (None, d)),
     db_Exec = (\<lambda>st d. (None, case st of InitSchema \<Rightarrow> d
       | UpsertSession row \<Rightarrow> stored_row micros row # filter (\<lambda>r. row_controller_id r \<noteq> row_controller_id row) d
       | DeleteSessionRow k \<Rightarrow> filter (\<lambda>r. row_controller_id r \<noteq> k) d)),
     db_QueryAll = (\<lambda>d. (if distinct (map row_controller_id d) then Inr (map Inr d, None)
       else Inl (ErrorsNew ''duplicate key''), d)),
     db_Close = (\<lambda>d. (None, d))\<rparr>"

lemma table_rows_filter:
  "table_rows (filter (\<lambda>r. row_controller_id r \<noteq> k) d) = (table_rows d)(k := None)"
  by (induction d) (auto simp: table_rows_def fun_eq_iff)

lemma table_db_ok: "postgres_ok table_db table_rows micros"
proof -
  have "table_rows (stored_row micros row # d) = (table_rows d)(row_controller_id row \<mapsto> stored_row micros row)" for row d
    by (simp add: table_rows_def stored_row_def)
  moreover have "map Inr rows = (map Inr d :: (go_error + session_row) list) \<Longrightarrow> rows = d" for rows d
    by (rule map_injective [of Inr]) simp_all
  ultimately show ?thesis
    by (auto simp: postgres_ok_def table_db_def table_rows_filter split: if_splits)
      (auto simp: table_rows_def)
qed

definition kept_sample :: SessionSnapshot where
  "kept_sample = \<lparr>sn_ControllerID = ''c1'', sn_LastSeen = 1234567, sn_BufferFree = 3, sn_FWMode = False, sn_SyncMode = True,
     sn_Pending = [\<lparr>cmd_MessageID = ''m'', cmd_TraceID = ''t'', cmd_DedupKey = [], cmd_CommandID = 17, cmd_TTL = 60,
        cmd_CreatedAt = 1000, cmd_Payload = [1], cmd_Priority = ''high'', cmd_Attempts = 0, cmd_RetrySeq = 0\<rparr>],
     sn_InFlight = [], sn_NextSeq = 255\<rparr>"

theorem postgres_keeps_sessions_witness:
  "\<exists>d1. store_run table_db [Inl kept_sample, Inl (kept_sample\<lparr>sn_ControllerID := ''c2''\<rparr>), Inr ''c2''] [] = (None, d1)
    \<and> fst (ListSessions (PostgresStore table_db) d1) = Inr [kept_sample\<lparr>sn_LastSeen := 1234000\<rparr>]
    \<and> kept_run micros [Inl kept_sample, Inl (kept_sample\<lparr>sn_ControllerID := ''c2''\<rparr>), Inr ''c2''] (row_view (table_rows []))
       = [''c1'' \<mapsto> kept_sample\<lparr>sn_LastSeen := 1234000\<rparr>]"
proof -
  let ?ops = "[Inl kept_sample, Inl (kept_sample\<lparr>sn_ControllerID := ''c2''\<rparr>), Inr ''c2'']"
  let ?out = "[kept_sample\<lparr>sn_LastSeen := 1234000\<rparr>]"
  have run: "store_run table_db ?ops [] = (None, snd (store_run table_db ?ops []))" by code_simp
  have list: "ListSessions (PostgresStore table_db) (snd (store_run table_db ?ops []))
      = (Inr ?out, snd (ListSessions (PostgresStore table_db) (snd (store_run table_db ?ops []))))" by code_simp
  have id: "sn_ControllerID kept_sample = ''c1''" by (simp add: kept_sample_def)
  have "fst (ListSessions (PostgresStore table_db) (snd (store_run table_db ?ops []))) = Inr ?out" using list by (metis fst_conv)
  moreover have "kept_run micros ?ops (row_view (table_rows [])) = [''c1'' \<mapsto> kept_sample\<lparr>sn_LastSeen := 1234000\<rparr>]"
    using postgres_keeps_sessions [OF table_db_ok run list] by (simp add: id del: kept_run.simps)
  ultimately show ?thesis using run by blast
qed

end
