(* ===== verification/Adapter_Main.thy ===== *)
theory Adapter_Main
  imports Server_Laws Http_Api Postgres_Store
begin

text \<open>
  The program (\<^verbatim>\<open>cmd/tcpadapter/main.go\<close>) and the life of its server (\<^verbatim>\<open>Run\<close>, \<^verbatim>\<open>closeAllConns\<close> and
  \<^verbatim>\<open>waitForConnDrain\<close> of \<^verbatim>\<open>internal/server/server.go\<close>): the configuration is loaded, one of the three stores is
  opened, the sessions are restored and the server runs, from the listen call to the end of its shutdown. The theory ends with
  what an operator observes over HTTP in every state the program reaches.
\<close>

section \<open>The store the configuration names\<close>

text \<open>The Go interface value: a state of one of the three stores, whose methods it dispatches to.\<close>

datatype 'd any_store = MemoryState snapshots | FileState file_system | PostgresState 'd

fun any_call :: "('a \<Rightarrow> snapshots \<Rightarrow> 'r \<times> snapshots) \<Rightarrow> ('a \<Rightarrow> file_system \<Rightarrow> 'r \<times> file_system) \<Rightarrow> ('a \<Rightarrow> 'd \<Rightarrow> 'r \<times> 'd)
    \<Rightarrow> 'a \<Rightarrow> 'd any_store \<Rightarrow> 'r \<times> 'd any_store" where
  "any_call mem file pg x (MemoryState s) = map_prod id MemoryState (mem x s)"
| "any_call mem file pg x (FileState s) = map_prod id FileState (file x s)"
| "any_call mem file pg x (PostgresState s) = map_prod id PostgresState (pg x s)"

definition any_Store :: "'d sql_db \<Rightarrow> string \<Rightarrow> 'd any_store Store" where
  "any_Store db base = (let m = InMemoryStore; f = FileStore base; p = PostgresStore db in
     \<lparr>SaveSession = any_call (SaveSession m) (SaveSession f) (SaveSession p),
      DeleteSession = any_call (DeleteSession m) (DeleteSession f) (DeleteSession p),
      ListSessions = any_call (\<lambda>_. ListSessions m) (\<lambda>_. ListSessions f) (\<lambda>_. ListSessions p) ()\<rparr>)"

text \<open>\<^verbatim>\<open>filepath.Base\<close> on a path with slashes.\<close>

definition filepath_Base :: "string \<Rightarrow> string" where
  "filepath_Base path = (if path = [] then ''.''
     else let path = rev (dropWhile (\<lambda>c. c = CHR ''/'') (rev path))
          in if path = [] then ''/'' else rev (takeWhile (\<lambda>c. c \<noteq> CHR ''/'') (rev path)))"

definition open_store :: "'d sql_db \<Rightarrow> file_system \<Rightarrow> Config \<Rightarrow> go_error + 'd any_store" where
  "open_store db disk cfg =
     (if cfg_StoreBackend cfg = ''memory'' then Inr (MemoryState NewInMemoryStore)
      else if cfg_StoreBackend cfg = ''file'' then Inr (FileState disk)
      else if cfg_StoreBackend cfg = ''postgres'' then
        (case NewPostgresStore db (cfg_PostgresDSN cfg) of
           Inl err \<Rightarrow> Inl err
         | Inr d \<Rightarrow> Inr (PostgresState d))
      else Inl (ErrorsNew ''unsupported store backend''))"

section \<open>The start of the program\<close>

text \<open>An error is the one logged before \<^verbatim>\<open>os.Exit(1)\<close>.\<close>

definition tcpadapter_main :: "'d sql_db \<Rightarrow> environment \<Rightarrow> file_system \<Rightarrow> (nat \<Rightarrow> time) \<Rightarrow> (nat \<Rightarrow> go_error option) \<Rightarrow> unicode
    \<Rightarrow> go_error + 'd any_store Server" where
  "tcpadapter_main db env disk clock writes uc =
     res_bind (Load env) (\<lambda>cfg. res_bind (open_store db disk cfg) (\<lambda>sessionStore.
       let sessions = NewManager (cfg_MaxConnections cfg) (cfg_MaxQueueDepth cfg) (cfg_MaxQueueBytes cfg)
             (cfg_QueueOverflow cfg) sessionStore
       in case Manager_Restore (any_Store db (filepath_Base (cfg_StateFile cfg))) sessions of
            (Inl err, sessions) \<Rightarrow> Inl err
          | (Inr restored, sessions) \<Rightarrow> Inr (New cfg sessions clock writes uc)))"

section \<open>The life of the server\<close>

definition Run_listen :: "go_error option \<Rightarrow> 's Server \<Rightarrow> go_error option \<times> 's Server" where
  "Run_listen listenErr sv =
     (let sv = sv\<lparr>sv_ready := False, sv_shuttingDown := False\<rparr>
      in case listenErr of
           Some err \<Rightarrow> (Some (Errorf ''listen %s: %w'' [FStr (cfg_ListenAddr (sv_cfg sv)), FErr err]), sv)
         | None \<Rightarrow> (None, sv))"

definition Run_ready :: "'s Server \<Rightarrow> 's Server" where
  "Run_ready sv = sv\<lparr>sv_ready := True\<rparr>"

text \<open>The goroutine that waits for the end of the context.\<close>

definition Run_signal :: "'s Server \<Rightarrow> 's Server" where
  "Run_signal sv = sv\<lparr>sv_shuttingDown := True, sv_ready := False\<rparr>"

text \<open>The connections whose sockets are closed.\<close>

definition closeAllConns :: "'s Server \<Rightarrow> net_conn list" where
  "closeAllConns sv = sv_conns sv"

text \<open>The wait ends by \<^verbatim>\<open>done\<close> when the handlers have returned (\<open>drained\<close>), or by the timer.\<close>

definition waitForConnDrain :: "bool \<Rightarrow> 's Server \<Rightarrow> (duration \<times> bool) \<times> 's Server" where
  "waitForConnDrain drained sv =
     (let (start, sv) = Now sv; (now, sv) = Now sv in ((time_sub now start, \<not> drained), sv))"

definition Run_stop :: "bool \<Rightarrow> 's Server \<Rightarrow> 's Server" where
  "Run_stop drained sv =
     (let ((drainDur, timedOut), sv) = waitForConnDrain drained sv in recordShutdownDrain drainDur timedOut sv)"

datatype phase = Starting | Listening | Serving | Draining | Waiting "net_conn list" | Stopped

text \<open>
  \<^verbatim>\<open>Run\<close> with the goroutines it starts, as interleaved steps. The HTTP interface answers from before the server is ready
  until it stops, the sweep runs from the same moment. The accept loop ends between \<open>Draining\<close> and
  \<open>Waiting\<close>, which holds the closed connections: from then on no connection is added.
\<close>

inductive run_step :: "'s Store \<Rightarrow> ('s Server \<Rightarrow> u8 list) \<Rightarrow> phase \<times> 's Server \<Rightarrow> phase \<times> 's Server \<Rightarrow> bool"
  for ops order where
  listen: "Run_listen listenErr sv = (err, sv') \<Longrightarrow>
    run_step ops order (Starting, sv) (if err = None then Listening else Stopped, sv')"
| early_sweep: "run_step ops order (Listening, sv) (Listening, sweep ops ids sv)"
| ready: "run_step ops order (Listening, sv) (Serving, Run_ready sv)"
| serve: "server_step ops order sv sv' \<Longrightarrow> ph \<in> {Serving, Draining} \<Longrightarrow> run_step ops order (ph, sv) (ph, sv')"
| signal: "run_step ops order (Serving, sv) (Draining, Run_signal sv)"
| close_all: "run_step ops order (Draining, sv) (Waiting (closeAllConns sv), sv)"
| finish: "server_step ops order sv sv' \<Longrightarrow> set (sv_conns sv') \<subseteq> set (sv_conns sv) \<Longrightarrow>
    run_step ops order (Waiting closed, sv) (Waiting closed, sv')"
| stop: "(drained \<Longrightarrow> sv_conns sv = []) \<Longrightarrow> run_step ops order (Waiting closed, sv) (Stopped, Run_stop drained sv)"
| http: "startObservability ops sv = Some h \<Longrightarrow> ph \<notin> {Starting, Stopped} \<Longrightarrow>
    run_step ops order (ph, sv) (ph, snd (h r sv))"

inductive program_reach :: "'d sql_db \<Rightarrow> environment \<Rightarrow> ('d any_store Server \<Rightarrow> u8 list) \<Rightarrow> phase \<times> 'd any_store Server \<Rightarrow> bool"
  for db env order where
  start: "tcpadapter_main db env disk clock writes uc = Inr sv \<Longrightarrow> program_reach db env order (Starting, sv)"
| step: "program_reach db env order r \<Longrightarrow>
    run_step (any_Store db (filepath_Base (cfg_StateFile (env_config env)))) order r r' \<Longrightarrow> program_reach db env order r'"

section \<open>What is observed\<close>

lemma serves_id_or_fresh [serves_intros]:
  "serves ops sv0 sv \<Longrightarrow> serves ops sv0 (snd (id_or_fresh given pre sv))"
  unfolding id_or_fresh_def by (auto simp: split_beta intro: serves_intros)

lemma serves_debugEnqueue: "serves ops sv (snd (debugEnqueueHandler ops r sv))"
  unfolding debugEnqueueHandler_def Let_def split_beta
  by (auto split: option.split sum.split intro!: serves_intros)

lemma serves_http: "serves ops sv (snd (serve_http ops r sv))"
  using serves_debugEnqueue [of ops sv r] serves_basic(1) [of ops sv]
  by (auto simp: serve_http_def Let_def debugCommandSchemaHandler_def split_beta)

lemma drain_frame:
  "server_ok ops (Run_stop d sv) = server_ok ops sv" "counted (Run_stop d sv) = counted sv"
  "sv_ready (Run_stop d sv) = sv_ready sv" "sv_shuttingDown (Run_stop d sv) = sv_shuttingDown sv"
  by (simp_all add: Run_stop_def waitForConnDrain_def recordShutdownDrain_def Now_def Let_def server_ok_def counted_def
      within_conn_limits_def guard_ok_def host_conns_def)

lemma flags_frame:
  "server_ok ops (sv\<lparr>sv_ready := b\<rparr>) = server_ok ops sv" "counted (sv\<lparr>sv_ready := b\<rparr>) = counted sv"
  "server_ok ops (sv\<lparr>sv_shuttingDown := b\<rparr>) = server_ok ops sv" "counted (sv\<lparr>sv_shuttingDown := b\<rparr>) = counted sv"
  by (simp_all add: server_ok_def counted_def within_conn_limits_def guard_ok_def host_conns_def)

text \<open>The invariant of the run: the flags say the phase, the counters count, and only closed connections are waited for.\<close>

definition run_ok :: "'s Store \<Rightarrow> phase \<times> 's Server \<Rightarrow> bool" where
  "run_ok ops r \<longleftrightarrow> (case r of (ph, sv) \<Rightarrow> server_ok ops sv \<and> counted sv
     \<and> sv_ready sv = (ph = Serving) \<and> (sv_shuttingDown sv \<longrightarrow> ph \<notin> {Starting, Listening, Serving})
     \<and> (\<forall>closed. ph = Waiting closed \<longrightarrow> set (sv_conns sv) \<subseteq> set closed))"

lemma run_ok_serves: "run_ok ops (ph, sv) \<Longrightarrow> serves ops sv sv' \<Longrightarrow> run_ok ops (ph, sv')"
  using server_ok_serves [of ops sv sv'] by (auto simp: run_ok_def serves_def)

lemma run_ok_server_step:
  assumes "run_ok ops (ph, sv)" "server_step ops order sv sv'" "\<And>closed. ph = Waiting closed \<Longrightarrow> set (sv_conns sv') \<subseteq> set closed"
  shows "run_ok ops (ph, sv')"
  using assms server_ok_step [OF assms(2)] step_same_life [OF assms(2)] by (auto simp: run_ok_def same_life_def)

lemma run_ok_step: "run_step ops order r r' \<Longrightarrow> run_ok ops r \<Longrightarrow> run_ok ops r'"
proof (induction rule: run_step.induct)
  case (listen listenErr sv err sv')
  then have "sv' = sv\<lparr>sv_ready := False, sv_shuttingDown := False\<rparr>"
    by (auto simp: Run_listen_def Let_def split: option.splits)
  then show ?case using listen.prems by (simp add: run_ok_def flags_frame)
next
  case (early_sweep sv ids)
  then show ?case by (rule run_ok_serves) (intro serves_intros serves_refl)
next
  case (serve sv sv' ph)
  then show ?case using run_ok_server_step by blast
next
  case (finish sv sv' closed)
  then show ?case using run_ok_server_step [of ops "Waiting closed" sv order sv'] by (auto simp: run_ok_def)
next
  case (http sv h ph r)
  then have "h = serve_http ops" by (simp add: startObservability_def split: if_splits)
  then show ?case using http.prems run_ok_serves serves_http by blast
qed (simp_all add: run_ok_def Run_ready_def Run_signal_def flags_frame drain_frame closeAllConns_def)

text \<open>A started program is at the beginning of a run of the server.\<close>

lemma main_server:
  assumes "tcpadapter_main db env disk clock writes uc = Inr sv"
  obtains m where "sv = New (env_config env) m clock writes uc"
    "mgr_reach (any_Store db (filepath_Base (cfg_StateFile (env_config env)))) m"
proof -
  define cfg where "cfg = env_config env"
  define ops where "ops = any_Store db (filepath_Base (cfg_StateFile cfg))"
  obtain st where "Load env = Inr cfg" and st: "open_store db disk cfg = Inr st"
    using assms by (auto simp: tcpadapter_main_def res_bind_eq_Inr Load_def cfg_def check_nil_def Let_def split: option.splits)
  define m0 where "m0 = NewManager (cfg_MaxConnections cfg) (cfg_MaxQueueDepth cfg) (cfg_MaxQueueBytes cfg) (cfg_QueueOverflow cfg) st"
  obtain r m where r: "Manager_Restore ops m0 = (r, m)" by (rule prod.exhaust)
  have "sv = New cfg m clock writes uc"
    using assms st r \<open>Load env = Inr cfg\<close> unfolding tcpadapter_main_def m0_def ops_def
    by (cases r) (auto simp: res_bind_def)
  moreover have "mgr_reach ops m0" unfolding m0_def by (rule mgr_reach.init)
  then have "mgr_reach ops m" using mgr_reach.step [OF _ mgr_step.restore [of ops m0]] by (simp add: r)
  ultimately show thesis using that by (simp add: cfg_def ops_def)
qed

lemma program_ok:
  "program_reach db env order r \<Longrightarrow> run_ok (any_Store db (filepath_Base (cfg_StateFile (env_config env)))) r"
proof (induction rule: program_reach.induct)
  case (start disk clock writes uc sv)
  obtain m where m: "sv = New (env_config env) m clock writes uc"
    "mgr_reach (any_Store db (filepath_Base (cfg_StateFile (env_config env)))) m" by (rule main_server [OF start])
  have "server_ok (any_Store db (filepath_Base (cfg_StateFile (env_config env)))) sv"
    unfolding m(1) by (rule server_ok_reach [OF server_reach.init [OF m(2)]])
  then show ?case by (simp add: run_ok_def m(1)) (simp add: New_def counted_def stat_def)
qed (rule run_ok_step)

lemma foldl_plus: "foldl (+) (a :: 'a::comm_monoid_add) xs = a + sum_list xs"
  by (induction xs arbitrary: a) (simp_all add: add.assoc)


text \<open>The program with the store in memory and every other setting at its default.\<close>

definition sample_env :: environment where
  "sample_env = \<lparr>Getenv = (\<lambda>k. if k = ''TCPADAPTER_STORE_BACKEND'' then ''memory'' else []), ParseDuration = (\<lambda>_. None)\<rparr>"

lemma sample_main:
  "tcpadapter_main table_db sample_env disk clock writes uc
     = Inr (New (env_config sample_env) (NewManager (cfg_MaxConnections (env_config sample_env)) (cfg_MaxQueueDepth (env_config sample_env))
         (cfg_MaxQueueBytes (env_config sample_env)) (cfg_QueueOverflow (env_config sample_env)) (MemoryState [])) clock writes uc)"
proof -
  have "Load sample_env = Inr (env_config sample_env)" by code_simp
  moreover have "cfg_StoreBackend (env_config sample_env) = ''memory''" by code_simp
  then have "open_store table_db disk (env_config sample_env) = Inr (MemoryState [])" by (simp add: open_store_def NewInMemoryStore_def)
  ultimately show ?thesis
    by (simp add: tcpadapter_main_def res_bind_def Manager_Restore_def any_Store_def Let_def mem_defs NewManager_def)
qed


end
