(* ===== verification/Spec2Isabelle.thy ===== *)
theory Spec2Isabelle
  imports Recovery_Laws Inflight_Laws Connection_Laws Http_Laws Sim_Laws Adapter_Main
begin

text \<open>
  \<^bold>\<open>TCPadapter: verification development.\<close>

  TCPadapter is a server for access controllers that speak a binary protocol over TCP. A controller opens a
  connection and registers with its number; the server keeps a session for it, with a queue of commands in
  four priority classes, sends commands within the free buffer the controller reports, numbers them, waits for
  acknowledgements, retries or gives up, publishes every outcome to a bus, and keeps sessions in a store so
  that they survive a restart. An HTTP interface shows metrics and, in debug mode, builds and enqueues commands. A
  second program simulates controllers.

  \<^bold>\<open>How the code is represented.\<close> Machine integers keep their width: \<^verbatim>\<open>uint8\<close> to \<^verbatim>\<open>uint64\<close> are words; \<^verbatim>\<open>int\<close>,
  \<^verbatim>\<open>int64\<close> and \<^verbatim>\<open>time.Duration\<close> are \<^typ>\<open>int\<close> with the wrap-around written as \<open>i64\<close> where it can happen; a
  \<^verbatim>\<open>time.Time\<close> is its nanoseconds since 1970, and differences saturate as in Go. Strings are lists of
  bytes as characters. A Go map is an association list with distinct keys; where the code iterates over one, the
  order is a parameter or the result is proved independent of it. Errors are values of \<open>go_error\<close>, built from format and
  arguments as the code builds them; a function that can fail returns \<open>go_error + 'a\<close> or \<open>go_error option\<close>. State is
  passed explicitly: every method of a locked object is one step, since it holds the mutex of the object. The clock and the
  results of writes are functions of the number of the call (\<open>sv_clock\<close>, \<open>sv_writes\<close>), so that a theorem for all
  of them covers every timing and every pattern of failures. Loops are recursive functions that terminate: the
  delivery loop of a connection decreases its byte budget (\<open>flush_loop\<close>), readers consume their input, and
  no theorem is about a run cut off by fuel.

  \<^bold>\<open>The theories, from the bottom.\<close>

  \<^item> \<open>Adapter_Prelude\<close>: types, errors, results and byte lists, with the collections \<open>go_defs\<close>, \<open>len_simps\<close> and \<open>buf_simps\<close>.
    \<open>Go_Strings\<close>, \<open>Go_Text\<close>, \<open>Go_Json\<close>: what the code uses of UTF-8, \<^verbatim>\<open>strings\<close>, \<^verbatim>\<open>strconv\<close>, \<^verbatim>\<open>fmt\<close>, \<^verbatim>\<open>encoding/hex\<close> and
    \<^verbatim>\<open>encoding/json\<close>. The case and print tables of Unicode are the parameter \<open>unicode\<close>.

  \<^item> The protocol (\<^verbatim>\<open>internal/protocol\<close>). \<open>CRC16\<close> and \<open>Frame_Codec\<close> model \<^verbatim>\<open>crc16.go\<close> and \<^verbatim>\<open>frame.go\<close>: a frame that was
    encoded is read back from a stream, a changed byte is noticed, and the automatic mode recognises a registration in
    either mode. \<open>Messages\<close> has the parsers of \<^verbatim>\<open>messages.go\<close>. \<open>Payload_Validation\<close> has
    \<^verbatim>\<open>server_payload_validation.go\<close> and the record layouts of \<^verbatim>\<open>cmd12.go\<close> to \<^verbatim>\<open>cmd15.go\<close>, with the exact sets of accepted
    payloads. \<open>Payload_Builders\<close> has \<^verbatim>\<open>server_payload_builders.go\<close>; \<open>Builder_Laws\<close> shows for which arguments a
    builder succeeds, the bytes it gives, and that validator and builders agree.

  \<^item> \<open>Command_Queue\<close> (\<^verbatim>\<open>internal/queue/queue.go\<close>): the four buffers with their operations. The abstract view is a family of
    FIFO lists indexed by the class; every operation is shown to implement its effect on that view. The locale
    \<open>dispatch_queue\<close> is the contract its clients use.

  \<^item> \<open>Session_Store\<close> (\<^verbatim>\<open>internal/store/store.go\<close>): the interface as a record of methods, its contract as the locale
    \<open>session_store\<close>, interpreted on the store in memory and on the file store. The file store runs on a directory
    in which each system call may fail; a save takes effect fully or not at all. \<open>Postgres_Store\<close>
    (\<^verbatim>\<open>postgres_store.go\<close>): the database is a parameter, and \<open>postgres_ok\<close> is what the store relies on.

  \<^item> \<open>Session_Manager\<close> (\<^verbatim>\<open>internal/session/manager.go\<close>): sessions, enqueueing with overflow policies and deduplication,
    modes, sequence numbers, commands in flight, persistence and restore. \<open>Manager_Laws\<close> has the invariant of all
    reachable managers (\<open>mgr_step\<close>, \<open>mgr_reach\<close>) and the outcome of an enqueue on every branch;
    \<open>Inflight_Laws\<close> the acknowledgement, timeout and retry of commands in flight, including that none waits for ever;
    \<open>Recovery_Laws\<close> that what was reported as done is in the file and comes back after a restart.

  \<^item> \<open>Config\<close> (\<^verbatim>\<open>internal/config/config.go\<close>) and \<open>Command_Policy\<close> (\<^verbatim>\<open>internal/server/command_policy.go\<close>): the
    environment and the delivery profiles of the kinds of commands.

  \<^item> The server (\<^verbatim>\<open>internal/server/server.go\<close>). \<open>Server_State\<close> has its state, the events of \<^verbatim>\<open>internal/kafka\<close>, counters and debug
    buffers; \<open>Delivery\<close> enqueueing, the flush of a queue and the sweep; \<open>Connection_Guard\<close> the limits and blocks of
    hosts; \<open>Connection\<close> the loop of a connection with all its frames. \<open>Server_Laws\<close> interleaves them
    (\<open>server_step\<close>): each operation is a sequence of manager steps that takes back nothing published (\<open>serves\<close>), from
    which the invariants of the whole follow; a flush reports each command once and keeps to the budget.
    \<open>Connection_Laws\<close> has the outcome of a registration, of an acknowledgement, and of a peer that does not register.

  \<^item> The HTTP interface (\<^verbatim>\<open>observability.go\<close>, \<^verbatim>\<open>command_builder.go\<close>). \<open>Command_Builder\<close> has the builder with its table
    of forms, \<open>Http_Api\<close> the handlers, metrics and routes. \<open>Builder_Forms\<close> shows that the forms build as they are
    presented, with two exceptions, \<open>Http_Laws\<close> that what the builder answers can be enqueued.

  \<^item> \<open>Adapter_Main\<close>: \<^verbatim>\<open>cmd/tcpadapter/main.go\<close> with the store the configuration names, and \<^verbatim>\<open>Run\<close> as the step relation \<open>run_step\<close>
    through the phases of the life of the server; what the probe and the dashboard say in every state the
    program reaches.

  \<^item> \<open>Controller_Sim\<close> and \<open>Sim_Laws\<close>: \<^verbatim>\<open>cmd/controller-sim/main.go\<close>. The simulator and the server meet at the bytes: the server
    reads the registrations of the simulator, the simulator reads the commands of the server, with the
    exceptions stated, and its answers are read as acknowledgements of the right number.

  \<^bold>\<open>Not modelled.\<close> The text of the HTML pages and the display texts of the forms (\<^verbatim>\<open>observability.go\<close>,
  \<^verbatim>\<open>command_builder.go\<close>): a page is a constructor. Log lines: they have no effect on the state. Goroutines inside a handler: a
  flush runs under the lock of its controller and a turn of a connection is one step; the steps of all
  connections, the sweep, HTTP requests and the shutdown interleave in any order. Sockets: input is the bytes a peer
  sends and the error that ends them, a failed write has sent nothing, and deadlines appear as errors of the calls.
  Floating point: the sums of seconds in the metrics are exact and the rates of the simulator are rationals. JSON text is represented by
  the value it decodes to. \<^verbatim>\<open>time.ParseDuration\<close>, the Unicode tables and the database are parameters. Tests, scripts and
  container files are not part of the programs.
\<close>

end
